(* ===== verification/Prelude.thy ===== *)
theory Prelude
  imports Complex_Main "HOL-Library.Multiset" "HOL-Library.Char_ord" "HOL-Library.List_Lexorder"
    "HOL-Library.Sublist"
begin

text \<open>
  What the components share: JavaScript values, numbers and strings as far as the client uses
  them, the array operations it calls (find, splice, sort, indexed reads and writes), errors as
  values, and the lemma collections of the development.

  Strings are lists of \<^typ>\<open>char\<close>, each one a UTF-16 code unit below 256 (Latin-1).
  Numbers are exact rationals with \<open>NaN\<close> and the two infinities: the rounding of
  binary64 arithmetic is not modelled and \<open>-0\<close> is \<open>0\<close>.
\<close>

section \<open>Lemma collections\<close>

named_theorems js_simps \<open>evaluation of the JavaScript operations\<close>
named_theorems frame_simps \<open>which parts of a state an operation leaves alone\<close>
named_theorems clean_intros \<open>what the sanitizers establish\<close>

section \<open>Absent, null and present values\<close>

text \<open>A field of type \<open>T\<close> holds \<open>undefined\<close>, \<open>null\<close> or a value of \<open>T\<close>.\<close>

datatype 'a nullable = Undefined | Null | Val 'a

fun is_nullish :: "'a nullable \<Rightarrow> bool" where
  "is_nullish (Val _) = False"
| "is_nullish _ = True"

text \<open>A string field is truthy when it is a non-empty string.\<close>

fun truthy_str :: "string nullable \<Rightarrow> bool" where
  "truthy_str (Val s) = (s \<noteq> [])"
| "truthy_str _ = False"

lemma truthy_str_iff [simp]: "truthy_str v \<longleftrightarrow> (\<exists>s. v = Val s \<and> s \<noteq> [])"
  by (cases v) auto

lemma is_nullish_iff: "is_nullish v \<longleftrightarrow> v = Undefined \<or> v = Null"
  by (cases v) auto

text \<open>A field printed in a template literal.\<close>

fun template :: "string nullable \<Rightarrow> string" where
  "template (Val s) = s"
| "template Null = ''null''"
| "template Undefined = ''undefined''"

section \<open>Errors as values\<close>

text \<open>What a handler can throw: a read of a property of \<open>undefined\<close> or \<open>null\<close>
  (\<open>TypeError\<close>) or an \<open>Error\<close> the code raises itself.\<close>

datatype js_error = TypeError | ErrorMsg string

type_synonym 'a result = "js_error + 'a"

definition bind_result :: "'a result \<Rightarrow> ('a \<Rightarrow> 'b result) \<Rightarrow> 'b result" where
  "bind_result m f = (case m of Inl e \<Rightarrow> Inl e | Inr x \<Rightarrow> f x)"

lemma bind_result_simps [simp]:
  "bind_result (Inl e) f = Inl e"
  "bind_result (Inr x) f = f x"
  by (simp_all add: bind_result_def)

lemma bind_result_Inr_iff:
  "bind_result m f = Inr y \<longleftrightarrow> (\<exists>x. m = Inr x \<and> f x = Inr y)"
  by (cases m) auto

text \<open>Reading a property of what \<open>Array.find\<close> returned throws when it found nothing.\<close>

definition deref :: "'a option \<Rightarrow> 'a result" where
  "deref x = (case x of None \<Rightarrow> Inl TypeError | Some y \<Rightarrow> Inr y)"

lemma deref_simps [simp]: "deref None = Inl TypeError" "deref (Some y) = Inr y"
  by (simp_all add: deref_def)

lemma deref_Inr_iff [simp]: "deref x = Inr y \<longleftrightarrow> x = Some y"
  by (cases x) auto

text \<open>A callback that may throw, run over a list by \<open>forEach\<close> or \<open>map\<close>: the first
  error stops the loop.\<close>

fun map_result :: "('a \<Rightarrow> 'b result) \<Rightarrow> 'a list \<Rightarrow> 'b list result" where
  "map_result f [] = Inr []"
| "map_result f (x # xs) =
     bind_result (f x) (\<lambda>y. bind_result (map_result f xs) (\<lambda>ys. Inr (y # ys)))"

lemma map_result_Inr_iff:
  "map_result f xs = Inr ys \<longleftrightarrow> list_all2 (\<lambda>x y. f x = Inr y) xs ys"
  by (induction xs arbitrary: ys) (auto simp: bind_result_Inr_iff list_all2_Cons1)

lemma map_result_total: "(\<And>x. x \<in> set xs \<Longrightarrow> f x = Inr (g x)) \<Longrightarrow> map_result f xs = Inr (map g xs)"
  by (induction xs) auto

lemma map_result_length: "map_result f xs = Inr ys \<Longrightarrow> length ys = length xs"
  by (auto simp: map_result_Inr_iff dest: list_all2_lengthD)

section \<open>Strings\<close>

abbreviation code_unit :: "char \<Rightarrow> nat" where
  "code_unit c \<equiv> of_char c"

text \<open>The white space \<open>String.prototype.trim\<close> removes, among code units below 256.\<close>

definition is_ws :: "char \<Rightarrow> bool" where
  "is_ws c = (let n = code_unit c in (9 \<le> n \<and> n \<le> 13) \<or> n = 32 \<or> n = 160)"

definition trim :: "string \<Rightarrow> string" where
  "trim s = rev (dropWhile is_ws (rev (dropWhile is_ws s)))"

definition lower_char :: "char \<Rightarrow> char" where
  "lower_char c =
     (let n = code_unit c in
      if (65 \<le> n \<and> n \<le> 90) \<or> (192 \<le> n \<and> n \<le> 222 \<and> n \<noteq> 215) then char_of (n + 32) else c)"

definition toLowerCase :: "string \<Rightarrow> string" where
  "toLowerCase s = map lower_char s"

fun str_includes :: "string \<Rightarrow> string \<Rightarrow> bool" where
  "str_includes [] t = (t = [])"
| "str_includes (c # s) t = (prefix t (c # s) \<or> str_includes s t)"

fun split_on :: "char \<Rightarrow> string \<Rightarrow> string list" where
  "split_on c [] = [[]]"
| "split_on c (x # xs) =
     (if x = c then [] # split_on c xs
      else (case split_on c xs of [] \<Rightarrow> [[x]] | y # ys \<Rightarrow> (x # y) # ys))"

fun join :: "string \<Rightarrow> string list \<Rightarrow> string" where
  "join sep [] = []"
| "join sep [x] = x"
| "join sep (x # y # ys) = x @ sep @ join sep (y # ys)"

lemma includes_empty [simp]: "str_includes s []"
  by (cases s) auto

lemma includes_iff_sublist: "str_includes s t \<longleftrightarrow> sublist t s"
  by (induction s) (auto simp: sublist_Cons_right)

lemma split_on_nonempty [simp]: "split_on c s \<noteq> []"
  by (induction s) (auto split: list.splits)

lemma split_on_no_sep: "c \<notin> set s \<Longrightarrow> split_on c s = [s]"
  by (induction s) auto

lemma split_on_append_sep: "c \<notin> set s \<Longrightarrow> split_on c (s @ c # t) = s # split_on c t"
  by (induction s) auto

lemma split_on_join:
  "xs \<noteq> [] \<Longrightarrow> (\<And>x. x \<in> set xs \<Longrightarrow> c \<notin> set x) \<Longrightarrow> split_on c (join [c] xs) = xs"
  by (induction "[c]" xs rule: join.induct) (auto simp: split_on_no_sep split_on_append_sep)

lemma split_on_elem: "x \<in> set (split_on c s) \<Longrightarrow> c \<notin> set x"
  by (induction s arbitrary: x) (auto split: if_splits list.splits)

lemma join_Cons: "xs \<noteq> [] \<Longrightarrow> join sep (x # xs) = x @ sep @ join sep xs"
  by (cases xs) auto

lemma join_split_on: "join [c] (split_on c s) = s"
proof (induction s)
  case (Cons x s)
  then show ?case
    by (cases "split_on c s"; cases "tl (split_on c s)") (auto simp: join_Cons)
qed simp

lemma dropWhile_idem' [simp]: "dropWhile P (dropWhile P xs) = dropWhile P xs"
  by (rule dropWhile_idem)

lemma dropWhile_rev_drop:
  "dropWhile P xs = xs \<Longrightarrow>
   dropWhile P (rev (dropWhile P (rev xs))) = rev (dropWhile P (rev xs))"
  by (metis dropWhile_eq_self_iff dropWhile_eq_Nil_conv hd_rev last_appendR rev_is_Nil_conv
      rev_rev_ident suffix_def suffix_dropWhile last_rev hd_Nil_eq_last)

lemma trim_idem [simp]: "trim (trim s) = trim s"
proof -
  let ?a = "dropWhile is_ws s"
  have "dropWhile is_ws (rev (dropWhile is_ws (rev ?a))) = rev (dropWhile is_ws (rev ?a))"
    by (rule dropWhile_rev_drop) simp
  then show ?thesis by (simp add: trim_def)
qed

lemma trim_Nil [simp]: "trim [] = []"
  by (simp add: trim_def)

lemma trim_no_ws: "(\<And>c. c \<in> set s \<Longrightarrow> \<not> is_ws c) \<Longrightarrow> trim s = s"
proof -
  assume a: "\<And>c. c \<in> set s \<Longrightarrow> \<not> is_ws c"
  have "dropWhile is_ws s = s"
    using a by (auto simp: dropWhile_eq_self_iff)
  moreover have "dropWhile is_ws (rev s) = rev s"
    using a by (auto simp: dropWhile_eq_self_iff hd_rev)
  ultimately show ?thesis by (simp add: trim_def)
qed

lemma trim_outer:
  assumes "s \<noteq> []" "\<not> is_ws (hd s)" "\<not> is_ws (last s)"
  shows "trim s = s"
proof -
  have "dropWhile is_ws s = s" using assms by (simp add: dropWhile_eq_self_iff)
  moreover have "dropWhile is_ws (rev s) = rev s"
    using assms by (simp add: dropWhile_eq_self_iff hd_rev)
  ultimately show ?thesis by (simp add: trim_def)
qed

section \<open>Fields kept apart by key\<close>

text \<open>Updating a map at the keys of a list, left to right.\<close>

fun put_all :: "('a \<Rightarrow> 'k) \<Rightarrow> ('a \<Rightarrow> 'v) \<Rightarrow> 'a list \<Rightarrow> ('k \<rightharpoonup> 'v) \<Rightarrow> ('k \<rightharpoonup> 'v)" where
  "put_all k v [] m = m"
| "put_all k v (x # xs) m = put_all k v xs (m(k x \<mapsto> v x))"

lemma put_all_other: "q \<notin> k ` set xs \<Longrightarrow> put_all k v xs m q = m q"
  by (induction xs arbitrary: m) auto

lemma put_all_distinct:
  "distinct (map k xs) \<Longrightarrow> x \<in> set xs \<Longrightarrow> put_all k v xs m (k x) = Some (v x)"
proof (induction xs arbitrary: m)
  case (Cons y ys)
  show ?case
  proof (cases "x = y")
    case True
    with Cons.prems have "k x \<notin> k ` set ys" by auto
    with True show ?thesis by (simp add: put_all_other)
  next
    case False
    with Cons show ?thesis by simp
  qed
qed simp

lemma dom_put_all: "dom (put_all k v xs m) = k ` set xs \<union> dom m"
  by (induction xs arbitrary: m) auto

end
