(* ===== verification/JsArray.thy ===== *)
theory JsArray
  imports Prelude
begin

text \<open>
  The array operations of the client. \<open>Array.find\<close> is \<^const>\<open>List.find\<close>. The object it
  returns is a reference, and an assignment to one of its fields changes the element of the array:
  \<open>update_first\<close>. \<open>Array.sort\<close> is an interface (\<open>array_sort\<close>) with what
  ECMAScript promises of it, provided here by an insertion sort driven by the comparator.
\<close>

section \<open>Find and update in place\<close>

fun update_first :: "('a \<Rightarrow> bool) \<Rightarrow> ('a \<Rightarrow> 'a) \<Rightarrow> 'a list \<Rightarrow> 'a list" where
  "update_first P f [] = []"
| "update_first P f (x # xs) = (if P x then f x # xs else x # update_first P f xs)"

lemma length_update_first [simp]: "length (update_first P f xs) = length xs"
  by (induction xs) auto

lemma find_update_first:
  "(\<And>x. P x \<Longrightarrow> P (f x)) \<Longrightarrow> List.find P (update_first P f xs) = map_option f (List.find P xs)"
  by (induction xs) auto

lemma map_update_first_same:
  "(\<And>x. P x \<Longrightarrow> g (f x) = g x) \<Longrightarrow> map g (update_first P f xs) = map g xs"
  by (induction xs) auto

lemma update_first_twice:
  "(\<And>x. P x \<Longrightarrow> P (f x)) \<Longrightarrow>
   update_first P g (update_first P f xs) = update_first P (\<lambda>x. g (f x)) xs"
  by (induction xs) auto

lemma update_first_cong:
  "(\<And>x. x \<in> set xs \<Longrightarrow> P x \<Longrightarrow> f x = g x) \<Longrightarrow> update_first P f xs = update_first P g xs"
  by (induction xs) auto

lemma update_first_find_None: "List.find P xs = None \<Longrightarrow> update_first P f xs = xs"
  by (induction xs) (auto split: if_splits)

lemma set_update_first: "set (update_first P f xs) \<subseteq> set xs \<union> f ` {x \<in> set xs. P x}"
  by (induction xs) auto

lemma update_first_append:
  "update_first P f (xs @ ys) =
     (if List.find P xs = None then xs @ update_first P f ys else update_first P f xs @ ys)"
  by (induction xs) auto

lemma update_first_unique:
  "distinct (map k xs) \<Longrightarrow> update_first (\<lambda>x. k x = q) f xs = map (\<lambda>x. if k x = q then f x else x) xs"
proof (induction xs)
  case (Cons x xs)
  show ?case
  proof (cases "k x = q")
    case True
    with Cons.prems have "\<forall>y \<in> set xs. k y \<noteq> q" by (auto simp: image_iff)
    then have "map (\<lambda>x. if k x = q then f x else x) xs = xs" by (simp add: map_idI)
    with True show ?thesis by simp
  qed (use Cons in simp)
qed simp

lemma find_None_iff_key: "List.find (\<lambda>x. k x = q) xs = None \<longleftrightarrow> q \<notin> k ` set xs"
  by (auto simp: find_None_iff)

lemma find_SomeD: "List.find P xs = Some x \<Longrightarrow> P x \<and> x \<in> set xs"
  by (auto simp: find_Some_iff)

lemma find_distinct_key:
  "distinct (map k xs) \<Longrightarrow> x \<in> set xs \<Longrightarrow> List.find (\<lambda>y. k y = k x) xs = Some x"
  by (induction xs) auto

section \<open>Splice and indexed access\<close>

text \<open>\<open>splice(index, 1)\<close> for an index that is in range or not; a negative index counts
  from the end and is clamped at the start.\<close>

definition splice1 :: "int \<Rightarrow> 'a list \<Rightarrow> 'a list" where
  "splice1 i xs =
     (let n = int (length xs);
          j = (if i < 0 then max 0 (n + i) else min i n)
      in take (nat j) xs @ drop (Suc (nat j)) xs)"

text \<open>An indexed read is \<open>undefined\<close> out of range; an indexed write past the end extends the
  array with holes, and one at a negative index sets a property that is no element. \<open>u\<close>
  is the \<open>undefined\<close> of the element type.\<close>

definition js_get :: "'a \<Rightarrow> 'a list \<Rightarrow> int \<Rightarrow> 'a" where
  "js_get u xs i = (if 0 \<le> i \<and> i < int (length xs) then xs ! nat i else u)"

definition js_set :: "'a \<Rightarrow> 'a list \<Rightarrow> int \<Rightarrow> 'a \<Rightarrow> 'a list" where
  "js_set u xs i v =
     (if i < 0 then xs
      else if i < int (length xs) then xs[nat i := v]
      else xs @ replicate (nat i - length xs) u @ [v])"

text \<open>The swap that every \<open>moveUp\<close> and \<open>moveDown\<close> of the editor performs: read the
  neighbour at \<open>j\<close>, write the moved element there, write the neighbour at \<open>i\<close>.\<close>

definition js_swap :: "'a \<Rightarrow> 'a list \<Rightarrow> int \<Rightarrow> int \<Rightarrow> 'a list" where
  "js_swap u xs i j = (let t = js_get u xs j in js_set u (js_set u xs j (js_get u xs i)) i t)"

lemma splice1_in_range:
  "i < length xs \<Longrightarrow> splice1 (int i) xs = take i xs @ drop (Suc i) xs"
  by (simp add: splice1_def)

lemma splice1_past_end: "int (length xs) \<le> i \<Longrightarrow> splice1 i xs = xs"
  by (auto simp: splice1_def Let_def min_def)

lemma length_splice1:
  "i < length xs \<Longrightarrow> length (splice1 (int i) xs) = length xs - 1"
  by (simp add: splice1_in_range)

lemma js_swap_in_range:
  "0 \<le> i \<Longrightarrow> i < int (length xs) \<Longrightarrow> 0 \<le> j \<Longrightarrow> j < int (length xs) \<Longrightarrow>
   js_swap u xs i j = xs[nat j := xs ! nat i, nat i := xs ! nat j]"
  by (simp add: js_swap_def js_get_def js_set_def)

lemma length_js_swap:
  "0 \<le> i \<Longrightarrow> i < int (length xs) \<Longrightarrow> 0 \<le> j \<Longrightarrow> j < int (length xs) \<Longrightarrow>
   length (js_swap u xs i j) = length xs"
  by (simp add: js_swap_in_range)

lemma mset_js_swap:
  "0 \<le> i \<Longrightarrow> i < int (length xs) \<Longrightarrow> 0 \<le> j \<Longrightarrow> j < int (length xs) \<Longrightarrow>
   mset (js_swap u xs i j) = mset xs"
  by (simp add: js_swap_in_range mset_swap)

lemma js_swap_involution:
  assumes "0 \<le> i" "i < int (length xs)" "0 \<le> j" "j < int (length xs)"
  shows "js_swap u (js_swap u xs i j) j i = xs"
  using assms
  by (auto simp: js_swap_in_range nth_list_update list_eq_iff_nth_eq)

section \<open>Sorting\<close>

text \<open>
  \<open>Array.sort\<close> with a comparator: a permutation, and in order when the comparator is the
  consistent comparator of a total preorder on the elements. The comparators of the client,
  \<open>(a, b) => a.name > b.name ? 1 : -1\<close>, answer \<open>-1\<close> for equal names, so
  they are consistent only on arrays whose names are pairwise different.
\<close>

definition name_comparator :: "('a \<Rightarrow> string) \<Rightarrow> 'a \<Rightarrow> 'a \<Rightarrow> int" where
  "name_comparator name a b = (if name b < name a then 1 else -1)"

definition consistent_on :: "('a \<Rightarrow> 'a \<Rightarrow> int) \<Rightarrow> 'a list \<Rightarrow> bool" where
  "consistent_on cmp xs \<longleftrightarrow> distinct xs \<and>
     (\<forall>a \<in> set xs. \<forall>b \<in> set xs. a \<noteq> b \<longrightarrow> 0 < cmp a b \<longrightarrow> cmp b a \<le> 0) \<and>
     (\<forall>a \<in> set xs. \<forall>b \<in> set xs. \<forall>c \<in> set xs. a \<noteq> b \<longrightarrow> b \<noteq> c \<longrightarrow> a \<noteq> c \<longrightarrow>
        cmp a b \<le> 0 \<longrightarrow> cmp b c \<le> 0 \<longrightarrow> cmp a c \<le> 0)"

lemma consistent_on_flip:
  "consistent_on cmp xs \<Longrightarrow> a \<in> set xs \<Longrightarrow> b \<in> set xs \<Longrightarrow> a \<noteq> b \<Longrightarrow> 0 < cmp a b \<Longrightarrow> cmp b a \<le> 0"
  by (simp add: consistent_on_def)

lemma consistent_on_trans:
  "consistent_on cmp xs \<Longrightarrow> a \<in> set xs \<Longrightarrow> b \<in> set xs \<Longrightarrow> c \<in> set xs \<Longrightarrow>
   a \<noteq> b \<Longrightarrow> b \<noteq> c \<Longrightarrow> a \<noteq> c \<Longrightarrow> cmp a b \<le> 0 \<Longrightarrow> cmp b c \<le> 0 \<Longrightarrow> cmp a c \<le> 0"
  unfolding consistent_on_def by blast

lemma name_comparator_consistent:
  assumes "distinct (map name xs)"
  shows "consistent_on (name_comparator name) xs"
proof -
  have inj: "\<And>a b. a \<in> set xs \<Longrightarrow> b \<in> set xs \<Longrightarrow> name a = name b \<Longrightarrow> a = b"
    using assms by (auto simp: distinct_map inj_on_def)
  show ?thesis
    using assms by (auto simp: consistent_on_def name_comparator_def distinct_map split: if_splits)
qed

locale array_sort =
  fixes sort_by :: "('a \<Rightarrow> 'a \<Rightarrow> int) \<Rightarrow> 'a list \<Rightarrow> 'a list"
  assumes sort_perm: "mset (sort_by cmp xs) = mset xs"
    and sort_ordered: "consistent_on cmp xs \<Longrightarrow> sorted_wrt (\<lambda>a b. cmp a b \<le> 0) (sort_by cmp xs)"
begin

lemma sort_set [simp]: "set (sort_by cmp xs) = set xs"
  by (metis sort_perm set_mset_mset)

lemma sort_length [simp]: "length (sort_by cmp xs) = length xs"
  by (metis sort_perm size_mset)

lemma sort_distinct_map: "distinct (map f (sort_by cmp xs)) = distinct (map f xs)"
proof -
  have "mset (map f (sort_by cmp xs)) = mset (map f xs)" by (simp add: sort_perm)
  then show ?thesis by (metis mset_eq_imp_distinct_iff)
qed

text \<open>Pairwise different names end up in ascending order.\<close>

lemma sort_by_name:
  assumes "distinct (map name xs)"
  shows "sorted (map name (sort_by (name_comparator name) xs))"
proof -
  have "sorted_wrt (\<lambda>a b. name_comparator name a b \<le> 0) (sort_by (name_comparator name) xs)"
    by (rule sort_ordered[OF name_comparator_consistent[OF assms]])
  then have "sorted_wrt (\<lambda>a b. name a \<le> name b) (sort_by (name_comparator name) xs)"
    by (rule sorted_wrt_mono_rel[rotated]) (auto simp: name_comparator_def split: if_splits)
  then show ?thesis by (simp add: sorted_wrt_map)
qed

end

text \<open>Insertion from the right: the new element moves left past every element the comparator puts
  after it. The sorted part is kept in reverse.\<close>

fun insert_right :: "('a \<Rightarrow> 'a \<Rightarrow> int) \<Rightarrow> 'a \<Rightarrow> 'a list \<Rightarrow> 'a list" where
  "insert_right cmp x [] = [x]"
| "insert_right cmp x (e # es) =
     (if 0 < cmp e x then e # insert_right cmp x es else x # e # es)"

definition js_sort :: "('a \<Rightarrow> 'a \<Rightarrow> int) \<Rightarrow> 'a list \<Rightarrow> 'a list" where
  "js_sort cmp xs = rev (foldl (\<lambda>acc x. insert_right cmp x acc) [] xs)"

lemma mset_insert_right: "mset (insert_right cmp x es) = add_mset x (mset es)"
  by (induction es) auto

lemma set_insert_right: "set (insert_right cmp x es) = insert x (set es)"
  by (metis mset_insert_right set_mset_add_mset_insert set_mset_mset)

lemma sorted_insert_right:
  assumes "consistent_on cmp xs" and "set (x # es) \<subseteq> set xs" and "distinct (x # es)"
    and "sorted_wrt (\<lambda>a b. cmp b a \<le> 0) es"
  shows "sorted_wrt (\<lambda>a b. cmp b a \<le> 0) (insert_right cmp x es)"
  using assms(2-)
proof (induction es)
  case (Cons e es)
  show ?case
  proof (cases "0 < cmp e x")
    case True
    then have "cmp x e \<le> 0"
      using consistent_on_flip[OF assms(1), of e x] Cons.prems by auto
    with True Cons show ?thesis by (auto simp: set_insert_right)
  next
    case False
    have "cmp b x \<le> 0" if "b \<in> set es" for b
      using consistent_on_trans[OF assms(1), of b e x] that False Cons.prems by auto
    with False Cons.prems show ?thesis by auto
  qed
qed simp

lemma foldl_insert_right:
  assumes "consistent_on cmp ys" and "set (acc @ xs) \<subseteq> set ys" and "distinct (acc @ xs)"
    and "sorted_wrt (\<lambda>a b. cmp b a \<le> 0) acc"
  shows "sorted_wrt (\<lambda>a b. cmp b a \<le> 0) (foldl (\<lambda>acc x. insert_right cmp x acc) acc xs)"
  using assms(2-)
proof (induction xs arbitrary: acc)
  case (Cons x xs)
  have d: "distinct (insert_right cmp x acc)"
    using Cons.prems(2) mset_eq_imp_distinct_iff[OF mset_insert_right[of cmp x acc, folded mset.simps(2)]]
    by simp
  have "sorted_wrt (\<lambda>a b. cmp b a \<le> 0) (insert_right cmp x acc)"
    by (rule sorted_insert_right[OF assms(1)]) (use Cons.prems in auto)
  with Cons.prems d show ?case
    by (simp add: Cons.IH set_insert_right)
qed simp

lemma mset_foldl_insert_right:
  "mset (foldl (\<lambda>acc x. insert_right cmp x acc) acc xs) = mset acc + mset xs"
  by (induction xs arbitrary: acc) (auto simp: mset_insert_right)

interpretation js_sort: array_sort js_sort
proof unfold_locales
  show "mset (js_sort cmp xs) = mset xs" for cmp and xs :: "'a list"
    by (simp add: js_sort_def mset_foldl_insert_right)
next
  fix cmp and xs :: "'a list"
  assume c: "consistent_on cmp xs"
  have "sorted_wrt (\<lambda>a b. cmp b a \<le> 0) (foldl (\<lambda>acc x. insert_right cmp x acc) [] xs)"
    by (rule foldl_insert_right[OF c]) (use c in \<open>auto simp: consistent_on_def\<close>)
  then show "sorted_wrt (\<lambda>a b. cmp a b \<le> 0) (js_sort cmp xs)"
    by (simp add: js_sort_def sorted_wrt_rev)
qed

abbreviation sort_by_name :: "('a \<Rightarrow> string) \<Rightarrow> 'a list \<Rightarrow> 'a list" where
  "sort_by_name name xs \<equiv> js_sort (name_comparator name) xs"

end
