(* ===== verification/JsValue.thy ===== *)
theory JsValue
  imports Prelude
begin

text \<open>
  Numbers, dynamically typed values and plain objects, with the conversions the client relies on:
  truthiness, \<open>ToNumber\<close> (unary plus, \<open>isNaN\<close>), \<open>typeof\<close>, and
  the decimal form of integers.
\<close>

section \<open>Numbers\<close>

datatype jsnum = NaN | PosInf | NegInf | Fin rat

fun num_less :: "jsnum \<Rightarrow> jsnum \<Rightarrow> bool" where
  "num_less NaN _ = False"
| "num_less _ NaN = False"
| "num_less PosInf _ = False"
| "num_less NegInf y = (y \<noteq> NegInf)"
| "num_less (Fin x) PosInf = True"
| "num_less (Fin x) NegInf = False"
| "num_less (Fin x) (Fin y) = (x < y)"

fun num_truthy :: "jsnum \<Rightarrow> bool" where
  "num_truthy NaN = False"
| "num_truthy (Fin x) = (x \<noteq> 0)"
| "num_truthy _ = True"

lemma num_less_NaN [simp]: "\<not> num_less x NaN" "\<not> num_less NaN x"
  by (cases x; simp)+

lemma num_less_asym: "num_less x y \<Longrightarrow> \<not> num_less y x"
  by (cases x; cases y) auto

section \<open>Values\<close>

text \<open>The JSON values, \<open>undefined\<close>, and the date objects of the date picker with their time
  value in milliseconds.\<close>

datatype jsval =
    JUndef
  | JNull
  | JBool bool
  | JNum jsnum
  | JStr string
  | JArr "jsval list"
  | JObj "(string \<times> jsval) list"
  | JMoment rat

fun truthy :: "jsval \<Rightarrow> bool" where
  "truthy JUndef = False"
| "truthy JNull = False"
| "truthy (JBool b) = b"
| "truthy (JNum n) = num_truthy n"
| "truthy (JStr s) = (s \<noteq> [])"
| "truthy _ = True"

fun nullish :: "jsval \<Rightarrow> bool" where
  "nullish JUndef = True"
| "nullish JNull = True"
| "nullish _ = False"

fun is_str :: "jsval \<Rightarrow> bool" where
  "is_str (JStr _) = True"
| "is_str _ = False"

fun is_num :: "jsval \<Rightarrow> bool" where
  "is_num (JNum _) = True"
| "is_num _ = False"

fun typeof :: "jsval \<Rightarrow> string" where
  "typeof JUndef = ''undefined''"
| "typeof JNull = ''object''"
| "typeof (JBool _) = ''boolean''"
| "typeof (JNum _) = ''number''"
| "typeof (JStr _) = ''string''"
| "typeof (JArr _) = ''object''"
| "typeof (JObj _) = ''object''"
| "typeof (JMoment _) = ''object''"

lemma truthy_not_nullish: "truthy v \<Longrightarrow> \<not> nullish v"
  by (cases v) auto

section \<open>Strings to numbers\<close>

definition is_digit :: "char \<Rightarrow> bool" where
  "is_digit c = (48 \<le> code_unit c \<and> code_unit c \<le> 57)"

definition digit_val :: "char \<Rightarrow> nat" where
  "digit_val c = code_unit c - 48"

definition digits_val :: "string \<Rightarrow> nat" where
  "digits_val ds = foldl (\<lambda>n c. 10 * n + digit_val c) 0 ds"

text \<open>Digits of the prefixed integer literals (\<open>0x\<close>, \<open>0o\<close>, \<open>0b\<close>).\<close>

definition radix_digit :: "nat \<Rightarrow> char \<Rightarrow> nat option" where
  "radix_digit r c =
     (let n = code_unit c;
          d = (if is_digit c then digit_val c
               else if 97 \<le> n \<and> n \<le> 122 then n - 87
               else if 65 \<le> n \<and> n \<le> 90 then n - 55 else r)
      in if d < r then Some d else None)"

fun radix_val :: "nat \<Rightarrow> nat \<Rightarrow> string \<Rightarrow> nat option" where
  "radix_val r acc [] = Some acc"
| "radix_val r acc (c # cs) =
     (case radix_digit r c of None \<Rightarrow> None | Some d \<Rightarrow> radix_val r (r * acc + d) cs)"

definition radix_number :: "nat \<Rightarrow> string \<Rightarrow> jsnum" where
  "radix_number r ds =
     (if ds = [] then NaN
      else case radix_val r 0 ds of None \<Rightarrow> NaN | Some n \<Rightarrow> Fin (of_nat n))"

definition pow10 :: "int \<Rightarrow> rat" where
  "pow10 e = (if 0 \<le> e then 10 ^ nat e else 1 / 10 ^ nat (- e))"

definition all_digits :: "string \<Rightarrow> bool" where
  "all_digits ds = (ds \<noteq> [] \<and> list_all is_digit ds)"

fun exponent :: "string \<Rightarrow> int option" where
  "exponent [] = None"
| "exponent (c # cs) =
     (if c = CHR ''-'' then (if all_digits cs then Some (- int (digits_val cs)) else None)
      else if c = CHR ''+'' then (if all_digits cs then Some (int (digits_val cs)) else None)
      else if all_digits (c # cs) then Some (int (digits_val (c # cs))) else None)"

definition unsigned_decimal :: "string \<Rightarrow> jsnum" where
  "unsigned_decimal s =
     (let ip = takeWhile is_digit s;
          r = dropWhile is_digit s;
          (fp, r2) = (case r of
              [] \<Rightarrow> ([], [])
            | c # cs \<Rightarrow> if c = CHR ''.'' then (takeWhile is_digit cs, dropWhile is_digit cs) else ([], r));
          m = of_nat (digits_val (ip @ fp)) / 10 ^ length fp
      in if s = ''Infinity'' then PosInf
         else if ip = [] \<and> fp = [] then NaN
         else case r2 of
                [] \<Rightarrow> Fin m
              | c # cs \<Rightarrow>
                  if c = CHR ''e'' \<or> c = CHR ''E''
                  then (case exponent cs of None \<Rightarrow> NaN | Some e \<Rightarrow> Fin (m * pow10 e))
                  else NaN)"

fun num_neg :: "jsnum \<Rightarrow> jsnum" where
  "num_neg NaN = NaN"
| "num_neg PosInf = NegInf"
| "num_neg NegInf = PosInf"
| "num_neg (Fin x) = Fin (- x)"

definition string_to_number :: "string \<Rightarrow> jsnum" where
  "string_to_number s =
     (case trim s of
        [] \<Rightarrow> Fin 0
      | c # cs \<Rightarrow>
          if c = CHR ''-'' then num_neg (unsigned_decimal cs)
          else if c = CHR ''+'' then unsigned_decimal cs
          else if c = CHR ''0'' \<and> cs \<noteq> [] \<and> hd cs \<in> {CHR ''x'', CHR ''X''} then radix_number 16 (tl cs)
          else if c = CHR ''0'' \<and> cs \<noteq> [] \<and> hd cs \<in> {CHR ''o'', CHR ''O''} then radix_number 8 (tl cs)
          else if c = CHR ''0'' \<and> cs \<noteq> [] \<and> hd cs \<in> {CHR ''b'', CHR ''B''} then radix_number 2 (tl cs)
          else unsigned_decimal (c # cs))"

section \<open>Integers to strings\<close>

definition digit_char :: "nat \<Rightarrow> char" where
  "digit_char d = char_of (48 + d)"

fun nat_to_string :: "nat \<Rightarrow> string" where
  "nat_to_string n =
     (if n < 10 then [digit_char n] else nat_to_string (n div 10) @ [digit_char (n mod 10)])"

declare nat_to_string.simps [simp del]

definition int_to_string :: "int \<Rightarrow> string" where
  "int_to_string i = (if i < 0 then CHR ''-'' # nat_to_string (nat (- i)) else nat_to_string (nat i))"

text \<open>The decimal fraction of a number below 1, up to the given number of digits.\<close>

fun fraction_digits :: "nat \<Rightarrow> rat \<Rightarrow> string" where
  "fraction_digits 0 q = []"
| "fraction_digits (Suc k) q =
     (if q = 0 then []
      else digit_char (nat \<lfloor>10 * q\<rfloor>) # fraction_digits k (10 * q - of_int \<lfloor>10 * q\<rfloor>))"

text \<open>\<open>Number.prototype.toString\<close>: exact for integers and for terminating decimals of at most
  twenty places. The exponent notation of very large and very small magnitudes is not modelled.\<close>

fun number_to_string :: "jsnum \<Rightarrow> string" where
  "number_to_string NaN = ''NaN''"
| "number_to_string PosInf = ''Infinity''"
| "number_to_string NegInf = ''-Infinity''"
| "number_to_string (Fin q) =
     (if of_int \<lfloor>q\<rfloor> = q then int_to_string \<lfloor>q\<rfloor>
      else (if q < 0 then ''-'' else []) @ int_to_string \<lfloor>\<bar>q\<bar>\<rfloor> @ ''.'' @
           fraction_digits 20 (\<bar>q\<bar> - of_int \<lfloor>\<bar>q\<bar>\<rfloor>))"

lemma code_unit_digit_char: "d < 10 \<Longrightarrow> code_unit (digit_char d) = 48 + d"
  by (simp add: digit_char_def of_char_of)

lemma digit_char_digit [simp]: "d < 10 \<Longrightarrow> is_digit (digit_char d)"
  by (simp add: is_digit_def code_unit_digit_char)

lemma digit_val_digit_char [simp]: "d < 10 \<Longrightarrow> digit_val (digit_char d) = d"
  by (simp add: digit_val_def code_unit_digit_char)

lemma digits_val_snoc: "digits_val (ds @ [c]) = 10 * digits_val ds + digit_val c"
  by (simp add: digits_val_def)

lemma digits_val_nat_to_string [simp]: "digits_val (nat_to_string n) = n"
proof (induction n rule: nat_to_string.induct)
  case (1 n)
  then show ?case
    by (subst nat_to_string.simps) (auto simp: digits_val_snoc, simp add: digits_val_def)
qed

lemma nat_to_string_nonempty [simp]: "nat_to_string n \<noteq> []"
  by (subst nat_to_string.simps) simp

lemma nat_to_string_digits: "c \<in> set (nat_to_string n) \<Longrightarrow> is_digit c"
proof (induction n rule: nat_to_string.induct)
  case (1 n)
  then show ?case
    by (subst (asm) (2) nat_to_string.simps) (auto split: if_splits)
qed

lemma nat_to_string_inj: "nat_to_string m = nat_to_string n \<Longrightarrow> m = n"
  by (metis digits_val_nat_to_string)

lemma digit_not_special:
  "is_digit c \<Longrightarrow> \<not> is_ws c \<and> c \<notin> {CHR ''-'', CHR ''+'', CHR ''.'', CHR ''x'', CHR ''X'',
     CHR ''o'', CHR ''O'', CHR ''b'', CHR ''B'', CHR ''e'', CHR ''E'', CHR ''I''}"
  by (auto simp: is_digit_def is_ws_def)

lemma unsigned_decimal_digits:
  assumes "ds \<noteq> []" "\<And>c. c \<in> set ds \<Longrightarrow> is_digit c"
  shows "unsigned_decimal ds = Fin (of_nat (digits_val ds))"
proof -
  have t: "takeWhile is_digit ds = ds" and d: "dropWhile is_digit ds = []"
    using assms by (simp_all add: takeWhile_eq_all_conv)
  have "ds \<noteq> ''Infinity''"
  proof
    assume "ds = ''Infinity''"
    then have "is_digit CHR ''I''" using assms(2)[of "CHR ''I''"] by simp
    then show False by (simp add: is_digit_def)
  qed
  then show ?thesis
    unfolding unsigned_decimal_def t d using assms(1) by (simp add: Let_def del: takeWhile_eq_all_conv)
qed

lemma string_to_number_digits:
  assumes "ds \<noteq> []" "\<And>c. c \<in> set ds \<Longrightarrow> is_digit c"
  shows "string_to_number ds = Fin (of_nat (digits_val ds))"
proof -
  have tr: "trim ds = ds"
    using assms(2) digit_not_special by (blast intro: trim_no_ws)
  obtain c cs where ds: "ds = c # cs" using assms(1) by (cases ds) auto
  have c: "c \<noteq> CHR ''-''" "c \<noteq> CHR ''+''"
    using digit_not_special[of c] assms(2)[of c] ds by auto
  have h: "hd cs \<notin> {CHR ''x'', CHR ''X'', CHR ''o'', CHR ''O'', CHR ''b'', CHR ''B''}" if "cs \<noteq> []"
    using digit_not_special[of "hd cs"] assms(2)[of "hd cs"] ds that by auto
  have "string_to_number ds = unsigned_decimal ds"
    unfolding ds string_to_number_def tr[unfolded ds] using c h by (cases cs) simp_all
  then show ?thesis by (simp add: unsigned_decimal_digits[OF assms])
qed

lemma string_to_number_nat [simp]: "string_to_number (nat_to_string n) = Fin (of_nat n)"
  by (simp add: string_to_number_digits nat_to_string_digits)

lemma number_to_string_nat [simp]: "number_to_string (Fin (of_nat n)) = nat_to_string n"
  by (simp add: int_to_string_def)

section \<open>Conversion of values to numbers\<close>

text \<open>\<open>ToNumber\<close>. An array converts through its string form; \<open>null\<close> and
  \<open>undefined\<close> elements of it print as the empty string.\<close>

fun to_string :: "jsval \<Rightarrow> string" where
  "to_string JUndef = ''undefined''"
| "to_string JNull = ''null''"
| "to_string (JBool b) = (if b then ''true'' else ''false'')"
| "to_string (JNum n) = number_to_string n"
| "to_string (JStr s) = s"
| "to_string (JArr vs) = join '','' (map (\<lambda>v. if nullish v then [] else to_string v) vs)"
| "to_string (JObj _) = ''[object Object]''"
| "to_string (JMoment t) = number_to_string (Fin t)"

fun to_number :: "jsval \<Rightarrow> jsnum" where
  "to_number JUndef = NaN"
| "to_number JNull = Fin 0"
| "to_number (JBool b) = (if b then Fin 1 else Fin 0)"
| "to_number (JNum n) = n"
| "to_number (JStr s) = string_to_number s"
| "to_number (JArr vs) = string_to_number (to_string (JArr vs))"
| "to_number (JObj _) = NaN"
| "to_number (JMoment t) = Fin t"

definition is_nan :: "jsval \<Rightarrow> bool" where
  "is_nan v = (to_number v = NaN)"

section \<open>Plain objects\<close>

text \<open>
  A plain object is an association list in insertion order with distinct keys. Enumeration
  (\<open>Object.keys\<close>) lists the integer-like keys first, in ascending order, then the
  others in insertion order.
\<close>

type_synonym jsobj = "(string \<times> jsval) list"

definition obj_get :: "('k \<times> 'v) list \<Rightarrow> 'k \<Rightarrow> 'v option" where
  "obj_get ob k = map_of ob k"

fun obj_set :: "'k \<Rightarrow> 'v \<Rightarrow> ('k \<times> 'v) list \<Rightarrow> ('k \<times> 'v) list" where
  "obj_set k v [] = [(k, v)]"
| "obj_set k v ((k', v') # ob) = (if k' = k then (k, v) # ob else (k', v') # obj_set k v ob)"

definition obj_del :: "'k \<Rightarrow> ('k \<times> 'v) list \<Rightarrow> ('k \<times> 'v) list" where
  "obj_del k ob = filter (\<lambda>(k', _). k' \<noteq> k) ob"

definition obj_read :: "jsobj \<Rightarrow> string \<Rightarrow> jsval" where
  "obj_read ob k = (case obj_get ob k of None \<Rightarrow> JUndef | Some v \<Rightarrow> v)"

definition is_index_key :: "string \<Rightarrow> bool" where
  "is_index_key s =
     (all_digits s \<and> (s = ''0'' \<or> hd s \<noteq> CHR ''0'') \<and> digits_val s < 4294967295)"

definition obj_keys :: "(string \<times> 'v) list \<Rightarrow> string list" where
  "obj_keys ob =
     sort_key digits_val (filter is_index_key (map fst ob)) @
     filter (\<lambda>k. \<not> is_index_key k) (map fst ob)"

lemma obj_get_set [simp]: "obj_get (obj_set k v ob) q = (if q = k then Some v else obj_get ob q)"
  by (induction ob) (auto simp: obj_get_def)

lemma obj_get_Nil [simp]: "obj_get [] q = None"
  by (simp add: obj_get_def)

lemma obj_get_del [simp]: "obj_get (obj_del k ob) q = (if q = k then None else obj_get ob q)"
  by (induction ob) (auto simp: obj_get_def obj_del_def)

lemma obj_read_set [simp]: "obj_read (obj_set k v ob) q = (if q = k then v else obj_read ob q)"
  by (simp add: obj_read_def)

lemma map_fst_obj_set: "map fst (obj_set k v ob) = (if k \<in> fst ` set ob then map fst ob else map fst ob @ [k])"
  by (induction ob) force+

lemma distinct_obj_set [simp]: "distinct (map fst ob) \<Longrightarrow> distinct (map fst (obj_set k v ob))"
  by (auto simp: map_fst_obj_set)

lemma obj_set_new: "k \<notin> fst ` set ob \<Longrightarrow> obj_set k v ob = ob @ [(k, v)]"
  by (induction ob) auto

lemma set_obj_keys [simp]: "set (obj_keys ob) = fst ` set ob"
  by (auto simp: obj_keys_def)

lemma distinct_obj_keys [simp]: "distinct (map fst ob) \<Longrightarrow> distinct (obj_keys ob)"
  by (auto simp: obj_keys_def distinct_sort)

lemma obj_keys_plain: "(\<And>k. k \<in> fst ` set ob \<Longrightarrow> \<not> is_index_key k) \<Longrightarrow> obj_keys ob = map fst ob"
  by (simp add: obj_keys_def filter_empty_conv filter_id_conv)

lemma obj_get_in: "distinct (map fst ob) \<Longrightarrow> (k, v) \<in> set ob \<Longrightarrow> obj_get ob k = Some v"
  by (simp add: obj_get_def)

end
