(* ===== verification/PlaybookModel.thy ===== *)
theory PlaybookModel
  imports JsArray JsValue
begin

text \<open>
  The data model of playbooks (\<^verbatim>\<open>models/playbook/*.ts\<close>): arguments,
  transforms, conditions, conditional expressions, actions, branches, environment variables,
  workflows and playbooks, with the getters and methods of their classes. Fields the classes
  initialise to an array are lists; fields that may be absent are \<open>nullable\<close>, or
  \<open>option\<close> where the code only tests whether an object is there. A name that was not set yet is the empty
  string.
\<close>

section \<open>Data\<close>

record graph_position =
  pos_x :: rat
  pos_y :: rat

text \<open>A selection is the dotted text of the editor or the path the server expects.\<close>

datatype sel_item = SelStr string | SelNum jsnum
datatype selection = SelText string | SelPath "sel_item list"

record argument =
  arg_id :: "int nullable"
  arg_name :: "string nullable"
  arg_value :: jsval
  arg_reference :: "string nullable"
  arg_selection :: "selection nullable"
  arg_errors :: "string list nullable"

definition new_argument :: argument where
  "new_argument = \<lparr>arg_id = Undefined, arg_name = Undefined, arg_value = JUndef,
     arg_reference = Undefined, arg_selection = Undefined, arg_errors = Val []\<rparr>"

record transform =
  tr_id :: "string nullable"
  tr_errors :: "string list"
  tr_app_name :: string
  tr_action_name :: string
  tr_arguments :: "argument list"

record condition =
  cond_id :: "string nullable"
  cond_errors :: "string list"
  cond_app_name :: string
  cond_action_name :: string
  cond_is_negated :: "bool nullable"
  cond_arguments :: "argument list"
  cond_transforms :: "transform list"

datatype cond_expr = CondExpr
  (ce_id: "string nullable")
  (ce_errors: "string list")
  (ce_operator: "string nullable")
  (ce_is_negated: "bool nullable")
  (ce_conditions: "condition list")
  (ce_children: "cond_expr list")

definition new_cond_expr :: cond_expr where
  "new_cond_expr = CondExpr Undefined [] Undefined Undefined [] []"

record action =
  act_id :: string
  act_errors :: "string list"
  act_name :: string
  act_position :: "graph_position nullable"
  act_app_name :: string
  act_action_name :: string
  act_device_id :: "argument option"
  act_risk :: "rat nullable"
  act_arguments :: "argument list"
  act_trigger :: "cond_expr option"

record branch =
  br_id :: string
  br_errors :: "string list"
  br_source_id :: string
  br_destination_id :: string
  br_status :: string
  br_priority :: rat
  br_condition :: "cond_expr option"

record environment_variable =
  ev_id :: string
  ev_name :: "string nullable"
  ev_value :: "string nullable"
  ev_description :: "string nullable"

record workflow =
  wf_id :: "string nullable"
  wf_errors :: "string list"
  wf_playbook_id :: "string nullable"
  wf_name :: string
  wf_actions :: "action list"
  wf_branches :: "branch list"
  wf_environment_variables :: "environment_variable list"
  wf_start :: "string nullable"
  wf_accumulated_risk :: "rat nullable"
  wf_is_valid :: "bool nullable"

definition new_workflow :: workflow where
  "new_workflow = \<lparr>wf_id = Undefined, wf_errors = [], wf_playbook_id = Undefined, wf_name = [],
     wf_actions = [], wf_branches = [], wf_environment_variables = [], wf_start = Undefined,
     wf_accumulated_risk = Undefined, wf_is_valid = Undefined\<rparr>"

record playbook =
  pb_id :: "string nullable"
  pb_errors :: "string list"
  pb_name :: string
  pb_workflows :: "workflow list"

definition new_playbook :: playbook where
  "new_playbook = \<lparr>pb_id = Undefined, pb_errors = [], pb_name = [], pb_workflows = []\<rparr>"

section \<open>Errors of an element and its descendants\<close>

text \<open>\<open>concat\<close> with an array appends its elements; with \<open>undefined\<close> or
  \<open>null\<close> (an argument whose error list was deleted) it appends that value.\<close>

fun concat_item :: "string list nullable \<Rightarrow> string nullable list" where
  "concat_item (Val es) = map Val es"
| "concat_item Undefined = [Undefined]"
| "concat_item Null = [Null]"

definition arg_all_errors :: "argument \<Rightarrow> string list nullable" where
  "arg_all_errors a = arg_errors a"

text \<open>\<open>has_errors\<close> of an argument reads the length of its error list, which throws when the
  list was deleted.\<close>

fun arg_has_errors :: "argument \<Rightarrow> bool result" where
  "arg_has_errors a = (case arg_all_errors a of Val es \<Rightarrow> Inr (es \<noteq> []) | _ \<Rightarrow> Inl TypeError)"

definition args_errors :: "argument list \<Rightarrow> string nullable list" where
  "args_errors as = List.concat (map (\<lambda>a. concat_item (arg_all_errors a)) as)"

definition transform_all_errors :: "transform \<Rightarrow> string nullable list" where
  "transform_all_errors t = map Val (tr_errors t) @ args_errors (tr_arguments t)"

definition condition_all_errors :: "condition \<Rightarrow> string nullable list" where
  "condition_all_errors c = map Val (cond_errors c) @ args_errors (cond_arguments c) @
     List.concat (map transform_all_errors (cond_transforms c))"

fun expr_all_errors :: "cond_expr \<Rightarrow> string nullable list" where
  "expr_all_errors (CondExpr i errs opr neg cs es) =
     map Val errs @ List.concat (map condition_all_errors cs) @ List.concat (map expr_all_errors es)"

definition opt_expr_errors :: "cond_expr option \<Rightarrow> string nullable list" where
  "opt_expr_errors e = (case e of None \<Rightarrow> [] | Some x \<Rightarrow> expr_all_errors x)"

definition action_all_errors :: "action \<Rightarrow> string nullable list" where
  "action_all_errors a = map Val (act_errors a) @ args_errors (act_arguments a) @
     opt_expr_errors (act_trigger a)"

definition branch_all_errors :: "branch \<Rightarrow> string nullable list" where
  "branch_all_errors b = map Val (br_errors b) @ opt_expr_errors (br_condition b)"

definition workflow_all_errors :: "workflow \<Rightarrow> string nullable list" where
  "workflow_all_errors w = map Val (wf_errors w) @
     List.concat (map action_all_errors (wf_actions w)) @
     List.concat (map branch_all_errors (wf_branches w))"

definition playbook_all_errors :: "playbook \<Rightarrow> string nullable list" where
  "playbook_all_errors p = map Val (pb_errors p) @
     List.concat (map workflow_all_errors (pb_workflows p))"

definition has_errors :: "string nullable list \<Rightarrow> bool" where
  "has_errors es = (0 < length es)"

lemma args_errors_Nil [simp]: "args_errors as = [] \<longleftrightarrow> (\<forall>a \<in> set as. arg_errors a = Val [])"
proof -
  have "concat_item e = [] \<longleftrightarrow> e = Val []" for e by (cases e) auto
  then show ?thesis by (simp add: args_errors_def arg_all_errors_def)
qed

lemma workflow_no_errors_iff:
  "\<not> has_errors (workflow_all_errors w) \<longleftrightarrow>
     wf_errors w = [] \<and>
     (\<forall>a \<in> set (wf_actions w). \<not> has_errors (action_all_errors a)) \<and>
     (\<forall>b \<in> set (wf_branches w). \<not> has_errors (branch_all_errors b))"
  by (simp add: workflow_all_errors_def has_errors_def)

section \<open>Arguments of a workflow\<close>

definition transforms_arguments :: "transform list \<Rightarrow> argument list" where
  "transforms_arguments ts = List.concat (map tr_arguments ts)"

definition condition_arguments :: "condition \<Rightarrow> argument list" where
  "condition_arguments c = cond_arguments c @ transforms_arguments (cond_transforms c)"

fun expr_arguments :: "cond_expr \<Rightarrow> argument list" where
  "expr_arguments (CondExpr i errs opr neg cs es) =
     List.concat (map condition_arguments cs) @ List.concat (map expr_arguments es)"

definition opt_expr_arguments :: "cond_expr option \<Rightarrow> argument list" where
  "opt_expr_arguments e = (case e of None \<Rightarrow> [] | Some x \<Rightarrow> expr_arguments x)"

definition action_all_arguments :: "action \<Rightarrow> argument list" where
  "action_all_arguments a = act_arguments a @ opt_expr_arguments (act_trigger a)"

definition branch_all_arguments :: "branch \<Rightarrow> argument list" where
  "branch_all_arguments b = opt_expr_arguments (br_condition b)"

definition all_arguments :: "workflow \<Rightarrow> argument list" where
  "all_arguments w = List.concat (map action_all_arguments (wf_actions w)) @
     List.concat (map branch_all_arguments (wf_branches w))"

definition referenced_variables :: "workflow \<Rightarrow> environment_variable list" where
  "referenced_variables w =
     filter (\<lambda>v. list_ex (\<lambda>a. arg_reference a = Val (ev_id v)) (all_arguments w))
       (wf_environment_variables w)"

definition findActionById :: "workflow \<Rightarrow> string \<Rightarrow> action option" where
  "findActionById w i = List.find (\<lambda>a. act_id a = i) (wf_actions w)"

text \<open>The name of a missing action is \<open>null\<close>, which the template literal prints.\<close>

definition action_name_text :: "action option \<Rightarrow> string" where
  "action_name_text a = (case a of None \<Rightarrow> ''null'' | Some x \<Rightarrow> act_name x)"

definition listBranchCounters :: "workflow \<Rightarrow> (string \<times> string) list" where
  "listBranchCounters w =
     map (\<lambda>b. (br_id b,
        action_name_text (findActionById w (br_source_id b)) @ '' > '' @
        action_name_text (findActionById w (br_destination_id b)))) (wf_branches w)"

text \<open>
  The argument objects \<open>all_arguments\<close> collects are references: a loop that assigns to
  them changes the workflow. Writing through them is a map over the arguments where they are.
\<close>

definition map_transform_args :: "(argument \<Rightarrow> argument) \<Rightarrow> transform \<Rightarrow> transform" where
  "map_transform_args f t = t\<lparr>tr_arguments := map f (tr_arguments t)\<rparr>"

definition map_condition_args :: "(argument \<Rightarrow> argument) \<Rightarrow> condition \<Rightarrow> condition" where
  "map_condition_args f c = c\<lparr>cond_arguments := map f (cond_arguments c),
     cond_transforms := map (map_transform_args f) (cond_transforms c)\<rparr>"

fun map_expr_args :: "(argument \<Rightarrow> argument) \<Rightarrow> cond_expr \<Rightarrow> cond_expr" where
  "map_expr_args f (CondExpr i errs opr neg cs es) =
     CondExpr i errs opr neg (map (map_condition_args f) cs) (map (map_expr_args f) es)"

definition map_action_args :: "(argument \<Rightarrow> argument) \<Rightarrow> action \<Rightarrow> action" where
  "map_action_args f a = a\<lparr>act_arguments := map f (act_arguments a),
     act_trigger := map_option (map_expr_args f) (act_trigger a)\<rparr>"

definition map_branch_args :: "(argument \<Rightarrow> argument) \<Rightarrow> branch \<Rightarrow> branch" where
  "map_branch_args f b = b\<lparr>br_condition := map_option (map_expr_args f) (br_condition b)\<rparr>"

definition map_workflow_args :: "(argument \<Rightarrow> argument) \<Rightarrow> workflow \<Rightarrow> workflow" where
  "map_workflow_args f w = w\<lparr>wf_actions := map (map_action_args f) (wf_actions w),
     wf_branches := map (map_branch_args f) (wf_branches w)\<rparr>"

definition clear_reference_to :: "string \<Rightarrow> argument \<Rightarrow> argument" where
  "clear_reference_to i a = (if arg_reference a = Val i then a\<lparr>arg_reference := Val []\<rparr> else a)"

definition deleteVariable :: "environment_variable \<Rightarrow> workflow \<Rightarrow> workflow" where
  "deleteVariable d w =
     map_workflow_args (clear_reference_to (ev_id d))
       (w\<lparr>wf_environment_variables :=
            filter (\<lambda>v. ev_id v \<noteq> ev_id d) (wf_environment_variables w)\<rparr>)"

end
