(* ===== verification/ArgumentTree.thy ===== *)
theory ArgumentTree
  imports PlaybookModel
begin

text \<open>
  Every element of a workflow that carries arguments offers the same two views of them: the list of
  the arguments below it and a way to write through that list. The interface and its laws are the
  locale \<open>argument_tree\<close>; transforms, conditions, expressions, actions, branches and
  workflows are its instances. What deleting an environment variable does to references is proved
  once, from the laws.
\<close>

section \<open>The interface\<close>

locale argument_tree =
  fixes args_of :: "'a \<Rightarrow> argument list"
    and map_args :: "(argument \<Rightarrow> argument) \<Rightarrow> 'a \<Rightarrow> 'a"
  assumes args_of_map: "args_of (map_args f x) = map f (args_of x)"
    and map_args_comp: "map_args f (map_args g x) = map_args (\<lambda>a. f (g a)) x"
    and map_args_idle: "(\<And>a. a \<in> set (args_of x) \<Longrightarrow> f a = a) \<Longrightarrow> map_args f x = x"
begin

lemma cleared:
  "i \<noteq> [] \<Longrightarrow> a \<in> set (args_of (map_args (clear_reference_to i) x)) \<Longrightarrow> arg_reference a \<noteq> Val i"
  by (auto simp: args_of_map clear_reference_to_def)

lemma clear_keeps_other:
  "j \<noteq> i \<Longrightarrow> j \<noteq> [] \<Longrightarrow>
   list_ex (\<lambda>a. arg_reference a = Val j) (args_of (map_args (clear_reference_to i) x)) =
   list_ex (\<lambda>a. arg_reference a = Val j) (args_of x)"
  by (force simp: args_of_map list_ex_iff clear_reference_to_def)

lemma clear_unreferenced:
  "(\<And>a. a \<in> set (args_of x) \<Longrightarrow> arg_reference a \<noteq> Val i) \<Longrightarrow> map_args (clear_reference_to i) x = x"
  by (rule map_args_idle) (simp add: clear_reference_to_def)

lemma length_args_of_map: "length (args_of (map_args f x)) = length (args_of x)"
  by (simp add: args_of_map)

lemma clear_idem:
  "map_args (clear_reference_to i) (map_args (clear_reference_to i) x) = map_args (clear_reference_to i) x"
proof -
  have "(\<lambda>a. clear_reference_to i (clear_reference_to i a)) = clear_reference_to i"
    by (auto simp: clear_reference_to_def fun_eq_iff)
  then show ?thesis by (simp add: map_args_comp)
qed

text \<open>A list of such elements is one again.\<close>

lemma args_of_list:
  "argument_tree (\<lambda>xs. List.concat (map args_of xs)) (\<lambda>f. map (map_args f))"
proof
  show "List.concat (map args_of (map (map_args f) xs)) = map f (List.concat (map args_of xs))" for f xs
    by (induction xs) (simp_all add: args_of_map)
  show "map (map_args f) (map (map_args g) xs) = map (map_args (\<lambda>a. f (g a))) xs" for f g xs
    by (simp add: map_args_comp)
  show "map (map_args f) xs = xs"
    if "\<And>a. a \<in> set (List.concat (map args_of xs)) \<Longrightarrow> f a = a" for f xs
    using that by (intro map_idI map_args_idle) auto
qed

end

section \<open>The elements of a workflow\<close>

interpretation tr_args: argument_tree tr_arguments map_transform_args
  by unfold_locales (simp_all add: map_transform_args_def map_idI)

interpretation trs_args: argument_tree transforms_arguments "\<lambda>f. map (map_transform_args f)"
  unfolding transforms_arguments_def by (rule tr_args.args_of_list)

interpretation cond_args: argument_tree condition_arguments map_condition_args
proof
  show "condition_arguments (map_condition_args f c) = map f (condition_arguments c)" for f c
    by (simp add: condition_arguments_def map_condition_args_def trs_args.args_of_map)
  show "map_condition_args f (map_condition_args g c) = map_condition_args (\<lambda>a. f (g a)) c" for f g c
    by (simp add: map_condition_args_def tr_args.map_args_comp)
  show "map_condition_args f c = c"
    if "\<And>a. a \<in> set (condition_arguments c) \<Longrightarrow> f a = a" for f c
    using that by (simp add: map_condition_args_def condition_arguments_def map_idI trs_args.map_args_idle)
qed

interpretation conds_args: argument_tree
    "\<lambda>cs. List.concat (map condition_arguments cs)" "\<lambda>f. map (map_condition_args f)"
  by (rule cond_args.args_of_list)

lemma expr_args_map: "expr_arguments (map_expr_args f e) = map f (expr_arguments e)"
proof (induction f e rule: map_expr_args.induct)
  case (1 f i errs opr neg cs es)
  show ?case
    using conds_args.args_of_map[of f cs] 1 by (simp add: comp_def map_concat cong: map_cong)
qed

lemma expr_args_comp: "map_expr_args f (map_expr_args g e) = map_expr_args (\<lambda>a. f (g a)) e"
  by (induction g e rule: map_expr_args.induct) (simp add: cond_args.map_args_comp)

lemma expr_args_idle: "(\<And>a. a \<in> set (expr_arguments e) \<Longrightarrow> f a = a) \<Longrightarrow> map_expr_args f e = e"
proof (induction f e rule: map_expr_args.induct)
  case (1 f i errs opr neg cs es)
  have "map (map_expr_args f) es = es"
    by (rule map_idI, rule 1) (use 1(2) in auto)
  moreover have "map (map_condition_args f) cs = cs"
    by (rule conds_args.map_args_idle) (use 1(2) in auto)
  ultimately show ?case by simp
qed

interpretation expr_args: argument_tree expr_arguments map_expr_args
  by unfold_locales (simp_all add: expr_args_map expr_args_comp expr_args_idle)

interpretation opt_expr_args: argument_tree opt_expr_arguments "\<lambda>f. map_option (map_expr_args f)"
proof
  show "opt_expr_arguments (map_option (map_expr_args f) e) = map f (opt_expr_arguments e)" for f e
    by (simp add: opt_expr_arguments_def expr_args_map split: option.split)
  show "map_option (map_expr_args f) (map_option (map_expr_args g) e) =
        map_option (map_expr_args (\<lambda>a. f (g a))) e" for f g e
    by (cases e) (simp_all add: expr_args_comp)
  show "map_option (map_expr_args f) e = e"
    if "\<And>a. a \<in> set (opt_expr_arguments e) \<Longrightarrow> f a = a" for f e
    using that by (cases e) (simp_all add: opt_expr_arguments_def expr_args_idle)
qed

interpretation action_args: argument_tree action_all_arguments map_action_args
proof
  show "action_all_arguments (map_action_args f a) = map f (action_all_arguments a)" for f a
    by (simp add: action_all_arguments_def map_action_args_def opt_expr_args.args_of_map)
  show "map_action_args f (map_action_args g a) = map_action_args (\<lambda>x. f (g x)) a" for f g a
    using opt_expr_args.map_args_comp by (simp add: map_action_args_def)
  show "map_action_args f a = a"
    if "\<And>x. x \<in> set (action_all_arguments a) \<Longrightarrow> f x = x" for f a
    using that by (simp add: map_action_args_def action_all_arguments_def map_idI opt_expr_args.map_args_idle)
qed

interpretation branch_args: argument_tree branch_all_arguments map_branch_args
proof
  show "branch_all_arguments (map_branch_args f b) = map f (branch_all_arguments b)" for f b
    by (simp add: branch_all_arguments_def map_branch_args_def opt_expr_args.args_of_map)
  show "map_branch_args f (map_branch_args g b) = map_branch_args (\<lambda>x. f (g x)) b" for f g b
    using opt_expr_args.map_args_comp by (simp add: map_branch_args_def)
  show "map_branch_args f b = b"
    if "\<And>x. x \<in> set (branch_all_arguments b) \<Longrightarrow> f x = x" for f b
    using that by (simp add: map_branch_args_def branch_all_arguments_def opt_expr_args.map_args_idle)
qed

interpretation actions_args: argument_tree
    "\<lambda>as. List.concat (map action_all_arguments as)" "\<lambda>f. map (map_action_args f)"
  by (rule action_args.args_of_list)

interpretation branches_args: argument_tree
    "\<lambda>bs. List.concat (map branch_all_arguments bs)" "\<lambda>f. map (map_branch_args f)"
  by (rule branch_args.args_of_list)

interpretation wf_args: argument_tree all_arguments map_workflow_args
proof
  show "all_arguments (map_workflow_args f w) = map f (all_arguments w)" for f w
    using actions_args.args_of_map branches_args.args_of_map
    by (simp add: all_arguments_def map_workflow_args_def)
  show "map_workflow_args f (map_workflow_args g w) = map_workflow_args (\<lambda>x. f (g x)) w" for f g w
    using actions_args.map_args_comp branches_args.map_args_comp by (simp add: map_workflow_args_def)
  show "map_workflow_args f w = w"
    if "\<And>x. x \<in> set (all_arguments w) \<Longrightarrow> f x = x" for f w
    using that actions_args.map_args_idle[of "wf_actions w" f]
      branches_args.map_args_idle[of "wf_branches w" f]
    by (simp add: map_workflow_args_def all_arguments_def)
qed

section \<open>Deleting an environment variable\<close>

lemma deleteVariable_variables:
  "wf_environment_variables (deleteVariable d w) =
     filter (\<lambda>v. ev_id v \<noteq> ev_id d) (wf_environment_variables w)"
  by (simp add: deleteVariable_def map_workflow_args_def)

lemma all_arguments_variables [simp]:
  "all_arguments (w\<lparr>wf_environment_variables := vs\<rparr>) = all_arguments w"
  by (simp add: all_arguments_def)

lemma all_arguments_deleteVariable:
  "all_arguments (deleteVariable d w) = map (clear_reference_to (ev_id d)) (all_arguments w)"
  by (simp add: deleteVariable_def wf_args.args_of_map)


text \<open>Deleting a variable leaves the other variables of the workflow as they are referenced:
  the referenced variables afterwards are the referenced ones before, without the deleted one.\<close>

theorem referenced_variables_deleteVariable:
  assumes "\<forall>v \<in> set (wf_environment_variables w). ev_id v \<noteq> []"
  shows "referenced_variables (deleteVariable d w) =
    filter (\<lambda>v. ev_id v \<noteq> ev_id d) (referenced_variables w)"
proof -
  have "list_ex (\<lambda>a. arg_reference a = Val (ev_id v)) (all_arguments (deleteVariable d w)) =
        list_ex (\<lambda>a. arg_reference a = Val (ev_id v)) (all_arguments w)"
    if "v \<in> set (wf_environment_variables w)" "ev_id v \<noteq> ev_id d" for v
    using that assms wf_args.clear_keeps_other[of "ev_id v" "ev_id d"]
    by (simp add: deleteVariable_def)
  then show ?thesis
    by (auto simp: referenced_variables_def deleteVariable_variables intro!: filter_cong)
qed

end
