(* ===== verification/Sanitize.thy ===== *)
theory Sanitize
  imports ArgumentTree
begin

text \<open>
  What the editor does to arguments before a workflow is sent to the server:
  \<open>Argument.hasInput\<close> and \<open>Argument.sanitize\<close>
  (\<^verbatim>\<open>models/playbook/argument.ts\<close>), \<open>_sanitizeArgumentsForSave\<close> and
  \<open>_sanitizeExpressionAndChildren\<close> (\<^verbatim>\<open>playbook/playbook.component.ts\<close>),
  and the conversion of the server's selections to dotted text in \<open>setupGraph\<close>. The loops
  are kept as written (collect indices, then splice), and shown equal to a filter and a map.
\<close>

section \<open>One argument\<close>

definition hasInput :: "argument \<Rightarrow> bool" where
  "hasInput a = (truthy_str (arg_reference a) \<or> truthy (arg_value a))"

fun trim_value :: "jsval \<Rightarrow> jsval" where
  "trim_value (JStr s) = JStr (trim s)"
| "trim_value v = v"

text \<open>A part of a selection that \<open>isNaN\<close> accepts as a number is converted by unary
  plus.\<close>

definition selection_item :: "string \<Rightarrow> sel_item" where
  "selection_item p = (case string_to_number p of NaN \<Rightarrow> SelStr p | n \<Rightarrow> SelNum n)"

definition split_selection :: "string \<Rightarrow> sel_item list" where
  "split_selection s =
     (let parts = split_on CHR ''.'' (trim s)
      in if hd parts = [] then [] else map selection_item parts)"

fun normalize_selection :: "selection nullable \<Rightarrow> selection nullable" where
  "normalize_selection (Val (SelText s)) = Val (SelPath (split_selection s))"
| "normalize_selection (Val (SelPath p)) = Val (SelPath p)"
| "normalize_selection _ = Val (SelPath [])"

text \<open>The trimming and the deletions both sanitizers start with: \<open>value\<close> goes when a
  reference is set, an empty reference goes, the errors go.\<close>

definition drop_value_or_reference :: "argument \<Rightarrow> argument" where
  "drop_value_or_reference a =
     (let a1 = a\<lparr>arg_value := trim_value (arg_value a)\<rparr>;
          a2 = (if truthy_str (arg_reference a1) \<and> arg_value a1 \<noteq> JUndef
                then a1\<lparr>arg_value := JUndef\<rparr> else a1);
          a3 = (if arg_reference a2 = Val [] then a2\<lparr>arg_reference := Undefined\<rparr> else a2)
      in a3\<lparr>arg_errors := Undefined\<rparr>)"

definition finish_selection :: "argument \<Rightarrow> argument" where
  "finish_selection a =
     (if \<not> truthy_str (arg_reference a) then a\<lparr>arg_selection := Undefined\<rparr>
      else a\<lparr>arg_selection := normalize_selection (arg_selection a)\<rparr>)"

text \<open>\<open>Argument.sanitize\<close> returns before the selection is touched when nothing is
  specified.\<close>

definition sanitize :: "argument \<Rightarrow> argument" where
  "sanitize a =
     (let b = drop_value_or_reference a
      in if \<not> truthy (arg_value b) \<and> \<not> truthy_str (arg_reference b) then b else finish_selection b)"

section \<open>A list of arguments\<close>

text \<open>The test of the first loop reads the trimmed value.\<close>

definition blank_arg :: "argument \<Rightarrow> bool" where
  "blank_arg a =
     (let v = trim_value (arg_value a)
      in (nullish v \<or> v = JStr []) \<and> arg_reference a = Val [])"

text \<open>The first loop prepends the position of every blank argument.\<close>

fun idsToRemove :: "nat \<Rightarrow> argument list \<Rightarrow> int list \<Rightarrow> int list" where
  "idsToRemove i [] ids = ids"
| "idsToRemove i (a # as) ids = idsToRemove (Suc i) as (if blank_arg a then int i # ids else ids)"

definition sanitizeArgumentsForSave :: "argument list \<Rightarrow> argument list" where
  "sanitizeArgumentsForSave args =
     (let args1 = map drop_value_or_reference args;
          args2 = foldl (\<lambda>as i. splice1 i as) args1 (idsToRemove 0 args [])
      in map finish_selection args2)"

text \<open>
  \<open>_sanitizeExpressionAndChildren\<close> sanitizes the conditions of an expression, then those of
  every child, and then recurses into the child, which sanitizes the child's conditions again.
\<close>

definition sanitize_transform :: "transform \<Rightarrow> transform" where
  "sanitize_transform t = t\<lparr>tr_arguments := sanitizeArgumentsForSave (tr_arguments t)\<rparr>"

definition sanitize_condition :: "condition \<Rightarrow> condition" where
  "sanitize_condition c = c\<lparr>cond_arguments := sanitizeArgumentsForSave (cond_arguments c),
     cond_transforms := map sanitize_transform (cond_transforms c)\<rparr>"

fun sanitize_child_conditions :: "cond_expr \<Rightarrow> cond_expr" where
  "sanitize_child_conditions (CondExpr i errs opr neg cs es) =
     CondExpr i errs opr neg (map sanitize_condition cs) es"

lemma size_sanitize_child_conditions [simp]:
  "size (sanitize_child_conditions e) = size e"
  by (cases e) simp

lemma size_list_mem: "e \<in> set (es :: cond_expr list) \<Longrightarrow> size e < Suc (size_list size es)"
  by (induction es) auto

function sanitizeExpressionAndChildren :: "cond_expr \<Rightarrow> cond_expr" where
  "sanitizeExpressionAndChildren (CondExpr i errs opr neg cs es) =
     CondExpr i errs opr neg (map sanitize_condition cs)
       (map (\<lambda>e. sanitizeExpressionAndChildren (sanitize_child_conditions e)) es)"
  by pat_completeness auto

termination
  by (relation "measure size") (auto dest: size_list_mem simp: less_Suc_eq_le)

definition sanitize_opt_expr :: "cond_expr option \<Rightarrow> cond_expr option" where
  "sanitize_opt_expr = map_option sanitizeExpressionAndChildren"

section \<open>The loops and their closed form\<close>

lemma idsToRemove_acc: "idsToRemove i as ids = idsToRemove i as [] @ ids"
proof (induction as arbitrary: i ids)
  case (Cons a as)
  show ?case
    using Cons[of "Suc i" "int i # ids"] Cons[of "Suc i" "[int i]"] Cons[of "Suc i" ids] by simp
qed simp

lemma idsToRemove_snoc:
  "idsToRemove i (as @ [a]) [] =
     (if blank_arg a then [int (i + length as)] else []) @ idsToRemove i as []"
proof (induction as arbitrary: i)
  case (Cons b bs)
  show ?case
    using Cons[of "Suc i"] by (simp add: idsToRemove_acc[of _ _ "[_]"])
qed simp

lemma idsToRemove_bound: "j \<in> set (idsToRemove i as []) \<Longrightarrow> int i \<le> j \<and> j < int (i + length as)"
proof (induction as arbitrary: i)
  case (Cons a as)
  then show ?case
    by (auto simp: idsToRemove_acc[of _ _ "[_]"] split: if_splits dest!: Cons.IH)
qed simp

lemma splice1_append: "0 \<le> i \<Longrightarrow> i < int (length xs) \<Longrightarrow> splice1 i (xs @ ys) = splice1 i xs @ ys"
  by (auto simp: splice1_def min_def Let_def)

text \<open>Splicing at indices that are in descending order and inside the prefix leaves what follows
  the prefix alone.\<close>

lemma foldl_splice1_append:
  "sorted_wrt (>) ids \<Longrightarrow> \<forall>i \<in> set ids. 0 \<le> i \<and> i < int (length xs) \<Longrightarrow>
   foldl (\<lambda>as i. splice1 i as) (xs @ ys) ids = foldl (\<lambda>as i. splice1 i as) xs ids @ ys"
proof (induction ids arbitrary: xs)
  case (Cons i ids)
  have i: "0 \<le> i" "i < int (length xs)" using Cons.prems by auto
  then have len: "int (length (splice1 i xs)) = int (length xs) - 1"
    using length_splice1[of "nat i" xs] by auto
  have "\<forall>j \<in> set ids. 0 \<le> j \<and> j < int (length (splice1 i xs))"
    using Cons.prems len i by auto
  with Cons i show ?case by (simp add: splice1_append)
qed simp

lemma idsToRemove_descending: "sorted_wrt (>) (idsToRemove i as [])"
  by (induction as rule: rev_induct) (auto simp: idsToRemove_snoc dest: idsToRemove_bound)

lemma splice_blank_args:
  "foldl (\<lambda>as i. splice1 i as) (map f args) (idsToRemove 0 args []) =
     map f (filter (\<lambda>a. \<not> blank_arg a) args)"
proof (induction args rule: rev_induct)
  case (snoc a as)
  have b: "\<forall>i \<in> set (idsToRemove 0 as []). 0 \<le> i \<and> i < int (length (map f as))"
    using idsToRemove_bound by fastforce
  show ?case
  proof (cases "blank_arg a")
    case True
    then have "splice1 (int (length as)) (map f as @ [f a]) = map f as"
      by (simp add: splice1_in_range)
    with True snoc show ?thesis by (simp add: idsToRemove_snoc)
  next
    case False
    with snoc b show ?thesis
      by (simp add: idsToRemove_snoc foldl_splice1_append idsToRemove_descending)
  qed
qed simp

text \<open>C17. Collecting the positions of the blank arguments in descending order and splicing them out
  one by one removes exactly the blank arguments: the sanitizer is a filter followed by the
  per-argument clean-up, and no position slides.\<close>

theorem sanitizeArgumentsForSave_eq:
  "sanitizeArgumentsForSave args =
     map (\<lambda>a. finish_selection (drop_value_or_reference a)) (filter (\<lambda>a. \<not> blank_arg a) args)"
  by (simp add: sanitizeArgumentsForSave_def splice_blank_args)

lemmas sanitize_closed = sanitizeArgumentsForSave_def splice_blank_args

section \<open>What the server receives\<close>

text \<open>The form of an argument the server expects: either a reference with a path and no value, or
  no reference and no selection; no error list; no blank padding of a string value.\<close>

definition arg_clean :: "argument \<Rightarrow> bool" where
  "arg_clean a \<longleftrightarrow> arg_errors a = Undefined \<and> arg_reference a \<noteq> Val [] \<and>
     trim_value (arg_value a) = arg_value a \<and>
     (if truthy_str (arg_reference a)
      then arg_value a = JUndef \<and> (\<exists>p. arg_selection a = Val (SelPath p))
      else arg_selection a = Undefined)"

lemma trim_value_idem [simp]: "trim_value (trim_value v) = trim_value v"
  by (cases v) auto

lemma normalize_selection_path: "\<exists>p. normalize_selection s = Val (SelPath p)"
  by (cases s rule: normalize_selection.cases) auto

lemma trim_value_JUndef [simp]: "trim_value v = JUndef \<longleftrightarrow> v = JUndef"
  by (cases v) auto

lemma drop_value_or_reference_sel [simp]:
  "arg_id (drop_value_or_reference a) = arg_id a"
  "arg_name (drop_value_or_reference a) = arg_name a"
  "arg_value (drop_value_or_reference a) =
     (if truthy_str (arg_reference a) then JUndef else trim_value (arg_value a))"
  "arg_reference (drop_value_or_reference a) =
     (if arg_reference a = Val [] then Undefined else arg_reference a)"
  "arg_selection (drop_value_or_reference a) = arg_selection a"
  "arg_errors (drop_value_or_reference a) = Undefined"
  by (simp_all add: drop_value_or_reference_def Let_def del: truthy_str_iff)

lemma finish_selection_sel [simp]:
  "arg_id (finish_selection a) = arg_id a"
  "arg_name (finish_selection a) = arg_name a"
  "arg_value (finish_selection a) = arg_value a"
  "arg_reference (finish_selection a) = arg_reference a"
  "arg_selection (finish_selection a) =
     (if truthy_str (arg_reference a) then normalize_selection (arg_selection a) else Undefined)"
  "arg_errors (finish_selection a) = arg_errors a"
  by (simp_all add: finish_selection_def del: truthy_str_iff)

lemma arg_clean_sanitized [clean_intros]:
  "arg_clean (finish_selection (drop_value_or_reference a))"
proof (cases "truthy_str (arg_reference a)")
  case True
  then show ?thesis
    using normalize_selection_path[of "arg_selection a"] by (auto simp: arg_clean_def)
next
  case False
  then show ?thesis by (simp add: arg_clean_def del: truthy_str_iff)
qed

lemma arg_clean_fixed: "arg_clean a \<Longrightarrow> finish_selection (drop_value_or_reference a) = a"
proof -
  assume c: "arg_clean a"
  show ?thesis
  proof (cases "truthy_str (arg_reference a)")
    case True
    with c obtain p where "arg_selection a = Val (SelPath p)" by (auto simp: arg_clean_def)
    with True c show ?thesis by (intro argument.equality) (simp_all add: arg_clean_def)
  next
    case False
    with c show ?thesis
      by (intro argument.equality) (simp_all add: arg_clean_def del: truthy_str_iff)
  qed
qed

lemma arg_clean_not_blank [clean_intros]: "arg_clean a \<Longrightarrow> \<not> blank_arg a"
  by (auto simp: arg_clean_def blank_arg_def Let_def)

lemma sanitizeArgumentsForSave_clean [clean_intros]:
  "\<forall>a \<in> set (sanitizeArgumentsForSave args). arg_clean a"
  by (simp add: sanitize_closed arg_clean_sanitized)

lemma sanitizeArgumentsForSave_fixed:
  "\<forall>a \<in> set args. arg_clean a \<Longrightarrow> sanitizeArgumentsForSave args = args"
  by (simp add: sanitize_closed arg_clean_fixed arg_clean_not_blank map_idI)

lemma sanitizeArgumentsForSave_idem [simp]:
  "sanitizeArgumentsForSave (sanitizeArgumentsForSave args) = sanitizeArgumentsForSave args"
  by (rule sanitizeArgumentsForSave_fixed) (rule sanitizeArgumentsForSave_clean)

text \<open>C18. Every argument the sanitizer keeps has the form the server expects, and a list that
  already has it is left unchanged; so sanitizing twice is sanitizing once.\<close>

theorem sanitizeArgumentsForSave_spec:
  "(\<forall>a \<in> set (sanitizeArgumentsForSave args). arg_clean a) \<and>
   sanitizeArgumentsForSave (sanitizeArgumentsForSave args) = sanitizeArgumentsForSave args"
  by (simp add: sanitizeArgumentsForSave_clean)

section \<open>Expressions\<close>

text \<open>The reference: one pass over the tree that sanitizes every condition once.\<close>

fun sanitize_expr_once :: "cond_expr \<Rightarrow> cond_expr" where
  "sanitize_expr_once (CondExpr i errs opr neg cs es) =
     CondExpr i errs opr neg (map sanitize_condition cs) (map sanitize_expr_once es)"

lemma sanitize_transform_idem [simp]: "sanitize_transform (sanitize_transform t) = sanitize_transform t"
  by (simp add: sanitize_transform_def)

lemma sanitize_condition_idem [simp]: "sanitize_condition (sanitize_condition c) = sanitize_condition c"
  by (simp add: sanitize_condition_def)

lemma sanitize_expr_once_child:
  "sanitize_expr_once (sanitize_child_conditions e) = sanitize_expr_once e"
  by (cases e) simp

text \<open>The recursion over expressions sanitizes the conditions of every child twice; it still
  returns what a single pass over the tree returns.\<close>

theorem sanitizeExpressionAndChildren_eq: "sanitizeExpressionAndChildren e = sanitize_expr_once e"
proof (induction e rule: sanitizeExpressionAndChildren.induct)
  case (1 i errs opr neg cs es)
  then show ?case by (simp add: sanitize_expr_once_child)
qed

lemma sanitize_condition_clean [clean_intros]:
  "\<forall>a \<in> set (condition_arguments (sanitize_condition c)). arg_clean a"
  by (auto simp: condition_arguments_def sanitize_condition_def transforms_arguments_def
      sanitize_transform_def sanitizeArgumentsForSave_clean)

lemma sanitize_expr_once_clean [clean_intros]:
  "\<forall>a \<in> set (expr_arguments (sanitize_expr_once e)). arg_clean a"
proof (induction e rule: sanitize_expr_once.induct)
  case (1 i errs opr neg cs es)
  then show ?case by (auto simp: sanitize_condition_clean)
qed

lemma sanitize_expr_once_idem: "sanitize_expr_once (sanitize_expr_once e) = sanitize_expr_once e"
  by (induction e rule: sanitize_expr_once.induct) simp

section \<open>Selections as text and as paths\<close>

text \<open>\<open>setupGraph\<close> joins the path of the server for editing.\<close>

fun item_string :: "sel_item \<Rightarrow> string" where
  "item_string (SelStr s) = s"
| "item_string (SelNum n) = number_to_string n"

fun selection_to_text :: "selection nullable \<Rightarrow> selection nullable" where
  "selection_to_text (Val (SelPath p)) = Val (SelText (join ''.'' (map item_string p)))"
| "selection_to_text s = s"

definition argument_for_editor :: "argument \<Rightarrow> argument" where
  "argument_for_editor a = a\<lparr>arg_selection := selection_to_text (arg_selection a)\<rparr>"

text \<open>The paths that survive: natural numbers, and names that are no number, have no dot and no outer
  white space.\<close>

fun canonical_item :: "sel_item \<Rightarrow> bool" where
  "canonical_item (SelStr s) =
     (string_to_number s = NaN \<and> CHR ''.'' \<notin> set s \<and> trim s = s)"
| "canonical_item (SelNum (Fin q)) = (0 \<le> q \<and> of_int \<lfloor>q\<rfloor> = q)"
| "canonical_item _ = False"

lemma trim_ends: "trim s = s \<Longrightarrow> s \<noteq> [] \<Longrightarrow> \<not> is_ws (hd s) \<and> \<not> is_ws (last s)"
  unfolding trim_def
  by (metis dropWhile_eq_Nil_conv hd_dropWhile hd_rev last_rev rev_is_Nil_conv rev_rev_ident
      dropWhile_idem' dropWhile_eq_self_iff dropWhile_rev_drop)

lemma canonical_number:
  assumes "canonical_item (SelNum n)"
  obtains k where "n = Fin (of_nat k)"
proof (cases n)
  case (Fin q)
  with assms have "q = of_nat (nat \<lfloor>q\<rfloor>)"
    by (metis canonical_item.simps(2) of_int_of_nat_eq of_nat_nat zero_le_floor)
  with Fin that show ?thesis by blast
qed (use assms in auto)

lemma canonical_item_string:
  assumes "canonical_item i"
  shows "item_string i \<noteq> []" "CHR ''.'' \<notin> set (item_string i)"
    "\<not> is_ws (hd (item_string i))" "\<not> is_ws (last (item_string i))"
    "selection_item (item_string i) = i"
proof -
  have "item_string i \<noteq> [] \<and> CHR ''.'' \<notin> set (item_string i) \<and> \<not> is_ws (hd (item_string i)) \<and>
    \<not> is_ws (last (item_string i)) \<and> selection_item (item_string i) = i"
  proof (cases i)
    case (SelStr s)
    have "s \<noteq> []" using assms SelStr by (auto simp: string_to_number_def)
    with assms SelStr trim_ends[of s] show ?thesis by (simp add: selection_item_def)
  next
    case (SelNum n)
    with assms obtain k where n: "n = Fin (of_nat k)" by (auto elim: canonical_number)
    have d: "is_digit c" if "c \<in> set (nat_to_string k)" for c
      using nat_to_string_digits that .
    have "is_digit (hd (nat_to_string k))" "is_digit (last (nat_to_string k))"
      by (auto intro: d)
    moreover have "CHR ''.'' \<notin> set (nat_to_string k)"
      using d[of "CHR ''.''"] by (auto simp: is_digit_def)
    moreover have "item_string i = nat_to_string k"
      using SelNum n number_to_string_nat[of k] by (simp del: number_to_string.simps)
    ultimately show ?thesis
      using digit_not_special SelNum n by (simp add: selection_item_def del: number_to_string.simps)
  qed
  then show "item_string i \<noteq> []" "CHR ''.'' \<notin> set (item_string i)"
    "\<not> is_ws (hd (item_string i))" "\<not> is_ws (last (item_string i))"
    "selection_item (item_string i) = i" by auto
qed

lemma join_ends:
  assumes "xs \<noteq> []" "\<And>x. x \<in> set xs \<Longrightarrow> x \<noteq> []"
  shows "join sep xs \<noteq> [] \<and> hd (join sep xs) = hd (hd xs) \<and> last (join sep xs) = last (last xs)"
  using assms by (induction sep xs rule: join.induct) auto

lemma split_selection_join:
  assumes "\<forall>i \<in> set p. canonical_item i"
  shows "split_selection (join ''.'' (map item_string p)) = p"
proof (cases "p = []")
  case True
  then show ?thesis by (simp add: split_selection_def)
next
  case False
  let ?xs = "map item_string p" and ?s = "join ''.'' (map item_string p)"
  have ne: "\<And>x. x \<in> set ?xs \<Longrightarrow> x \<noteq> []" using assms canonical_item_string(1) by auto
  have h: "\<not> is_ws (hd (hd ?xs))" "\<not> is_ws (last (last ?xs))"
    using False assms canonical_item_string(3,4) by (simp_all add: hd_map last_map)
  have "trim ?s = ?s"
    using join_ends[of ?xs "''.''"] ne h False by (intro trim_outer) auto
  moreover have "split_on CHR ''.'' ?s = ?xs"
    using False assms canonical_item_string(2) by (intro split_on_join) auto
  moreover have "hd ?xs \<noteq> []" using False ne by (auto simp: hd_map)
  moreover have "map selection_item ?xs = p"
    using assms canonical_item_string(5) by (simp add: map_idI)
  ultimately show ?thesis by (simp add: split_selection_def)
qed


text \<open>An empty segment between two dots is not kept as a name: the empty string converts to the
  number zero, so the saved path reads index 0 there.\<close>

lemma empty_segment_becomes_zero:
  "split_selection ''a..b'' = [SelStr ''a'', SelNum (Fin 0), SelStr ''b'']"
  by code_simp

end
