(* ===== verification/AppApi.thy ===== *)
theory AppApi
  imports PlaybookModel
begin

text \<open>
  The interface descriptions the server sends for each app (\<^verbatim>\<open>models/api/*.ts\<close>)
  and the look-ups the playbook editor makes in them. Of a parameter schema, the properties the
  client reads are fields; of the schema of array items it only reads the type.
\<close>

section \<open>Data\<close>

datatype schema_items = NoItems | OneItem string | ManyItems "string list"

record parameter_schema =
  ps_type :: string
  ps_default :: jsval
  ps_minimum :: "rat nullable"
  ps_exclusiveMinimum :: bool
  ps_maximum :: "rat nullable"
  ps_exclusiveMaximum :: bool
  ps_multipleOf :: "rat nullable"
  ps_enum :: "string list nullable"
  ps_minLength :: "rat nullable"
  ps_maxLength :: "rat nullable"
  ps_pattern :: "string nullable"
  ps_items :: schema_items

definition plain_schema :: "string \<Rightarrow> parameter_schema" where
  "plain_schema t = \<lparr>ps_type = t, ps_default = JUndef, ps_minimum = Undefined,
     ps_exclusiveMinimum = False, ps_maximum = Undefined, ps_exclusiveMaximum = False,
     ps_multipleOf = Undefined, ps_enum = Undefined, ps_minLength = Undefined,
     ps_maxLength = Undefined, ps_pattern = Undefined, ps_items = NoItems\<rparr>"

record parameter_api =
  pa_name :: string
  pa_required :: bool
  pa_schema :: parameter_schema

record return_api =
  ret_status :: string
  ret_failure :: bool

record action_api =
  aa_name :: string
  aa_parameters :: "parameter_api list"
  aa_default_return :: "string nullable"
  aa_returns :: "return_api list"
  aa_event :: "string nullable"

record condition_api =
  ca_name :: string
  ca_parameters :: "parameter_api list"
  ca_returns :: "return_api list"
  ca_data_in :: string

record transform_api =
  ta_name :: string
  ta_parameters :: "parameter_api list"
  ta_returns :: "return_api list"
  ta_data_in :: string

record device_field_api =
  df_name :: string
  df_encrypted :: bool
  df_required :: bool
  df_schema :: parameter_schema

record device_api =
  da_name :: string
  da_fields :: "device_field_api list"

record app_api =
  app_name :: string
  app_action_apis :: "action_api list"
  app_condition_apis :: "condition_api list"
  app_transform_apis :: "transform_api list"
  app_device_apis :: "device_api list"

section \<open>Searching the actions of an app\<close>

definition getFilteredActionApis :: "app_api \<Rightarrow> string \<Rightarrow> action_api list" where
  "getFilteredActionApis app searchTerm =
     (let t = toLowerCase (trim searchTerm)
      in if t \<noteq> []
         then filter (\<lambda>api. str_includes (toLowerCase (aa_name api)) t \<or>
                            str_includes (toLowerCase (app_name app)) t) (app_action_apis app)
         else app_action_apis app)"

definition getAppsWithActions :: "app_api list \<Rightarrow> string \<Rightarrow> app_api list" where
  "getAppsWithActions apis actionFilter =
     filter (\<lambda>a. 0 < length (getFilteredActionApis a actionFilter)) apis"

lemma getFilteredActionApis_subset: "set (getFilteredActionApis app t) \<subseteq> set (app_action_apis app)"
  by (auto simp: getFilteredActionApis_def Let_def)

text \<open>A search term that names the app shows all of its actions; a blank term filters
  nothing; and any other term keeps exactly the actions whose name contains it.\<close>

theorem getFilteredActionApis_spec:
  "getFilteredActionApis app t =
     (if str_includes (toLowerCase (app_name app)) (toLowerCase (trim t)) then app_action_apis app
      else filter (\<lambda>a. str_includes (toLowerCase (aa_name a)) (toLowerCase (trim t))) (app_action_apis app))"
  by (auto simp: getFilteredActionApis_def Let_def)

section \<open>Look-ups\<close>

definition find_app :: "app_api list \<Rightarrow> string \<Rightarrow> app_api result" where
  "find_app apis n = deref (List.find (\<lambda>a. app_name a = n) apis)"

text \<open>\<open>_getAction\<close> throws for an unknown app and returns \<open>undefined\<close> for an
  unknown action of a known app.\<close>

definition getAction :: "app_api list \<Rightarrow> string \<Rightarrow> string \<Rightarrow> action_api option result" where
  "getAction apis appName actionName =
     bind_result (find_app apis appName)
       (\<lambda>a. Inr (List.find (\<lambda>x. aa_name x = actionName) (app_action_apis a)))"

text \<open>A property of the result of \<open>_getAction\<close>, as in
  \<open>_getAction(a, b).parameters\<close>.\<close>

definition getActionApi :: "app_api list \<Rightarrow> string \<Rightarrow> string \<Rightarrow> action_api result" where
  "getActionApi apis appName actionName = bind_result (getAction apis appName actionName) deref"

definition getConditionApis :: "app_api list \<Rightarrow> string \<Rightarrow> condition_api list result" where
  "getConditionApis apis n = bind_result (find_app apis n) (\<lambda>a. Inr (app_condition_apis a))"

definition getTransformApis :: "app_api list \<Rightarrow> string \<Rightarrow> transform_api list result" where
  "getTransformApis apis n = bind_result (find_app apis n) (\<lambda>a. Inr (app_transform_apis a))"

definition getDeviceApis :: "app_api list \<Rightarrow> string \<Rightarrow> device_api list result" where
  "getDeviceApis apis n = bind_result (find_app apis n) (\<lambda>a. Inr (app_device_apis a))"

definition getInputApiArgs :: "app_api list \<Rightarrow> string \<Rightarrow> string \<Rightarrow> string \<Rightarrow> parameter_api option result" where
  "getInputApiArgs apis appName actionName inputName =
     bind_result (getActionApi apis appName actionName)
       (\<lambda>a. Inr (List.find (\<lambda>p. pa_name p = inputName) (aa_parameters a)))"

lemma find_app_Inr: "find_app apis n = Inr a \<longleftrightarrow> List.find (\<lambda>x. app_name x = n) apis = Some a"
  by (simp add: find_app_def)

lemma find_app_known: "find_app apis n = Inr a \<Longrightarrow> a \<in> set apis \<and> app_name a = n"
  by (auto simp: find_app_Inr dest: find_SomeD)

lemma find_app_exists: "(\<exists>a. find_app apis n = Inr a) \<longleftrightarrow> n \<in> app_name ` set apis"
  using find_None_iff_key[of app_name n apis] by (cases "List.find (\<lambda>a. app_name a = n) apis") (auto simp: find_app_def)

lemma getActionApi_Inr:
  "getActionApi apis n m = Inr x \<longleftrightarrow>
     (\<exists>a. find_app apis n = Inr a \<and> List.find (\<lambda>x. aa_name x = m) (app_action_apis a) = Some x)"
  by (auto simp: getActionApi_def getAction_def bind_result_Inr_iff)

lemma getActionApi_known:
  "getActionApi apis n m = Inr x \<Longrightarrow>
     aa_name x = m \<and> (\<exists>a \<in> set apis. app_name a = n \<and> x \<in> set (app_action_apis a))"
  by (auto simp: getActionApi_Inr dest!: find_SomeD find_app_known)

section \<open>Arguments from parameter descriptions\<close>

definition default_value :: "parameter_schema \<Rightarrow> jsval" where
  "default_value s = (if \<not> nullish (ps_default s) then ps_default s else JNull)"

definition getDefaultArgument :: "parameter_api \<Rightarrow> argument" where
  "getDefaultArgument p = new_argument\<lparr>arg_name := Val (pa_name p),
     arg_value := default_value (pa_schema p), arg_reference := Val [],
     arg_selection := Val (SelText [])\<rparr>"

text \<open>The look-up that adds a default argument when none has the parameter's name; the element it
  runs on is an action, a condition or a transform.\<close>

definition get_or_add :: "parameter_api \<Rightarrow> argument list \<Rightarrow> argument \<times> argument list" where
  "get_or_add p args =
     (case List.find (\<lambda>a. arg_name a = Val (pa_name p)) args of
        Some a \<Rightarrow> (a, args)
      | None \<Rightarrow> (getDefaultArgument p, args @ [getDefaultArgument p]))"

definition getOrInitializeSelectedActionArgument :: "parameter_api \<Rightarrow> action \<Rightarrow> argument \<times> action" where
  "getOrInitializeSelectedActionArgument p act =
     (let (a, as) = get_or_add p (act_arguments act) in (a, act\<lparr>act_arguments := as\<rparr>))"

definition getOrInitializeConditionArgument :: "parameter_api \<Rightarrow> condition \<Rightarrow> argument \<times> condition" where
  "getOrInitializeConditionArgument p c =
     (let (a, as) = get_or_add p (cond_arguments c) in (a, c\<lparr>cond_arguments := as\<rparr>))"

definition getOrInitializeTransformArgument :: "parameter_api \<Rightarrow> transform \<Rightarrow> argument \<times> transform" where
  "getOrInitializeTransformArgument p t =
     (let (a, as) = get_or_add p (tr_arguments t) in (a, t\<lparr>tr_arguments := as\<rparr>))"

text \<open>What an element that holds arguments by name promises, and what follows for all three.\<close>

locale argument_holder =
  fixes args :: "'h \<Rightarrow> argument list"
    and get_or_init :: "parameter_api \<Rightarrow> 'h \<Rightarrow> argument \<times> 'h"
  assumes found: "List.find (\<lambda>a. arg_name a = Val (pa_name p)) (args h) = Some a \<Longrightarrow> get_or_init p h = (a, h)"
    and added: "List.find (\<lambda>a. arg_name a = Val (pa_name p)) (args h) = None \<Longrightarrow>
      fst (get_or_init p h) = getDefaultArgument p \<and>
      args (snd (get_or_init p h)) = args h @ [getDefaultArgument p]"
begin

lemma result_named: "arg_name (fst (get_or_init p h)) = Val (pa_name p)"
  by (cases "List.find (\<lambda>a. arg_name a = Val (pa_name p)) (args h)")
    (auto simp: found added getDefaultArgument_def dest: find_SomeD)

lemma result_held: "fst (get_or_init p h) \<in> set (args (snd (get_or_init p h)))"
  by (cases "List.find (\<lambda>a. arg_name a = Val (pa_name p)) (args h)")
    (auto simp: found added dest: find_SomeD)

lemma second_call: "get_or_init p (snd (get_or_init p h)) = (fst (get_or_init p h), snd (get_or_init p h))"
proof (cases "List.find (\<lambda>a. arg_name a = Val (pa_name p)) (args h)")
  case None
  have "List.find (\<lambda>a. arg_name a = Val (pa_name p)) (args (snd (get_or_init p h))) =
      Some (getDefaultArgument p)"
    using None added[OF None]
    by (auto simp: find_None_iff find_Some_iff nth_append getDefaultArgument_def
        intro!: exI[of _ "length (args h)"])
  with added[OF None] show ?thesis by (simp add: found)
qed (simp add: found)

lemma names_distinct:
  "distinct (map arg_name (args h)) \<Longrightarrow> distinct (map arg_name (args (snd (get_or_init p h))))"
proof (cases "List.find (\<lambda>a. arg_name a = Val (pa_name p)) (args h)")
  case None
  moreover assume "distinct (map arg_name (args h))"
  ultimately show ?thesis
    using added[OF None] by (auto simp: find_None_iff getDefaultArgument_def)
qed (simp add: found)

lemma keeps_existing: "set (args h) \<subseteq> set (args (snd (get_or_init p h)))"
  by (cases "List.find (\<lambda>a. arg_name a = Val (pa_name p)) (args h)") (auto simp: found added)

end

interpretation action_holder: argument_holder act_arguments getOrInitializeSelectedActionArgument
  by unfold_locales (auto simp: getOrInitializeSelectedActionArgument_def get_or_add_def)

interpretation condition_holder: argument_holder cond_arguments getOrInitializeConditionArgument
  by unfold_locales (auto simp: getOrInitializeConditionArgument_def get_or_add_def)

interpretation transform_holder: argument_holder tr_arguments getOrInitializeTransformArgument
  by unfold_locales (auto simp: getOrInitializeTransformArgument_def get_or_add_def)

text \<open>Asking an action for the argument of a parameter yields one of the parameter's name that
  the action then holds; asking again yields the same argument and changes nothing; the arguments
  that were there stay, and their names stay pairwise different.\<close>

theorem getOrInitializeSelectedActionArgument_spec:
  fixes act :: action and p :: parameter_api
  defines "r \<equiv> getOrInitializeSelectedActionArgument p act"
  shows "arg_name (fst r) = Val (pa_name p) \<and> fst r \<in> set (act_arguments (snd r)) \<and>
    set (act_arguments act) \<subseteq> set (act_arguments (snd r)) \<and>
    getOrInitializeSelectedActionArgument p (snd r) = r \<and>
    (distinct (map arg_name (act_arguments act)) \<longrightarrow> distinct (map arg_name (act_arguments (snd r))))"
  unfolding r_def
  using action_holder.result_named action_holder.result_held action_holder.keeps_existing
    action_holder.second_call action_holder.names_distinct by simp

end
