(* ===== verification/ExpressionEditor.thy ===== *)
theory ExpressionEditor
  imports AppApi
begin

text \<open>
  The components that edit conditional expressions:
  \<^verbatim>\<open>playbook/playbook.conditions.component.ts\<close>,
  \<^verbatim>\<open>playbook/playbook.transforms.component.ts\<close> and
  \<^verbatim>\<open>playbook/playbook.conditional.expression.component.ts\<close>. The two first are
  the same component over different descriptions; what they share is the locale
  \<open>api_selector\<close>. The list a component edits is a reference into the expression: the
  operations return the new list.
\<close>

section \<open>Moving and removing entries\<close>

text \<open>An entry moved past an end of the array leaves a hole: the elements after a move are
  \<open>option\<close>s, \<open>None\<close> being \<open>undefined\<close>.\<close>

definition moveUp :: "int \<Rightarrow> 'a list \<Rightarrow> 'a option list" where
  "moveUp index xs = (let idAbove = index - 1 in js_swap None (map Some xs) index idAbove)"

definition moveDown :: "int \<Rightarrow> 'a list \<Rightarrow> 'a option list" where
  "moveDown index xs = (let idBelow = index + 1 in js_swap None (map Some xs) index idBelow)"

lemma moveUp_in_range:
  "0 < i \<Longrightarrow> i < length xs \<Longrightarrow> moveUp (int i) xs = map Some (xs[i - 1 := xs ! i, i := xs ! (i - 1)])"
  by (simp add: moveUp_def js_swap_in_range map_update nat_diff_distrib' del: of_nat_diff)

lemma moveDown_in_range:
  "Suc i < length xs \<Longrightarrow> moveDown (int i) xs = map Some (xs[Suc i := xs ! i, i := xs ! Suc i])"
  by (simp add: moveDown_def js_swap_in_range map_update nat_add_distrib)

text \<open>Moving an entry up, for the indices the buttons are shown for, permutes the list, and
  moving it back down restores the order.\<close>

theorem move_up_down:
  assumes "0 < i" "i < length xs"
  shows "\<exists>ys. moveUp (int i) xs = map Some ys \<and> mset ys = mset xs \<and> moveDown (int (i - 1)) ys = map Some xs"
proof -
  let ?ys = "xs[i - 1 := xs ! i, i := xs ! (i - 1)]"
  have "moveDown (int (i - 1)) ?ys = map Some (?ys[i := ?ys ! (i - 1), i - 1 := ?ys ! i])"
    using moveDown_in_range[of "i - 1" ?ys] assms by simp
  moreover have "?ys[i := ?ys ! (i - 1), i - 1 := ?ys ! i] = xs"
    using assms by (auto simp: list_eq_iff_nth_eq nth_list_update)
  moreover have "mset ?ys = mset xs"
    using assms by (simp add: mset_swap)
  ultimately show ?thesis using moveUp_in_range[OF assms] by metis
qed

theorem move_up_down_witness:
  "\<exists>ys. moveUp (int 1) [10, 20, 30 :: nat] = map Some ys \<and> mset ys = mset [10, 20, 30] \<and>
     moveDown (int (1 - 1)) ys = map Some [10, 20, 30]"
  by (rule move_up_down) simp_all

text \<open>At the first entry \<open>moveUp\<close> reads and writes index \<open>-1\<close>: the entry is
  lost from the array.\<close>

lemma moveUp_first: "xs \<noteq> [] \<Longrightarrow> moveUp 0 xs = None # map Some (tl xs)"
  by (cases xs) (simp_all add: moveUp_def js_swap_def js_get_def js_set_def)

section \<open>The conditions component\<close>

record conditions_component =
  cc_selectedAppName :: string
  cc_conditions :: "condition list"
  cc_selectedConditionApi :: "string nullable"
  cc_appNamesWithConditions :: "string list"

definition resetConditionSelection ::
  "app_api list \<Rightarrow> string \<Rightarrow> conditions_component \<Rightarrow> conditions_component result" where
  "resetConditionSelection apis n s =
     bind_result (find_app apis n) (\<lambda>app.
       Inr (case app_condition_apis app of
              [] \<Rightarrow> s
            | c # _ \<Rightarrow> s\<lparr>cc_selectedConditionApi := Val (ca_name c)\<rparr>))"

text \<open>The app that is selected when the component opens: the given one if it has any entries, else
  the first app that has, else the given one.\<close>

definition initial_app :: "app_api list \<Rightarrow> string \<Rightarrow> string" where
  "initial_app withEntries selected =
     (if List.find (\<lambda>a. app_name a = selected) withEntries = None
      then (case withEntries of [] \<Rightarrow> selected | a # _ \<Rightarrow> app_name a)
      else selected)"

definition conditions_ngOnInit ::
  "app_api list \<Rightarrow> conditions_component \<Rightarrow> conditions_component result" where
  "conditions_ngOnInit apis s =
     (let withConditions = filter (\<lambda>a. app_condition_apis a \<noteq> []) apis;
          n = initial_app withConditions (cc_selectedAppName s)
      in resetConditionSelection apis n
           (s\<lparr>cc_selectedAppName := n, cc_appNamesWithConditions := map app_name withConditions\<rparr>))"

definition new_condition :: "string \<Rightarrow> string \<Rightarrow> condition" where
  "new_condition appName actionName = \<lparr>cond_id = Undefined, cond_errors = [],
     cond_app_name = appName, cond_action_name = actionName, cond_is_negated = Undefined,
     cond_arguments = [], cond_transforms = []\<rparr>"

definition addCondition :: "conditions_component \<Rightarrow> conditions_component" where
  "addCondition s =
     (if cc_selectedAppName s = [] \<or> \<not> truthy_str (cc_selectedConditionApi s) then s
      else case cc_selectedConditionApi s of
             Val c \<Rightarrow> s\<lparr>cc_conditions := cc_conditions s @ [new_condition (cc_selectedAppName s) c]\<rparr>
           | _ \<Rightarrow> s)"

definition removeCondition :: "int \<Rightarrow> conditions_component \<Rightarrow> conditions_component" where
  "removeCondition i s = s\<lparr>cc_conditions := splice1 i (cc_conditions s)\<rparr>"

definition getConditionNamesForApp :: "app_api list \<Rightarrow> conditions_component \<Rightarrow> string list result" where
  "getConditionNamesForApp apis s =
     bind_result (find_app apis (cc_selectedAppName s)) (\<lambda>a. Inr (map ca_name (app_condition_apis a)))"

text \<open>\<open>getConditionApi\<close> filters the \<open>data_in\<close> parameter out of the description
  itself, so it also returns the changed descriptions.\<close>

definition drop_data_in :: "string \<Rightarrow> parameter_api list \<Rightarrow> parameter_api list" where
  "drop_data_in d ps = filter (\<lambda>p. pa_name p \<noteq> d) ps"

definition getConditionApi ::
  "app_api list \<Rightarrow> string \<Rightarrow> string \<Rightarrow> (condition_api \<times> app_api list) result" where
  "getConditionApi apis appName conditionName =
     bind_result (find_app apis appName) (\<lambda>app.
     bind_result (deref (List.find (\<lambda>c. ca_name c = conditionName) (app_condition_apis app))) (\<lambda>c.
       let upd = (\<lambda>x. x\<lparr>ca_parameters := drop_data_in (ca_data_in x) (ca_parameters x)\<rparr>)
       in Inr (upd c,
               update_first (\<lambda>a. app_name a = appName)
                 (\<lambda>a. a\<lparr>app_condition_apis :=
                    update_first (\<lambda>x. ca_name x = conditionName) upd (app_condition_apis a)\<rparr>) apis)))"

section \<open>The transforms component\<close>

record transforms_component =
  tc_selectedAppName :: string
  tc_transforms :: "transform list"
  tc_selectedTransformApi :: "string nullable"
  tc_appNamesWithTransforms :: "string list"

definition resetTransformSelection ::
  "app_api list \<Rightarrow> string \<Rightarrow> transforms_component \<Rightarrow> transforms_component result" where
  "resetTransformSelection apis n s =
     bind_result (find_app apis n) (\<lambda>app.
       Inr (case app_transform_apis app of
              [] \<Rightarrow> s
            | c # _ \<Rightarrow> s\<lparr>tc_selectedTransformApi := Val (ta_name c)\<rparr>))"

definition transforms_ngOnInit ::
  "app_api list \<Rightarrow> transforms_component \<Rightarrow> transforms_component result" where
  "transforms_ngOnInit apis s =
     (let withTransforms = filter (\<lambda>a. app_transform_apis a \<noteq> []) apis;
          n = initial_app withTransforms (tc_selectedAppName s)
      in resetTransformSelection apis n
           (s\<lparr>tc_selectedAppName := n, tc_appNamesWithTransforms := map app_name withTransforms\<rparr>))"

definition new_transform :: "string \<Rightarrow> string \<Rightarrow> transform" where
  "new_transform appName actionName = \<lparr>tr_id = Undefined, tr_errors = [],
     tr_app_name = appName, tr_action_name = actionName, tr_arguments = []\<rparr>"

definition addTransform :: "transforms_component \<Rightarrow> transforms_component" where
  "addTransform s =
     (if tc_selectedAppName s = [] \<or> \<not> truthy_str (tc_selectedTransformApi s) then s
      else case tc_selectedTransformApi s of
             Val c \<Rightarrow> s\<lparr>tc_transforms := tc_transforms s @ [new_transform (tc_selectedAppName s) c]\<rparr>
           | _ \<Rightarrow> s)"

definition removeTransform :: "int \<Rightarrow> transforms_component \<Rightarrow> transforms_component" where
  "removeTransform i s = s\<lparr>tc_transforms := splice1 i (tc_transforms s)\<rparr>"

definition getTransformNamesForApp :: "app_api list \<Rightarrow> transforms_component \<Rightarrow> string list result" where
  "getTransformNamesForApp apis s =
     bind_result (find_app apis (tc_selectedAppName s)) (\<lambda>a. Inr (map ta_name (app_transform_apis a)))"

definition getTransformApi ::
  "app_api list \<Rightarrow> string \<Rightarrow> string \<Rightarrow> (transform_api \<times> app_api list) result" where
  "getTransformApi apis appName transformName =
     bind_result (find_app apis appName) (\<lambda>app.
     bind_result (deref (List.find (\<lambda>c. ta_name c = transformName) (app_transform_apis app))) (\<lambda>c.
       let upd = (\<lambda>x. x\<lparr>ta_parameters := drop_data_in (ta_data_in x) (ta_parameters x)\<rparr>)
       in Inr (upd c,
               update_first (\<lambda>a. app_name a = appName)
                 (\<lambda>a. a\<lparr>app_transform_apis :=
                    update_first (\<lambda>x. ta_name x = transformName) upd (app_transform_apis a)\<rparr>) apis)))"

section \<open>Opening a component\<close>

locale api_selector =
  fixes entries :: "app_api \<Rightarrow> 'b list"
    and entry_name :: "'b \<Rightarrow> string"
    and selected :: "'s \<Rightarrow> string"
    and choice :: "'s \<Rightarrow> string nullable"
    and open_on :: "app_api list \<Rightarrow> 's \<Rightarrow> 's result"
  assumes open_unknown:
      "find_app apis (initial_app (filter (\<lambda>a. entries a \<noteq> []) apis) (selected s)) = Inl e \<Longrightarrow>
       open_on apis s = Inl e"
    and open_known:
      "find_app apis (initial_app (filter (\<lambda>a. entries a \<noteq> []) apis) (selected s)) = Inr app \<Longrightarrow>
       \<exists>s'. open_on apis s = Inr s' \<and>
         selected s' = initial_app (filter (\<lambda>a. entries a \<noteq> []) apis) (selected s) \<and>
         choice s' = (case entries app of [] \<Rightarrow> choice s | c # _ \<Rightarrow> Val (entry_name c))"
begin

abbreviation with_entries :: "app_api list \<Rightarrow> app_api list" where
  "with_entries apis \<equiv> filter (\<lambda>a. entries a \<noteq> []) apis"

lemma initial_app_has_entries:
  assumes "with_entries apis \<noteq> []"
  shows "\<exists>a \<in> set apis. app_name a = initial_app (with_entries apis) (selected s) \<and> entries a \<noteq> []"
proof (cases "List.find (\<lambda>a. app_name a = selected s) (with_entries apis)")
  case None
  with assms show ?thesis
    by (cases "with_entries apis") (auto simp: initial_app_def filter_eq_Cons_iff)
next
  case (Some a)
  then show ?thesis by (auto simp: initial_app_def dest!: find_SomeD)
qed

lemma open_total_iff:
  "(\<exists>s'. open_on apis s = Inr s') \<longleftrightarrow>
     with_entries apis \<noteq> [] \<or> selected s \<in> app_name ` set apis"
proof (cases "with_entries apis = []")
  case True
  then have n: "initial_app (with_entries apis) (selected s) = selected s"
    by (simp add: initial_app_def)
  show ?thesis
  proof (cases "find_app apis (selected s)")
    case (Inl e)
    with n True open_unknown[of apis s e] find_app_exists[of apis "selected s"] show ?thesis by auto
  next
    case (Inr a)
    with n True open_known[of apis s a] find_app_exists[of apis "selected s"] show ?thesis by auto
  qed
next
  case False
  then obtain a where "find_app apis (initial_app (with_entries apis) (selected s)) = Inr a"
    using initial_app_has_entries[OF False, of s] find_app_exists by (metis image_eqI)
  with False open_known[of apis s a] show ?thesis by auto
qed

lemma open_selects_first:
  assumes "with_entries apis \<noteq> []" and "distinct (map app_name apis)" and "open_on apis s = Inr s'"
  shows "\<exists>a \<in> set apis. app_name a = selected s' \<and> entries a \<noteq> [] \<and>
    choice s' = Val (entry_name (hd (entries a)))"
proof -
  let ?n = "initial_app (with_entries apis) (selected s)"
  obtain a where a: "a \<in> set apis" "app_name a = ?n" "entries a \<noteq> []"
    using initial_app_has_entries[OF assms(1), of s] by auto
  then have "find_app apis ?n = Inr a"
    using find_distinct_key[OF assms(2) a(1)] by (simp add: find_app_Inr)
  from open_known[OF this] assms(3) a show ?thesis by (auto split: list.splits)
qed

end

interpretation conditions_selector: api_selector app_condition_apis ca_name
    cc_selectedAppName cc_selectedConditionApi conditions_ngOnInit
proof
  fix apis and s :: conditions_component and e app
  let ?n = "initial_app (filter (\<lambda>a. app_condition_apis a \<noteq> []) apis) (cc_selectedAppName s)"
  show "find_app apis ?n = Inl e \<Longrightarrow> conditions_ngOnInit apis s = Inl e"
    by (simp add: conditions_ngOnInit_def resetConditionSelection_def Let_def)
  show "\<exists>s'. conditions_ngOnInit apis s = Inr s' \<and> cc_selectedAppName s' = ?n \<and>
      cc_selectedConditionApi s' = (case app_condition_apis app of
        [] \<Rightarrow> cc_selectedConditionApi s | c # _ \<Rightarrow> Val (ca_name c))" if "find_app apis ?n = Inr app"
    using that
    by (simp add: conditions_ngOnInit_def resetConditionSelection_def Let_def split: list.split)
qed

interpretation transforms_selector: api_selector app_transform_apis ta_name
    tc_selectedAppName tc_selectedTransformApi transforms_ngOnInit
proof
  fix apis and s :: transforms_component and e app
  let ?n = "initial_app (filter (\<lambda>a. app_transform_apis a \<noteq> []) apis) (tc_selectedAppName s)"
  show "find_app apis ?n = Inl e \<Longrightarrow> transforms_ngOnInit apis s = Inl e"
    by (simp add: transforms_ngOnInit_def resetTransformSelection_def Let_def)
  show "\<exists>s'. transforms_ngOnInit apis s = Inr s' \<and> tc_selectedAppName s' = ?n \<and>
      tc_selectedTransformApi s' = (case app_transform_apis app of
        [] \<Rightarrow> tc_selectedTransformApi s | c # _ \<Rightarrow> Val (ta_name c))" if "find_app apis ?n = Inr app"
    using that
    by (simp add: transforms_ngOnInit_def resetTransformSelection_def Let_def split: list.split)
qed

text \<open>The conditions component opens without an exception exactly when some app has
  conditions or the action's own app is known; otherwise the look-up of the app fails.\<close>

theorem conditions_ngOnInit_total:
  "(\<exists>s'. conditions_ngOnInit apis s = Inr s') \<longleftrightarrow>
     (\<exists>a \<in> set apis. app_condition_apis a \<noteq> [] \<or> app_name a = cc_selectedAppName s)"
  by (auto simp: conditions_selector.open_total_iff filter_empty_conv image_iff) metis

text \<open>When it opens and some app has conditions, the preselected condition is the first one of the
  selected app.\<close>

lemmas conditions_open_selects_first = conditions_selector.open_selects_first
lemmas transforms_open_selects_first = transforms_selector.open_selects_first

section \<open>Dropping the input parameter\<close>

lemma drop_data_in_idem [simp]: "drop_data_in d (drop_data_in d ps) = drop_data_in d ps"
  by (simp add: drop_data_in_def)

text \<open>The description of a condition is handed out without its input parameter, and although
  the call changes the shared descriptions, repeating it gives the same description and changes
  nothing further.\<close>

theorem getConditionApi_stable:
  assumes "getConditionApi apis appName conditionName = Inr (c, apis')"
  shows "(\<forall>p \<in> set (ca_parameters c). pa_name p \<noteq> ca_data_in c) \<and> ca_name c = conditionName \<and>
    getConditionApi apis' appName conditionName = Inr (c, apis')"
proof -
  let ?upd = "\<lambda>x. x\<lparr>ca_parameters := drop_data_in (ca_data_in x) (ca_parameters x)\<rparr>"
  let ?cs = "update_first (\<lambda>x. ca_name x = conditionName) ?upd"
  let ?app = "\<lambda>a. a\<lparr>app_condition_apis := ?cs (app_condition_apis a)\<rparr>"
  from assms obtain app c0 where
    app: "List.find (\<lambda>x. app_name x = appName) apis = Some app" and
    c0: "List.find (\<lambda>x. ca_name x = conditionName) (app_condition_apis app) = Some c0" and
    c: "c = ?upd c0" and apis': "apis' = update_first (\<lambda>a. app_name a = appName) ?app apis"
    by (auto simp: getConditionApi_def bind_result_Inr_iff find_app_Inr Let_def)
  have app': "List.find (\<lambda>x. app_name x = appName) apis' = Some (?app app)"
    using app by (simp add: apis' find_update_first)
  have c': "List.find (\<lambda>x. ca_name x = conditionName) (app_condition_apis (?app app)) = Some c"
    using c0 by (simp add: find_update_first c)
  have "update_first (\<lambda>a. app_name a = appName) ?app apis' = apis'"
    by (simp add: apis' update_first_twice)
  then show ?thesis
    using app' c' find_SomeD[OF c0] c
    by (auto simp: getConditionApi_def find_app_def drop_data_in_def)
qed

section \<open>The conditional expression component\<close>

definition conditional_expression_ngOnInit :: "cond_expr option \<Rightarrow> cond_expr option" where
  "conditional_expression_ngOnInit e =
     (case e of
        Some (CondExpr i errs opr neg cs es) \<Rightarrow>
          Some (CondExpr i errs (if truthy_str opr then opr else Val ''and'') neg cs es)
      | None \<Rightarrow> None)"

definition addChildExpression :: "cond_expr \<Rightarrow> cond_expr" where
  "addChildExpression e = CondExpr (ce_id e) (ce_errors e) (ce_operator e) (ce_is_negated e)
     (ce_conditions e) (ce_children e @ [new_cond_expr])"

definition removeChildExpression :: "int \<Rightarrow> cond_expr \<Rightarrow> cond_expr" where
  "removeChildExpression i e = CondExpr (ce_id e) (ce_errors e) (ce_operator e) (ce_is_negated e)
     (ce_conditions e) (splice1 i (ce_children e))"

lemma removeChild_addChild:
  "removeChildExpression (int (length (ce_children e))) (addChildExpression e) = e"
  by (cases e) (simp add: removeChildExpression_def addChildExpression_def splice1_in_range)

section \<open>The same operations on transforms and child expressions\<close>

definition moveTransformUp :: "int \<Rightarrow> transforms_component \<Rightarrow> transform option list" where
  "moveTransformUp index s =
     (let idAbove = index - 1 in js_swap None (map Some (tc_transforms s)) index idAbove)"

definition moveTransformDown :: "int \<Rightarrow> transforms_component \<Rightarrow> transform option list" where
  "moveTransformDown index s =
     (let idBelow = index + 1 in js_swap None (map Some (tc_transforms s)) index idBelow)"

definition moveExpressionUp :: "int \<Rightarrow> cond_expr \<Rightarrow> cond_expr option list" where
  "moveExpressionUp index e =
     (let idAbove = index - 1 in js_swap None (map Some (ce_children e)) index idAbove)"

definition moveExpressionDown :: "int \<Rightarrow> cond_expr \<Rightarrow> cond_expr option list" where
  "moveExpressionDown index e =
     (let idBelow = index + 1 in js_swap None (map Some (ce_children e)) index idBelow)"

lemma move_transform_expression:
  "moveTransformUp i s = moveUp i (tc_transforms s)" "moveTransformDown i s = moveDown i (tc_transforms s)"
  "moveExpressionUp i e = moveUp i (ce_children e)" "moveExpressionDown i e = moveDown i (ce_children e)"
  by (simp_all add: moveTransformUp_def moveTransformDown_def moveExpressionUp_def moveExpressionDown_def
      moveUp_def moveDown_def)

text \<open>The default argument of a condition and of a transform.\<close>

definition condition_getDefaultArgument :: "parameter_api \<Rightarrow> argument" where
  "condition_getDefaultArgument p = new_argument\<lparr>arg_name := Val (pa_name p),
     arg_value := (if nullish (ps_default (pa_schema p)) then JNull else ps_default (pa_schema p)),
     arg_reference := Val [], arg_selection := Val (SelText [])\<rparr>"

definition transform_getDefaultArgument :: "parameter_api \<Rightarrow> argument" where
  "transform_getDefaultArgument p = new_argument\<lparr>arg_name := Val (pa_name p),
     arg_value := (if nullish (ps_default (pa_schema p)) then JNull else ps_default (pa_schema p)),
     arg_reference := Val [], arg_selection := Val (SelText [])\<rparr>"

lemma default_arguments_agree:
  "condition_getDefaultArgument p = getDefaultArgument p" "transform_getDefaultArgument p = getDefaultArgument p"
  by (simp_all add: condition_getDefaultArgument_def transform_getDefaultArgument_def getDefaultArgument_def
      default_value_def)

end
