(* ===== verification/WorkflowGraph.thy ===== *)
theory WorkflowGraph
  imports Sanitize AppApi
begin

text \<open>
  Editing the workflow that is loaded (\<^verbatim>\<open>playbook/playbook.component.ts\<close>): what the
  graph events do to its actions, branches and start action.

  The graph itself is kept by cytoscape, a third-party library. A handler takes from it what its
  event carries (the id of a node, the ends of an edge) and what it asks for (the roots, the number
  of nodes); what a handler tells it to do is returned as a list of \<open>cy_command\<close>s. Fresh
  identifiers (\<open>UUID.UUID()\<close>) are arguments.
\<close>

section \<open>Commands to the graph\<close>

datatype cy_selector =
    AllElements
  | StartNodes                  \<comment> \<open>\<open>node[?isStartNode]\<close>\<close>
  | NodeWithId string           \<comment> \<open>\<open>node[_id="..."]\<close>\<close>
  | ElementsOtherThan string    \<comment> \<open>\<open>[_id!="..."]\<close>\<close>
  | SelectedElements            \<comment> \<open>\<open>:selected\<close>\<close>

record cy_node =
  nd_id :: string
  nd_label :: string
  nd_type :: string
  nd_isStartNode :: bool
  nd_hasErrors :: bool
  nd_position :: "graph_position nullable"
  nd_renderedPosition :: "graph_position nullable"

record cy_edge =
  ed_id :: string
  ed_source :: string
  ed_target :: string
  ed_hasErrors :: bool

datatype cy_command =
    SetData cy_selector string jsval
  | Unselect cy_selector
  | AddClass cy_selector string
  | RemoveClass cy_selector string
  | AddElements "cy_node list" "cy_edge list"
  | RemoveAdded
  | UrDoAddNode cy_node
  | UrDoAddEdges
  | UrDoRemoveSelected

section \<open>The start action\<close>

definition setStartNode :: "string list \<Rightarrow> string nullable \<Rightarrow> workflow \<Rightarrow> workflow \<times> cy_command list" where
  "setStartNode roots start w =
     ((if truthy_str start then w\<lparr>wf_start := start\<rparr>
       else case roots of [] \<Rightarrow> w | r # _ \<Rightarrow> w\<lparr>wf_start := Val r\<rparr>),
      [SetData StartNodes ''isStartNode'' (JBool False),
       SetData (NodeWithId (template start)) ''isStartNode'' (JBool True)])"

text \<open>\<open>onNodeAdded\<close>: the event's element, whether it is a node, and the number of nodes.\<close>

definition onNodeAdded ::
  "bool \<Rightarrow> nat \<Rightarrow> string \<Rightarrow> string list \<Rightarrow> workflow \<Rightarrow> workflow \<times> cy_command list" where
  "onNodeAdded isNode nodeCount nodeId roots w =
     (if isNode \<and> nodeCount = 1 then setStartNode roots (Val nodeId) w else (w, []))"

text \<open>\<open>onNodeRemoved\<close>; the selected action is given and returned by its id.\<close>

definition onNodeRemoved ::
  "bool \<Rightarrow> string \<Rightarrow> string list \<Rightarrow> string option \<Rightarrow> workflow \<Rightarrow>
   workflow \<times> string option \<times> cy_command list" where
  "onNodeRemoved isNode nodeId roots selectedAction w =
     (let (w1, cmds) = (if isNode \<and> wf_start w = Val nodeId then setStartNode roots Null w else (w, []));
          sel = (if selectedAction = Some nodeId then None else selectedAction)
      in (w1\<lparr>wf_actions := filter (\<lambda>a. act_id a \<noteq> nodeId) (wf_actions w1),
             wf_branches := filter (\<lambda>b. \<not> (br_source_id b = nodeId \<or> br_destination_id b = nodeId)) (wf_branches w1)\<rparr>,
          sel, cmds))"

section \<open>Edges\<close>

text \<open>\<open>onEdgeRemove\<close>: no data and temporary edges are ignored.\<close>

definition onEdgeRemove :: "(bool \<times> string \<times> string) option \<Rightarrow> workflow \<Rightarrow> workflow" where
  "onEdgeRemove edgeData w =
     (case edgeData of
        None \<Rightarrow> w
      | Some (temp, sourceId, destinationId) \<Rightarrow>
          if temp then w
          else w\<lparr>wf_branches := filter (\<lambda>b. \<not> (br_source_id b = sourceId \<and> br_destination_id b = destinationId)) (wf_branches w)\<rparr>)"

definition has_branch :: "string \<Rightarrow> string \<Rightarrow> branch list \<Rightarrow> bool" where
  "has_branch s d bs = list_ex (\<lambda>b. br_source_id b = s \<and> br_destination_id b = d) bs"

definition default_status :: "action_api \<Rightarrow> string" where
  "default_status api =
     (case aa_default_return api of
        Val s \<Rightarrow> if s \<noteq> [] then s else (case aa_returns api of [] \<Rightarrow> [] | r # _ \<Rightarrow> ret_status r)
      | _ \<Rightarrow> (case aa_returns api of [] \<Rightarrow> [] | r # _ \<Rightarrow> ret_status r))"

text \<open>
  The completion of a drawn edge runs over the target nodes. It returns early when the branch exists
  already, throws when the source action or its description is unknown, and the branches it has
  pushed by then stay.
\<close>

datatype edge_outcome = EdgesAdded | DuplicateEdge | EdgeError js_error

fun edge_complete ::
  "app_api list \<Rightarrow> string \<Rightarrow> (string \<times> string) list \<Rightarrow> workflow \<Rightarrow> workflow \<times> edge_outcome" where
  "edge_complete apis sourceId [] w = (w, EdgesAdded)"
| "edge_complete apis sourceId ((tempId, destinationId) # ts) w =
     (if has_branch sourceId destinationId (wf_branches w) then (w, DuplicateEdge)
      else case bind_result (deref (findActionById w sourceId))
                  (\<lambda>a. getActionApi apis (act_app_name a) (act_action_name a)) of
             Inl e \<Rightarrow> (w, EdgeError e)
           | Inr api \<Rightarrow>
               edge_complete apis sourceId ts
                 (w\<lparr>wf_branches := wf_branches w @
                     [\<lparr>br_id = tempId, br_errors = [], br_source_id = sourceId,
                       br_destination_id = destinationId, br_status = default_status api,
                       br_priority = 1, br_condition = None\<rparr>]\<rparr>))"

definition edge_commands :: "edge_outcome \<Rightarrow> cy_command list" where
  "edge_commands r = (case r of EdgesAdded \<Rightarrow> [RemoveAdded, UrDoAddEdges]
     | DuplicateEdge \<Rightarrow> [RemoveAdded] | EdgeError e \<Rightarrow> [])"

section \<open>New and pasted nodes\<close>

definition new_action :: action where
  "new_action = \<lparr>act_id = [], act_errors = [], act_name = [], act_position = Undefined,
     act_app_name = [], act_action_name = [], act_device_id = Some new_argument,
     act_risk = Undefined, act_arguments = [], act_trigger = None\<rparr>"

definition node_type :: "app_api list \<Rightarrow> action \<Rightarrow> string result" where
  "node_type apis a =
     bind_result (getActionApi apis (act_app_name a) (act_action_name a))
       (\<lambda>api. Inr (if truthy_str (aa_event api) then ''eventAction'' else ''action''))"

definition uniqueActionName :: "workflow \<Rightarrow> string \<Rightarrow> string" where
  "uniqueActionName w actionName =
     (let n = length (filter (\<lambda>a. act_action_name a = actionName) (wf_actions w))
      in if n \<noteq> 0 then actionName @ '' '' @ nat_to_string (n + 1) else actionName)"

definition insertNode ::
  "app_api list \<Rightarrow> string \<Rightarrow> string \<Rightarrow> string \<Rightarrow> graph_position \<Rightarrow> bool \<Rightarrow> workflow \<Rightarrow>
   (workflow \<times> cy_command list) result" where
  "insertNode apis newActionUuid appName actionName location useRendered w =
     bind_result (getActionApi apis appName actionName) (\<lambda>api.
       if appName = [] \<or> actionName = [] then Inl TypeError
       else
         let a = new_action\<lparr>act_id := newActionUuid, act_name := uniqueActionName w actionName,
                   act_app_name := appName, act_action_name := actionName,
                   act_arguments := map getDefaultArgument (aa_parameters api)\<rparr>
         in bind_result (node_type apis a) (\<lambda>t.
              Inr (w\<lparr>wf_actions := wf_actions w @ [a]\<rparr>,
                   [UrDoAddNode \<lparr>nd_id = newActionUuid, nd_label = act_name a, nd_type = t,
                      nd_isStartNode = False, nd_hasErrors = False,
                      nd_position = (if useRendered then Null else Val location),
                      nd_renderedPosition = (if useRendered then Val location else Null)\<rparr>])))"

text \<open>
  \<open>paste\<close>: for every new node, the action it was copied from (found by the copied
  \<open>_id\<close>) is cloned under a new id. The node ids are those the undo/redo extension
  returns.
\<close>

definition paste_action :: "string \<Rightarrow> action \<Rightarrow> action" where
  "paste_action uuid a = a\<lparr>act_id := uuid,
     act_arguments := map (\<lambda>x. x\<lparr>arg_id := Undefined\<rparr>) (act_arguments a)\<rparr>"

fun paste :: "(string \<times> string) list \<Rightarrow> workflow \<Rightarrow> workflow \<times> js_error option" where
  "paste [] w = (w, None)"
| "paste ((nodeId, uuid) # ns) w =
     (case findActionById w nodeId of
        None \<Rightarrow> (w, Some TypeError)
      | Some a \<Rightarrow> paste ns (w\<lparr>wf_actions := wf_actions w @ [paste_action uuid a]\<rparr>))"

section \<open>Triggers and conditions\<close>

definition specifyTrigger :: "action \<Rightarrow> action" where
  "specifyTrigger a = (case act_trigger a of Some _ \<Rightarrow> a | None \<Rightarrow> a\<lparr>act_trigger := Some new_cond_expr\<rparr>)"

definition removeTrigger :: "action \<Rightarrow> action" where
  "removeTrigger a = a\<lparr>act_trigger := None\<rparr>"

definition specifyCondition :: "branch \<Rightarrow> branch" where
  "specifyCondition b = (case br_condition b of Some _ \<Rightarrow> b | None \<Rightarrow> b\<lparr>br_condition := Some new_cond_expr\<rparr>)"

definition removeBranchCondition :: "branch \<Rightarrow> branch" where
  "removeBranchCondition b = b\<lparr>br_condition := None\<rparr>"

section \<open>Showing a workflow\<close>

text \<open>\<open>setupGraph\<close>: selections of the action arguments become text, every branch an edge,
  every action a node, and the start action is marked.\<close>

definition action_for_editor :: "action \<Rightarrow> action" where
  "action_for_editor a = a\<lparr>act_arguments := map argument_for_editor (act_arguments a)\<rparr>"

definition branch_edge :: "branch \<Rightarrow> cy_edge" where
  "branch_edge b = \<lparr>ed_id = br_id b, ed_source = br_source_id b, ed_target = br_destination_id b,
     ed_hasErrors = has_errors (branch_all_errors b)\<rparr>"

text \<open>The position is copied through JSON, which throws for an action that has none.\<close>

fun clone_position :: "graph_position nullable \<Rightarrow> graph_position nullable result" where
  "clone_position Undefined = Inl (ErrorMsg ''Unexpected token u in JSON at position 0'')"
| "clone_position p = Inr p"

definition action_node :: "app_api list \<Rightarrow> string nullable \<Rightarrow> action \<Rightarrow> cy_node result" where
  "action_node apis start a =
     bind_result (clone_position (act_position a)) (\<lambda>p. bind_result (node_type apis a) (\<lambda>t.
       Inr \<lparr>nd_id = act_id a, nd_label = act_name a, nd_type = t,
            nd_isStartNode = (Val (act_id a) = start),
            nd_hasErrors = has_errors (action_all_errors a), nd_position = p,
            nd_renderedPosition = Undefined\<rparr>))"

definition setupGraph :: "app_api list \<Rightarrow> string list \<Rightarrow> workflow \<Rightarrow> (workflow \<times> cy_command list) result" where
  "setupGraph apis roots w0 =
     (let w = w0\<lparr>wf_actions := map action_for_editor (wf_actions w0)\<rparr>
      in bind_result (map_result (action_node apis (wf_start w)) (wf_actions w)) (\<lambda>nodes.
           let (w', cmds) = setStartNode roots (wf_start w) w
           in Inr (w', AddElements nodes (map branch_edge (wf_branches w)) # cmds)))"

end
