(* ===== verification/Samples.thy ===== *)
theory Samples
  imports WorkflowGraph
begin

text \<open>
  A small app description and a workflow over it, at which the theorems with hypotheses are
  instantiated: two log actions joined by a branch, the second one referring to an environment
  variable.
\<close>

definition sample_parameter :: parameter_api where
  "sample_parameter = \<lparr>pa_name = ''message'', pa_required = True, pa_schema = plain_schema ''string''\<rparr>"

definition sample_log :: action_api where
  "sample_log = \<lparr>aa_name = ''log'', aa_parameters = [sample_parameter], aa_default_return = Undefined,
     aa_returns = [\<lparr>ret_status = ''Success'', ret_failure = False\<rparr>], aa_event = Undefined\<rparr>"

definition sample_condition_api :: condition_api where
  "sample_condition_api = \<lparr>ca_name = ''regMatch'',
     ca_parameters = [\<lparr>pa_name = ''value'', pa_required = True, pa_schema = plain_schema ''string''\<rparr>,
                      \<lparr>pa_name = ''regex'', pa_required = True, pa_schema = plain_schema ''string''\<rparr>],
     ca_returns = [], ca_data_in = ''value''\<rparr>"

definition sample_app :: app_api where
  "sample_app = \<lparr>app_name = ''Utils'', app_action_apis = [sample_log],
     app_condition_apis = [sample_condition_api], app_transform_apis = [], app_device_apis = []\<rparr>"

definition sample_argument :: "string nullable \<Rightarrow> jsval \<Rightarrow> argument" where
  "sample_argument r v = new_argument\<lparr>arg_name := Val ''message'', arg_value := v, arg_reference := r,
     arg_selection := Val (SelText [])\<rparr>"

definition sample_action :: "string \<Rightarrow> string \<Rightarrow> argument list \<Rightarrow> action" where
  "sample_action i n args = new_action\<lparr>act_id := i, act_name := n, act_app_name := ''Utils'',
     act_action_name := ''log'', act_arguments := args\<rparr>"

definition sample_branch :: "string \<Rightarrow> string \<Rightarrow> string \<Rightarrow> branch" where
  "sample_branch i s d = \<lparr>br_id = i, br_errors = [], br_source_id = s, br_destination_id = d,
     br_status = ''Success'', br_priority = 1, br_condition = None\<rparr>"

definition sample_variable :: environment_variable where
  "sample_variable = \<lparr>ev_id = ''v1'', ev_name = Val ''host'', ev_value = Val ''localhost'', ev_description = Undefined\<rparr>"

definition sample_workflow :: workflow where
  "sample_workflow = new_workflow\<lparr>wf_id := Val ''w1'', wf_name := ''flow'',
     wf_actions := [sample_action ''a1'' ''log'' [sample_argument (Val []) (JStr '' hi '')],
                    sample_action ''a2'' ''log 2'' [sample_argument (Val ''v1'') (JStr ''x'')]],
     wf_branches := [sample_branch ''b1'' ''a1'' ''a2''],
     wf_environment_variables := [sample_variable], wf_start := Val ''a1''\<rparr>"

named_theorems sample_defs \<open>the definitions of the sample data\<close>

lemmas sample_records [sample_defs] =
  sample_parameter_def sample_log_def sample_condition_api_def sample_app_def sample_argument_def
  sample_action_def sample_branch_def sample_variable_def sample_workflow_def new_workflow_def
  new_action_def new_argument_def plain_schema_def

end
