(* ===== verification/WorkflowInvariant.thy ===== *)
theory WorkflowInvariant
  imports Samples
begin

text \<open>
  What editing keeps of a workflow: action ids stay pairwise different, every branch joins two of its
  actions, and no two branches join the same pair. Each operation has a preservation lemma; the step
  relation \<open>edit_step\<close> collects the operations, and every workflow reached by editing
  satisfies the invariant. The start action and the generated names have their own lemmas.
\<close>

section \<open>The invariant\<close>

definition action_ids :: "workflow \<Rightarrow> string set" where
  "action_ids w = act_id ` set (wf_actions w)"

definition branch_ends :: "branch \<Rightarrow> string \<times> string" where
  "branch_ends b = (br_source_id b, br_destination_id b)"

definition graph_ok :: "workflow \<Rightarrow> bool" where
  "graph_ok w \<longleftrightarrow> distinct (map act_id (wf_actions w)) \<and>
     (\<forall>b \<in> set (wf_branches w). br_source_id b \<in> action_ids w \<and> br_destination_id b \<in> action_ids w) \<and>
     distinct (map branch_ends (wf_branches w))"

lemma has_branch_iff: "has_branch s d bs \<longleftrightarrow> (s, d) \<in> branch_ends ` set bs"
  by (force simp: has_branch_def branch_ends_def list_ex_iff)

lemma graph_ok_cong:
  "map act_id (wf_actions w') = map act_id (wf_actions w) \<Longrightarrow>
   map branch_ends (wf_branches w') = map branch_ends (wf_branches w) \<Longrightarrow>
   graph_ok w' = graph_ok w"
proof -
  assume a: "map act_id (wf_actions w') = map act_id (wf_actions w)"
    and b: "map branch_ends (wf_branches w') = map branch_ends (wf_branches w)"
  have ids: "action_ids w' = action_ids w" using a by (metis action_ids_def list.set_map)
  have ends: "branch_ends ` set (wf_branches w') = branch_ends ` set (wf_branches w)"
    using b by (metis list.set_map)
  have "(\<forall>x \<in> set (wf_branches v). br_source_id x \<in> A \<and> br_destination_id x \<in> A) \<longleftrightarrow>
      branch_ends ` set (wf_branches v) \<subseteq> A \<times> A" for v :: workflow and A
    by (auto simp: branch_ends_def)
  with a b ids ends show ?thesis by (simp add: graph_ok_def)
qed

lemma findActionById_Some:
  "findActionById w i = Some a \<Longrightarrow> a \<in> set (wf_actions w) \<and> act_id a = i"
  by (auto simp: findActionById_def dest: find_SomeD)

lemma findActionById_None: "findActionById w i = None \<longleftrightarrow> i \<notin> action_ids w"
  by (simp add: findActionById_def action_ids_def find_None_iff_key)

section \<open>The operations keep it\<close>

lemma setStartNode_sel [simp]:
  "wf_actions (fst (setStartNode roots s w)) = wf_actions w"
  "wf_branches (fst (setStartNode roots s w)) = wf_branches w"
  "wf_environment_variables (fst (setStartNode roots s w)) = wf_environment_variables w"
  by (simp_all add: setStartNode_def split: list.split)

lemma graph_ok_setStartNode [simp]: "graph_ok (fst (setStartNode roots s w)) = graph_ok w"
  by (rule graph_ok_cong) simp_all

lemma graph_ok_onNodeAdded: "graph_ok w \<Longrightarrow> graph_ok (fst (onNodeAdded isNode n i roots w))"
  by (simp add: onNodeAdded_def)

lemma onNodeRemoved_sel:
  "wf_actions (fst (onNodeRemoved isNode i roots sel w)) = filter (\<lambda>a. act_id a \<noteq> i) (wf_actions w)"
  "wf_branches (fst (onNodeRemoved isNode i roots sel w)) =
     filter (\<lambda>b. \<not> (br_source_id b = i \<or> br_destination_id b = i)) (wf_branches w)"
  "wf_start (fst (onNodeRemoved isNode i roots sel w)) =
     (if isNode \<and> wf_start w = Val i then (case roots of [] \<Rightarrow> Val i | r # _ \<Rightarrow> Val r) else wf_start w)"
  by (auto simp: onNodeRemoved_def setStartNode_def Let_def split: prod.split list.split)

lemma graph_ok_onNodeRemoved: "graph_ok w \<Longrightarrow> graph_ok (fst (onNodeRemoved isNode i roots sel w))"
  by (auto simp: graph_ok_def onNodeRemoved_sel action_ids_def distinct_map_filter)

lemma graph_ok_onEdgeRemove: "graph_ok w \<Longrightarrow> graph_ok (onEdgeRemove e w)"
  by (auto simp: graph_ok_def onEdgeRemove_def action_ids_def distinct_map_filter split: option.split)

lemma edge_complete_actions: "wf_actions (fst (edge_complete apis s ts w)) = wf_actions w"
  by (induction apis s ts w rule: edge_complete.induct) (auto split: sum.split)

lemma graph_ok_edge_complete:
  "graph_ok w \<Longrightarrow> s \<in> action_ids w \<Longrightarrow> \<forall>t \<in> set ts. snd t \<in> action_ids w \<Longrightarrow>
   graph_ok (fst (edge_complete apis s ts w))"
proof (induction apis s ts w rule: edge_complete.induct)
  case (2 apis s i d ts w)
  show ?case
  proof (cases "has_branch s d (wf_branches w)")
    case False
    show ?thesis
    proof (cases "bind_result (deref (findActionById w s))
        (\<lambda>a. getActionApi apis (act_app_name a) (act_action_name a))")
      case (Inr api)
      show ?thesis
        using False Inr "2.prems" "2.IH"[OF False Inr]
        by (auto simp: graph_ok_def action_ids_def has_branch_iff branch_ends_def)
    qed (use False "2.prems" in simp)
  qed (use "2.prems" in simp)
qed simp

lemma insertNode_Inr:
  assumes "insertNode apis uuid app act pos r w = Inr (w', cmds)"
  obtains a api where "w' = w\<lparr>wf_actions := wf_actions w @ [a]\<rparr>" "act_id a = uuid"
    "act_name a = uniqueActionName w act" "act_app_name a = app" "act_action_name a = act"
    "getActionApi apis app act = Inr api" "act_arguments a = map getDefaultArgument (aa_parameters api)"
  using assms by (auto simp: insertNode_def Let_def bind_result_Inr_iff split: if_splits)

lemma graph_ok_insertNode:
  assumes "graph_ok w" "uuid \<notin> action_ids w" "insertNode apis uuid app act pos r w = Inr (w', cmds)"
  shows "graph_ok w'"
  using assms by (elim insertNode_Inr) (auto simp: graph_ok_def action_ids_def)

lemma graph_ok_paste:
  "graph_ok w \<Longrightarrow> distinct (map snd ns) \<Longrightarrow> \<forall>n \<in> set ns. snd n \<notin> action_ids w \<Longrightarrow> graph_ok (fst (paste ns w))"
proof (induction ns w rule: paste.induct)
  case (2 i u ns w)
  show ?case
  proof (cases "findActionById w i")
    case (Some a)
    have "graph_ok (w\<lparr>wf_actions := wf_actions w @ [paste_action u a]\<rparr>)"
      using "2.prems" by (auto simp: graph_ok_def action_ids_def paste_action_def)
    with Some "2.prems" "2.IH"[OF Some] show ?thesis
      by (auto simp: action_ids_def paste_action_def image_iff)
  qed (use "2.prems" in simp)
qed simp

lemma graph_ok_deleteVariable: "graph_ok (deleteVariable d w) = graph_ok w"
  by (rule graph_ok_cong)
    (simp_all add: deleteVariable_def map_workflow_args_def map_action_args_def map_branch_args_def
      comp_def branch_ends_def)

lemma graph_ok_edit_action:
  "(\<And>a. act_id (f a) = act_id a) \<Longrightarrow>
   graph_ok (w\<lparr>wf_actions := update_first P f (wf_actions w)\<rparr>) = graph_ok w"
  by (rule graph_ok_cong) (simp_all add: map_update_first_same)

lemma graph_ok_edit_branch:
  "(\<And>b. branch_ends (f b) = branch_ends b) \<Longrightarrow>
   graph_ok (w\<lparr>wf_branches := update_first P f (wf_branches w)\<rparr>) = graph_ok w"
  by (rule graph_ok_cong) (simp_all add: map_update_first_same)

lemma specify_remove_ends [simp]:
  "act_id (specifyTrigger a) = act_id a" "act_id (removeTrigger a) = act_id a"
  "branch_ends (specifyCondition b) = branch_ends b" "branch_ends (removeBranchCondition b) = branch_ends b"
  by (simp_all add: specifyTrigger_def removeTrigger_def specifyCondition_def removeBranchCondition_def
      branch_ends_def split: option.split)

lemma setupGraph_Inr:
  assumes "setupGraph apis roots w = Inr (w', cmds)"
  shows "map act_id (wf_actions w') = map act_id (wf_actions w)" "wf_branches w' = wf_branches w"
proof -
  let ?w = "w\<lparr>wf_actions := map action_for_editor (wf_actions w)\<rparr>"
  have "w' = fst (setStartNode roots (wf_start ?w) ?w)"
    using assms
    by (cases "map_result (action_node apis (wf_start ?w)) (wf_actions ?w)";
        cases "setStartNode roots (wf_start ?w) ?w") (simp_all add: setupGraph_def Let_def)
  then show "map act_id (wf_actions w') = map act_id (wf_actions w)" "wf_branches w' = wf_branches w"
    by (simp_all add: action_for_editor_def)
qed

section \<open>Editing sequences\<close>

text \<open>
  One step of editing. The premises are what the environment guarantees: identifiers from
  \<open>UUID.UUID()\<close> are fresh, and an edge is drawn between nodes of the graph, which are
  actions of the workflow.
\<close>

inductive edit_step :: "app_api list \<Rightarrow> workflow \<Rightarrow> workflow \<Rightarrow> bool" for apis where
  insert_node: "uuid \<notin> action_ids w \<Longrightarrow> insertNode apis uuid app act pos r w = Inr (w', cmds) \<Longrightarrow>
    edit_step apis w w'"
| node_added: "edit_step apis w (fst (onNodeAdded isNode n i roots w))"
| node_removed: "edit_step apis w (fst (onNodeRemoved isNode i roots sel w))"
| edges_drawn: "s \<in> action_ids w \<Longrightarrow> \<forall>t \<in> set ts. snd t \<in> action_ids w \<Longrightarrow>
    edit_step apis w (fst (edge_complete apis s ts w))"
| edge_removed: "edit_step apis w (onEdgeRemove e w)"
| pasted: "distinct (map snd ns) \<Longrightarrow> \<forall>n \<in> set ns. snd n \<notin> action_ids w \<Longrightarrow>
    edit_step apis w (fst (paste ns w))"
| start_set: "edit_step apis w (fst (setStartNode roots st w))"
| variable_deleted: "edit_step apis w (deleteVariable d w)"
| trigger_specified: "edit_step apis w
    (w\<lparr>wf_actions := update_first (\<lambda>a. act_id a = i) specifyTrigger (wf_actions w)\<rparr>)"
| trigger_removed: "edit_step apis w
    (w\<lparr>wf_actions := update_first (\<lambda>a. act_id a = i) removeTrigger (wf_actions w)\<rparr>)"
| condition_specified: "edit_step apis w
    (w\<lparr>wf_branches := update_first (\<lambda>b. br_id b = i) specifyCondition (wf_branches w)\<rparr>)"
| condition_removed: "edit_step apis w
    (w\<lparr>wf_branches := update_first (\<lambda>b. br_id b = i) removeBranchCondition (wf_branches w)\<rparr>)"
| shown: "setupGraph apis roots w = Inr (w', cmds) \<Longrightarrow> edit_step apis w w'"

inductive_cases edit_stepE: "edit_step apis w w'"

lemma edit_step_graph_ok: "edit_step apis w w' \<Longrightarrow> graph_ok w \<Longrightarrow> graph_ok w'"
proof (induction rule: edit_step.induct)
  case (shown roots w w' cmds)
  then show ?case using graph_ok_cong[of w' w] setupGraph_Inr by (metis (no_types))
qed (auto simp: graph_ok_insertNode graph_ok_onNodeAdded graph_ok_onNodeRemoved graph_ok_edge_complete
    graph_ok_onEdgeRemove graph_ok_paste graph_ok_deleteVariable graph_ok_edit_action
    graph_ok_edit_branch)

text \<open>C4. However a workflow is edited (nodes inserted, pasted or removed, edges drawn or removed,
  triggers, conditions, variables and the start action changed), its action ids stay pairwise
  different, its branches join actions it has, and no pair of actions gets two branches.\<close>

theorem editing_keeps_graph_ok:
  assumes "(edit_step apis)\<^sup>*\<^sup>* w w'" and "graph_ok w"
  shows "graph_ok w'"
  using assms by (induction rule: rtranclp_induct) (auto intro: edit_step_graph_ok)

lemma sample_graph_ok: "graph_ok sample_workflow"
  by (simp add: graph_ok_def action_ids_def branch_ends_def sample_defs)

theorem editing_keeps_graph_ok_witness:
  "graph_ok (onEdgeRemove (Some (False, ''a1'', ''a2''))
     (fst (onNodeRemoved True ''a2'' [''a1''] None sample_workflow)))"
proof (rule editing_keeps_graph_ok[where apis = "[sample_app]" and w = sample_workflow])
  let ?w = "fst (onNodeRemoved True ''a2'' [''a1''] None sample_workflow)"
  have "edit_step [sample_app] sample_workflow ?w" by (rule edit_step.node_removed)
  moreover have "edit_step [sample_app] ?w (onEdgeRemove (Some (False, ''a1'', ''a2'')) ?w)"
    by (rule edit_step.edge_removed)
  ultimately show "(edit_step [sample_app])\<^sup>*\<^sup>* sample_workflow
      (onEdgeRemove (Some (False, ''a1'', ''a2'')) ?w)"
    by (meson r_into_rtranclp rtranclp_trans)
qed (rule sample_graph_ok)

section \<open>Drawn edges\<close>


definition sample_drawn :: workflow where
  "sample_drawn = fst (edge_complete [sample_app] ''a2'' [(''b2'', ''a1'')] sample_workflow)"


section \<open>The start action\<close>

text \<open>The start action exists, when one is set.\<close>

definition start_ok :: "workflow \<Rightarrow> bool" where
  "start_ok w = (case wf_start w of Val s \<Rightarrow> s \<noteq> [] \<longrightarrow> s \<in> action_ids w | _ \<Rightarrow> True)"

text \<open>Removing a node of the graph leaves the workflow with an existing start action, provided the
  graph still has a root and its roots are actions of the workflow.\<close>

theorem onNodeRemoved_start_ok:
  assumes "start_ok w" and "roots \<noteq> []" and "set roots \<subseteq> action_ids w - {i}"
    and "i \<noteq> []"
  shows "start_ok (fst (onNodeRemoved True i roots sel w))"
proof (cases "wf_start w = Val i")
  case True
  with assms show ?thesis
    by (cases roots) (auto simp: start_ok_def onNodeRemoved_sel action_ids_def)
next
  case False
  with assms(1) show ?thesis
    by (auto simp: start_ok_def onNodeRemoved_sel action_ids_def split: nullable.splits)
qed

theorem onNodeRemoved_start_ok_witness:
  "start_ok (fst (onNodeRemoved True ''a1'' [''a2''] None sample_workflow))"
  by (rule onNodeRemoved_start_ok) (simp_all add: start_ok_def action_ids_def sample_defs)

text \<open>Without a root (the last node was removed, or every node left has an incoming edge) the start
  still names the removed action.\<close>

lemma onNodeRemoved_dangling_start:
  assumes "wf_start w = Val i" and "i \<noteq> []"
  shows "wf_start (fst (onNodeRemoved True i [] sel w)) = Val i \<and>
    \<not> start_ok (fst (onNodeRemoved True i [] sel w))"
  using assms by (auto simp: start_ok_def onNodeRemoved_sel action_ids_def)

text \<open>When the start node is removed and a root takes over, the graph is told to mark the node
  whose id is the text \<open>null\<close>: the new start action is set but not highlighted.\<close>

theorem fallback_start_not_marked:
  assumes "wf_start w = Val i" and "r \<noteq> ''null''"
  shows "wf_start (fst (onNodeRemoved True i (r # rs) sel w)) = Val r \<and>
    SetData (NodeWithId r) ''isStartNode'' (JBool True) \<notin>
      set (snd (snd (onNodeRemoved True i (r # rs) sel w)))"
  using assms by (auto simp: onNodeRemoved_def setStartNode_def)

theorem fallback_start_not_marked_witness:
  "wf_start (fst (onNodeRemoved True ''a1'' [''a2''] None sample_workflow)) = Val ''a2'' \<and>
   SetData (NodeWithId ''a2'') ''isStartNode'' (JBool True) \<notin>
     set (snd (snd (onNodeRemoved True ''a1'' [''a2''] None sample_workflow)))"
  by (rule fallback_start_not_marked) (simp_all add: sample_defs)

section \<open>Names of inserted actions\<close>

text \<open>The label of the \<open>k\<close>-th action made from one description, when none was removed or
  renamed.\<close>

definition action_label :: "string \<Rightarrow> nat \<Rightarrow> string" where
  "action_label m k = (if k = 0 then m else m @ '' '' @ nat_to_string (k + 1))"

definition labels_in_order :: "workflow \<Rightarrow> bool" where
  "labels_in_order w \<longleftrightarrow> (\<forall>m. map act_name (filter (\<lambda>a. act_action_name a = m) (wf_actions w)) =
     map (action_label m) [0..<length (filter (\<lambda>a. act_action_name a = m) (wf_actions w))])"

lemma action_label_inj: "action_label m j = action_label m k \<Longrightarrow> j = k"
  by (auto simp: action_label_def split: if_splits dest: nat_to_string_inj)

lemma uniqueActionName_label:
  "uniqueActionName w m = action_label m (length (filter (\<lambda>a. act_action_name a = m) (wf_actions w)))"
  by (simp add: uniqueActionName_def action_label_def Let_def)

text \<open>As long as actions are only inserted, those made from one description are numbered in
  order and their names are pairwise different.\<close>

theorem insertNode_unique_names:
  assumes "labels_in_order w" and "insertNode apis uuid app m pos r w = Inr (w', cmds)"
  shows "labels_in_order w' \<and>
    (\<forall>k. distinct (map act_name (filter (\<lambda>a. act_action_name a = k) (wf_actions w'))))"
proof -
  have "labels_in_order w'"
    using assms by (elim insertNode_Inr) (auto simp: labels_in_order_def uniqueActionName_label)
  moreover have "distinct (map (action_label k) [0..<n])" for k n
    by (simp add: distinct_map inj_on_def) (metis action_label_inj)
  ultimately show ?thesis by (auto simp: labels_in_order_def)
qed

definition sample_inserted :: "workflow \<times> cy_command list" where
  "sample_inserted = (case insertNode [sample_app] ''a3'' ''Utils'' ''log'' \<lparr>pos_x = 0, pos_y = 0\<rparr> True new_workflow of
     Inr x \<Rightarrow> x | Inl e \<Rightarrow> (new_workflow, []))"

theorem insertNode_unique_names_witness:
  "labels_in_order (fst sample_inserted) \<and>
   (\<forall>k. distinct (map act_name (filter (\<lambda>a. act_action_name a = k) (wf_actions (fst sample_inserted)))))"
proof (rule insertNode_unique_names)
  show "labels_in_order new_workflow" by (simp add: labels_in_order_def new_workflow_def)
  show "insertNode [sample_app] ''a3'' ''Utils'' ''log'' \<lparr>pos_x = 0, pos_y = 0\<rparr> True new_workflow =
      Inr (fst sample_inserted, snd sample_inserted)"
    by (simp add: sample_inserted_def insertNode_def node_type_def getActionApi_def getAction_def
        find_app_def sample_defs Let_def)
qed

text \<open>After a removal the count no longer matches the numbers in use: with actions named
  \<open>log\<close> and \<open>log 3\<close> left, the next one is named \<open>log 3\<close> again.\<close>

lemma uniqueActionName_collides:
  assumes "map act_name (wf_actions w) = [''log'', ''log 3'']"
    and "\<forall>a \<in> set (wf_actions w). act_action_name a = ''log''"
  shows "uniqueActionName w ''log'' \<in> act_name ` set (wf_actions w)"
proof -
  have f: "filter (\<lambda>a. act_action_name a = ''log'') (wf_actions w) = wf_actions w"
    using assms(2) by simp
  have l: "length (wf_actions w) = 2"
    using arg_cong[OF assms(1), of length] by simp
  have "nat_to_string 3 = ''3''" by code_simp
  then have "uniqueActionName w ''log'' = ''log 3''"
    using f l by (simp add: uniqueActionName_def)
  moreover have "''log 3'' \<in> set (map act_name (wf_actions w))" by (simp add: assms(1))
  ultimately show ?thesis by simp
qed

end
