(* ===== verification/Utilities.thy ===== *)
theory Utilities
  imports JsArray JsValue
begin

text \<open>
  What every component uses: requests to the server and how their errors are reported
  (\<^verbatim>\<open>utilities.service.ts\<close>), the paginated downloads, and the messages shown to the
  user. A promise that is rejected is an \<open>Inl\<close>; what the server answers is an argument.
\<close>

section \<open>Requests and messages\<close>

datatype http_method = GET | POST | PUT | PATCH | DELETE

record 'b request =
  req_method :: http_method
  req_url :: string
  req_body :: "'b option"

definition http :: "http_method \<Rightarrow> string \<Rightarrow> 'b option \<Rightarrow> 'b request" where
  "http m url body = \<lparr>req_method = m, req_url = url, req_body = body\<rparr>"

lemma http_eq_iff [simp]: "http m u b = http m' u' b' \<longleftrightarrow> m = m' \<and> u = u' \<and> b = b'"
  by (simp add: http_def)

datatype toast = Success string | Failure string | Warning string

section \<open>Strings\<close>

text \<open>A string argument that may be missing is \<open>nullable\<close>.\<close>

fun str_or_empty :: "string nullable \<Rightarrow> string" where
  "str_or_empty (Val s) = s"
| "str_or_empty _ = []"

definition getDefaultString :: "string nullable \<Rightarrow> string nullable \<Rightarrow> string" where
  "getDefaultString input def =
     (let trimmed = trim (if truthy_str input then str_or_empty input else [])
      in if trimmed = [] then (if truthy_str def then str_or_empty def else []) else trimmed)"

definition getTruncatedString :: "string nullable \<Rightarrow> nat \<Rightarrow> string nullable \<Rightarrow> string" where
  "getTruncatedString input len def =
     (let s = getDefaultString input def
      in if length s \<le> len then s else take len s @ ''...'')"

text \<open>A truncated string is never longer than the limit and the ellipsis, starts with the
  defaulted string's characters, and a string within the limit is only trimmed or defaulted.\<close>

theorem getTruncatedString_bound:
  "length (getTruncatedString input len def) \<le> len + 3 \<and>
   take len (getTruncatedString input len def) = take len (getDefaultString input def) \<and>
   (getTruncatedString input len def = getDefaultString input def
      \<or> length (getDefaultString input def) > len)"
  by (auto simp: getTruncatedString_def Let_def)

lemma getDefaultString_trimmed:
  "(\<And>d. def = Val d \<Longrightarrow> trim d = d) \<Longrightarrow> trim (getDefaultString input def) = getDefaultString input def"
  by (cases input; cases def) (auto simp: getDefaultString_def Let_def)

section \<open>Paginated downloads\<close>

text \<open>Pages are requested from the given one on until one is empty; a server that never answers with
  an empty page makes the download run forever, which is \<open>None\<close>.\<close>

partial_function (option) paginateAll ::
  "(nat \<Rightarrow> 'a list result) \<Rightarrow> nat \<Rightarrow> 'a list \<Rightarrow> 'a list result option" where
  [code]: "paginateAll serviceCall page allResults =
     (case serviceCall page of
        Inl e \<Rightarrow> Some (Inl e)
      | Inr results \<Rightarrow>
          if 0 < length results then paginateAll serviceCall (page + 1) (allResults @ results)
          else Some (Inr allResults))"

lemma paginateAll_full_pages:
  assumes "\<And>i. i < n \<Longrightarrow> \<exists>rs. serviceCall (p + i) = Inr rs \<and> rs \<noteq> []"
  shows "paginateAll serviceCall p acc =
    paginateAll serviceCall (p + n)
      (acc @ List.concat (map (\<lambda>i. case serviceCall (p + i) of Inr rs \<Rightarrow> rs | Inl e \<Rightarrow> []) [0..<n]))"
  using assms
proof (induction n arbitrary: p acc)
  case (Suc n)
  obtain rs where rs: "serviceCall p = Inr rs" "rs \<noteq> []" using Suc.prems[of 0] by auto
  have "\<exists>rs. serviceCall (Suc p + i) = Inr rs \<and> rs \<noteq> []" if "i < n" for i
    using Suc.prems[of "Suc i"] that by simp
  note ih = Suc.IH[OF this]
  have "[0..<Suc n] = 0 # map Suc [0..<n]" by (simp add: upt_conv_Cons map_Suc_upt)
  then show ?case
    using ih[of "acc @ rs"] rs by (subst paginateAll.simps) (simp add: comp_def)
qed simp

text \<open>C40. A paginated download that meets its first empty page after \<open>n\<close> non-empty ones returns
  all their items in order.\<close>

theorem paginateAll_returns:
  assumes "\<And>i. i < n \<Longrightarrow> serviceCall (p + i) = Inr (pages ! i) \<and> pages ! i \<noteq> []"
    and "serviceCall (p + n) = Inr []" and "length pages = n"
  shows "paginateAll serviceCall p [] = Some (Inr (List.concat pages))"
proof -
  have "map (\<lambda>i. case serviceCall (p + i) of Inr rs \<Rightarrow> rs | Inl e \<Rightarrow> []) [0..<n] = pages"
    using assms by (intro nth_equalityI) auto
  then show ?thesis
    using paginateAll_full_pages[of n serviceCall p "[]"] assms
    by (simp add: paginateAll.simps[of _ "p + n"])
qed

text \<open>An error stops the download and drops the pages already read.\<close>

lemma paginateAll_error:
  assumes "\<And>i. i < n \<Longrightarrow> \<exists>rs. serviceCall (p + i) = Inr rs \<and> rs \<noteq> []"
    and "serviceCall (p + n) = Inl e"
  shows "paginateAll serviceCall p [] = Some (Inl e)"
  using paginateAll_full_pages[of n serviceCall p "[]"] assms
  by (simp add: paginateAll.simps[of _ "p + n"])

theorem paginateAll_returns_witness:
  "paginateAll (\<lambda>p. Inr (if p = 1 then [''a'', ''b''] else if p = 2 then [''c''] else [])) 1 [] =
     Some (Inr (List.concat [[''a'', ''b''], [''c'']]))"
proof (rule paginateAll_returns[where n = 2])
  fix i :: nat
  assume "i < 2"
  then have "i = 0 \<or> i = 1" by linarith
  then show "Inr (if 1 + i = 1 then [''a'', ''b''] else if 1 + i = 2 then [''c''] else []) =
      Inr ([[''a'', ''b''], [''c'']] ! i) \<and> [[''a'', ''b''], [''c'']] ! i \<noteq> []"
    by auto
qed simp_all

section \<open>Errors of a request\<close>

text \<open>
  What \<open>handleResponseError\<close> is called with: a \<open>Response\<close> of the old HTTP module,
  whose body is parsed JSON, or anything else (in this client always the error object of
  \<open>HttpClient\<close>). The text \<open>JSON.stringify\<close> or \<open>toString\<close> gives is part of
  the value.
\<close>

record response =
  rs_status :: int
  rs_statusText :: string
  rs_body :: jsval
  rs_body_text :: string

datatype request_error = OldResponse response | OtherError "string nullable" string

definition body_property :: "jsval \<Rightarrow> string \<Rightarrow> jsval" where
  "body_property v k = (case v of JObj ob \<Rightarrow> obj_read ob k | _ \<Rightarrow> JUndef)"

definition handleResponseError :: "request_error \<Rightarrow> js_error" where
  "handleResponseError e =
     (case e of
        OldResponse r \<Rightarrow>
          ErrorMsg (if truthy (body_property (rs_body r) ''error'') then to_string (body_property (rs_body r) ''error'')
            else if truthy (body_property (rs_body r) ''detail'') then to_string (body_property (rs_body r) ''detail'')
            else rs_body_text r)
      | OtherError msg str \<Rightarrow> ErrorMsg (if truthy_str msg then str_or_empty msg else str))"

text \<open>The text a rejected request is reported with: the message of the error.\<close>

definition error_message :: "js_error \<Rightarrow> string" where
  "error_message e = (case e of ErrorMsg s \<Rightarrow> s | TypeError \<Rightarrow> ''TypeError'')"

end
