(* ===== verification/ExecutionModel.thy ===== *)
theory ExecutionModel
  imports PlaybookModel Utilities
begin

text \<open>
  Statuses of executions and the events that report them
  (\<^verbatim>\<open>models/execution/*.ts\<close>), and the table both result views keep: an event
  updates the row with its execution id, or adds a row. The contract of such a table is the locale
  \<open>upsert_table\<close>.
\<close>

section \<open>Data\<close>

record current_action =
  cur_execution_id :: string
  cur_id :: string
  cur_name :: string
  cur_action_name :: string
  cur_app_name :: string

record action_status =
  as_workflow_execution_id :: string
  as_workflow_id :: string
  as_execution_id :: string
  as_action_id :: string
  as_name :: string
  as_app_name :: string
  as_action_name :: string
  as_status :: string
  as_started_at :: "string nullable"
  as_completed_at :: "string nullable"
  as_arguments :: "argument list"
  as_result :: jsval
  as_localized_started_at :: "string nullable"
  as_localized_completed_at :: "string nullable"

record action_status_event =
  ae_workflow_execution_id :: string
  ae_workflow_id :: string
  ae_execution_id :: string
  ae_action_id :: string
  ae_name :: string
  ae_app_name :: string
  ae_action_name :: string
  ae_status :: string
  ae_timestamp :: string
  ae_arguments :: "argument list"
  ae_result :: jsval

definition toNewActionStatus :: "action_status_event \<Rightarrow> action_status" where
  "toNewActionStatus e =
     \<lparr>as_workflow_execution_id = ae_workflow_execution_id e, as_workflow_id = ae_workflow_id e,
      as_execution_id = ae_execution_id e, as_action_id = ae_action_id e, as_name = ae_name e,
      as_app_name = ae_app_name e, as_action_name = ae_action_name e, as_status = ae_status e,
      as_started_at = Val (ae_timestamp e), as_completed_at = Undefined,
      as_arguments = ae_arguments e, as_result = ae_result e,
      as_localized_started_at = Undefined, as_localized_completed_at = Undefined\<rparr>"

record workflow_status =
  ws_id :: "string nullable"
  ws_execution_id :: string
  ws_workflow_id :: string
  ws_name :: string
  ws_started_at :: "string nullable"
  ws_user :: "string nullable"
  ws_completed_at :: "string nullable"
  ws_status :: string
  ws_current_action :: "current_action option"
  ws_action_statuses :: "action_status list"
  ws_localized_started_at :: "string nullable"
  ws_localized_completed_at :: "string nullable"

record workflow_status_event =
  we_execution_id :: string
  we_workflow_id :: string
  we_name :: string
  we_user :: string
  we_timestamp :: string
  we_status :: string
  we_current_action :: "current_action option"

definition toNewWorkflowStatus :: "workflow_status_event \<Rightarrow> workflow_status" where
  "toNewWorkflowStatus e =
     \<lparr>ws_id = Undefined, ws_execution_id = we_execution_id e, ws_workflow_id = we_workflow_id e,
      ws_name = we_name e, ws_started_at = Undefined, ws_user = Undefined,
      ws_completed_at = Undefined, ws_status = we_status e,
      ws_current_action = we_current_action e, ws_action_statuses = [],
      ws_localized_started_at = Undefined, ws_localized_completed_at = Undefined\<rparr>"

record console_log =
  cl_message :: string
  cl_action_name :: string
  cl_app_name :: string
  cl_workflow :: string
  cl_level :: string

definition toNewConsoleLog :: "console_log \<Rightarrow> console_log" where
  "toNewConsoleLog e = \<lparr>cl_message = cl_message e, cl_action_name = cl_action_name e,
     cl_app_name = cl_app_name e, cl_workflow = cl_workflow e, cl_level = cl_level e\<rparr>"

section \<open>Tables updated by events\<close>

text \<open>
  A row has a key and a shown value; an event has a key and carries the value to show. The update
  an event makes to its row keeps the row's key.
\<close>

definition upsert ::
  "('r \<Rightarrow> string) \<Rightarrow> ('e \<Rightarrow> string) \<Rightarrow> ('e \<Rightarrow> 'r \<Rightarrow> 'r) \<Rightarrow> ('e \<Rightarrow> 'r) \<Rightarrow> 'e \<Rightarrow> 'r list \<Rightarrow> 'r list" where
  "upsert key ekey change create e rows =
     (case List.find (\<lambda>r. key r = ekey e) rows of
        Some r \<Rightarrow> update_first (\<lambda>r. key r = ekey e) (change e) rows
      | None \<Rightarrow> rows @ [create e])"

definition table :: "('r \<Rightarrow> string) \<Rightarrow> ('r \<Rightarrow> 'v) \<Rightarrow> 'r list \<Rightarrow> string \<rightharpoonup> 'v" where
  "table key shown rows k = map_option shown (List.find (\<lambda>r. key r = k) rows)"

locale upsert_table =
  fixes key :: "'r \<Rightarrow> string"
    and ekey :: "'e \<Rightarrow> string"
    and change :: "'e \<Rightarrow> 'r \<Rightarrow> 'r"
    and create :: "'e \<Rightarrow> 'r"
    and shown :: "'r \<Rightarrow> 'v"
    and carried :: "'e \<Rightarrow> 'v"
  assumes key_change [simp]: "key (change e r) = key r"
    and key_create [simp]: "key (create e) = ekey e"
    and shown_change: "shown (change e r) = carried e"
    and shown_create: "shown (create e) = carried e"
begin

abbreviation put :: "'e \<Rightarrow> 'r list \<Rightarrow> 'r list" where
  "put \<equiv> upsert key ekey change create"

lemma keys_upsert: "map key (put e rows) =
    (if ekey e \<in> key ` set rows then map key rows else map key rows @ [ekey e])"
proof (cases "List.find (\<lambda>r. key r = ekey e) rows")
  case None
  then have "ekey e \<notin> key ` set rows" by (simp add: find_None_iff_key)
  with None show ?thesis by (simp add: upsert_def)
next
  case (Some r)
  have "ekey e \<in> key ` set rows" using find_SomeD[OF Some] by (metis image_eqI)
  with Some show ?thesis by (simp add: upsert_def map_update_first_same)
qed

lemma distinct_upsert: "distinct (map key rows) \<Longrightarrow> distinct (map key (put e rows))"
  by (auto simp: keys_upsert)

lemma find_upsert_same: "List.find (\<lambda>r. key r = ekey e) (put e rows) =
    Some (case List.find (\<lambda>r. key r = ekey e) rows of Some r \<Rightarrow> change e r | None \<Rightarrow> create e)"
proof (cases "List.find (\<lambda>r. key r = ekey e) rows")
  case None
  then have "List.find (\<lambda>r. key r = ekey e) (rows @ [create e]) = Some (create e)"
    by (induction rows) (auto split: if_splits)
  with None show ?thesis by (simp add: upsert_def)
qed (simp add: upsert_def find_update_first)

lemma find_upsert_other:
  assumes "k \<noteq> ekey e"
  shows "List.find (\<lambda>r. key r = k) (put e rows) = List.find (\<lambda>r. key r = k) rows"
proof (cases "List.find (\<lambda>r. key r = ekey e) rows")
  case None
  have "List.find (\<lambda>r. key r = k) (rows @ [create e]) = List.find (\<lambda>r. key r = k) rows"
    using assms by (induction rows) auto
  with None show ?thesis by (simp add: upsert_def)
next
  case (Some r)
  have "List.find (\<lambda>r. key r = k) (update_first (\<lambda>r. key r = ekey e) (change e) rows) =
      List.find (\<lambda>r. key r = k) rows"
    using assms by (induction rows) auto
  with Some show ?thesis by (simp add: upsert_def)
qed

text \<open>The table refines a map from keys to shown values: an event is a map update.\<close>

lemma table_upsert: "table key shown (put e rows) = (table key shown rows)(ekey e \<mapsto> carried e)"
proof
  fix k
  show "table key shown (put e rows) k = ((table key shown rows)(ekey e \<mapsto> carried e)) k"
    by (cases "k = ekey e")
      (auto simp: table_def find_upsert_same find_upsert_other shown_change shown_create split: option.splits)
qed

lemma table_events:
  "table key shown (foldl (\<lambda>rows e. put e rows) rows es) = put_all ekey carried es (table key shown rows)"
  by (induction es arbitrary: rows) (simp_all add: table_upsert)

lemma length_upsert: "length rows \<le> length (put e rows)"
  by (metis keys_upsert length_append length_map le_add1 order_refl)

lemma other_rows_kept: "r \<in> set rows \<Longrightarrow> key r \<noteq> ekey e \<Longrightarrow> r \<in> set (put e rows)"
proof (cases "List.find (\<lambda>r. key r = ekey e) rows")
  case (Some r')
  assume "r \<in> set rows" "key r \<noteq> ekey e"
  then have "r \<in> set (update_first (\<lambda>r. key r = ekey e) (change e) rows)"
    by (induction rows) auto
  with Some show ?thesis by (simp add: upsert_def)
qed (simp add: upsert_def)

end

section \<open>Times shown\<close>

text \<open>
  The text of a time is made by the date library from the time stamp (\<open>getLocalTime\<close>,
  \<open>getRelativeLocalTime\<close>): parameters \<open>local\<close> and \<open>rel\<close> of the handlers. Times
  that are absent or empty are skipped.
\<close>

definition set_time :: "(string \<Rightarrow> string) \<Rightarrow> string nullable \<Rightarrow> string nullable \<Rightarrow> string nullable" where
  "set_time local t old = (if truthy_str t then Val (local (str_or_empty t)) else old)"

definition localize_action :: "(string \<Rightarrow> string) \<Rightarrow> action_status \<Rightarrow> action_status" where
  "localize_action local s = s\<lparr>
     as_localized_started_at := set_time local (as_started_at s) (as_localized_started_at s),
     as_localized_completed_at := set_time local (as_completed_at s) (as_localized_completed_at s)\<rparr>"

definition localize_workflow :: "(string \<Rightarrow> string) \<Rightarrow> workflow_status \<Rightarrow> workflow_status" where
  "localize_workflow local s = s\<lparr>
     ws_localized_started_at := set_time local (ws_started_at s) (ws_localized_started_at s),
     ws_localized_completed_at := set_time local (ws_completed_at s) (ws_localized_completed_at s)\<rparr>"

lemma localize_action_frame [simp, frame_simps]:
  "as_execution_id (localize_action local s) = as_execution_id s"
  "as_status (localize_action local s) = as_status s"
  "as_started_at (localize_action local s) = as_started_at s"
  "as_completed_at (localize_action local s) = as_completed_at s"
  "as_result (localize_action local s) = as_result s"
  by (simp_all add: localize_action_def)

lemma localize_workflow_frame [simp, frame_simps]:
  "ws_execution_id (localize_workflow local s) = ws_execution_id s"
  "ws_status (localize_workflow local s) = ws_status s"
  "ws_started_at (localize_workflow local s) = ws_started_at s"
  "ws_completed_at (localize_workflow local s) = ws_completed_at s"
  "ws_current_action (localize_workflow local s) = ws_current_action s"
  by (simp_all add: localize_workflow_def)

text \<open>The relative times are kept beside the rows, by execution id.\<close>

definition note_time ::
  "(string \<Rightarrow> string) \<Rightarrow> string \<Rightarrow> string nullable \<Rightarrow> (string \<rightharpoonup> string) \<Rightarrow> (string \<rightharpoonup> string)" where
  "note_time rel k t m = (if truthy_str t then m(k \<mapsto> rel (str_or_empty t)) else m)"

definition note_times ::
  "(string \<Rightarrow> string) \<Rightarrow> ('r \<Rightarrow> string) \<Rightarrow> ('r \<Rightarrow> string nullable) \<Rightarrow> 'r list \<Rightarrow> (string \<rightharpoonup> string) \<Rightarrow> (string \<rightharpoonup> string)" where
  "note_times rel key time rows m = foldl (\<lambda>m r. note_time rel (key r) (time r) m) m rows"

lemma note_times_other: "k \<notin> key ` set rows \<Longrightarrow> note_times rel key time rows m k = m k"
proof -
  have "k \<notin> key ` set rows \<Longrightarrow> foldl (\<lambda>m r. note_time rel (key r) (time r) m) m rows k = m k" for m
    by (induction rows arbitrary: m) (auto simp: note_time_def)
  then show "k \<notin> key ` set rows \<Longrightarrow> ?thesis" by (simp add: note_times_def)
qed

lemma note_times_row:
  assumes "distinct (map key rows)" and "r \<in> set rows" and "time r = Val t" and "t \<noteq> []"
  shows "note_times rel key time rows m (key r) = Some (rel t)"
proof -
  have "foldl (\<lambda>m r. note_time rel (key r) (time r) m) m rows (key r) = Some (rel t)" for m
    using assms
  proof (induction rows arbitrary: m)
    case (Cons x xs)
    show ?case
    proof (cases "x = r")
      case True
      with Cons.prems have "key r \<notin> key ` set xs" by auto
      then show ?thesis
        using note_times_other[of "key r" key xs rel time] True Cons.prems
        by (simp add: note_times_def note_time_def)
    next
      case False
      with Cons show ?thesis by simp
    qed
  qed simp
  then show ?thesis by (simp add: note_times_def)
qed

end
