(* ===== verification/ExecutionView.thy ===== *)
theory ExecutionView
  imports ExecutionModel
begin

text \<open>
  The execution page (\<^verbatim>\<open>execution/execution.component.ts\<close> and the variable modal):
  the table of workflow statuses fed by two event streams, the filter, the modal with the action
  statuses of one execution, and the selection of a workflow to run.

  The page holds the same status objects in two arrays and in the callbacks of pending timers. Each
  object of \<open>workflowStatuses\<close> therefore has an identity, a number: the displayed array is the
  list of the identities it refers to, and a timer names the object it will change, whether or
  not that object is still in the table.
\<close>

section \<open>State\<close>

record execution_view =
  xv_rows :: "(nat \<times> workflow_status) list"
  xv_next :: nat
  xv_display :: "nat list"
  xv_loaded :: "workflow_status option"
  xv_ws_started :: "string \<rightharpoonup> string"
  xv_ws_completed :: "string \<rightharpoonup> string"
  xv_as_started :: "string \<rightharpoonup> string"
  xv_as_completed :: "string \<rightharpoonup> string"
  xv_filter :: "string nullable"
  xv_timers :: "(nat \<times> workflow_status_event) list"
  xv_workflows :: "workflow list"
  xv_available :: "(string nullable \<times> string) list"
  xv_selected :: "workflow option"
  xv_toasts :: "toast list"

definition new_execution_view :: execution_view where
  "new_execution_view = \<lparr>xv_rows = [], xv_next = 0, xv_display = [], xv_loaded = None,
     xv_ws_started = Map.empty, xv_ws_completed = Map.empty, xv_as_started = Map.empty,
     xv_as_completed = Map.empty, xv_filter = Null, xv_timers = [], xv_workflows = [],
     xv_available = [], xv_selected = None, xv_toasts = []\<rparr>"

definition add_toast :: "toast \<Rightarrow> execution_view \<Rightarrow> execution_view" where
  "add_toast t v = v\<lparr>xv_toasts := xv_toasts v @ [t]\<rparr>"

section \<open>Filtering\<close>

definition status_matches :: "string \<Rightarrow> workflow_status \<Rightarrow> bool" where
  "status_matches q s =
     (str_includes (toLowerCase (ws_name s)) q \<or> str_includes (toLowerCase (ws_status s)) q \<or>
      (case ws_current_action s of None \<Rightarrow> False
       | Some c \<Rightarrow> str_includes (toLowerCase (cur_name c)) q \<or>
                   str_includes (toLowerCase (cur_action_name c)) q \<or>
                   str_includes (toLowerCase (cur_app_name c)) q))"

definition filterWorkflowStatuses :: "execution_view \<Rightarrow> execution_view" where
  "filterWorkflowStatuses v =
     (let q = (if truthy_str (xv_filter v) then toLowerCase (str_or_empty (xv_filter v)) else [])
      in v\<lparr>xv_display := map fst (filter (\<lambda>(i, s). status_matches q s) (xv_rows v))\<rparr>)"

section \<open>Relative times\<close>

definition recalculateRelativeTimes :: "(string \<Rightarrow> string) \<Rightarrow> execution_view \<Rightarrow> execution_view" where
  "recalculateRelativeTimes rel v =
     (if xv_rows v = [] then v
      else
        let v1 = v\<lparr>xv_ws_started := note_times rel ws_execution_id ws_started_at (map snd (xv_rows v)) (xv_ws_started v),
                   xv_ws_completed := note_times rel ws_execution_id ws_completed_at (map snd (xv_rows v)) (xv_ws_completed v)\<rparr>
        in case xv_loaded v1 of
             None \<Rightarrow> v1
           | Some l \<Rightarrow>
               if ws_action_statuses l = [] then v1
               else v1\<lparr>xv_as_started := note_times rel as_execution_id as_started_at (ws_action_statuses l) (xv_as_started v1),
                       xv_as_completed := note_times rel as_execution_id as_completed_at (ws_action_statuses l) (xv_as_completed v1)\<rparr>)"

text \<open>\<open>getWorkflowStatuses\<close> replaces the table by the statuses the server lists: new objects,
  all of them displayed.\<close>

definition getWorkflowStatuses_done ::
  "(string \<Rightarrow> string) \<Rightarrow> (string \<Rightarrow> string) \<Rightarrow> workflow_status list result \<Rightarrow> execution_view \<Rightarrow> execution_view" where
  "getWorkflowStatuses_done local rel answer v =
     (case answer of
        Inl e \<Rightarrow> add_toast (Failure (''Error retrieving workflow statuses: '' @ error_message e)) v
      | Inr ss \<Rightarrow>
          let ids = [xv_next v ..< xv_next v + length ss]
          in recalculateRelativeTimes rel
               (v\<lparr>xv_rows := zip ids (map (localize_workflow local) ss), xv_display := ids,
                  xv_next := xv_next v + length ss\<rparr>))"

section \<open>Workflow status events\<close>

definition change_workflow :: "string \<Rightarrow> workflow_status_event \<Rightarrow> workflow_status \<Rightarrow> workflow_status" where
  "change_workflow typ e s0 =
     (let s = s0\<lparr>ws_status := we_status e\<rparr>
      in if typ = ''queued'' then s\<lparr>ws_current_action := None\<rparr>
         else if typ = ''started'' then
           (if truthy_str (ws_started_at s) then s else s\<lparr>ws_started_at := Val (we_timestamp e)\<rparr>)
             \<lparr>ws_user := Val (we_user e), ws_current_action := we_current_action e\<rparr>
         else if typ \<in> {''paused'', ''resumed'', ''awaiting_data'', ''triggered''} then
           s\<lparr>ws_current_action := we_current_action e\<rparr>
         else if typ = ''aborted'' then s\<lparr>ws_completed_at := Val (we_timestamp e)\<rparr>
         else s)"

text \<open>The object that matches an event, with its identity.\<close>

definition matching_row :: "string \<Rightarrow> execution_view \<Rightarrow> (nat \<times> workflow_status) option" where
  "matching_row k v = List.find (\<lambda>(i, s). ws_execution_id s = k) (xv_rows v)"

definition change_row ::
  "(string \<Rightarrow> string) \<Rightarrow> nat \<times> string \<times> workflow_status_event \<Rightarrow> nat \<times> workflow_status \<Rightarrow> nat \<times> workflow_status" where
  "change_row local = (\<lambda>(fresh, typ, e) (i, s). (i, localize_workflow local (change_workflow typ e s)))"

definition create_row :: "(string \<Rightarrow> string) \<Rightarrow> nat \<times> string \<times> workflow_status_event \<Rightarrow> nat \<times> workflow_status" where
  "create_row local = (\<lambda>(fresh, typ, e). (fresh, localize_workflow local (toNewWorkflowStatus e)))"

definition known_workflow_types :: "string set" where
  "known_workflow_types = {''queued'', ''started'', ''paused'', ''resumed'', ''awaiting_data'',
     ''triggered'', ''completed'', ''aborted''}"

definition workflow_side_effects ::
  "(string \<Rightarrow> string) \<Rightarrow> string \<Rightarrow> workflow_status_event \<Rightarrow> nat \<times> workflow_status \<Rightarrow> execution_view \<Rightarrow> execution_view" where
  "workflow_side_effects rel typ e r v =
     (let k = ws_execution_id (snd r)
      in if typ = ''started'' then
           (if truthy_str (ws_started_at (snd r)) then v
            else v\<lparr>xv_ws_started := (xv_ws_started v)(k \<mapsto> rel (we_timestamp e))\<rparr>)
         else if typ = ''completed'' then v\<lparr>xv_timers := xv_timers v @ [(fst r, e)]\<rparr>
         else if typ = ''aborted'' then v\<lparr>xv_ws_completed := (xv_ws_completed v)(k \<mapsto> rel (we_timestamp e))\<rparr>
         else if typ \<in> known_workflow_types then v
         else add_toast (Warning (''Unknown Workflow Status SSE Type: '' @ typ @ ''.'')) v)"

abbreviation row_key :: "nat \<times> workflow_status \<Rightarrow> string" where
  "row_key \<equiv> \<lambda>r. ws_execution_id (snd r)"

abbreviation event_key :: "nat \<times> string \<times> workflow_status_event \<Rightarrow> string" where
  "event_key \<equiv> \<lambda>x. we_execution_id (snd (snd x))"

definition workflowStatusEventHandler ::
  "(string \<Rightarrow> string) \<Rightarrow> (string \<Rightarrow> string) \<Rightarrow> string \<Rightarrow> workflow_status_event \<Rightarrow> execution_view \<Rightarrow> execution_view" where
  "workflowStatusEventHandler local rel typ e v =
     (let v1 = (case matching_row (we_execution_id e) v of
            Some r \<Rightarrow> workflow_side_effects rel typ e r v
          | None \<Rightarrow> v\<lparr>xv_next := Suc (xv_next v)\<rparr>)
      in filterWorkflowStatuses
           (v1\<lparr>xv_rows := upsert row_key event_key (change_row local) (create_row local) (xv_next v, typ, e) (xv_rows v)\<rparr>))"

text \<open>The delayed part of a \<open>completed\<close> event. Timers have equal delays and fire in the order
  they were set; the relative time is recorded even if the object has left the table.\<close>

definition fire_timer :: "(string \<Rightarrow> string) \<Rightarrow> execution_view \<Rightarrow> execution_view" where
  "fire_timer rel v =
     (case xv_timers v of
        [] \<Rightarrow> v
      | (i, e) # ts \<Rightarrow>
          v\<lparr>xv_timers := ts,
            xv_rows := map (\<lambda>(j, s). if j = i
                then (j, s\<lparr>ws_completed_at := Val (we_timestamp e), ws_current_action := None\<rparr>) else (j, s)) (xv_rows v),
            xv_ws_completed := (xv_ws_completed v)(we_execution_id e \<mapsto> rel (we_timestamp e))\<rparr>)"

section \<open>Action status events\<close>

definition change_action :: "string \<Rightarrow> action_status_event \<Rightarrow> action_status \<Rightarrow> action_status" where
  "change_action typ e s0 =
     (let s = s0\<lparr>as_status := ae_status e\<rparr>
      in if typ = ''started'' then s\<lparr>as_started_at := Val (ae_timestamp e)\<rparr>
         else if typ \<in> {''success'', ''failure''} then
           s\<lparr>as_completed_at := Val (ae_timestamp e), as_result := ae_result e\<rparr>
         else s)"

definition known_action_types :: "string set" where
  "known_action_types = {''started'', ''success'', ''failure'', ''awaiting_data''}"

definition change_action_row ::
  "(string \<Rightarrow> string) \<Rightarrow> string \<times> action_status_event \<Rightarrow> action_status \<Rightarrow> action_status" where
  "change_action_row local = (\<lambda>(typ, e) s. localize_action local (change_action typ e s))"

definition create_action_row :: "(string \<Rightarrow> string) \<Rightarrow> string \<times> action_status_event \<Rightarrow> action_status" where
  "create_action_row local = (\<lambda>(typ, e). localize_action local (toNewActionStatus e))"

abbreviation action_event_key :: "string \<times> action_status_event \<Rightarrow> string" where
  "action_event_key \<equiv> \<lambda>x. ae_execution_id (snd x)"

definition upsert_action ::
  "(string \<Rightarrow> string) \<Rightarrow> string \<times> action_status_event \<Rightarrow> action_status list \<Rightarrow> action_status list" where
  "upsert_action local = upsert as_execution_id action_event_key (change_action_row local) (create_action_row local)"

definition event_action :: "action_status_event \<Rightarrow> current_action" where
  "event_action e = \<lparr>cur_execution_id = ae_execution_id e, cur_id = ae_action_id e, cur_name = ae_name e,
     cur_action_name = ae_action_name e, cur_app_name = ae_app_name e\<rparr>"

definition action_side_effects ::
  "(string \<Rightarrow> string) \<Rightarrow> string \<Rightarrow> action_status_event \<Rightarrow> action_status \<Rightarrow> execution_view \<Rightarrow> execution_view" where
  "action_side_effects rel typ e r v =
     (if typ = ''started'' then v\<lparr>xv_as_started := (xv_as_started v)(as_execution_id r \<mapsto> rel (ae_timestamp e))\<rparr>
      else if typ \<in> {''success'', ''failure''} then
        v\<lparr>xv_as_completed := (xv_as_completed v)(as_execution_id r \<mapsto> rel (ae_timestamp e))\<rparr>
      else if typ \<in> known_action_types then v
      else add_toast (Warning (''Unknown Action Status SSE Type: '' @ typ @ ''.'')) v)"

definition set_current_action :: "action_status_event \<Rightarrow> execution_view \<Rightarrow> execution_view" where
  "set_current_action e v =
     v\<lparr>xv_rows := update_first (\<lambda>r. row_key r = ae_workflow_execution_id e)
         (\<lambda>(i, s). (i, s\<lparr>ws_current_action := Some (event_action e)\<rparr>)) (xv_rows v)\<rparr>"

definition actionStatusEventHandler ::
  "(string \<Rightarrow> string) \<Rightarrow> (string \<Rightarrow> string) \<Rightarrow> string \<Rightarrow> action_status_event \<Rightarrow> execution_view \<Rightarrow> execution_view" where
  "actionStatusEventHandler local rel typ e v =
     (let v1 = set_current_action e v;
          v2 = (case xv_loaded v1 of
              None \<Rightarrow> v1
            | Some l \<Rightarrow>
                if ws_execution_id l = ae_workflow_execution_id e then
                  let v' = (case List.find (\<lambda>r. as_execution_id r = ae_execution_id e) (ws_action_statuses l) of
                      Some r \<Rightarrow> action_side_effects rel typ e r v1 | None \<Rightarrow> v1)
                  in v'\<lparr>xv_loaded := Some (l\<lparr>ws_action_statuses := upsert_action local (typ, e) (ws_action_statuses l)\<rparr>)\<rparr>
                else v1)
      in filterWorkflowStatuses v2)"

section \<open>Running a workflow\<close>

definition getWorkflows_done :: "playbook list \<Rightarrow> execution_view \<Rightarrow> execution_view" where
  "getWorkflows_done pbs v =
     v\<lparr>xv_workflows := List.concat (map pb_workflows pbs),
       xv_available := (Val [], []) #
         List.concat (map (\<lambda>p. map (\<lambda>w. (wf_id w, pb_name p @ '' - '' @ wf_name w)) (pb_workflows p)) pbs)\<rparr>"

text \<open>The selection changes, and the id of the workflow to download is returned. An id that is not
  in the list leaves the selection \<open>undefined\<close> before the read of its id throws.\<close>

definition workflowSelectChange ::
  "string nullable \<Rightarrow> execution_view \<Rightarrow> execution_view \<times> string nullable option result" where
  "workflowSelectChange val v =
     (if \<not> truthy_str val then (v\<lparr>xv_selected := None\<rparr>, Inr None)
      else let w = List.find (\<lambda>w. wf_id w = val) (xv_workflows v)
           in (v\<lparr>xv_selected := w\<rparr>, case w of None \<Rightarrow> Inl TypeError | Some x \<Rightarrow> Inr (Some (wf_id x))))"

definition workflow_downloaded :: "workflow \<Rightarrow> execution_view \<Rightarrow> execution_view result" where
  "workflow_downloaded w v =
     bind_result (deref (xv_selected v)) (\<lambda>s. Inr (if wf_id s = wf_id w then v\<lparr>xv_selected := Some w\<rparr> else v))"

definition executeSelectedWorkflow_done :: "unit result \<Rightarrow> execution_view \<Rightarrow> execution_view" where
  "executeSelectedWorkflow_done answer v =
     (case bind_result answer (\<lambda>_. deref (xv_selected v)) of
        Inl e \<Rightarrow> add_toast (Failure (''Error executing workflow: '' @ error_message e)) v
      | Inr w \<Rightarrow> add_toast (Success (''Successfully started execution of \"'' @ wf_name w @ ''\"'')) v)"

definition performWorkflowStatusAction_done ::
  "workflow_status \<Rightarrow> string \<Rightarrow> unit result \<Rightarrow> execution_view \<Rightarrow> execution_view" where
  "performWorkflowStatusAction_done s actionName answer v =
     (case answer of
        Inl e \<Rightarrow> add_toast (Failure (''Error performing '' @ actionName @ '' on workflow: '' @ error_message e)) v
      | Inr _ \<Rightarrow> add_toast (Success (''Successfully told '' @ ws_name s @ '' to  '' @ actionName)) v)"

text \<open>The values entered for the referenced variables, in a form keyed by variable id.\<close>

definition variables_entered :: "(string \<rightharpoonup> string) \<Rightarrow> workflow \<Rightarrow> environment_variable list" where
  "variables_entered form w =
     List.map_filter (\<lambda>x. case form (ev_id x) of
         None \<Rightarrow> None
       | Some s \<Rightarrow> if s \<noteq> [] then Some \<lparr>ev_id = ev_id x, ev_name = Undefined, ev_value = Val s, ev_description = Undefined\<rparr> else None)
       (referenced_variables w)"

section \<open>The modal with the action statuses\<close>

definition openActionStatusModal_needs_download :: "workflow_status \<Rightarrow> execution_view \<Rightarrow> bool" where
  "openActionStatusModal_needs_download s v =
     (case xv_loaded v of None \<Rightarrow> True | Some l \<Rightarrow> ws_execution_id l \<noteq> ws_execution_id s)"

definition openActionStatusModal_done ::
  "(string \<Rightarrow> string) \<Rightarrow> (string \<Rightarrow> string) \<Rightarrow> workflow_status \<Rightarrow> workflow_status result \<Rightarrow> execution_view \<Rightarrow> execution_view" where
  "openActionStatusModal_done local rel s answer v =
     (case answer of
        Inl e \<Rightarrow> add_toast (Failure (''Error loading action results for \"'' @ ws_name s @ ''\": '' @ error_message e)) v
      | Inr full \<Rightarrow>
          recalculateRelativeTimes rel
            (v\<lparr>xv_loaded := Some ((localize_workflow local full)
                 \<lparr>ws_action_statuses := map (localize_action local) (ws_action_statuses full)\<rparr>)\<rparr>))"

section \<open>Columns of the table\<close>

definition getAppName :: "current_action option \<Rightarrow> string" where
  "getAppName c = (case c of None \<Rightarrow> ''N/A'' | Some a \<Rightarrow> cur_app_name a)"

definition getActionName :: "current_action option \<Rightarrow> string" where
  "getActionName c = (case c of None \<Rightarrow> ''N/A''
     | Some a \<Rightarrow> if cur_name a \<noteq> cur_action_name a then cur_name a @ '' ('' @ cur_action_name a @ '')'' else cur_name a)"

text \<open>The comparators return nothing for equal names.\<close>

definition current_action_comparator ::
  "(current_action \<Rightarrow> string) \<Rightarrow> current_action option \<Rightarrow> current_action option \<Rightarrow> int option" where
  "current_action_comparator name a b =
     (case a of None \<Rightarrow> Some 1
      | Some x \<Rightarrow> (case b of None \<Rightarrow> Some (- 1)
        | Some y \<Rightarrow>
            if toLowerCase (name x) < toLowerCase (name y) then Some (- 1)
            else if toLowerCase (name y) < toLowerCase (name x) then Some 1 else None))"

definition appNameComparator :: "current_action option \<Rightarrow> current_action option \<Rightarrow> int option" where
  "appNameComparator = current_action_comparator cur_app_name"

definition actionNameComparator :: "current_action option \<Rightarrow> current_action option \<Rightarrow> int option" where
  "actionNameComparator = current_action_comparator cur_action_name"

end
