(* ===== verification/ExecutionInvariant.thy ===== *)
theory ExecutionInvariant
  imports ExecutionView
begin

text \<open>
  The execution page under any interleaving of events: the table refines a map from execution ids to
  statuses, the identities of its objects stay consistent with the displayed array and the pending
  timers, and what a completed execution shows.
\<close>

section \<open>The two tables\<close>

interpretation wf_table: upsert_table row_key event_key "change_row local" "create_row local"
    "\<lambda>r. ws_status (snd r)" "\<lambda>x. we_status (snd (snd x))" for local
  by unfold_locales
    (auto simp: change_row_def create_row_def change_workflow_def toNewWorkflowStatus_def Let_def split: prod.splits)

interpretation as_table: upsert_table as_execution_id action_event_key "change_action_row local"
    "create_action_row local" as_status "\<lambda>x. ae_status (snd x)" for local
  by unfold_locales
    (auto simp: change_action_row_def create_action_row_def change_action_def toNewActionStatus_def Let_def
      split: prod.splits)

section \<open>Frames\<close>

lemma filterWorkflowStatuses_frame [simp, frame_simps]:
  "xv_rows (filterWorkflowStatuses v) = xv_rows v"
  "xv_next (filterWorkflowStatuses v) = xv_next v"
  "xv_timers (filterWorkflowStatuses v) = xv_timers v"
  "xv_loaded (filterWorkflowStatuses v) = xv_loaded v"
  "xv_filter (filterWorkflowStatuses v) = xv_filter v"
  by (simp_all add: filterWorkflowStatuses_def Let_def)

lemma workflow_side_effects_frame [simp, frame_simps]:
  "xv_rows (workflow_side_effects rel typ e r v) = xv_rows v"
  "xv_next (workflow_side_effects rel typ e r v) = xv_next v"
  "xv_loaded (workflow_side_effects rel typ e r v) = xv_loaded v"
  "xv_timers (workflow_side_effects rel typ e r v) =
     xv_timers v @ (if typ = ''completed'' then [(fst r, e)] else [])"
  by (auto simp: workflow_side_effects_def add_toast_def Let_def)

lemma action_side_effects_frame [simp, frame_simps]:
  "xv_rows (action_side_effects rel typ e r v) = xv_rows v"
  "xv_next (action_side_effects rel typ e r v) = xv_next v"
  "xv_timers (action_side_effects rel typ e r v) = xv_timers v"
  by (auto simp: action_side_effects_def add_toast_def)

lemma set_current_action_frame [simp, frame_simps]:
  "xv_next (set_current_action e v) = xv_next v"
  "xv_timers (set_current_action e v) = xv_timers v"
  "xv_loaded (set_current_action e v) = xv_loaded v"
  "map row_key (xv_rows (set_current_action e v)) = map row_key (xv_rows v)"
  "map fst (xv_rows (set_current_action e v)) = map fst (xv_rows v)"
  "map (\<lambda>r. ws_status (snd r)) (xv_rows (set_current_action e v)) = map (\<lambda>r. ws_status (snd r)) (xv_rows v)"
  by (auto simp: set_current_action_def split: prod.splits intro!: map_update_first_same)

lemma actionStatusEventHandler_frame [simp, frame_simps]:
  "xv_rows (actionStatusEventHandler local rel typ e v) = xv_rows (set_current_action e v)"
  "xv_next (actionStatusEventHandler local rel typ e v) = xv_next v"
  "xv_timers (actionStatusEventHandler local rel typ e v) = xv_timers v"
  by (auto simp: actionStatusEventHandler_def Let_def split: option.splits)

lemma recalculateRelativeTimes_frame [simp, frame_simps]:
  "xv_rows (recalculateRelativeTimes rel v) = xv_rows v"
  "xv_next (recalculateRelativeTimes rel v) = xv_next v"
  "xv_timers (recalculateRelativeTimes rel v) = xv_timers v"
  "xv_display (recalculateRelativeTimes rel v) = xv_display v"
  "xv_filter (recalculateRelativeTimes rel v) = xv_filter v"
  "xv_loaded (recalculateRelativeTimes rel v) = xv_loaded v"
  by (auto simp: recalculateRelativeTimes_def Let_def split: option.splits)

lemma workflowStatusEventHandler_rows:
  "xv_rows (workflowStatusEventHandler local rel typ e v) =
     wf_table.put local (xv_next v, typ, e) (xv_rows v)"
  by (auto simp: workflowStatusEventHandler_def Let_def split: option.splits)

lemma workflowStatusEventHandler_next:
  "xv_next (workflowStatusEventHandler local rel typ e v) =
     (if matching_row (we_execution_id e) v = None then Suc (xv_next v) else xv_next v)"
  by (auto simp: workflowStatusEventHandler_def Let_def split: option.splits)

lemma workflowStatusEventHandler_timers:
  "xv_timers (workflowStatusEventHandler local rel typ e v) =
     xv_timers v @ (case matching_row (we_execution_id e) v of
        Some r \<Rightarrow> if typ = ''completed'' then [(fst r, e)] else [] | None \<Rightarrow> [])"
  by (auto simp: workflowStatusEventHandler_def Let_def split: option.splits)

lemma fire_timer_frame [simp, frame_simps]:
  "map row_key (xv_rows (fire_timer rel v)) = map row_key (xv_rows v)"
  "map fst (xv_rows (fire_timer rel v)) = map fst (xv_rows v)"
  "map (\<lambda>r. ws_status (snd r)) (xv_rows (fire_timer rel v)) = map (\<lambda>r. ws_status (snd r)) (xv_rows v)"
  "xv_next (fire_timer rel v) = xv_next v"
  "xv_timers (fire_timer rel v) = tl (xv_timers v)"
  by (auto simp: fire_timer_def split: list.splits prod.splits)

section \<open>Everything that happens to the page\<close>

datatype page_event =
    WorkflowEvent string workflow_status_event
  | ActionEvent string action_status_event
  | TimerFires
  | FilterTyped "string nullable"
  | MinuteTick
  | StatusesListed "workflow_status list result"

fun page_step :: "(string \<Rightarrow> string) \<Rightarrow> (string \<Rightarrow> string) \<Rightarrow> page_event \<Rightarrow> execution_view \<Rightarrow> execution_view" where
  "page_step local rel (WorkflowEvent typ e) v = workflowStatusEventHandler local rel typ e v"
| "page_step local rel (ActionEvent typ e) v = actionStatusEventHandler local rel typ e v"
| "page_step local rel TimerFires v = fire_timer rel v"
| "page_step local rel (FilterTyped q) v = filterWorkflowStatuses (v\<lparr>xv_filter := q\<rparr>)"
| "page_step local rel MinuteTick v = recalculateRelativeTimes rel v"
| "page_step local rel (StatusesListed answer) v = getWorkflowStatuses_done local rel answer v"

definition page_run :: "(string \<Rightarrow> string) \<Rightarrow> (string \<Rightarrow> string) \<Rightarrow> page_event list \<Rightarrow> execution_view \<Rightarrow> execution_view" where
  "page_run local rel es v = foldl (\<lambda>v e. page_step local rel e v) v es"

section \<open>Refinement to a map\<close>

definition shown_statuses :: "execution_view \<Rightarrow> string \<rightharpoonup> string" where
  "shown_statuses v = table row_key (\<lambda>r. ws_status (snd r)) (xv_rows v)"

text \<open>What an event means for the map: workflow events write it, a downloaded list replaces it, and
  nothing else touches it.\<close>

fun status_effect :: "page_event \<Rightarrow> (string \<rightharpoonup> string) \<Rightarrow> (string \<rightharpoonup> string)" where
  "status_effect (WorkflowEvent typ e) m = m(we_execution_id e \<mapsto> we_status e)"
| "status_effect (StatusesListed (Inr ss)) m = table ws_execution_id ws_status ss"
| "status_effect _ m = m"

lemma table_cong:
  assumes "map key xs = map key' ys" and "map shown xs = map shown' ys"
  shows "table key shown xs = table key' shown' ys"
proof
  fix k
  have "length xs = length ys" using assms(1) map_eq_imp_length_eq by blast
  then show "table key shown xs k = table key' shown' ys k"
    using assms by (induction xs ys rule: list_induct2) (auto simp: table_def)
qed

lemma getWorkflowStatuses_done_rows:
  "xv_rows (getWorkflowStatuses_done local rel (Inr ss) v) =
     zip [xv_next v ..< xv_next v + length ss] (map (localize_workflow local) ss)"
  by (simp add: getWorkflowStatuses_done_def Let_def)

lemma zip_keys: "length xs = length ys \<Longrightarrow> map (\<lambda>r. f (snd r)) (zip xs ys) = map f ys"
  by (induction xs ys rule: list_induct2) auto

lemma status_effect_step:
  "shown_statuses (page_step local rel e v) = status_effect e (shown_statuses v)"
proof (cases e)
  case (StatusesListed answer)
  show ?thesis
  proof (cases answer)
    case (Inl x)
    with StatusesListed show ?thesis
      by (simp add: shown_statuses_def getWorkflowStatuses_done_def add_toast_def)
  next
    case (Inr ss)
    have "table row_key (\<lambda>r. ws_status (snd r)) (zip [xv_next v ..< xv_next v + length ss] (map (localize_workflow local) ss))
        = table ws_execution_id ws_status ss"
      by (rule table_cong) (simp_all add: zip_keys comp_def)
    with StatusesListed Inr show ?thesis
      by (simp add: shown_statuses_def getWorkflowStatuses_done_rows)
  qed
qed (auto simp: shown_statuses_def workflowStatusEventHandler_rows wf_table.table_upsert intro!: table_cong)

text \<open>C6. The status table refines a map from execution ids to statuses: after any sequence of
  workflow events, action events, delayed completions, filterings and downloads, each execution
  shows the status of its last workflow event, as a map updated by the events alone would.\<close>

theorem page_refines_status_map:
  "shown_statuses (page_run local rel es v) = foldl (\<lambda>m e. status_effect e m) (shown_statuses v) es"
  by (induction es arbitrary: v) (simp_all add: page_run_def status_effect_step)

section \<open>Consistency of identities\<close>

definition view_ok :: "execution_view \<Rightarrow> bool" where
  "view_ok v \<longleftrightarrow> distinct (map row_key (xv_rows v)) \<and> distinct (map fst (xv_rows v)) \<and>
     (\<forall>i \<in> fst ` set (xv_rows v). i < xv_next v) \<and>
     (\<forall>t \<in> set (xv_timers v). fst t < xv_next v \<and>
        (\<forall>r \<in> set (xv_rows v). fst r = fst t \<longrightarrow> row_key r = we_execution_id (snd t)))"

lemma set_tl_subset: "set (tl xs) \<subseteq> set xs"
  by (cases xs) auto

text \<open>What the invariant needs of a step that keeps the objects in their places.\<close>

lemma view_ok_same_rows:
  assumes "view_ok v" and "map row_key (xv_rows v') = map row_key (xv_rows v)"
    and "map fst (xv_rows v') = map fst (xv_rows v)" and "xv_next v' = xv_next v"
    and "set (xv_timers v') \<subseteq> set (xv_timers v)"
  shows "view_ok v'"
proof -
  have p: "map (\<lambda>r. (fst r, row_key r)) (xv_rows v') = map (\<lambda>r. (fst r, row_key r)) (xv_rows v)"
    using assms(2,3) by (simp add: list_eq_iff_nth_eq)
  have s: "(\<lambda>r. (fst r, row_key r)) ` set (xv_rows v') = (\<lambda>r. (fst r, row_key r)) ` set (xv_rows v)"
    using arg_cong[OF p, of set] by simp
  have f: "fst ` set (xv_rows v') = fst ` set (xv_rows v)"
    using arg_cong[OF assms(3), of set] by simp
  have "row_key r = we_execution_id (snd t)"
    if "t \<in> set (xv_timers v')" "r \<in> set (xv_rows v')" "fst r = fst t" for t r
  proof -
    have "(fst r, row_key r) \<in> (\<lambda>r. (fst r, row_key r)) ` set (xv_rows v)"
      using that(2) s by (metis (mono_tags, lifting) image_eqI)
    then obtain r0 where r0: "r0 \<in> set (xv_rows v)" "fst r0 = fst r" "row_key r0 = row_key r"
      by (metis (mono_tags, lifting) imageE prod.inject)
    moreover have "t \<in> set (xv_timers v)" using assms(5) that(1) by blast
    ultimately show ?thesis using assms(1) that(3) unfolding view_ok_def by metis
  qed
  then show ?thesis
    using assms f unfolding view_ok_def by (metis subset_iff)
qed

lemma map_fst_upsert_row:
  "map fst (wf_table.put local (n, typ, e) rows) =
     (if List.find (\<lambda>r. row_key r = we_execution_id e) rows = None then map fst rows @ [n] else map fst rows)"
  by (auto simp: upsert_def change_row_def create_row_def split: option.splits prod.splits
      intro!: map_update_first_same)

lemma matching_row_find: "matching_row k v = List.find (\<lambda>r. row_key r = k) (xv_rows v)"
  by (simp add: matching_row_def case_prod_unfold)

lemma view_ok_workflow_event:
  assumes "view_ok v"
  shows "view_ok (workflowStatusEventHandler local rel typ e v)"
proof (cases "matching_row (we_execution_id e) v")
  case None
  let ?v = "workflowStatusEventHandler local rel typ e v"
  have rows: "xv_rows ?v = xv_rows v @ [create_row local (xv_next v, typ, e)]"
    using None by (simp add: workflowStatusEventHandler_rows upsert_def matching_row_find)
  have "distinct (map row_key (xv_rows ?v))"
    using assms by (simp add: workflowStatusEventHandler_rows wf_table.distinct_upsert view_ok_def)
  with assms None show ?thesis
    by (auto simp: view_ok_def rows workflowStatusEventHandler_next workflowStatusEventHandler_timers
        create_row_def less_Suc_eq)
next
  case (Some r)
  let ?v = "workflowStatusEventHandler local rel typ e v"
  let ?u = "v\<lparr>xv_timers := xv_timers ?v\<rparr>"
  have r: "r \<in> set (xv_rows v)" "row_key r = we_execution_id e"
    using find_SomeD[OF Some[unfolded matching_row_find]] by auto
  have "we_execution_id e = row_key r'" if "r' \<in> set (xv_rows v)" "fst r' = fst r" for r'
    using assms r that by (metis (mono_tags, lifting) distinct_map inj_onD view_ok_def)
  moreover have "xv_timers ?v = xv_timers v @ (if typ = ''completed'' then [(fst r, e)] else [])"
    using Some by (simp add: workflowStatusEventHandler_timers)
  ultimately have "view_ok ?u"
    using assms r(1) by (auto simp: view_ok_def)
  moreover have "row_key r \<in> row_key ` set (xv_rows v)" using r(1) by (rule imageI)
  ultimately show ?thesis
    using Some r
    by (elim view_ok_same_rows)
      (simp_all add: workflowStatusEventHandler_rows wf_table.keys_upsert workflowStatusEventHandler_next
        map_fst_upsert_row matching_row_find)
qed

lemma view_ok_listed:
  assumes "view_ok v" and "distinct (map ws_execution_id ss)"
  shows "view_ok (getWorkflowStatuses_done local rel (Inr ss) v)"
proof -
  let ?v = "getWorkflowStatuses_done local rel (Inr ss) v"
  have "map row_key (xv_rows ?v) = map ws_execution_id ss"
    by (simp add: getWorkflowStatuses_done_rows zip_keys comp_def)
  moreover have "map fst (xv_rows ?v) = [xv_next v ..< xv_next v + length ss]"
    by (simp add: getWorkflowStatuses_done_rows)
  moreover have "\<forall>r \<in> set (xv_rows ?v). xv_next v \<le> fst r \<and> fst r < xv_next v + length ss"
    by (auto simp: getWorkflowStatuses_done_rows dest!: set_zip_leftD)
  moreover have "xv_timers ?v = xv_timers v" "xv_next ?v = xv_next v + length ss"
    by (simp_all add: getWorkflowStatuses_done_def Let_def)
  moreover have "fst r \<noteq> fst t" if "r \<in> set (xv_rows ?v)" "t \<in> set (xv_timers v)" for r t
    using that calculation(3) assms(1) unfolding view_ok_def by (metis leD)
  ultimately show ?thesis
    using assms unfolding view_ok_def by (auto intro: trans_less_add1)
qed

fun listed_ok :: "page_event \<Rightarrow> bool" where
  "listed_ok (StatusesListed (Inr ss)) = distinct (map ws_execution_id ss)"
| "listed_ok _ = True"

lemma view_ok_step: "view_ok v \<Longrightarrow> listed_ok e \<Longrightarrow> view_ok (page_step local rel e v)"
proof (cases e)
  case (StatusesListed answer)
  assume a: "view_ok v" "listed_ok e"
  show ?thesis
  proof (cases answer)
    case (Inl x)
    with StatusesListed a show ?thesis
      by (simp add: getWorkflowStatuses_done_def add_toast_def view_ok_def)
  next
    case (Inr ss)
    with StatusesListed a show ?thesis by (simp add: view_ok_listed)
  qed
next
  case TimerFires
  assume "view_ok v"
  then show ?thesis
    by (elim view_ok_same_rows) (simp_all add: TimerFires set_tl_subset)
qed (auto simp: view_ok_workflow_event elim: view_ok_same_rows)


section \<open>Completed and aborted executions\<close>

lemma matching_row_upsert:
  "matching_row (we_execution_id e) (v\<lparr>xv_rows := wf_table.put local (n, typ, e) rows\<rparr>) =
     Some (case List.find (\<lambda>r. row_key r = we_execution_id e) rows of
        Some r \<Rightarrow> change_row local (n, typ, e) r | None \<Rightarrow> create_row local (n, typ, e))"
  using wf_table.find_upsert_same[of "(n, typ, e)" local rows] by (simp add: matching_row_find)

lemma find_map_snd:
  assumes "\<And>r. row_key (f r) = row_key r"
  shows "List.find (\<lambda>r. row_key r = k) (map f rows) = map_option f (List.find (\<lambda>r. row_key r = k) rows)"
  using assms by (induction rows) auto

lemma matching_row_fire_timer:
  assumes "xv_timers v = (i, e) # ts" and "matching_row k v = Some (i, s)"
  shows "matching_row k (fire_timer rel v) =
    Some (i, s\<lparr>ws_completed_at := Val (we_timestamp e), ws_current_action := None\<rparr>)"
  using assms
  by (simp add: matching_row_find fire_timer_def)
    (subst find_map_snd; auto split: prod.splits)

text \<open>C25. Once its delayed part has run, a \<open>completed\<close> event leaves the execution's row with
  the event's status and completion time and no current action. The localized completion time,
  which the table shows, was computed before the completion time was set and is not updated.\<close>

theorem completed_row:
  assumes "matching_row (we_execution_id e) v = Some (i, s)" and "xv_timers v = []"
  shows "matching_row (we_execution_id e) (fire_timer rel (workflowStatusEventHandler local rel ''completed'' e v)) =
    Some (i, s\<lparr>ws_status := we_status e, ws_completed_at := Val (we_timestamp e), ws_current_action := None,
      ws_localized_started_at := set_time local (ws_started_at s) (ws_localized_started_at s),
      ws_localized_completed_at := set_time local (ws_completed_at s) (ws_localized_completed_at s)\<rparr>)"
proof -
  let ?v = "workflowStatusEventHandler local rel ''completed'' e v"
  have t: "xv_timers ?v = [(i, e)]"
    using assms by (simp add: workflowStatusEventHandler_timers)
  have "matching_row (we_execution_id e) ?v = Some (change_row local (xv_next v, ''completed'', e) (i, s))"
    using assms(1) wf_table.find_upsert_same[of "(xv_next v, ''completed'', e)" local "xv_rows v"]
    by (simp add: matching_row_find workflowStatusEventHandler_rows)
  then have m: "matching_row (we_execution_id e) ?v =
      Some (i, localize_workflow local (s\<lparr>ws_status := we_status e\<rparr>))"
    by (simp add: change_row_def change_workflow_def)
  show ?thesis
    by (subst matching_row_fire_timer[OF t m]) (simp add: localize_workflow_def)
qed

text \<open>An aborted execution gets its localized completion time at once.\<close>

lemma aborted_row:
  assumes "matching_row (we_execution_id e) v = Some (i, s)" and "we_timestamp e \<noteq> []"
  shows "\<exists>s'. matching_row (we_execution_id e) (workflowStatusEventHandler local rel ''aborted'' e v) = Some (i, s')
    \<and> ws_completed_at s' = Val (we_timestamp e) \<and> ws_localized_completed_at s' = Val (local (we_timestamp e))"
proof -
  have "matching_row (we_execution_id e) (workflowStatusEventHandler local rel ''aborted'' e v) =
      Some (change_row local (xv_next v, ''aborted'', e) (i, s))"
    using assms(1) wf_table.find_upsert_same[of "(xv_next v, ''aborted'', e)" local "xv_rows v"]
    by (simp add: matching_row_find workflowStatusEventHandler_rows)
  then show ?thesis
    using assms(2) by (simp add: change_row_def change_workflow_def localize_workflow_def set_time_def)
qed

section \<open>What is displayed\<close>

definition displayed :: "execution_view \<Rightarrow> workflow_status list" where
  "displayed v = map snd (filter (\<lambda>(i, s). i \<in> set (xv_display v)) (xv_rows v))"

lemma filter_by_key_image:
  "distinct (map fst rows) \<Longrightarrow>
   filter (\<lambda>(i, s). i \<in> fst ` {r \<in> set rows. P (snd r)}) rows = filter (\<lambda>(i, s). P s) rows"
proof -
  assume d: "distinct (map fst rows)"
  have "(fst r \<in> fst ` {r \<in> set rows. P (snd r)}) = P (snd r)" if "r \<in> set rows" for r
  proof
    assume "fst r \<in> fst ` {r \<in> set rows. P (snd r)}"
    then obtain r' where "r' \<in> set rows" "fst r' = fst r" "P (snd r')" by auto
    moreover have "r' = r" using d calculation that by (metis distinct_map inj_onD)
    ultimately show "P (snd r)" by simp
  qed (use that in auto)
  then show ?thesis by (auto simp: case_prod_unfold intro!: filter_cong)
qed

text \<open>After every workflow or action event the page displays, in the order of the table, exactly
  the executions that match the search text, with the event already applied.\<close>

theorem event_refreshes_display:
  assumes "view_ok v" and "v' = workflowStatusEventHandler local rel typ e v \<or> v' = actionStatusEventHandler local rel typ' e' v"
  shows "displayed v' =
    filter (status_matches (toLowerCase (str_or_empty (xv_filter v')))) (map snd (xv_rows v'))"
proof -
  obtain u where u: "v' = filterWorkflowStatuses u"
    using assms(2) by (auto simp: workflowStatusEventHandler_def actionStatusEventHandler_def Let_def)
  have ok: "view_ok v'"
    using assms view_ok_workflow_event[of v] view_ok_step[of v "ActionEvent typ' e'" local rel] by auto
  let ?q = "toLowerCase (str_or_empty (xv_filter v'))"
  have q: "(if truthy_str (xv_filter u) then toLowerCase (str_or_empty (xv_filter u)) else []) = ?q"
    by (cases "xv_filter u") (auto simp: u toLowerCase_def)
  have "set (xv_display v') = fst ` {r \<in> set (xv_rows v'). status_matches ?q (snd r)}"
    using q by (auto simp: u filterWorkflowStatuses_def Let_def case_prod_unfold)
  then have "displayed v' = map snd (filter (\<lambda>(i, s). i \<in> fst ` {r \<in> set (xv_rows v'). status_matches ?q (snd r)}) (xv_rows v'))"
    by (simp add: displayed_def)
  also have "\<dots> = map snd (filter (\<lambda>(i, s). status_matches ?q s) (xv_rows v'))"
    using ok by (subst filter_by_key_image) (simp_all add: view_ok_def)
  also have "\<dots> = filter (status_matches ?q) (map snd (xv_rows v'))"
    by (simp add: filter_map comp_def case_prod_unfold)
  finally show ?thesis .
qed

section \<open>The action statuses in the modal\<close>

definition action_events ::
  "(string \<Rightarrow> string) \<Rightarrow> (string \<times> action_status_event) list \<Rightarrow> action_status list \<Rightarrow> action_status list" where
  "action_events local es rows = foldl (\<lambda>rows e. upsert_action local e rows) rows es"

lemma loaded_after_action_event:
  assumes "xv_loaded v = Some l" and "ws_execution_id l = ae_workflow_execution_id e"
  shows "xv_loaded (actionStatusEventHandler local rel typ e v) =
    Some (l\<lparr>ws_action_statuses := upsert_action local (typ, e) (ws_action_statuses l)\<rparr>)"
  using assms by (auto simp: actionStatusEventHandler_def Let_def split: option.splits)

lemma distinct_action_events:
  "distinct (map as_execution_id rows) \<Longrightarrow> distinct (map as_execution_id (action_events local es rows))"
  by (induction es arbitrary: rows)
    (simp_all add: action_events_def upsert_action_def as_table.distinct_upsert)

lemma table_action_events:
  "table as_execution_id as_status (action_events local es rows) =
     put_all action_event_key (\<lambda>x. ae_status (snd x)) es (table as_execution_id as_status rows)"
  by (simp add: action_events_def upsert_action_def as_table.table_events)

lemma ws_execution_id_statuses [simp]:
  "ws_execution_id (l\<lparr>ws_action_statuses := x\<rparr>) = ws_execution_id l" by simp

text \<open>C26. While an execution is open in the modal, its action statuses refine a map: after any number
  of its action events each action execution shows the status of its last event, and no action
  execution gets a second row.\<close>

theorem modal_refines_action_map:
  assumes "xv_loaded v = Some l" and "\<forall>x \<in> set es. ae_workflow_execution_id (snd x) = ws_execution_id l"
    and "distinct (map as_execution_id (ws_action_statuses l))"
  shows "\<exists>l'. xv_loaded (page_run local rel (map (\<lambda>(typ, e). ActionEvent typ e) es) v) = Some l' \<and>
    distinct (map as_execution_id (ws_action_statuses l')) \<and>
    table as_execution_id as_status (ws_action_statuses l') =
      put_all (\<lambda>x. ae_execution_id (snd x)) (\<lambda>x. ae_status (snd x)) es
        (table as_execution_id as_status (ws_action_statuses l))"
proof -
  have "xv_loaded (page_run local rel (map (\<lambda>(typ, e). ActionEvent typ e) es) v) =
      Some (l\<lparr>ws_action_statuses := action_events local es (ws_action_statuses l)\<rparr>)"
    using assms(1,2)
  proof (induction es arbitrary: v l)
    case (Cons x es)
    obtain ty e where x: "x = (ty, e)" by (cases x)
    have "xv_loaded (actionStatusEventHandler local rel ty e v) =
        Some (l\<lparr>ws_action_statuses := upsert_action local x (ws_action_statuses l)\<rparr>)"
      using Cons.prems by (simp add: x loaded_after_action_event)
    from Cons.IH[OF this] Cons.prems show ?case
      by (simp add: page_run_def action_events_def x)
  qed (simp add: page_run_def action_events_def)
  then show ?thesis
    using assms(3) by (simp add: distinct_action_events table_action_events)
qed

section \<open>Entered variables\<close>

text \<open>A run is started with exactly the referenced variables for which a non-empty value was
  entered, each with that value, in the order the workflow declares them.\<close>

theorem variables_entered_spec:
  "map (\<lambda>x. (ev_id x, ev_value x)) (variables_entered form w) =
     map (\<lambda>x. (ev_id x, Val (the (form (ev_id x)))))
       (filter (\<lambda>x. form (ev_id x) \<notin> {None, Some []}) (referenced_variables w))"
proof -
  have "map (\<lambda>x. (ev_id x, ev_value x)) (List.map_filter (\<lambda>x. case form (ev_id x) of None \<Rightarrow> None
      | Some s \<Rightarrow> if s \<noteq> [] then Some \<lparr>ev_id = ev_id x, ev_name = Undefined, ev_value = Val s, ev_description = Undefined\<rparr> else None) xs)
    = map (\<lambda>x. (ev_id x, Val (the (form (ev_id x))))) (filter (\<lambda>x. form (ev_id x) \<notin> {None, Some []}) xs)" for xs :: "environment_variable list"
    by (induction xs) (auto simp: map_filter_simps split: option.splits)
  then show ?thesis by (simp add: variables_entered_def)
qed

section \<open>A sample page\<close>

definition sample_workflow_event :: workflow_status_event where
  "sample_workflow_event = \<lparr>we_execution_id = ''e1'', we_workflow_id = ''w1'', we_name = ''scan'',
     we_user = ''admin'', we_timestamp = ''t1'', we_status = ''running'', we_current_action = None\<rparr>"

definition sample_workflow_status :: workflow_status where
  "sample_workflow_status = toNewWorkflowStatus sample_workflow_event"

definition sample_action_event :: action_status_event where
  "sample_action_event = \<lparr>ae_workflow_execution_id = ''e1'', ae_workflow_id = ''w1'', ae_execution_id = ''x1'',
     ae_action_id = ''a1'', ae_name = ''log'', ae_app_name = ''Utils'', ae_action_name = ''log'',
     ae_status = ''executing'', ae_timestamp = ''t2'', ae_arguments = [], ae_result = JUndef\<rparr>"

definition sample_view :: execution_view where
  "sample_view = new_execution_view\<lparr>xv_rows := [(0, sample_workflow_status)], xv_next := 1,
     xv_loaded := Some sample_workflow_status\<rparr>"

lemmas sample_view_defs = sample_view_def sample_workflow_status_def sample_workflow_event_def
  sample_action_event_def new_execution_view_def toNewWorkflowStatus_def

lemma sample_view_ok: "view_ok sample_view"
  by (simp add: view_ok_def sample_view_defs)


theorem completed_row_witness:
  "matching_row (we_execution_id sample_workflow_event)
     (fire_timer id (workflowStatusEventHandler id id ''completed'' sample_workflow_event sample_view)) =
   Some (0, sample_workflow_status\<lparr>ws_status := ''running'', ws_completed_at := Val ''t1'', ws_current_action := None\<rparr>)"
  by (subst completed_row[where i = 0 and s = sample_workflow_status])
    (simp_all add: matching_row_def sample_view_defs set_time_def)

theorem event_refreshes_display_witness:
  "displayed (actionStatusEventHandler id id ''started'' sample_action_event sample_view) =
     filter (status_matches (toLowerCase (str_or_empty (xv_filter (actionStatusEventHandler id id ''started'' sample_action_event sample_view)))))
       (map snd (xv_rows (actionStatusEventHandler id id ''started'' sample_action_event sample_view)))"
  by (rule event_refreshes_display[OF sample_view_ok]) blast

theorem modal_refines_action_map_witness:
  "\<exists>l'. xv_loaded (page_run id id (map (\<lambda>(typ, e). ActionEvent typ e) [(''started'', sample_action_event)]) sample_view) = Some l' \<and>
    distinct (map as_execution_id (ws_action_statuses l')) \<and>
    table as_execution_id as_status (ws_action_statuses l') =
      put_all (\<lambda>x. ae_execution_id (snd x)) (\<lambda>x. ae_status (snd x)) [(''started'', sample_action_event)]
        (table as_execution_id as_status (ws_action_statuses sample_workflow_status))"
  by (rule modal_refines_action_map) (simp_all add: sample_view_defs)

end
