(* ===== verification/DeviceModel.thy ===== *)
theory DeviceModel
  imports AppApi
begin

text \<open>
  Devices, users and roles, and the forms in which the modals edit them
  (\<^verbatim>\<open>models/device.ts\<close>, \<^verbatim>\<open>models/workingDevice.ts\<close>,
  \<^verbatim>\<open>models/user.ts\<close>, \<^verbatim>\<open>models/workingUser.ts\<close>,
  \<^verbatim>\<open>models/role.ts\<close>, \<^verbatim>\<open>models/resource.ts\<close>). A device keeps its
  fields as a list of name-value pairs, its working copy as an object keyed by name.
\<close>

section \<open>Devices\<close>

record device =
  dev_id :: "int nullable"
  dev_name :: "string nullable"
  dev_description :: "string nullable"
  dev_type :: "string nullable"
  dev_app_name :: "string nullable"
  dev_fields :: "(string \<times> jsval) list"

record working_device =
  wd_id :: "int nullable"
  wd_name :: "string nullable"
  wd_description :: "string nullable"
  wd_app_name :: "string nullable"
  wd_type :: "string nullable"
  wd_fields :: jsobj

definition toDevice :: "working_device \<Rightarrow> device" where
  "toDevice w = \<lparr>dev_id = wd_id w, dev_name = wd_name w, dev_description = wd_description w,
     dev_type = wd_type w, dev_app_name = wd_app_name w,
     dev_fields = map (\<lambda>k. (k, obj_read (wd_fields w) k)) (obj_keys (wd_fields w))\<rparr>"

definition fields_object :: "(string \<times> jsval) list \<Rightarrow> jsobj" where
  "fields_object fs = foldl (\<lambda>ob (n, v). obj_set n (if v = JUndef then JNull else v) ob) [] fs"

definition fromDevice :: "device \<Rightarrow> working_device" where
  "fromDevice d = \<lparr>wd_id = dev_id d, wd_name = dev_name d, wd_description = dev_description d,
     wd_app_name = dev_app_name d, wd_type = dev_type d, wd_fields = fields_object (dev_fields d)\<rparr>"

lemma foldl_fields:
  "distinct (map fst ob @ map fst fs) \<Longrightarrow>
   foldl (\<lambda>ob (n, v). obj_set n (if v = JUndef then JNull else v) ob) ob fs =
     ob @ map (\<lambda>(n, v). (n, if v = JUndef then JNull else v)) fs"
proof (induction fs arbitrary: ob)
  case (Cons x fs)
  obtain n v where x: "x = (n, v)" by (cases x)
  have "obj_set n (if v = JUndef then JNull else v) ob = ob @ [(n, if v = JUndef then JNull else v)]"
    using Cons.prems by (intro obj_set_new) (auto simp: x)
  with Cons show ?case by (simp add: x)
qed simp

lemma fields_object_distinct:
  "distinct (map fst fs) \<Longrightarrow> fields_object fs = map (\<lambda>(n, v). (n, if v = JUndef then JNull else v)) fs"
  using foldl_fields[of "[]" fs] by (simp add: fields_object_def)

lemma obj_read_distinct:
  "distinct (map fst ob) \<Longrightarrow> map (\<lambda>k. (k, obj_read ob k)) (map fst ob) = ob"
proof -
  assume d: "distinct (map fst ob)"
  have "obj_read ob (fst x) = snd x" if "x \<in> set ob" for x
    using d that by (cases x) (simp add: obj_read_def obj_get_def)
  then show ?thesis by (simp add: map_idI)
qed

text \<open>Editing a device and saving it unchanged sends back the device that was loaded, when its
  field names are pairwise different, none is an array index and every value is there.\<close>

theorem device_roundtrip:
  assumes "distinct (map fst (dev_fields d))"
    and "\<forall>(n, v) \<in> set (dev_fields d). \<not> is_index_key n \<and> v \<noteq> JUndef"
  shows "toDevice (fromDevice d) = d"
proof -
  have f: "fields_object (dev_fields d) = dev_fields d"
    unfolding fields_object_distinct[OF assms(1)]
    by (rule map_idI) (use assms(2) in \<open>auto split: prod.splits\<close>)
  have "obj_keys (dev_fields d) = map fst (dev_fields d)"
    by (rule obj_keys_plain) (use assms(2) in auto)
  with f assms(1) show ?thesis
    by (simp add: toDevice_def fromDevice_def obj_read_distinct del: map_map)
qed

definition sample_device :: device where
  "sample_device = \<lparr>dev_id = Val 1, dev_name = Val ''router'', dev_description = Undefined,
     dev_type = Val ''ssh'', dev_app_name = Val ''Net'',
     dev_fields = [(''ip'', JStr ''10.0.0.1''), (''port'', JNum (Fin 22))]\<rparr>"

lemma sample_names_plain: "\<not> is_index_key ''ip''" "\<not> is_index_key ''port''"
  by code_simp+

theorem device_roundtrip_witness: "toDevice (fromDevice sample_device) = sample_device"
  by (rule device_roundtrip) (simp_all add: sample_device_def sample_names_plain)

section \<open>Roles and users\<close>

record resource =
  res_id :: "int nullable"
  res_role_id :: "int nullable"
  res_name :: string
  res_app_name :: "string nullable"
  res_permissions :: "string list"

record role =
  role_id :: "int nullable"
  role_name :: "string nullable"
  role_description :: "string nullable"
  role_resources :: "resource list nullable"

record user =
  usr_id :: "int nullable"
  usr_username :: "string nullable"
  usr_old_password :: "string nullable"
  usr_password :: "string nullable"
  usr_roles :: "role list nullable"
  usr_active :: "bool nullable"

record working_user =
  wu_id :: "int nullable"
  wu_username :: "string nullable"
  wu_role_ids :: "int nullable list"
  wu_active :: "bool nullable"
  wu_currentPassword :: "string nullable"
  wu_newPassword :: "string nullable"
  wu_confirmNewPassword :: "string nullable"

definition role_reference :: "int nullable \<Rightarrow> role" where
  "role_reference i = \<lparr>role_id = i, role_name = Undefined, role_description = Undefined, role_resources = Undefined\<rparr>"

definition toUser :: "working_user \<Rightarrow> user" where
  "toUser w = \<lparr>usr_id = wu_id w, usr_username = wu_username w, usr_old_password = wu_currentPassword w,
     usr_password = wu_newPassword w, usr_roles = Val (map role_reference (wu_role_ids w)),
     usr_active = wu_active w\<rparr>"

definition fromUser :: "user \<Rightarrow> working_user" where
  "fromUser u = \<lparr>wu_id = usr_id u, wu_username = usr_username u,
     wu_role_ids = (case usr_roles u of Val rs \<Rightarrow> map role_id rs | _ \<Rightarrow> []), wu_active = usr_active u,
     wu_currentPassword = Undefined, wu_newPassword = Undefined, wu_confirmNewPassword = Undefined\<rparr>"

text \<open>Editing a user and saving without changes keeps id, name, activity and the ids of the roles,
  sends no password, and a form made from a user is recovered from what it sends.\<close>

theorem user_roundtrip:
  "usr_id (toUser (fromUser u)) = usr_id u \<and> usr_username (toUser (fromUser u)) = usr_username u \<and>
   usr_active (toUser (fromUser u)) = usr_active u \<and>
   usr_password (toUser (fromUser u)) = Undefined \<and> usr_old_password (toUser (fromUser u)) = Undefined \<and>
   fromUser (toUser (fromUser u)) = fromUser u"
  by (auto simp: toUser_def fromUser_def role_reference_def comp_def split: nullable.splits)

end
