(* ===== verification/Crud.thy ===== *)
theory Crud
  imports Utilities
begin

text \<open>
  The list pages (devices, scheduled tasks, users, roles) share one design: the items the server
  listed, the ones shown for the search text, a modal that returns an added or edited item, and a
  confirmed deletion. It is written once over the identifier of an item, the effect of
  \<open>Object.assign\<close> on it and the search test; the contract is the locale \<open>crud_list\<close>.

  A handler returns the new state and, when it throws inside a promise that nobody catches, the
  error. The shown list holds the same objects as the item list, so an assignment shows in both; after a
  load it is the item list itself, so that until the next search what is pushed to one is in both.
\<close>

section \<open>Searching with tests that may throw\<close>

fun filter_result :: "('a \<Rightarrow> bool result) \<Rightarrow> 'a list \<Rightarrow> 'a list result" where
  "filter_result P [] = Inr []"
| "filter_result P (x # xs) =
     bind_result (P x) (\<lambda>b. bind_result (filter_result P xs) (\<lambda>ys. Inr (if b then x # ys else ys)))"

lemma filter_result_total:
  "(\<And>x. x \<in> set xs \<Longrightarrow> P x = Inr (Q x)) \<Longrightarrow> filter_result P xs = Inr (filter Q xs)"
  by (induction xs) auto

lemma filter_result_InrD:
  "filter_result P xs = Inr ys \<Longrightarrow> (\<forall>x \<in> set xs. \<exists>b. P x = Inr b) \<and> ys = filter (\<lambda>x. P x = Inr True) xs"
  by (induction xs arbitrary: ys) (auto simp: bind_result_Inr_iff)

text \<open>Calling a method of a string field; the text of the search box in lower case; \<open>||\<close>.\<close>

definition on_string :: "string nullable \<Rightarrow> (string \<Rightarrow> 'b) \<Rightarrow> 'b result" where
  "on_string v f = (case v of Val s \<Rightarrow> Inr (f s) | _ \<Rightarrow> Inl TypeError)"

lemma on_string_Inr [simp]: "on_string v f = Inr x \<longleftrightarrow> (\<exists>s. v = Val s \<and> x = f s)"
  by (cases v) (auto simp: on_string_def)

lemma on_string_Val [simp]: "on_string (Val s) f = Inr (f s)"
  by (simp add: on_string_def)

definition or_result :: "bool result \<Rightarrow> bool result \<Rightarrow> bool result" where
  "or_result a b = bind_result a (\<lambda>x. if x then Inr True else b)"

lemma or_result_Inr [simp]: "or_result (Inr a) (Inr b) = Inr (a \<or> b)"
  by (simp add: or_result_def)

definition search_text :: "string nullable \<Rightarrow> string" where
  "search_text q = (if truthy_str q then toLowerCase (str_or_empty q) else [])"

section \<open>State and operations\<close>

record 'a crud =
  cr_items :: "'a list"
  cr_display :: "'a list"
  cr_query :: "string nullable"
  cr_shared :: bool           \<comment> \<open>the shown list is the item list itself\<close>
  cr_toasts :: "toast list"

definition new_crud :: "'a crud" where
  "new_crud = \<lparr>cr_items = [], cr_display = [], cr_query = Null, cr_shared = False, cr_toasts = []\<rparr>"

definition crud_toast :: "toast \<Rightarrow> 'a crud \<Rightarrow> 'a crud" where
  "crud_toast t c = c\<lparr>cr_toasts := cr_toasts c @ [t]\<rparr>"

definition crud_filter :: "(string \<Rightarrow> 'a \<Rightarrow> bool result) \<Rightarrow> 'a crud \<Rightarrow> 'a crud \<times> js_error option" where
  "crud_filter matches c =
     (case filter_result (matches (search_text (cr_query c))) (cr_items c) of
        Inl e \<Rightarrow> (c, Some e)
      | Inr xs \<Rightarrow> (c\<lparr>cr_display := xs, cr_shared := False\<rparr>, None))"

definition crud_loaded :: "string \<Rightarrow> 'a list result \<Rightarrow> 'a crud \<Rightarrow> 'a crud" where
  "crud_loaded pre answer c =
     (case answer of
        Inl e \<Rightarrow> crud_toast (Failure (pre @ error_message e)) c
      | Inr xs \<Rightarrow> c\<lparr>cr_items := xs, cr_display := xs, cr_shared := True\<rparr>)"

definition crud_deleted ::
  "(string \<Rightarrow> 'a \<Rightarrow> bool result) \<Rightarrow> ('a \<Rightarrow> 'i) \<Rightarrow> 'i \<Rightarrow> string \<Rightarrow> string \<Rightarrow> unit result \<Rightarrow> 'a crud \<Rightarrow> 'a crud" where
  "crud_deleted matches idf i okmsg pre answer c =
     (case answer of
        Inl e \<Rightarrow> crud_toast (Failure (pre @ error_message e)) c
      | Inr _ \<Rightarrow>
          (case crud_filter matches (c\<lparr>cr_items := filter (\<lambda>x. idf x \<noteq> i) (cr_items c), cr_shared := False\<rparr>) of
             (c1, None) \<Rightarrow> crud_toast (Success okmsg) c1
           | (c1, Some e) \<Rightarrow> crud_toast (Failure (pre @ error_message e)) c1))"

datatype 'a modal_result =
    Dismissed "string option"     \<comment> \<open>rejected, with the message of the error if there is one\<close>
  | ClosedWithout                 \<comment> \<open>closed with no item\<close>
  | ClosedWith 'a bool            \<comment> \<open>the item and \<open>isEdit\<close>\<close>

definition crud_modal_closed ::
  "(string \<Rightarrow> 'a \<Rightarrow> bool result) \<Rightarrow> ('a \<Rightarrow> 'i) \<Rightarrow> ('a \<Rightarrow> 'a \<Rightarrow> 'a) \<Rightarrow> ('a \<Rightarrow> bool \<Rightarrow> string) \<Rightarrow>
   'a modal_result \<Rightarrow> 'a crud \<Rightarrow> 'a crud \<times> js_error option" where
  "crud_modal_closed matches idf assign msg r c =
     (case r of
        Dismissed None \<Rightarrow> (c, None)
      | Dismissed (Some m) \<Rightarrow> (crud_toast (Failure m) c, None)
      | ClosedWithout \<Rightarrow> (c, None)
      | ClosedWith x isEdit \<Rightarrow>
          if isEdit \<and> List.find (\<lambda>y. idf y = idf x) (cr_items c) = None then (c, Some TypeError)
          else
            let put = update_first (\<lambda>y. idf y = idf x) (\<lambda>y. assign y x);
                c1 = (if isEdit then c\<lparr>cr_items := put (cr_items c), cr_display := put (cr_display c)\<rparr>
                      else c\<lparr>cr_items := cr_items c @ [x],
                        cr_display := (if cr_shared c then cr_display c @ [x] else cr_display c)\<rparr>)
            in case crud_filter matches c1 of
                 (c2, None) \<Rightarrow> (crud_toast (Success (msg x isEdit)) c2, None)
               | (c2, Some e) \<Rightarrow> (c2, Some e))"

text \<open>What the page promises: it shows exactly the items whose test for the search text is true, in
  the order of the list.\<close>

definition shows_matching :: "(string \<Rightarrow> 'a \<Rightarrow> bool result) \<Rightarrow> 'a crud \<Rightarrow> bool" where
  "shows_matching matches c \<longleftrightarrow>
     cr_display c = filter (\<lambda>x. matches (search_text (cr_query c)) x = Inr True) (cr_items c)"

lemma crud_toast_frame [simp, frame_simps]:
  "cr_items (crud_toast t c) = cr_items c" "cr_display (crud_toast t c) = cr_display c"
  "cr_query (crud_toast t c) = cr_query c"
  by (simp_all add: crud_toast_def)

lemma shows_matching_toast [simp]: "shows_matching m (crud_toast t c) = shows_matching m c"
  by (simp add: shows_matching_def)

lemma crud_filter_items [simp, frame_simps]:
  "cr_items (fst (crud_filter m c)) = cr_items c" "cr_query (fst (crud_filter m c)) = cr_query c"
  by (auto simp: crud_filter_def split: sum.splits)

lemma crud_filter_shows: "snd (crud_filter m c) = None \<Longrightarrow> shows_matching m (fst (crud_filter m c))"
  by (auto simp: crud_filter_def shows_matching_def dest: filter_result_InrD split: sum.splits)

lemma crud_filter_total:
  "(\<And>x. x \<in> set (cr_items c) \<Longrightarrow> \<exists>b. m (search_text (cr_query c)) x = Inr b) \<Longrightarrow> snd (crud_filter m c) = None"
proof -
  assume "\<And>x. x \<in> set (cr_items c) \<Longrightarrow> \<exists>b. m (search_text (cr_query c)) x = Inr b"
  then have "filter_result (m (search_text (cr_query c))) (cr_items c) =
      Inr (filter (\<lambda>x. m (search_text (cr_query c)) x = Inr True) (cr_items c))"
    by (intro filter_result_total) fastforce
  then show ?thesis by (simp add: crud_filter_def)
qed

lemma crud_deleted_items:
  "cr_items (crud_deleted m idf i ok pre (Inr u) c) = filter (\<lambda>x. idf x \<noteq> i) (cr_items c)"
proof -
  let ?c = "c\<lparr>cr_items := filter (\<lambda>x. idf x \<noteq> i) (cr_items c), cr_shared := False\<rparr>"
  show ?thesis
    using crud_filter_items(1)[of m ?c]
    by (cases "crud_filter m ?c"; cases "snd (crud_filter m ?c)") (simp_all add: crud_deleted_def)
qed

section \<open>The contract\<close>

locale crud_list =
  fixes idf :: "'a \<Rightarrow> 'i"
    and assign :: "'a \<Rightarrow> 'a \<Rightarrow> 'a"
    and matches :: "string \<Rightarrow> 'a \<Rightarrow> bool result"
    and searchable :: "'a \<Rightarrow> bool"
  assumes id_assign: "idf y = idf x \<Longrightarrow> idf (assign y x) = idf x"
    and matches_total: "searchable x \<Longrightarrow> \<exists>b. matches q x = Inr b"
    and searchable_assign: "searchable y \<Longrightarrow> searchable x \<Longrightarrow> searchable (assign y x)"
begin

abbreviation page_ok :: "'a crud \<Rightarrow> bool" where
  "page_ok c \<equiv> distinct (map idf (cr_items c)) \<and> (\<forall>x \<in> set (cr_items c). searchable x)"

lemma filter_succeeds: "\<forall>x \<in> set (cr_items c). searchable x \<Longrightarrow> snd (crud_filter matches c) = None"
  by (rule crud_filter_total) (simp add: matches_total)

lemma delete_shows:
  assumes "page_ok c"
  shows "page_ok (crud_deleted matches idf i ok pre (Inr ()) c) \<and>
    shows_matching matches (crud_deleted matches idf i ok pre (Inr ()) c) \<and>
    cr_items (crud_deleted matches idf i ok pre (Inr ()) c) = filter (\<lambda>x. idf x \<noteq> i) (cr_items c)"
proof -
  let ?c = "c\<lparr>cr_items := filter (\<lambda>x. idf x \<noteq> i) (cr_items c), cr_shared := False\<rparr>"
  have s: "snd (crud_filter matches ?c) = None"
    by (rule filter_succeeds) (use assms in auto)
  have "crud_deleted matches idf i ok pre (Inr ()) c = crud_toast (Success ok) (fst (crud_filter matches ?c))"
    using s by (cases "crud_filter matches ?c") (simp add: crud_deleted_def)
  then show ?thesis
    using assms crud_filter_shows[OF s] by (simp add: distinct_map_filter)
qed

lemma modal_closed_total:
  assumes "page_ok c" and "searchable x"
    and "isEdit = (idf x \<in> idf ` set (cr_items c))"
  shows "\<exists>c'. crud_modal_closed matches idf assign msg (ClosedWith x isEdit) c = (c', None) \<and>
    page_ok c' \<and> shows_matching matches c' \<and>
    cr_items c' = (if isEdit then map (\<lambda>y. if idf y = idf x then assign y x else y) (cr_items c)
                   else cr_items c @ [x])"
proof -
  let ?put = "update_first (\<lambda>y. idf y = idf x) (\<lambda>y. assign y x)"
  let ?c = "if isEdit then c\<lparr>cr_items := ?put (cr_items c), cr_display := ?put (cr_display c)\<rparr>
            else c\<lparr>cr_items := cr_items c @ [x],
              cr_display := (if cr_shared c then cr_display c @ [x] else cr_display c)\<rparr>"
  have u: "?put (cr_items c) = map (\<lambda>y. if idf y = idf x then assign y x else y) (cr_items c)"
    using assms(1) by (simp add: update_first_unique)
  have ids: "map idf (map (\<lambda>y. if idf y = idf x then assign y x else y) (cr_items c)) = map idf (cr_items c)"
    by (simp add: id_assign)
  have ok: "page_ok ?c"
  proof (cases isEdit)
    case True
    then have c: "cr_items ?c = map (\<lambda>y. if idf y = idf x then assign y x else y) (cr_items c)"
      by (simp add: u)
    show ?thesis unfolding c ids using assms(1,2) by (auto simp: searchable_assign)
  next
    case False
    with assms show ?thesis by auto
  qed
  have s: "snd (crud_filter matches ?c) = None"
    by (rule filter_succeeds) (use ok in blast)
  have f: "\<not> (isEdit \<and> List.find (\<lambda>y. idf y = idf x) (cr_items c) = None)"
    using assms(3) by (simp add: find_None_iff_key)
  have "crud_modal_closed matches idf assign msg (ClosedWith x isEdit) c =
      (crud_toast (Success (msg x isEdit)) (fst (crud_filter matches ?c)), None)"
    using s f by (cases "crud_filter matches ?c") (auto simp: crud_modal_closed_def Let_def)
  moreover have "cr_items (fst (crud_filter matches ?c)) = cr_items ?c" by simp
  moreover have "shows_matching matches (fst (crud_filter matches ?c))" by (rule crud_filter_shows[OF s])
  ultimately show ?thesis
    using ok by (auto simp: u)
qed

text \<open>An edited item that is not in the list makes the handler throw.\<close>

lemma edit_of_missing:
  "idf x \<notin> idf ` set (cr_items c) \<Longrightarrow>
   crud_modal_closed matches idf assign msg (ClosedWith x True) c = (c, Some TypeError)"
  by (simp add: crud_modal_closed_def find_None_iff_key)

end

end
