(* ===== verification/DevicePage.thy ===== *)
theory DevicePage
  imports DeviceModel Crud
begin

text \<open>
  The device page and its requests (\<^verbatim>\<open>devices/devices.component.ts\<close>,
  \<^verbatim>\<open>devices/devices.service.ts\<close>): the list page of devices, filtered by search text
  and by app.
\<close>

section \<open>Requests\<close>

fun template_int :: "int nullable \<Rightarrow> string" where
  "template_int (Val i) = int_to_string i"
| "template_int Null = ''null''"
| "template_int Undefined = ''undefined''"

definition getAllDevices :: "(nat \<Rightarrow> device list result) \<Rightarrow> device list result option" where
  "getAllDevices serviceCall = paginateAll serviceCall 1 []"

definition getDevices_request :: "nat \<Rightarrow> device request" where
  "getDevices_request page = http GET (''/api/devices?page='' @ nat_to_string page) None"

definition addDevice_request :: "device \<Rightarrow> device request" where
  "addDevice_request d = http POST ''/api/devices'' (Some d)"

definition editDevice_request :: "device \<Rightarrow> device request" where
  "editDevice_request d = http PATCH ''/api/devices'' (Some d)"

definition deleteDevice_request :: "int nullable \<Rightarrow> device request" where
  "deleteDevice_request i = http DELETE (''/api/devices/'' @ template_int i) None"

definition getDeviceApis_request :: "device request" where
  "getDeviceApis_request = http GET ''api/apps/apis?field_name=device_apis'' None"

definition getDeviceApis_answer :: "app_api list \<Rightarrow> app_api list" where
  "getDeviceApis_answer apis = filter (\<lambda>a. app_device_apis a \<noteq> []) apis"

section \<open>The page\<close>

record device_page =
  dp_list :: "device crud"
  dp_selectedApps :: "string list"
  dp_appApis :: "app_api list"
  dp_appNames :: "string list"
  dp_availableApps :: "(string \<times> string) list"

definition device_matches :: "string list \<Rightarrow> string \<Rightarrow> device \<Rightarrow> bool result" where
  "device_matches selectedApps q d =
     bind_result (or_result (on_string (dev_name d) (\<lambda>s. str_includes (toLowerCase s) q))
                    (on_string (dev_app_name d) (\<lambda>s. str_includes (toLowerCase s) q)))
       (\<lambda>b. Inr (b \<and> (selectedApps \<noteq> [] \<longrightarrow> dev_app_name d \<in> Val ` set selectedApps)))"

text \<open>\<open>Object.assign(toUpdate, device)\<close>: the fields the answer of the server has replace the old
  ones, \<open>fields\<close> always.\<close>

definition assigned :: "'a nullable \<Rightarrow> 'a nullable \<Rightarrow> 'a nullable" where
  "assigned old new = (if new = Undefined then old else new)"

definition assign_device :: "device \<Rightarrow> device \<Rightarrow> device" where
  "assign_device old new =
     \<lparr>dev_id = assigned (dev_id old) (dev_id new), dev_name = assigned (dev_name old) (dev_name new),
      dev_description = assigned (dev_description old) (dev_description new),
      dev_type = assigned (dev_type old) (dev_type new),
      dev_app_name = assigned (dev_app_name old) (dev_app_name new), dev_fields = dev_fields new\<rparr>"

definition filterDevices :: "device_page \<Rightarrow> device_page \<times> js_error option" where
  "filterDevices p =
     (let (c, e) = crud_filter (device_matches (dp_selectedApps p)) (dp_list p) in (p\<lparr>dp_list := c\<rparr>, e))"

definition appSelectChange :: "string list \<Rightarrow> device_page \<Rightarrow> device_page \<times> js_error option" where
  "appSelectChange apps p = filterDevices (p\<lparr>dp_selectedApps := apps\<rparr>)"

definition getDevices_done :: "device list result \<Rightarrow> device_page \<Rightarrow> device_page" where
  "getDevices_done answer p = p\<lparr>dp_list := crud_loaded ''Error retrieving devices: '' answer (dp_list p)\<rparr>"

definition getDeviceApis_done :: "app_api list result \<Rightarrow> device_page \<Rightarrow> device_page" where
  "getDeviceApis_done answer p =
     (case answer of
        Inl e \<Rightarrow> p\<lparr>dp_list := crud_toast (Failure (''Error retrieving device types: '' @ error_message e)) (dp_list p)\<rparr>
      | Inr apis \<Rightarrow> p\<lparr>dp_appApis := apis, dp_appNames := map app_name apis,
          dp_availableApps := map (\<lambda>n. (n, n)) (map app_name apis)\<rparr>)"

definition deleteDevice_done :: "device \<Rightarrow> unit result \<Rightarrow> device_page \<Rightarrow> device_page" where
  "deleteDevice_done d answer p = p\<lparr>dp_list :=
     crud_deleted (device_matches (dp_selectedApps p)) dev_id (dev_id d)
       (''Device \"'' @ template (dev_name d) @ ''\" successfully deleted.'') ''Error deleting device: '' answer (dp_list p)\<rparr>"

definition device_message :: "device \<Rightarrow> bool \<Rightarrow> string" where
  "device_message d isEdit = ''Device \"'' @ template (dev_name d) @
     (if isEdit then ''\" successfully edited.'' else ''\" successfully added.'')"

definition devices_handleModalClose :: "device modal_result \<Rightarrow> device_page \<Rightarrow> device_page \<times> js_error option" where
  "devices_handleModalClose r p =
     (let (c, e) = crud_modal_closed (device_matches (dp_selectedApps p)) dev_id assign_device device_message r (dp_list p)
      in (p\<lparr>dp_list := c\<rparr>, e))"

text \<open>What the modal is opened with.\<close>

record device_modal_input =
  mi_title :: string
  mi_submitText :: string
  mi_appNames :: "string list"
  mi_appApis :: "app_api list"
  mi_device :: working_device

definition new_working_device :: working_device where
  "new_working_device = \<lparr>wd_id = Undefined, wd_name = Undefined, wd_description = Undefined,
     wd_app_name = Undefined, wd_type = Undefined, wd_fields = []\<rparr>"

definition addDevice :: "device_page \<Rightarrow> device_modal_input" where
  "addDevice p = \<lparr>mi_title = ''Add New Device'', mi_submitText = ''Add Device'',
     mi_appNames = dp_appNames p, mi_appApis = dp_appApis p, mi_device = new_working_device\<rparr>"

definition editDevice :: "device \<Rightarrow> device_page \<Rightarrow> device_modal_input" where
  "editDevice d p = \<lparr>mi_title = ''Edit Device '' @ template (dev_name d), mi_submitText = ''Save Changes'',
     mi_appNames = dp_appNames p, mi_appApis = dp_appApis p, mi_device = fromDevice d\<rparr>"

section \<open>The contract of the list\<close>

definition has_names :: "device \<Rightarrow> bool" where
  "has_names d \<longleftrightarrow> (\<exists>s t. dev_name d = Val s \<and> dev_app_name d = Val t)"

lemma assigned_same [simp]: "assigned x x = x" by (simp add: assigned_def)

interpretation device_list: crud_list dev_id assign_device "device_matches apps" has_names for apps
proof unfold_locales
  show "dev_id (assign_device y x) = dev_id x" if "dev_id y = dev_id x" for x y
    using that by (simp add: assign_device_def)
  show "\<exists>b. device_matches apps q x = Inr b" if "has_names x" for x q
    using that by (auto simp: has_names_def device_matches_def)
  show "has_names (assign_device y x)" if "has_names y" "has_names x" for x y
    using that by (auto simp: has_names_def assign_device_def assigned_def)
qed

definition device_page_ok :: "device_page \<Rightarrow> bool" where
  "device_page_ok p \<longleftrightarrow> distinct (map dev_id (cr_items (dp_list p))) \<and>
     (\<forall>d \<in> set (cr_items (dp_list p)). has_names d)"

definition shown_ok :: "device_page \<Rightarrow> bool" where
  "shown_ok p \<longleftrightarrow> shows_matching (device_matches (dp_selectedApps p)) (dp_list p)"

text \<open>After the server confirmed a deletion, exactly that device is gone from the list, the ids
  stay pairwise different, and the page shows exactly the devices that match the search text and
  the selected apps.\<close>

theorem deleteDevice_spec:
  assumes "device_page_ok p"
  shows "device_page_ok (deleteDevice_done d (Inr ()) p) \<and> shown_ok (deleteDevice_done d (Inr ()) p) \<and>
    cr_items (dp_list (deleteDevice_done d (Inr ()) p)) = filter (\<lambda>x. dev_id x \<noteq> dev_id d) (cr_items (dp_list p))"
  using device_list.delete_shows[of "dp_list p"] assms
  by (auto simp: device_page_ok_def shown_ok_def deleteDevice_done_def distinct_map_filter)

text \<open>When the modal returns a device that was added (with a new id) or edited (with a known one),
  the list holds it, every other device is kept, and the page shows exactly the matching devices;
  nothing throws.\<close>

theorem devices_handleModalClose_spec:
  assumes "device_page_ok p" and "has_names d"
    and "isEdit = (dev_id d \<in> dev_id ` set (cr_items (dp_list p)))"
  shows "\<exists>p'. devices_handleModalClose (ClosedWith d isEdit) p = (p', None) \<and> device_page_ok p' \<and> shown_ok p' \<and>
    cr_items (dp_list p') = (if isEdit then map (\<lambda>x. if dev_id x = dev_id d then assign_device x d else x) (cr_items (dp_list p))
                             else cr_items (dp_list p) @ [d])"
proof -
  obtain c' where c: "crud_modal_closed (device_matches (dp_selectedApps p)) dev_id assign_device device_message
      (ClosedWith d isEdit) (dp_list p) = (c', None)"
    and ok: "distinct (map dev_id (cr_items c'))" "\<forall>x \<in> set (cr_items c'). has_names x"
      "shows_matching (device_matches (dp_selectedApps p)) c'"
      "cr_items c' = (if isEdit then map (\<lambda>y. if dev_id y = dev_id d then assign_device y d else y) (cr_items (dp_list p))
                      else cr_items (dp_list p) @ [d])"
    using device_list.modal_closed_total[of "dp_list p" d isEdit "dp_selectedApps p" device_message] assms
    by (auto simp: device_page_ok_def)
  then show ?thesis
    by (intro exI[of _ "p\<lparr>dp_list := c'\<rparr>"])
      (auto simp: devices_handleModalClose_def device_page_ok_def shown_ok_def)
qed

lemma edited_device_missing:
  "dev_id d \<notin> dev_id ` set (cr_items (dp_list p)) \<Longrightarrow>
   snd (devices_handleModalClose (ClosedWith d True) p) = Some TypeError"
  by (simp add: devices_handleModalClose_def device_list.edit_of_missing)

definition sample_device_page :: device_page where
  "sample_device_page = \<lparr>dp_list = new_crud\<lparr>cr_items := [sample_device]\<rparr>, dp_selectedApps = [''Net''],
     dp_appApis = [], dp_appNames = [], dp_availableApps = []\<rparr>"

lemma sample_device_page_ok: "device_page_ok sample_device_page" "has_names sample_device"
  by (simp_all add: device_page_ok_def sample_device_page_def new_crud_def has_names_def sample_device_def)

theorem deleteDevice_spec_witness:
  "device_page_ok (deleteDevice_done sample_device (Inr ()) sample_device_page) \<and>
   shown_ok (deleteDevice_done sample_device (Inr ()) sample_device_page) \<and>
   cr_items (dp_list (deleteDevice_done sample_device (Inr ()) sample_device_page)) =
     filter (\<lambda>x. dev_id x \<noteq> dev_id sample_device) (cr_items (dp_list sample_device_page))"
  by (rule deleteDevice_spec[OF sample_device_page_ok(1)])

theorem devices_handleModalClose_spec_witness:
  "\<exists>p'. devices_handleModalClose (ClosedWith sample_device True) sample_device_page = (p', None) \<and>
    device_page_ok p' \<and> shown_ok p' \<and>
    cr_items (dp_list p') = (if True then map (\<lambda>x. if dev_id x = dev_id sample_device then assign_device x sample_device else x)
        (cr_items (dp_list sample_device_page)) else cr_items (dp_list sample_device_page) @ [sample_device])"
  by (rule devices_handleModalClose_spec[OF sample_device_page_ok])
    (simp add: sample_device_page_def new_crud_def)

end
