(* ===== verification/DeviceModal.thy ===== *)
theory DeviceModal
  imports DevicePage
begin

text \<open>
  The form that adds or edits a device (\<^verbatim>\<open>devices/devices.modal.component.ts\<close>): the
  choice of app and device type, the validation of every field against its schema, and what is
  submitted.

  The fields object of the working device is also kept under its device type, so that switching types
  back and forth loses nothing: two references to one object. Objects therefore live in a heap of
  numbered objects. \<open>RegExp\<close> is a parameter: \<open>regex p s\<close> tells whether the pattern
  \<open>p\<close> matches in \<open>s\<close>.
\<close>

section \<open>State\<close>

record device_modal =
  dm_device :: working_device            \<comment> \<open>all but its fields\<close>
  dm_fields :: "nat option"              \<comment> \<open>the fields object, or \<open>null\<close>\<close>
  dm_heap :: "nat \<Rightarrow> jsobj"
  dm_next :: nat
  dm_appApis :: "app_api list"
  dm_typesForApp :: "device_api list"
  dm_typeFields :: "string \<rightharpoonup> nat"
  dm_selectedType :: "device_api option"
  dm_errors :: "(string \<times> string) list"
  dm_confirm :: "(string \<times> string) list"
  dm_cleared :: "string \<rightharpoonup> bool"

definition open_modal :: "app_api list \<Rightarrow> working_device \<Rightarrow> device_modal" where
  "open_modal apis w = \<lparr>dm_device = w, dm_fields = Some 0, dm_heap = (\<lambda>_. wd_fields w), dm_next = 1,
     dm_appApis = apis, dm_typesForApp = [], dm_typeFields = Map.empty, dm_selectedType = None,
     dm_errors = [], dm_confirm = [], dm_cleared = Map.empty\<rparr>"

definition inputs_of :: "device_modal \<Rightarrow> jsobj result" where
  "inputs_of m = (case dm_fields m of None \<Rightarrow> Inl TypeError | Some a \<Rightarrow> Inr (dm_heap m a))"

definition set_inputs :: "jsobj \<Rightarrow> device_modal \<Rightarrow> device_modal" where
  "set_inputs ob m = (case dm_fields m of None \<Rightarrow> m | Some a \<Rightarrow> m\<lparr>dm_heap := (dm_heap m)(a := ob)\<rparr>)"

section \<open>App and device type\<close>

definition getEncryptedConfirmFields :: "device_api \<Rightarrow> device_modal \<Rightarrow> device_modal" where
  "getEncryptedConfirmFields t m = m\<lparr>dm_confirm :=
     foldl (\<lambda>ob f. if df_encrypted f then obj_set (df_name f) [] ob else ob) [] (da_fields t)\<rparr>"

definition getDefaultValues :: "device_api \<Rightarrow> jsobj" where
  "getDefaultValues t = foldl (\<lambda>ob f. obj_set (df_name f)
     (if truthy (ps_default (df_schema f)) then ps_default (df_schema f) else JNull) ob) [] (da_fields t)"

definition clearDeviceTypeData :: "device_modal \<Rightarrow> device_modal" where
  "clearDeviceTypeData m = m\<lparr>dm_selectedType := None, dm_device := (dm_device m)\<lparr>wd_type := Null\<rparr>,
     dm_fields := None, dm_errors := [], dm_confirm := []\<rparr>"

definition handleAppSelection :: "string \<Rightarrow> device_modal \<Rightarrow> device_modal \<times> js_error option" where
  "handleAppSelection appName m0 =
     (let m = m0\<lparr>dm_device := (dm_device m0)\<lparr>wd_app_name := Val appName\<rparr>\<rparr>
      in case List.find (\<lambda>a. app_name a = appName) (dm_appApis m) of
           None \<Rightarrow> (m, Some TypeError)
         | Some a \<Rightarrow>
             let m1 = m\<lparr>dm_typesForApp := app_device_apis a\<rparr>
             in (if dm_selectedType m1 \<noteq> None then clearDeviceTypeData m1 else m1, None))"

text \<open>\<open>handleDeviceTypeSelection\<close>: a type whose fields are stored gets them back, a new one its
  defaults. An unknown type of a known app has no description: it is stored as \<open>undefined\<close>
  and reading its fields throws (for a stored type after its fields were set and the confirmations
  cleared).\<close>

definition use_fields :: "string \<Rightarrow> nat \<Rightarrow> device_modal \<Rightarrow> device_modal" where
  "use_fields t a m = m\<lparr>dm_fields := Some a, dm_typeFields := (dm_typeFields m)(t \<mapsto> a)\<rparr>"

definition handleDeviceTypeSelection :: "string \<Rightarrow> device_modal \<Rightarrow> device_modal \<times> js_error option" where
  "handleDeviceTypeSelection deviceType m =
     (if deviceType = [] then (clearDeviceTypeData m, None)
      else case List.find (\<lambda>a. Val (app_name a) = wd_app_name (dm_device m)) (dm_appApis m) of
             None \<Rightarrow> (m, Some TypeError)
           | Some app \<Rightarrow>
               let st = List.find (\<lambda>d. da_name d = deviceType) (app_device_apis app);
                   m1 = m\<lparr>dm_selectedType := st, dm_device := (dm_device m)\<lparr>wd_type := Val deviceType\<rparr>\<rparr>
               in case st of
                    None \<Rightarrow> (case dm_typeFields m1 deviceType of
                        Some a \<Rightarrow> ((use_fields deviceType a m1)\<lparr>dm_confirm := []\<rparr>, Some TypeError)
                      | None \<Rightarrow> (m1, Some TypeError))
                  | Some t \<Rightarrow>
                      let m2 = (case dm_typeFields m1 deviceType of
                            Some a \<Rightarrow> use_fields deviceType a m1
                          | None \<Rightarrow> use_fields deviceType (dm_next m1)
                              (m1\<lparr>dm_heap := (dm_heap m1)(dm_next m1 := getDefaultValues t), dm_next := Suc (dm_next m1)\<rparr>))
                      in ((getEncryptedConfirmFields t m2)\<lparr>dm_errors := []\<rparr>, None))"

definition ngAfterViewInit :: "device_modal \<Rightarrow> device_modal \<times> js_error option" where
  "ngAfterViewInit m =
     (let app = (case wd_app_name (dm_device m) of
            Val n \<Rightarrow> if n = [] then Inr m
              else bind_result (deref (List.find (\<lambda>a. app_name a = n) (dm_appApis m)))
                     (\<lambda>a. Inr (m\<lparr>dm_typesForApp := app_device_apis a\<rparr>))
          | _ \<Rightarrow> Inr m)
      in case app of
           Inl e \<Rightarrow> (m, Some e)
         | Inr m1 \<Rightarrow>
             (case wd_type (dm_device m1) of
                Val t \<Rightarrow> if t = [] then (m1, None)
                  else handleDeviceTypeSelection t
                    (case dm_fields m1 of Some a \<Rightarrow> m1\<lparr>dm_typeFields := (dm_typeFields m1)(t \<mapsto> a)\<rparr> | None \<Rightarrow> m1)
              | _ \<Rightarrow> (m1, None)))"

definition handleEncryptedFieldClear :: "string \<Rightarrow> bool \<Rightarrow> device_modal \<Rightarrow> device_modal" where
  "handleEncryptedFieldClear n isChecked m = m\<lparr>dm_cleared := (dm_cleared m)(n \<mapsto> isChecked)\<rparr>"

section \<open>Validation\<close>

definition getMin :: "parameter_schema \<Rightarrow> rat option" where
  "getMin s = (case ps_minimum s of
      Undefined \<Rightarrow> None
    | Null \<Rightarrow> if ps_exclusiveMinimum s then Some 1 else None
    | Val x \<Rightarrow> Some (if ps_exclusiveMinimum s then x + 1 else x))"

definition getMax :: "parameter_schema \<Rightarrow> rat option" where
  "getMax s = (case ps_maximum s of
      Undefined \<Rightarrow> None
    | Null \<Rightarrow> if ps_exclusiveMaximum s then Some (- 1) else None
    | Val x \<Rightarrow> Some (if ps_exclusiveMaximum s then x - 1 else x))"

definition concatValidationMessage :: "string \<Rightarrow> string \<Rightarrow> (string \<times> string) list \<Rightarrow> (string \<times> string) list" where
  "concatValidationMessage field msg errs =
     (case obj_get errs field of
        Some old \<Rightarrow> if old \<noteq> [] then obj_set field (old @ ''\<newline>'' @ msg) errs else obj_set field msg errs
      | None \<Rightarrow> obj_set field msg errs)"

abbreviation check :: "bool \<Rightarrow> string \<Rightarrow> string \<Rightarrow> (string \<times> string) list \<Rightarrow> (string \<times> string) list" where
  "check bad field msg errs \<equiv> if bad then concatValidationMessage field msg errs else errs"

text \<open>\<open>v.length\<close>, \<open>v % q\<close> as a condition, and a bound printed in a message.\<close>

definition js_length :: "jsval \<Rightarrow> jsnum" where
  "js_length v = (case v of JStr s \<Rightarrow> Fin (of_nat (length s)) | JArr vs \<Rightarrow> Fin (of_nat (length vs)) | _ \<Rightarrow> NaN)"

definition leaves_remainder :: "jsnum \<Rightarrow> rat \<Rightarrow> bool" where
  "leaves_remainder n q = (case n of Fin x \<Rightarrow> q \<noteq> 0 \<and> of_int \<lfloor>x / q\<rfloor> \<noteq> x / q | _ \<Rightarrow> False)"

fun template_num :: "rat nullable \<Rightarrow> string" where
  "template_num (Val x) = number_to_string (Fin x)"
| "template_num Null = ''null''"
| "template_num Undefined = ''undefined''"

definition too_short :: "jsval \<Rightarrow> rat nullable \<Rightarrow> bool" where
  "too_short v b = (case b of Val x \<Rightarrow> num_less (js_length v) (Fin x)
     | Null \<Rightarrow> num_less (js_length v) (Fin 0) | Undefined \<Rightarrow> False)"

definition too_long :: "jsval \<Rightarrow> rat nullable \<Rightarrow> bool" where
  "too_long v b = (case b of Val x \<Rightarrow> num_less (Fin x) (js_length v)
     | Null \<Rightarrow> num_less (Fin 0) (js_length v) | Undefined \<Rightarrow> False)"

definition enum_ok :: "device_field_api \<Rightarrow> jsval \<Rightarrow> bool" where
  "enum_ok f v = (case ps_enum (df_schema f) of
      Val xs \<Rightarrow> v \<in> JStr ` set (if df_required f then xs else xs @ [[]])
    | _ \<Rightarrow> True)"

definition pattern_ok :: "(string \<Rightarrow> string \<Rightarrow> bool) \<Rightarrow> device_field_api \<Rightarrow> jsval \<Rightarrow> bool" where
  "pattern_ok regex f v = (case ps_pattern (df_schema f) of
      Val p \<Rightarrow> p = [] \<or> regex p (to_string v) | _ \<Rightarrow> True)"

text \<open>One field. The first message for a string that is too long prints the minimum, as the code
  does.\<close>

definition validate_string ::
  "(string \<Rightarrow> string \<Rightarrow> bool) \<Rightarrow> device_modal \<Rightarrow> device_field_api \<Rightarrow> jsobj \<Rightarrow> (string \<times> string) list \<Rightarrow> jsobj \<times> (string \<times> string) list" where
  "validate_string regex m f inputs0 errs0 =
     (let n = df_name f; s = df_schema f;
          inputs = (if nullish (obj_read inputs0 n) then obj_set n (JStr []) inputs0 else inputs0);
          v = obj_read inputs n;
          errs1 = check (df_encrypted f \<and> dm_cleared m n \<noteq> Some True \<and>
                     (case obj_get (dm_confirm m) n of None \<Rightarrow> True | Some c \<Rightarrow> v \<noteq> JStr c))
                   n (''The values for '' @ n @ '' do not match.'') errs0;
          errs2 = check (\<not> enum_ok f v) n ''You must select a value from the list.'' errs1
      in if \<not> truthy v then (inputs, errs2)
         else
           let errs3 = check (too_short v (ps_minLength s)) n
                 (''Must be at least '' @ template_num (ps_minLength s) @ '' characters.'') errs2;
               errs4 = check (too_long v (ps_maxLength s)) n
                 (''Must be at most '' @ template_num (ps_minLength s) @ '' characters.'') errs3
           in (inputs, check (\<not> pattern_ok regex f v) n
                 (''Input must match a given pattern: '' @ template (ps_pattern s) @ ''.'') errs4))"

definition below :: "jsval \<Rightarrow> rat option \<Rightarrow> bool" where
  "below v b = (case b of None \<Rightarrow> False | Some x \<Rightarrow> num_less (to_number v) (Fin x))"

definition above :: "jsval \<Rightarrow> rat option \<Rightarrow> bool" where
  "above v b = (case b of None \<Rightarrow> False | Some x \<Rightarrow> num_less (Fin x) (to_number v))"

definition not_multiple :: "jsval \<Rightarrow> rat nullable \<Rightarrow> bool" where
  "not_multiple v b = (case b of Val q \<Rightarrow> leaves_remainder (to_number v) q | _ \<Rightarrow> False)"

definition bound_text :: "rat option \<Rightarrow> string" where
  "bound_text b = (case b of None \<Rightarrow> ''null'' | Some x \<Rightarrow> number_to_string (Fin x))"

definition validate_number ::
  "device_field_api \<Rightarrow> jsobj \<Rightarrow> (string \<times> string) list \<Rightarrow> jsobj \<times> (string \<times> string) list" where
  "validate_number f inputs errs0 =
     (let n = df_name f; s = df_schema f; v = obj_read inputs n
      in if nullish v then (inputs, errs0)
         else
           let errs1 = check (below v (getMin s)) n (''The minimum value is '' @ bound_text (getMin s) @ ''.'') errs0;
               errs2 = check (above v (getMax s)) n (''The maximum value is '' @ bound_text (getMax s) @ ''.'') errs1
           in (inputs, check (not_multiple v (ps_multipleOf s)) n
                 (''The value must be a multiple of '' @ template_num (ps_multipleOf s) @ ''.'') errs2))"

definition value_missing :: "jsval \<Rightarrow> bool" where
  "value_missing v = (nullish v \<or> (is_str v \<and> \<not> truthy v))"

definition is_new :: "device_modal \<Rightarrow> bool" where
  "is_new m = (case wd_id (dm_device m) of Val i \<Rightarrow> i = 0 | _ \<Rightarrow> True)"

definition validate_field ::
  "(string \<Rightarrow> string \<Rightarrow> bool) \<Rightarrow> device_modal \<Rightarrow> device_field_api \<Rightarrow> jsobj \<times> (string \<times> string) list \<Rightarrow> jsobj \<times> (string \<times> string) list" where
  "validate_field regex m f = (\<lambda>(inputs, errs).
     let n = df_name f; t = ps_type (df_schema f); v = obj_read inputs n
     in if df_required f \<and> \<not> (\<not> is_new m \<and> df_encrypted f) \<and> value_missing v
        then (inputs, obj_set n (''You must enter a value for '' @ n @ ''.'') errs)
        else if t = ''string'' then validate_string regex m f inputs errs
        else if t = ''number'' \<or> t = ''integer'' then validate_number f inputs errs
        else if t = ''boolean'' then (obj_set n (if truthy v then v else JBool False) inputs, errs)
        else (inputs, concatValidationMessage n (''The type specified for field '' @ n @ '' is invalid.'') errs))"

fun trim_js :: "jsval \<Rightarrow> jsval" where
  "trim_js (JStr s) = JStr (trim s)"
| "trim_js v = v"

definition trim_inputs :: "jsobj \<Rightarrow> jsobj" where
  "trim_inputs ob = map (\<lambda>(k, v). (k, trim_js v)) ob"

definition trim_confirm :: "jsobj \<Rightarrow> (string \<times> string) list \<Rightarrow> (string \<times> string) list" where
  "trim_confirm ob cs = map (\<lambda>(k, c). (k, if is_str (obj_read ob k) then trim c else c)) cs"

definition validate :: "(string \<Rightarrow> string \<Rightarrow> bool) \<Rightarrow> device_modal \<Rightarrow> (device_modal \<times> bool) result" where
  "validate regex m0 =
     bind_result (inputs_of m0) (\<lambda>inputs0.
       let m1 = m0\<lparr>dm_errors := [], dm_confirm := trim_confirm inputs0 (dm_confirm m0)\<rparr>;
           inputs1 = trim_inputs inputs0
       in bind_result (deref (dm_selectedType m1)) (\<lambda>t.
            let (inputs, errs) = foldl (\<lambda>st f. validate_field regex m1 f st) (inputs1, []) (da_fields t)
            in Inr ((set_inputs inputs m1)\<lparr>dm_errors := errs\<rparr>, errs = [])))"

definition isBasicInfoValid :: "device_modal \<Rightarrow> bool" where
  "isBasicInfoValid m = (truthy_str (wd_name (dm_device m)) \<and> trim (str_or_empty (wd_name (dm_device m))) \<noteq> [] \<and>
     truthy_str (wd_app_name (dm_device m)) \<and> truthy_str (wd_type (dm_device m)))"

section \<open>Submitting\<close>

text \<open>The callback of \<open>forEach\<close> splices the array it runs over: the element after a removed one
  moves to the removed one's place and is passed over.\<close>

definition blank_value :: "jsval \<Rightarrow> bool" where
  "blank_value v = (case v of JStr s \<Rightarrow> trim s = [] | JNum n \<Rightarrow> \<not> num_truthy n | _ \<Rightarrow> False)"

fun submit_fields ::
  "device_field_api list \<Rightarrow> (string \<rightharpoonup> bool) \<Rightarrow> (string \<times> jsval) list \<Rightarrow> (string \<times> jsval) list result" where
  "submit_fields types cleared [] = Inr []"
| "submit_fields types cleared ((n, v) # fs) =
     bind_result (deref (List.find (\<lambda>t. df_name t = n) types)) (\<lambda>t.
       if \<not> df_encrypted t then bind_result (submit_fields types cleared fs) (\<lambda>r. Inr ((n, v) # r))
       else if cleared n = Some True then bind_result (submit_fields types cleared fs) (\<lambda>r. Inr ((n, JStr []) # r))
       else if blank_value v then
         (case fs of [] \<Rightarrow> Inr [] | g # gs \<Rightarrow> bind_result (submit_fields types cleared gs) (\<lambda>r. Inr (g # r)))
       else bind_result (submit_fields types cleared fs) (\<lambda>r. Inr ((n, v) # r)))"

definition to_submit :: "device_modal \<Rightarrow> device result" where
  "to_submit m = bind_result (inputs_of m) (\<lambda>ob. Inr (toDevice ((dm_device m)\<lparr>wd_fields := ob\<rparr>)))"

text \<open>The request, when the form is valid.\<close>

definition submit :: "(string \<Rightarrow> string \<Rightarrow> bool) \<Rightarrow> device_modal \<Rightarrow> (device_modal \<times> device request option) result" where
  "submit regex m0 =
     bind_result (validate regex m0) (\<lambda>(m, valid).
       if \<not> valid then Inr (m, None)
       else bind_result (to_submit m) (\<lambda>d.
         if is_new m then Inr (m, Some (addDevice_request d))
         else bind_result (deref (dm_selectedType m)) (\<lambda>t.
           bind_result (submit_fields (da_fields t) (dm_cleared m) (dev_fields d)) (\<lambda>fs.
             Inr (m, Some (editDevice_request (d\<lparr>dev_fields := fs\<rparr>)))))))"

end
