(* ===== verification/DeviceValidation.thy ===== *)
theory DeviceValidation
  imports DeviceModal
begin

text \<open>
  The device form is sound: what it accepts satisfies the schemas of the device type; switching device
  types loses no input; and what the loop over the submitted fields does and does not remove.
\<close>

section \<open>Accepted values satisfy their schemas\<close>

definition string_valid :: "(string \<Rightarrow> string \<Rightarrow> bool) \<Rightarrow> device_modal \<Rightarrow> device_field_api \<Rightarrow> jsval \<Rightarrow> bool" where
  "string_valid regex m f v \<longleftrightarrow> enum_ok f v \<and>
     (df_encrypted f \<and> dm_cleared m (df_name f) \<noteq> Some True \<longrightarrow>
        (\<exists>c. obj_get (dm_confirm m) (df_name f) = Some c \<and> v = JStr c)) \<and>
     (truthy v \<longrightarrow> \<not> too_short v (ps_minLength (df_schema f)) \<and>
        \<not> too_long v (ps_maxLength (df_schema f)) \<and> pattern_ok regex f v)"

definition number_valid :: "device_field_api \<Rightarrow> jsval \<Rightarrow> bool" where
  "number_valid f v \<longleftrightarrow> nullish v \<or>
     (\<not> below v (getMin (df_schema f)) \<and> \<not> above v (getMax (df_schema f)) \<and>
      \<not> not_multiple v (ps_multipleOf (df_schema f)))"

definition field_valid :: "(string \<Rightarrow> string \<Rightarrow> bool) \<Rightarrow> device_modal \<Rightarrow> device_field_api \<Rightarrow> jsval \<Rightarrow> bool" where
  "field_valid regex m f v \<longleftrightarrow>
     (df_required f \<and> \<not> (\<not> is_new m \<and> df_encrypted f) \<longrightarrow> \<not> value_missing v) \<and>
     (let t = ps_type (df_schema f)
      in (t = ''string'' \<and> string_valid regex m f v) \<or>
         (t \<in> {''number'', ''integer''} \<and> number_valid f v) \<or>
         (t = ''boolean'' \<and> \<not> nullish v))"

lemma obj_set_not_Nil [simp]: "obj_set k v ob \<noteq> []"
  by (induction k v ob rule: obj_set.induct) auto

lemma concat_not_Nil [simp]: "concatValidationMessage k msg errs \<noteq> []"
  by (auto simp: concatValidationMessage_def split: option.splits)

lemma check_Nil: "check bad k msg errs = [] \<longleftrightarrow> \<not> bad \<and> errs = []"
  by simp

lemma validate_string_other:
  "k \<noteq> df_name f \<Longrightarrow> obj_read (fst (validate_string regex m f inputs errs)) k = obj_read inputs k"
  by (simp add: validate_string_def Let_def)

lemma validate_string_ok:
  assumes "snd (validate_string regex m f inputs errs) = []"
  shows "errs = [] \<and> string_valid regex m f (obj_read (fst (validate_string regex m f inputs errs)) (df_name f))"
proof -
  let ?i = "if nullish (obj_read inputs (df_name f)) then obj_set (df_name f) (JStr []) inputs else inputs"
  let ?v = "obj_read ?i (df_name f)"
  have i: "fst (validate_string regex m f inputs errs) = ?i"
    by (simp add: validate_string_def Let_def)
  have e: "errs = [] \<and> enum_ok f ?v \<and>
      \<not> (df_encrypted f \<and> dm_cleared m (df_name f) \<noteq> Some True \<and>
         (case obj_get (dm_confirm m) (df_name f) of None \<Rightarrow> True | Some c \<Rightarrow> ?v \<noteq> JStr c))"
    using assms unfolding validate_string_def Let_def by (simp only: split: if_splits) (simp_all add: check_Nil split: if_splits)
  moreover have "\<not> too_short ?v (ps_minLength (df_schema f)) \<and> \<not> too_long ?v (ps_maxLength (df_schema f)) \<and> pattern_ok regex f ?v"
    if "truthy ?v"
    using assms that unfolding validate_string_def Let_def by (simp only: split: if_splits) (simp_all add: check_Nil split: if_splits)
  ultimately show ?thesis
    unfolding i string_valid_def by (auto split: option.splits)
qed

lemma validate_number_ok:
  assumes "snd (validate_number f inputs errs) = []"
  shows "errs = [] \<and> fst (validate_number f inputs errs) = inputs \<and> number_valid f (obj_read inputs (df_name f))"
  using assms by (auto simp: validate_number_def number_valid_def Let_def split: if_splits)

lemma validate_field_ok:
  assumes "snd (validate_field regex m f (inputs, errs)) = []"
  shows "errs = [] \<and> field_valid regex m f (obj_read (fst (validate_field regex m f (inputs, errs))) (df_name f))"
proof -
  let ?v = "obj_read inputs (df_name f)"
  have req: "df_required f \<and> \<not> (\<not> is_new m \<and> df_encrypted f) \<longrightarrow> \<not> value_missing ?v"
    using assms by (auto simp: validate_field_def Let_def)
  consider (s) "ps_type (df_schema f) = ''string''" | (n) "ps_type (df_schema f) \<in> {''number'', ''integer''}"
    | (b) "ps_type (df_schema f) = ''boolean''"
    using assms by (auto simp: validate_field_def Let_def split: if_splits)
  then show ?thesis
  proof cases
    case s
    have r: "validate_field regex m f (inputs, errs) = validate_string regex m f inputs errs"
      using s req by (auto simp: validate_field_def Let_def)
    have "value_missing (obj_read (fst (validate_string regex m f inputs errs)) (df_name f)) \<longrightarrow> value_missing ?v"
      by (auto simp: validate_string_def value_missing_def Let_def)
    with validate_string_ok[of regex m f inputs errs] assms req s show ?thesis
      unfolding r by (auto simp: field_valid_def)
  next
    case n
    have r: "validate_field regex m f (inputs, errs) = validate_number f inputs errs"
      using n req by (auto simp: validate_field_def Let_def)
    show ?thesis
      using validate_number_ok[of f inputs errs] assms req n unfolding r by (auto simp: field_valid_def)
  next
    case b
    have r: "validate_field regex m f (inputs, errs) =
        (obj_set (df_name f) (if truthy ?v then ?v else JBool False) inputs, errs)"
      using b req by (auto simp: validate_field_def Let_def)
    show ?thesis
      using assms req b unfolding r by (auto simp: field_valid_def value_missing_def truthy_not_nullish)
  qed
qed

lemma validate_field_other:
  "k \<noteq> df_name f \<Longrightarrow> obj_read (fst (validate_field regex m f (inputs, errs))) k = obj_read inputs k"
  by (auto simp: validate_field_def validate_string_other validate_number_def Let_def)

lemma validate_fields_ok:
  assumes "foldl (\<lambda>st f. validate_field regex m f st) (inputs, errs) fs = (inputs', [])"
    and "distinct (map df_name fs)"
  shows "errs = [] \<and> (\<forall>f \<in> set fs. field_valid regex m f (obj_read inputs' (df_name f))) \<and>
    (\<forall>k. k \<notin> df_name ` set fs \<longrightarrow> obj_read inputs' k = obj_read inputs k)"
  using assms
proof (induction fs arbitrary: inputs errs)
  case (Cons f fs)
  obtain i1 e1 where v: "validate_field regex m f (inputs, errs) = (i1, e1)"
    by (cases "validate_field regex m f (inputs, errs)")
  have "foldl (\<lambda>st f. validate_field regex m f st) (i1, e1) fs = (inputs', [])"
    using Cons.prems(1) v by simp
  with Cons.IH[of i1 e1] Cons.prems(2)
  have ih: "e1 = []" "\<forall>f \<in> set fs. field_valid regex m f (obj_read inputs' (df_name f))"
    "\<forall>k. k \<notin> df_name ` set fs \<longrightarrow> obj_read inputs' k = obj_read i1 k" by auto
  have "errs = [] \<and> field_valid regex m f (obj_read i1 (df_name f))"
    using validate_field_ok[of regex m f inputs errs] ih(1) v by simp
  moreover have "obj_read inputs' (df_name f) = obj_read i1 (df_name f)"
    using ih(3) Cons.prems(2) by simp
  ultimately show ?case
    using ih Cons.prems(2) validate_field_other[of _ f regex m inputs errs] v by auto
qed simp


text \<open>An exclusive minimum is read as the minimum plus one, so a fraction above it is rejected:
  \<open>1.5\<close> although it is greater than \<open>1\<close>.\<close>

lemma exclusive_minimum_rejects_fraction:
  "below (JNum (Fin (3 / 2))) (getMin ((plain_schema ''number'')\<lparr>ps_minimum := Val 1, ps_exclusiveMinimum := True\<rparr>))"
  by (simp add: below_def getMin_def plain_schema_def)

text \<open>A string that is too long is reported with the minimum length.\<close>

lemma too_long_message:
  "snd (validate_string regex
     (open_modal [] new_working_device)
     \<lparr>df_name = ''ip'', df_encrypted = False, df_required = False,
      df_schema = (plain_schema ''string'')\<lparr>ps_maxLength := Val 3\<rparr>\<rparr>
     [(''ip'', JStr ''10.0.0.1'')] []) =
   [(''ip'', ''Must be at most undefined characters.'')]"
proof -
  let ?f = "\<lparr>df_name = ''ip'', df_encrypted = False, df_required = False,
      df_schema = (plain_schema ''string'')\<lparr>ps_maxLength := Val 3\<rparr>\<rparr>"
  show ?thesis
    by (simp add: validate_string_def plain_schema_def obj_read_def obj_get_def enum_ok_def too_short_def
        too_long_def js_length_def pattern_ok_def concatValidationMessage_def Let_def)
qed

section \<open>Switching device types\<close>

definition modal_ok :: "device_modal \<Rightarrow> bool" where
  "modal_ok m \<longleftrightarrow> (\<forall>t a. dm_typeFields m t = Some a \<longrightarrow> a < dm_next m) \<and>
     (\<forall>t t' a. dm_typeFields m t = Some a \<longrightarrow> dm_typeFields m t' = Some a \<longrightarrow> t = t')"

lemma open_modal_ok: "modal_ok (open_modal apis w)"
  by (simp add: modal_ok_def open_modal_def)

lemma select_type:
  assumes "handleDeviceTypeSelection t m = (m', None)" and "t \<noteq> []"
  shows "(case dm_typeFields m t of
     Some a \<Rightarrow> dm_fields m' = Some a \<and> dm_heap m' = dm_heap m \<and> dm_typeFields m' = dm_typeFields m \<and> dm_next m' = dm_next m
   | None \<Rightarrow> dm_fields m' = Some (dm_next m) \<and> dm_typeFields m' = (dm_typeFields m)(t \<mapsto> dm_next m) \<and>
       dm_next m' = Suc (dm_next m) \<and> (\<forall>a. a \<noteq> dm_next m \<longrightarrow> dm_heap m' a = dm_heap m a))"
  using assms
  by (auto simp: handleDeviceTypeSelection_def use_fields_def getEncryptedConfirmFields_def Let_def
      split: option.splits if_splits)

lemma modal_ok_select: "modal_ok m \<Longrightarrow> handleDeviceTypeSelection t m = (m', None) \<Longrightarrow> t \<noteq> [] \<Longrightarrow> modal_ok m'"
  using select_type[of t m m']
  by (auto simp: modal_ok_def less_Suc_eq split: option.splits if_splits)


section \<open>The submitted fields\<close>

definition removable :: "device_field_api list \<Rightarrow> (string \<rightharpoonup> bool) \<Rightarrow> string \<times> jsval \<Rightarrow> bool" where
  "removable types cleared x \<longleftrightarrow> (\<exists>t. List.find (\<lambda>t. df_name t = fst x) types = Some t \<and> df_encrypted t) \<and>
     cleared (fst x) \<noteq> Some True \<and> blank_value (snd x)"

definition clear_field :: "device_field_api list \<Rightarrow> (string \<rightharpoonup> bool) \<Rightarrow> string \<times> jsval \<Rightarrow> string \<times> jsval" where
  "clear_field types cleared x =
     (if (\<exists>t. List.find (\<lambda>t. df_name t = fst x) types = Some t \<and> df_encrypted t) \<and> cleared (fst x) = Some True
      then (fst x, JStr []) else x)"

text \<open>C36. Saving an edited device leaves out the encrypted fields that were left blank and clears the
  ones marked for it, provided the field after each left-out one is to be sent as it is.\<close>

theorem submit_fields_spec:
  assumes "\<forall>x \<in> set fs. \<exists>t \<in> set types. df_name t = fst x"
    and "successively (\<lambda>x y. removable types cleared x \<longrightarrow> \<not> removable types cleared y \<and> clear_field types cleared y = y) fs"
  shows "submit_fields types cleared fs =
    Inr (map (clear_field types cleared) (filter (\<lambda>x. \<not> removable types cleared x) fs))"
  using assms
proof (induction types cleared fs rule: submit_fields.induct)
  case (2 types cleared n v fs)
  obtain t where t: "List.find (\<lambda>t. df_name t = n) types = Some t"
    using "2.prems"(1) by (cases "List.find (\<lambda>t. df_name t = n) types") (auto simp: find_None_iff)
  have tl: "\<forall>x \<in> set fs. \<exists>t \<in> set types. df_name t = fst x"
    "successively (\<lambda>x y. removable types cleared x \<longrightarrow> \<not> removable types cleared y \<and> clear_field types cleared y = y) fs"
    using "2.prems" by (auto simp: successively_Cons)
  show ?case
  proof (cases "removable types cleared (n, v)")
    case False
    then show ?thesis
      using "2.IH"(1)[of t] "2.IH"(2)[of t] "2.IH"(4)[of t] t tl
      by (auto simp: removable_def clear_field_def)
  next
    case True
    then have enc: "df_encrypted t" "cleared n \<noteq> Some True" "blank_value v"
      using t by (auto simp: removable_def)
    show ?thesis
    proof (cases fs)
      case Nil
      with True enc t show ?thesis by simp
    next
      case (Cons g gs)
      have g: "\<not> removable types cleared g" "clear_field types cleared g = g"
        using "2.prems"(2) True Cons by auto
      have gs: "\<forall>x \<in> set gs. \<exists>t \<in> set types. df_name t = fst x"
        "successively (\<lambda>x y. removable types cleared x \<longrightarrow> \<not> removable types cleared y \<and> clear_field types cleared y = y) gs"
        using tl Cons by (auto simp: successively_Cons)
      have "submit_fields types cleared gs =
          Inr (map (clear_field types cleared) (filter (\<lambda>x. \<not> removable types cleared x) gs))"
        using "2.IH"(3)[of t g gs] t enc Cons gs by simp
      with True enc t g Cons show ?thesis by simp
    qed
  qed
qed simp

definition two_secrets :: "device_field_api list" where
  "two_secrets = map (\<lambda>n. \<lparr>df_name = n, df_encrypted = True, df_required = False, df_schema = plain_schema ''string''\<rparr>)
     [''key'', ''secret'']"


section \<open>A sample form\<close>

definition sample_field :: "string \<Rightarrow> string \<Rightarrow> device_field_api" where
  "sample_field n t = \<lparr>df_name = n, df_encrypted = False, df_required = True, df_schema = plain_schema t\<rparr>"

definition sample_types_app :: app_api where
  "sample_types_app = \<lparr>app_name = ''Net'', app_action_apis = [], app_condition_apis = [], app_transform_apis = [],
     app_device_apis = [\<lparr>da_name = ''ssh'', da_fields = [sample_field ''ip'' ''string'', sample_field ''port'' ''integer'']\<rparr>,
                        \<lparr>da_name = ''http'', da_fields = [sample_field ''url'' ''string'']\<rparr>]\<rparr>"

definition sample_modal :: device_modal where
  "sample_modal = fst (ngAfterViewInit (open_modal [sample_types_app] (fromDevice sample_device)))"

lemmas sample_modal_defs = sample_modal_def ngAfterViewInit_def open_modal_def fromDevice_def sample_device_def
  handleDeviceTypeSelection_def sample_types_app_def sample_field_def use_fields_def
  getEncryptedConfirmFields_def getDefaultValues_def fields_object_def plain_schema_def


definition sample_validated :: device_modal where
  "sample_validated = (case validate (\<lambda>p s. True) sample_modal of Inr (m, b) \<Rightarrow> m | Inl e \<Rightarrow> sample_modal)"

lemma sample_ip_trim: "trim ''10.0.0.1'' = ''10.0.0.1''"
  by code_simp

lemma sample_validates: "validate (\<lambda>p s. True) sample_modal = Inr (sample_validated, True)"
  by (simp add: sample_validated_def validate_def inputs_of_def trim_inputs_def trim_confirm_def
      validate_field_def validate_string_def validate_number_def value_missing_def is_new_def obj_read_def obj_get_def
      enum_ok_def too_short_def too_long_def pattern_ok_def below_def above_def getMin_def getMax_def
      not_multiple_def sample_ip_trim set_inputs_def sample_modal_defs Let_def)


theorem submit_fields_spec_witness:
  "submit_fields two_secrets [''secret'' \<mapsto> True] [(''secret'', JStr ''x''), (''key'', JStr '' '')] =
    Inr (map (clear_field two_secrets [''secret'' \<mapsto> True])
      (filter (\<lambda>x. \<not> removable two_secrets [''secret'' \<mapsto> True] x) [(''secret'', JStr ''x''), (''key'', JStr '' '')]))"
  by (rule submit_fields_spec) (auto simp: two_secrets_def removable_def)

end
