(* ===== verification/SchedulerPage.thy ===== *)
theory SchedulerPage
  imports DevicePage
begin

text \<open>
  The scheduler page (\<^verbatim>\<open>scheduler/scheduler.component.ts\<close>), its requests
  (\<^verbatim>\<open>scheduler/scheduler.service.ts\<close>) and the form of a scheduled task
  (\<^verbatim>\<open>scheduler/scheduler.modal.component.ts\<close>). The arguments of a trigger are a plain
  object; the form keeps one object per trigger type and the task refers to one of them.
\<close>

section \<open>Data\<close>

record scheduled_task =
  task_id :: "int nullable"
  task_name :: "string nullable"
  task_description :: "string nullable"
  task_status :: "string nullable"
  task_workflows :: "string list nullable"
  task_trigger_type :: "string nullable"
  task_args :: "jsobj option"

definition new_task :: scheduled_task where
  "new_task = \<lparr>task_id = Undefined, task_name = Undefined, task_description = Undefined,
     task_status = Undefined, task_workflows = Val [], task_trigger_type = Undefined, task_args = None\<rparr>"

section \<open>Requests\<close>

datatype scheduler_body = StatusBody string | TaskBody scheduled_task | TaskActionBody "int nullable" string

definition schedulerStatusNumberMapping :: "int \<Rightarrow> string nullable" where
  "schedulerStatusNumberMapping n =
     (if n = 0 then Val ''stopped'' else if n = 1 then Val ''running'' else if n = 2 then Val ''paused'' else Undefined)"

definition getSchedulerStatus_request :: "scheduler_body request" where
  "getSchedulerStatus_request = http GET ''/api/scheduler'' None"

definition changeSchedulerStatus_request :: "string \<Rightarrow> scheduler_body request" where
  "changeSchedulerStatus_request status = http PUT ''/api/scheduler'' (Some (StatusBody status))"

definition getAllScheduledTasks :: "(nat \<Rightarrow> scheduled_task list result) \<Rightarrow> scheduled_task list result option" where
  "getAllScheduledTasks serviceCall = paginateAll serviceCall 1 []"

definition getScheduledTasks_request :: "nat \<Rightarrow> scheduler_body request" where
  "getScheduledTasks_request page = http GET (''/api/scheduledtasks?page='' @ nat_to_string page) None"

definition addScheduledTask_request :: "scheduled_task \<Rightarrow> scheduler_body request" where
  "addScheduledTask_request t = http POST ''/api/scheduledtasks'' (Some (TaskBody t))"

definition editScheduledTask_request :: "scheduled_task \<Rightarrow> scheduler_body request" where
  "editScheduledTask_request t = http PUT ''/api/scheduledtasks'' (Some (TaskBody t))"

definition deleteScheduledTask_request :: "int nullable \<Rightarrow> scheduler_body request" where
  "deleteScheduledTask_request i = http DELETE (''/api/scheduledtasks/'' @ template_int i) None"

definition changeScheduledTaskStatus_request :: "int nullable \<Rightarrow> string \<Rightarrow> scheduler_body request" where
  "changeScheduledTaskStatus_request i actionName = http PATCH ''/api/scheduledtasks'' (Some (TaskActionBody i actionName))"

section \<open>The page\<close>

record scheduler_page =
  sp_list :: "scheduled_task crud"
  sp_status :: "string nullable"
  sp_workflows :: "(string nullable \<times> string) list"

text \<open>The name is searched in lower case, the description as it is.\<close>

definition task_matches :: "string \<Rightarrow> scheduled_task \<Rightarrow> bool result" where
  "task_matches q t = or_result (on_string (task_name t) (\<lambda>s. str_includes (toLowerCase s) q))
     (on_string (task_description t) (\<lambda>s. str_includes s q))"

definition assign_task :: "scheduled_task \<Rightarrow> scheduled_task \<Rightarrow> scheduled_task" where
  "assign_task old new =
     \<lparr>task_id = assigned (task_id old) (task_id new), task_name = assigned (task_name old) (task_name new),
      task_description = assigned (task_description old) (task_description new),
      task_status = assigned (task_status old) (task_status new),
      task_workflows = assigned (task_workflows old) (task_workflows new),
      task_trigger_type = task_trigger_type new, task_args = task_args new\<rparr>"

definition filterScheduledTasks :: "scheduler_page \<Rightarrow> scheduler_page \<times> js_error option" where
  "filterScheduledTasks p = (let (c, e) = crud_filter task_matches (sp_list p) in (p\<lparr>sp_list := c\<rparr>, e))"

definition scheduler_toast :: "toast \<Rightarrow> scheduler_page \<Rightarrow> scheduler_page" where
  "scheduler_toast t p = p\<lparr>sp_list := crud_toast t (sp_list p)\<rparr>"

definition getSchedulerStatus_done :: "string nullable result \<Rightarrow> scheduler_page \<Rightarrow> scheduler_page" where
  "getSchedulerStatus_done answer p =
     (case answer of
        Inl e \<Rightarrow> scheduler_toast (Failure (''Error retrieving scheduler status: '' @ error_message e)) p
      | Inr s \<Rightarrow> p\<lparr>sp_status := s\<rparr>)"

definition changeSchedulerStatus :: "string \<Rightarrow> scheduler_page \<Rightarrow> scheduler_body request" where
  "changeSchedulerStatus status p =
     changeSchedulerStatus_request
       (if status = ''start'' \<and> sp_status p = Val ''paused'' then ''resume'' else status)"

definition changeSchedulerStatus_done :: "string nullable result \<Rightarrow> scheduler_page \<Rightarrow> scheduler_page" where
  "changeSchedulerStatus_done answer p =
     (case answer of
        Inl e \<Rightarrow> scheduler_toast (Failure (''Error changing scheduler status: '' @ error_message e)) p
      | Inr s \<Rightarrow> if truthy_str s then p\<lparr>sp_status := s\<rparr> else p)"

definition getScheduledTasks_done :: "scheduled_task list result \<Rightarrow> scheduler_page \<Rightarrow> scheduler_page" where
  "getScheduledTasks_done answer p =
     p\<lparr>sp_list := crud_loaded ''Error retrieving scheduled tasks: '' answer (sp_list p)\<rparr>"

definition deleteScheduledTask_done :: "scheduled_task \<Rightarrow> unit result \<Rightarrow> scheduler_page \<Rightarrow> scheduler_page" where
  "deleteScheduledTask_done t answer p = p\<lparr>sp_list :=
     crud_deleted task_matches task_id (task_id t)
       (''Scheduled Task \"'' @ template (task_name t) @ ''\" successfully deleted.'') ''Error deleting task: '' answer (sp_list p)\<rparr>"

definition task_message :: "scheduled_task \<Rightarrow> bool \<Rightarrow> string" where
  "task_message t isEdit = ''Scheduled task \"'' @ template (task_name t) @
     (if isEdit then ''\" successfully edited.'' else ''\" successfully added.'')"

definition tasks_handleModalClose :: "scheduled_task modal_result \<Rightarrow> scheduler_page \<Rightarrow> scheduler_page \<times> js_error option" where
  "tasks_handleModalClose r p =
     (let (c, e) = crud_modal_closed task_matches task_id assign_task task_message r (sp_list p)
      in (p\<lparr>sp_list := c\<rparr>, e))"

definition status_after :: "string \<Rightarrow> string option" where
  "status_after actionName =
     (if actionName = ''start'' then Some ''running''
      else if actionName = ''pause'' then Some ''paused''
      else if actionName = ''stop'' then Some ''stopped'' else None)"

definition changeScheduledTaskStatus ::
  "scheduled_task \<Rightarrow> string \<Rightarrow> scheduler_page \<Rightarrow> scheduler_page \<times> scheduler_body request option" where
  "changeScheduledTaskStatus t actionName p =
     (case status_after actionName of
        None \<Rightarrow> (scheduler_toast (Failure (''Attempted to set an unknown status '' @ actionName)) p, None)
      | Some _ \<Rightarrow> (p, Some (changeScheduledTaskStatus_request (task_id t) actionName)))"

text \<open>The task object is in both arrays; it is told by its id.\<close>

definition set_task_status :: "int nullable \<Rightarrow> string \<Rightarrow> scheduled_task list \<Rightarrow> scheduled_task list" where
  "set_task_status i s = update_first (\<lambda>t. task_id t = i) (\<lambda>t. t\<lparr>task_status := Val s\<rparr>)"

definition changeScheduledTaskStatus_done ::
  "scheduled_task \<Rightarrow> string \<Rightarrow> unit result \<Rightarrow> scheduler_page \<Rightarrow> scheduler_page" where
  "changeScheduledTaskStatus_done t newStatus answer p =
     (case answer of
        Inl e \<Rightarrow> scheduler_toast (Failure (''Error changing scheduler status: '' @ error_message e)) p
      | Inr _ \<Rightarrow> p\<lparr>sp_list := (sp_list p)
          \<lparr>cr_items := set_task_status (task_id t) newStatus (cr_items (sp_list p)),
           cr_display := set_task_status (task_id t) newStatus (cr_display (sp_list p))\<rparr>\<rparr>)"

definition scheduler_getWorkflows_done :: "playbook list \<Rightarrow> scheduler_page \<Rightarrow> scheduler_page" where
  "scheduler_getWorkflows_done pbs p = p\<lparr>sp_workflows := sp_workflows p @
     List.concat (map (\<lambda>pb. map (\<lambda>w. (wf_id w, pb_name pb @ '' - '' @ wf_name w)) (pb_workflows pb)) pbs)\<rparr>"

definition getFriendlyWorkflows :: "scheduler_page \<Rightarrow> scheduled_task \<Rightarrow> string" where
  "getFriendlyWorkflows p t =
     (case task_workflows t of
        Val ws \<Rightarrow> if ws = [] then []
          else join '', '' (map snd (filter (\<lambda>(i, text). i \<in> Val ` set ws) (sp_workflows p)))
      | _ \<Rightarrow> [])"

section \<open>The form\<close>

datatype args_ref = OwnArgs | CronArgs | IntervalArgs | DateArgs | NullArgs

record scheduler_modal =
  sm_task :: scheduled_task           \<comment> \<open>its \<open>task_args\<close> are those it was opened with\<close>
  sm_args :: args_ref
  sm_cron :: jsobj
  sm_interval :: jsobj
  sm_date :: jsobj

definition open_scheduler_modal :: "scheduled_task \<Rightarrow> scheduler_modal" where
  "open_scheduler_modal t = \<lparr>sm_task = t, sm_args = OwnArgs, sm_cron = [], sm_interval = [], sm_date = []\<rparr>"

definition current_args :: "scheduler_modal \<Rightarrow> jsobj option" where
  "current_args m = (case sm_args m of OwnArgs \<Rightarrow> task_args (sm_task m) | CronArgs \<Rightarrow> Some (sm_cron m)
     | IntervalArgs \<Rightarrow> Some (sm_interval m) | DateArgs \<Rightarrow> Some (sm_date m) | NullArgs \<Rightarrow> None)"

definition set_args :: "jsobj \<Rightarrow> scheduler_modal \<Rightarrow> scheduler_modal" where
  "set_args ob m = (case sm_args m of OwnArgs \<Rightarrow> m\<lparr>sm_task := (sm_task m)\<lparr>task_args := Some ob\<rparr>\<rparr>
     | CronArgs \<Rightarrow> m\<lparr>sm_cron := ob\<rparr> | IntervalArgs \<Rightarrow> m\<lparr>sm_interval := ob\<rparr>
     | DateArgs \<Rightarrow> m\<lparr>sm_date := ob\<rparr> | NullArgs \<Rightarrow> m)"

text \<open>\<open>changeType\<close>: the select box has set the trigger's type already.\<close>

definition changeType :: "string \<Rightarrow> scheduler_modal \<Rightarrow> scheduler_modal" where
  "changeType t m = m\<lparr>sm_args := (if t = ''cron'' then CronArgs else if t = ''interval'' then IntervalArgs
     else if t = ''date'' then DateArgs else NullArgs)\<rparr>"

definition workflowsSelectChanged :: "string list \<Rightarrow> scheduler_modal \<Rightarrow> scheduler_modal" where
  "workflowsSelectChanged ws m = m\<lparr>sm_task := (sm_task m)\<lparr>task_workflows := Val ws\<rparr>\<rparr>"

definition date_key :: "string \<Rightarrow> bool" where
  "date_key k = (k = ''start_date'' \<or> k = ''end_date'')"

text \<open>The loop trims the strings it looks at, until it has found something.\<close>

fun doesArgsHaveAnything_loop :: "string list \<Rightarrow> jsobj \<Rightarrow> bool \<Rightarrow> jsobj \<times> bool" where
  "doesArgsHaveAnything_loop [] args ret = (args, ret)"
| "doesArgsHaveAnything_loop (k # ks) args ret =
     (if ret \<or> date_key k \<or> \<not> truthy (obj_read args k) then doesArgsHaveAnything_loop ks args ret
      else case obj_read args k of
             JStr s \<Rightarrow>
               let s' = trim s
               in doesArgsHaveAnything_loop ks (obj_set k (JStr s') args) (s' \<noteq> [] \<and> s' \<noteq> ''0'' \<and> s' \<noteq> ''*'')
           | _ \<Rightarrow> doesArgsHaveAnything_loop ks args True)"

definition doesArgsHaveAnything :: "jsobj \<Rightarrow> jsobj \<times> bool" where
  "doesArgsHaveAnything args = doesArgsHaveAnything_loop (obj_keys args) args False"

definition needs_period :: "scheduler_modal \<Rightarrow> bool" where
  "needs_period m = (task_trigger_type (sm_task m) \<in> {Val ''interval'', Val ''cron''})"

definition scheduler_validate :: "scheduler_modal \<Rightarrow> scheduler_modal \<times> string" where
  "scheduler_validate m =
     (if \<not> truthy_str (task_name (sm_task m)) then (m, ''A name is required.'')
      else if task_workflows (sm_task m) \<in> {Undefined, Null, Val []} then
        (m, ''Please specify at least one workflow to be run.'')
      else case current_args m of
        None \<Rightarrow> (m, ''Please select a type and fill out the trigger parameters.'')
      | Some args \<Rightarrow>
          if \<not> (truthy (obj_read args ''start_date'') \<or> truthy (obj_read args ''run_date'')) then
            (m, ''A start date is required.'')
          else if \<not> needs_period m then (m, [])
          else if num_less (to_number (obj_read args ''end_date'')) (to_number (obj_read args ''start_date'')) then
            (m, ''The end date cannot be before the start date.'')
          else
            let (args', found) = doesArgsHaveAnything args; m' = set_args args' m
            in if found then (m', [])
               else if task_trigger_type (sm_task m) = Val ''interval'' then
                 (m', ''You must specify some interval of time for the actions to occur.'')
               else (m', ''You must specify some cron parameters for the actions to occur.''))"

text \<open>The loop of \<open>convertStringsToInt\<close> returns at the first date and at the first value that
  is no number; the entries are those at the start of the loop.\<close>

fun convert_loop :: "(string \<times> jsval) list \<Rightarrow> jsobj \<Rightarrow> jsobj" where
  "convert_loop [] args = args"
| "convert_loop ((k, v) # es) args =
     (if date_key k \<or> is_nan v then args else convert_loop es (obj_set k (JNum (to_number v)) args))"

definition convertStringsToInt :: "jsobj \<Rightarrow> jsobj" where
  "convertStringsToInt args = convert_loop (map (\<lambda>k. (k, obj_read args k)) (obj_keys args)) args"

definition submitted_task :: "scheduler_modal \<Rightarrow> scheduled_task" where
  "submitted_task m = (sm_task m)\<lparr>task_args := current_args m\<rparr>"

definition scheduler_submit :: "scheduler_modal \<Rightarrow> scheduler_modal \<times> scheduler_body request + string" where
  "scheduler_submit m =
     (let (m1, message) = scheduler_validate m
      in if message \<noteq> [] then Inr message
         else
           let m2 = (if task_trigger_type (sm_task m1) = Val ''cron''
                 then (case current_args m1 of Some a \<Rightarrow> set_args (convertStringsToInt a) m1 | None \<Rightarrow> m1) else m1);
               t = submitted_task m2
           in Inl (m2, case task_id t of
                Val i \<Rightarrow> if i \<noteq> 0 then editScheduledTask_request t else addScheduledTask_request t
              | _ \<Rightarrow> addScheduledTask_request t))"

end
