(* ===== verification/SchedulerInvariant.thy ===== *)
theory SchedulerInvariant
  imports SchedulerPage
begin

text \<open>
  What the scheduler form accepts and sends, and the list of scheduled tasks as an instance of the
  list pages.
\<close>

section \<open>Has anything been entered\<close>

definition meaningful :: "jsval \<Rightarrow> bool" where
  "meaningful v = (truthy v \<and> (case v of JStr s \<Rightarrow> trim s \<notin> {[], ''0'', ''*''} | _ \<Rightarrow> True))"

definition has_setting :: "jsobj \<Rightarrow> bool" where
  "has_setting args = list_ex (\<lambda>k. \<not> date_key k \<and> meaningful (obj_read args k)) (obj_keys args)"

lemma doesArgs_loop_found: "doesArgsHaveAnything_loop ks args True = (args, True)"
  by (induction ks) auto

lemma doesArgs_loop_spec:
  "distinct ks \<Longrightarrow> snd (doesArgsHaveAnything_loop ks args False) =
     list_ex (\<lambda>k. \<not> date_key k \<and> meaningful (obj_read args k)) ks"
proof (induction ks arbitrary: args)
  case (Cons k ks)
  have keep: "list_ex (\<lambda>q. \<not> date_key q \<and> meaningful (obj_read (obj_set k v args) q)) ks =
      list_ex (\<lambda>q. \<not> date_key q \<and> meaningful (obj_read args q)) ks" for v
    using Cons.prems by (auto simp: list_ex_iff)
  show ?case
  proof (cases "date_key k \<or> \<not> truthy (obj_read args k)")
    case True
    with Cons show ?thesis by (auto simp: meaningful_def)
  next
    case False
    then show ?thesis
    proof (cases "obj_read args k")
      case (JStr s)
      show ?thesis
      proof (cases "trim s \<in> {[], ''0'', ''*''}")
        case True
        then have "snd (doesArgsHaveAnything_loop (k # ks) args False) =
            snd (doesArgsHaveAnything_loop ks (obj_set k (JStr (trim s)) args) False)"
          using False JStr by auto
        also have "\<dots> = list_ex (\<lambda>q. \<not> date_key q \<and> meaningful (obj_read args q)) ks"
          using Cons.IH[of "obj_set k (JStr (trim s)) args"] Cons.prems keep by simp
        finally show ?thesis using True JStr by (auto simp: meaningful_def)
      next
        case b: False
        then have "doesArgsHaveAnything_loop (k # ks) args False =
            doesArgsHaveAnything_loop ks (obj_set k (JStr (trim s)) args) True"
          using False JStr by (auto simp: Let_def)
        with b False JStr show ?thesis by (simp add: doesArgs_loop_found meaningful_def)
      qed
    qed (use False in \<open>auto simp: doesArgs_loop_found meaningful_def\<close>)
  qed
qed simp

lemma doesArgsHaveAnything_spec:
  "distinct (map fst args) \<Longrightarrow> snd (doesArgsHaveAnything args) = has_setting args"
  by (simp add: doesArgsHaveAnything_def has_setting_def doesArgs_loop_spec)

section \<open>Accepted tasks\<close>

text \<open>The form accepts a task exactly when it has a name, at least one workflow and a start or run
  date, and, for intervals and cron rules, the end date does not compare below the start date and
  some parameter other than the dates is set to more than blank, \<open>0\<close> or \<open>*\<close>.\<close>

theorem scheduler_validate_iff:
  assumes "\<forall>args. current_args m = Some args \<longrightarrow> distinct (map fst args)"
  shows "snd (scheduler_validate m) = [] \<longleftrightarrow>
    truthy_str (task_name (sm_task m)) \<and> task_workflows (sm_task m) \<notin> {Undefined, Null, Val []} \<and>
    (\<exists>args. current_args m = Some args \<and>
      (truthy (obj_read args ''start_date'') \<or> truthy (obj_read args ''run_date'')) \<and>
      (needs_period m \<longrightarrow>
        \<not> num_less (to_number (obj_read args ''end_date'')) (to_number (obj_read args ''start_date'')) \<and>
        has_setting args))"
proof (cases "current_args m")
  case None
  then show ?thesis by (simp add: scheduler_validate_def del: truthy_str_iff)
next
  case (Some args)
  have "snd (doesArgsHaveAnything args) = has_setting args"
    using assms Some by (simp add: doesArgsHaveAnything_spec)
  then obtain args' where "doesArgsHaveAnything args = (args', has_setting args)"
    by (cases "doesArgsHaveAnything args") auto
  with Some show ?thesis by (simp add: scheduler_validate_def Let_def del: truthy_str_iff)
qed

definition sample_task :: scheduled_task where
  "sample_task = new_task\<lparr>task_name := Val ''Nightly'', task_description := Val ''Nightly scan'',
     task_workflows := Val [''w1''], task_trigger_type := Val ''cron'',
     task_args := Some [(''start_date'', JStr ''2018-02-01''), (''end_date'', JStr ''2018-01-01''), (''hour'', JStr ''5'')]\<rparr>"

lemma sample_task_args:
  "current_args (open_scheduler_modal sample_task) =
     Some [(''start_date'', JStr ''2018-02-01''), (''end_date'', JStr ''2018-01-01''), (''hour'', JStr ''5'')]"
  by (simp add: current_args_def open_scheduler_modal_def sample_task_def)

lemma sample_task_setting:
  "has_setting [(''start_date'', JStr ''2018-02-01''), (''end_date'', JStr ''2018-01-01''), (''hour'', JStr ''5'')]"
  by code_simp

lemma sample_dates_are_nan: "string_to_number ''2018-02-01'' = NaN" "string_to_number ''2018-01-01'' = NaN"
  by (simp_all add: string_to_number_def unsigned_decimal_def trim_def is_ws_def is_digit_def Let_def)

text \<open>Dates that came from the server are texts, which convert to \<open>NaN\<close>: a task that ends a month
  before it starts is accepted.\<close>

theorem scheduler_validate_iff_witness: "snd (scheduler_validate (open_scheduler_modal sample_task)) = []"
proof (subst scheduler_validate_iff)
  show "\<forall>args. current_args (open_scheduler_modal sample_task) = Some args \<longrightarrow> distinct (map fst args)"
    by (simp add: sample_task_args)
  show "truthy_str (task_name (sm_task (open_scheduler_modal sample_task))) \<and>
    task_workflows (sm_task (open_scheduler_modal sample_task)) \<notin> {Undefined, Null, Val []} \<and>
    (\<exists>args. current_args (open_scheduler_modal sample_task) = Some args \<and>
      (truthy (obj_read args ''start_date'') \<or> truthy (obj_read args ''run_date'')) \<and>
      (needs_period (open_scheduler_modal sample_task) \<longrightarrow>
        \<not> num_less (to_number (obj_read args ''end_date'')) (to_number (obj_read args ''start_date'')) \<and>
        has_setting args))"
    by (simp add: sample_task_args sample_task_setting)
      (simp add: open_scheduler_modal_def sample_task_def obj_read_def obj_get_def sample_dates_are_nan)
qed

text \<open>Between two moments the comparison is that of their times.\<close>

lemma moments_compared:
  assumes "obj_read args ''start_date'' = JMoment s" and "obj_read args ''end_date'' = JMoment e" and "e < s"
    and "current_args m = Some args" and "needs_period m"
  shows "snd (scheduler_validate m) \<noteq> []"
  using assms by (auto simp: scheduler_validate_def)

section \<open>Conversion of cron parameters\<close>

definition converts :: "jsobj \<Rightarrow> string \<Rightarrow> bool" where
  "converts args k = (\<not> date_key k \<and> \<not> is_nan (obj_read args k))"

lemma convert_loop_spec:
  assumes "distinct ks"
  shows "obj_read (convert_loop (map (\<lambda>k. (k, obj_read args k)) ks) ob) q =
    (if q \<in> set (takeWhile (converts args) ks) then JNum (to_number (obj_read args q)) else obj_read ob q)"
  using assms
proof (induction ks arbitrary: ob)
  case (Cons k ks)
  then show ?case by (auto simp: converts_def dest: set_takeWhileD)
qed simp

text \<open>Submitting a cron rule converts to numbers exactly the parameters that come before the first
  date and before the first value that is no number; whatever follows is sent as it was typed.\<close>

theorem convertStringsToInt_spec:
  assumes "distinct (map fst args)"
  shows "obj_read (convertStringsToInt args) k =
    (if k \<in> set (takeWhile (converts args) (obj_keys args)) then JNum (to_number (obj_read args k))
     else obj_read args k)"
  unfolding convertStringsToInt_def by (rule convert_loop_spec) (simp add: assms)

lemma sample_cron_keys: "obj_keys [(''start_date'', JStr ''s''), (''hour'', JStr ''5'')] = [''start_date'', ''hour'']"
  by code_simp

theorem convertStringsToInt_spec_witness:
  "obj_read (convertStringsToInt [(''start_date'', JStr ''s''), (''hour'', JStr ''5'')]) ''hour'' = JStr ''5''"
  by (subst convertStringsToInt_spec)
    (simp_all add: sample_cron_keys converts_def date_key_def obj_read_def obj_get_def)

section \<open>Status of a task and of the scheduler\<close>

lemma resume_paused:
  "sp_status p = Val ''paused'' \<Longrightarrow> changeSchedulerStatus ''start'' p = changeSchedulerStatus_request ''resume''"
  by (simp add: changeSchedulerStatus_def)

section \<open>The list of tasks\<close>

definition task_searchable :: "scheduled_task \<Rightarrow> bool" where
  "task_searchable t \<longleftrightarrow> (\<exists>s d. task_name t = Val s \<and> task_description t = Val d)"

interpretation task_list: crud_list task_id assign_task task_matches task_searchable
proof unfold_locales
  show "task_id (assign_task y x) = task_id x" if "task_id y = task_id x" for x y
    using that by (simp add: assign_task_def)
  show "\<exists>b. task_matches q x = Inr b" if "task_searchable x" for x q
    using that by (auto simp: task_searchable_def task_matches_def)
  show "task_searchable (assign_task y x)" if "task_searchable y" "task_searchable x" for x y
    using that by (auto simp: task_searchable_def assign_task_def assigned_def)
qed

definition tasks_ok :: "scheduler_page \<Rightarrow> bool" where
  "tasks_ok p \<longleftrightarrow> distinct (map task_id (cr_items (sp_list p))) \<and>
     (\<forall>t \<in> set (cr_items (sp_list p)). task_searchable t)"

text \<open>Deleting a scheduled task removes it alone, and adding or editing one keeps all others; each
  time the page shows exactly the tasks that match the search text.\<close>

theorem task_list_spec:
  assumes "tasks_ok p"
  shows "(let p' = deleteScheduledTask_done t (Inr ()) p
      in tasks_ok p' \<and> shows_matching task_matches (sp_list p') \<and>
         cr_items (sp_list p') = filter (\<lambda>x. task_id x \<noteq> task_id t) (cr_items (sp_list p))) \<and>
    (task_searchable t \<longrightarrow>
      (\<exists>p'. tasks_handleModalClose (ClosedWith t (task_id t \<in> task_id ` set (cr_items (sp_list p)))) p = (p', None) \<and>
        tasks_ok p' \<and> shows_matching task_matches (sp_list p') \<and>
        (\<forall>x \<in> set (cr_items (sp_list p)). task_id x \<noteq> task_id t \<longrightarrow> x \<in> set (cr_items (sp_list p')))))"
proof (rule conjI)
  show "let p' = deleteScheduledTask_done t (Inr ()) p
      in tasks_ok p' \<and> shows_matching task_matches (sp_list p') \<and>
         cr_items (sp_list p') = filter (\<lambda>x. task_id x \<noteq> task_id t) (cr_items (sp_list p))"
    using task_list.delete_shows[of "sp_list p"] assms
    by (auto simp: tasks_ok_def deleteScheduledTask_done_def distinct_map_filter)
next
  let ?e = "task_id t \<in> task_id ` set (cr_items (sp_list p))"
  have "\<exists>c'. crud_modal_closed task_matches task_id assign_task task_message (ClosedWith t ?e) (sp_list p) = (c', None) \<and>
      (distinct (map task_id (cr_items c')) \<and> (\<forall>x \<in> set (cr_items c'). task_searchable x)) \<and>
      shows_matching task_matches c' \<and>
      cr_items c' = (if ?e then map (\<lambda>y. if task_id y = task_id t then assign_task y t else y) (cr_items (sp_list p))
                      else cr_items (sp_list p) @ [t])" if "task_searchable t"
    using task_list.modal_closed_total[of "sp_list p" t ?e task_message] assms that by (simp add: tasks_ok_def)
  then show "task_searchable t \<longrightarrow>
      (\<exists>p'. tasks_handleModalClose (ClosedWith t ?e) p = (p', None) \<and>
        tasks_ok p' \<and> shows_matching task_matches (sp_list p') \<and>
        (\<forall>x \<in> set (cr_items (sp_list p)). task_id x \<noteq> task_id t \<longrightarrow> x \<in> set (cr_items (sp_list p'))))"
    by (fastforce simp: tasks_handleModalClose_def tasks_ok_def intro: exI[of _ "p\<lparr>sp_list := _\<rparr>"])
qed

definition sample_scheduler_page :: scheduler_page where
  "sample_scheduler_page = \<lparr>sp_list = new_crud\<lparr>cr_items := [sample_task]\<rparr>, sp_status = Val ''paused'', sp_workflows = []\<rparr>"

theorem task_list_spec_witness:
  "cr_items (sp_list (deleteScheduledTask_done sample_task (Inr ()) sample_scheduler_page)) = []"
proof -
  have "tasks_ok sample_scheduler_page"
    by (simp add: tasks_ok_def sample_scheduler_page_def new_crud_def task_searchable_def sample_task_def)
  from task_list_spec[OF this, of sample_task] show ?thesis
    by (simp add: Let_def sample_scheduler_page_def new_crud_def)
qed

text \<open>A description with a capital letter is not found by its own text.\<close>

lemma description_search_misses:
  "task_matches (search_text (Val ''Nightly scan'')) (sample_task\<lparr>task_name := Val ''a''\<rparr>) = Inr False"
  by code_simp

end
