(* ===== verification/SettingsPage.thy ===== *)
theory SettingsPage
  imports DevicePage
begin

text \<open>
  The settings pages (\<^verbatim>\<open>settings/*.ts\<close>): users, roles and their permissions, the
  configuration, and the requests they make.
\<close>

section \<open>Data of the configuration\<close>

record cache_config =
  cc_type :: string
  cc_directory :: "string nullable"
  cc_shards :: "rat nullable"
  cc_timeout :: "rat nullable"
  cc_retry :: "bool nullable"
  cc_host :: "string nullable"
  cc_port :: "rat nullable"
  cc_unix_socket_path :: "string nullable"

definition new_cache_config :: cache_config where
  "new_cache_config = \<lparr>cc_type = ''disk'', cc_directory = Undefined, cc_shards = Undefined, cc_timeout = Undefined,
     cc_retry = Undefined, cc_host = Undefined, cc_port = Undefined, cc_unix_socket_path = Undefined\<rparr>"

definition default_cache_config :: cache_config where
  "default_cache_config = \<lparr>cc_type = ''disk'', cc_directory = Val ''./data/cache'', cc_shards = Val 8,
     cc_timeout = Val (1 / 100), cc_retry = Val True, cc_host = Undefined, cc_port = Undefined,
     cc_unix_socket_path = Undefined\<rparr>"

record configuration =
  cf_db_path :: "string nullable"
  cf_walkoff_db_type :: "string nullable"
  cf_host :: "string nullable"
  cf_port :: "rat nullable"
  cf_access_token_duration :: "rat nullable"
  cf_refresh_token_duration :: "rat nullable"
  cf_zmq_results_address :: "string nullable"
  cf_zmq_communication_address :: "string nullable"
  cf_number_processes :: "rat nullable"
  cf_number_threads_per_process :: "rat nullable"
  cf_cache :: "cache_config nullable"

definition new_configuration :: configuration where
  "new_configuration = \<lparr>cf_db_path = Undefined, cf_walkoff_db_type = Undefined, cf_host = Undefined,
     cf_port = Undefined, cf_access_token_duration = Undefined, cf_refresh_token_duration = Undefined,
     cf_zmq_results_address = Undefined, cf_zmq_communication_address = Undefined,
     cf_number_processes = Undefined, cf_number_threads_per_process = Undefined,
     cf_cache = Val new_cache_config\<rparr>"

definition getDefaultConfiguration :: configuration where
  "getDefaultConfiguration = \<lparr>cf_db_path = Val ''./data/walkoff.db'', cf_walkoff_db_type = Val ''sqlite'',
     cf_host = Val ''127.0.0.1'', cf_port = Val 5000, cf_access_token_duration = Val 15,
     cf_refresh_token_duration = Val 30, cf_zmq_results_address = Val ''tcp://127.0.0.1:5556'',
     cf_zmq_communication_address = Val ''tcp://127.0.0.1:5557'', cf_number_processes = Val 4,
     cf_number_threads_per_process = Val 3, cf_cache = Val default_cache_config\<rparr>"

definition assign_configuration :: "configuration \<Rightarrow> configuration \<Rightarrow> configuration" where
  "assign_configuration old new =
     \<lparr>cf_db_path = assigned (cf_db_path old) (cf_db_path new),
      cf_walkoff_db_type = assigned (cf_walkoff_db_type old) (cf_walkoff_db_type new),
      cf_host = assigned (cf_host old) (cf_host new), cf_port = assigned (cf_port old) (cf_port new),
      cf_access_token_duration = assigned (cf_access_token_duration old) (cf_access_token_duration new),
      cf_refresh_token_duration = assigned (cf_refresh_token_duration old) (cf_refresh_token_duration new),
      cf_zmq_results_address = assigned (cf_zmq_results_address old) (cf_zmq_results_address new),
      cf_zmq_communication_address = assigned (cf_zmq_communication_address old) (cf_zmq_communication_address new),
      cf_number_processes = assigned (cf_number_processes old) (cf_number_processes new),
      cf_number_threads_per_process = assigned (cf_number_threads_per_process old) (cf_number_threads_per_process new),
      cf_cache = assigned (cf_cache old) (cf_cache new)\<rparr>"

section \<open>Requests\<close>

datatype settings_body = ConfigurationBody configuration | UserBody user | RoleBody role

definition getConfiguration_request :: "settings_body request" where
  "getConfiguration_request = http GET ''/api/configuration'' None"

definition updateConfiguration_request :: "configuration \<Rightarrow> settings_body request" where
  "updateConfiguration_request c = http PUT ''/api/configuration'' (Some (ConfigurationBody c))"

definition getAllUsers :: "(nat \<Rightarrow> user list result) \<Rightarrow> user list result option" where
  "getAllUsers serviceCall = paginateAll serviceCall 1 []"

definition getUsers_request :: "nat \<Rightarrow> settings_body request" where
  "getUsers_request page = http GET (''/api/users?page='' @ nat_to_string page) None"

definition addUser_request :: "user \<Rightarrow> settings_body request" where
  "addUser_request u = http POST ''/api/users'' (Some (UserBody u))"

definition editUser_request :: "user \<Rightarrow> settings_body request" where
  "editUser_request u = http PUT ''/api/users'' (Some (UserBody u))"

definition deleteUser_request :: "int nullable \<Rightarrow> settings_body request" where
  "deleteUser_request i = http DELETE (''/api/users/'' @ template_int i) None"

definition getRoles_request :: "settings_body request" where
  "getRoles_request = http GET ''/api/roles'' None"

definition addRole_request :: "role \<Rightarrow> settings_body request" where
  "addRole_request r = http POST ''/api/roles'' (Some (RoleBody r))"

definition editRole_request :: "role \<Rightarrow> settings_body request" where
  "editRole_request r = http PUT ''/api/roles'' (Some (RoleBody r))"

definition deleteRole_request :: "int nullable \<Rightarrow> settings_body request" where
  "deleteRole_request i = http DELETE (''/api/roles/'' @ template_int i) None"

definition getAvailableResourceActions_request :: "settings_body request" where
  "getAvailableResourceActions_request = http GET ''/api/availableresourceactions'' None"

section \<open>Configuration and users\<close>

record settings_page =
  se_configuration :: configuration
  se_list :: "user crud"
  se_roles :: "role list"

definition settings_toast :: "toast \<Rightarrow> settings_page \<Rightarrow> settings_page" where
  "settings_toast t p = p\<lparr>se_list := crud_toast t (se_list p)\<rparr>"

definition receive_configuration :: "configuration \<Rightarrow> settings_page \<Rightarrow> settings_page" where
  "receive_configuration c p =
     (let c1 = assign_configuration (se_configuration p) c
      in p\<lparr>se_configuration := (if is_nullish (cf_cache c1) then c1\<lparr>cf_cache := Val new_cache_config\<rparr> else c1)\<rparr>)"

definition getConfiguration_done :: "configuration result \<Rightarrow> settings_page \<Rightarrow> settings_page" where
  "getConfiguration_done answer p =
     (case answer of Inl e \<Rightarrow> settings_toast (Failure (error_message e)) p | Inr c \<Rightarrow> receive_configuration c p)"

definition updateConfiguration_done :: "configuration result \<Rightarrow> settings_page \<Rightarrow> settings_page" where
  "updateConfiguration_done answer p =
     (case answer of Inl e \<Rightarrow> settings_toast (Failure (error_message e)) p
      | Inr c \<Rightarrow> settings_toast (Success ''Configuration successfully updated.'') (receive_configuration c p))"

definition resetConfiguration :: "bool \<Rightarrow> settings_page \<Rightarrow> settings_page" where
  "resetConfiguration confirmed p =
     (if confirmed then p\<lparr>se_configuration := assign_configuration (se_configuration p) getDefaultConfiguration\<rparr> else p)"

definition user_matches :: "string \<Rightarrow> user \<Rightarrow> bool result" where
  "user_matches q u = on_string (usr_username u) (\<lambda>s. str_includes (toLowerCase s) q)"

definition assign_user :: "user \<Rightarrow> user \<Rightarrow> user" where
  "assign_user old new =
     \<lparr>usr_id = assigned (usr_id old) (usr_id new), usr_username = assigned (usr_username old) (usr_username new),
      usr_old_password = assigned (usr_old_password old) (usr_old_password new),
      usr_password = assigned (usr_password old) (usr_password new),
      usr_roles = assigned (usr_roles old) (usr_roles new), usr_active = assigned (usr_active old) (usr_active new)\<rparr>"

definition filterUsers :: "settings_page \<Rightarrow> settings_page \<times> js_error option" where
  "filterUsers p = (let (c, e) = crud_filter user_matches (se_list p) in (p\<lparr>se_list := c\<rparr>, e))"

definition getUsers_done :: "user list result \<Rightarrow> settings_page \<Rightarrow> settings_page" where
  "getUsers_done answer p = p\<lparr>se_list := crud_loaded ''Error retrieving users: '' answer (se_list p)\<rparr>"

definition getRoles_done :: "role list result \<Rightarrow> settings_page \<Rightarrow> settings_page" where
  "getRoles_done answer p =
     (case answer of Inl e \<Rightarrow> settings_toast (Failure (''Error retrieving roles: '' @ error_message e)) p
      | Inr rs \<Rightarrow> p\<lparr>se_roles := rs\<rparr>)"

definition deleteUser_done :: "user \<Rightarrow> unit result \<Rightarrow> settings_page \<Rightarrow> settings_page" where
  "deleteUser_done u answer p = p\<lparr>se_list := crud_deleted user_matches usr_id (usr_id u)
     (''User \"'' @ template (usr_username u) @ ''\" successfully deleted.'') [] answer (se_list p)\<rparr>"

definition user_message :: "user \<Rightarrow> bool \<Rightarrow> string" where
  "user_message u isEdit = ''User \"'' @ template (usr_username u) @
     (if isEdit then ''\" successfully edited.'' else ''\" successfully added.'')"

definition users_handleModalClose :: "user modal_result \<Rightarrow> settings_page \<Rightarrow> settings_page \<times> js_error option" where
  "users_handleModalClose r p =
     (let (c, e) = crud_modal_closed user_matches usr_id assign_user user_message r (se_list p)
      in (p\<lparr>se_list := c\<rparr>, e))"

definition addUser_working :: working_user where
  "addUser_working = \<lparr>wu_id = Undefined, wu_username = Undefined, wu_role_ids = [], wu_active = Val True,
     wu_currentPassword = Undefined, wu_newPassword = Undefined, wu_confirmNewPassword = Undefined\<rparr>"

definition getFriendlyRoles :: "role list \<Rightarrow> string" where
  "getFriendlyRoles rs = join '', '' (map (\<lambda>r. str_or_empty (role_name r)) rs)"

definition getFriendlyBool :: "bool nullable \<Rightarrow> string" where
  "getFriendlyBool b = (if b = Val True then ''Yes'' else ''No'')"

section \<open>The form of a user\<close>

definition has_id :: "int nullable \<Rightarrow> bool" where
  "has_id i = (case i of Val n \<Rightarrow> n \<noteq> 0 | _ \<Rightarrow> False)"

definition user_validate :: "working_user option \<Rightarrow> string" where
  "user_validate w =
     (case w of
        None \<Rightarrow> ''User is not specified.''
      | Some u \<Rightarrow>
          if \<not> has_id (wu_id u) \<and> \<not> truthy_str (wu_newPassword u) then ''You must specify a password.''
          else if wu_confirmNewPassword u \<noteq> wu_newPassword u then ''Passwords do not match.''
          else [])"

text \<open>The select box gives texts; an id that is no integer would be stored as the number it converts
  to, which no server sends, and is kept here as \<open>undefined\<close>.\<close>

definition to_role_id :: "string \<Rightarrow> int nullable" where
  "to_role_id s = (case string_to_number s of Fin q \<Rightarrow> if of_int \<lfloor>q\<rfloor> = q then Val \<lfloor>q\<rfloor> else Undefined | _ \<Rightarrow> Undefined)"

definition roleSelectChange :: "string list \<Rightarrow> working_user \<Rightarrow> working_user" where
  "roleSelectChange ids u = u\<lparr>wu_role_ids := map to_role_id ids\<rparr>"

definition user_submit :: "working_user option \<Rightarrow> settings_body request + string" where
  "user_submit w =
     (if user_validate w \<noteq> [] then Inr (user_validate w)
      else case w of
        None \<Rightarrow> Inr []
      | Some u \<Rightarrow> Inl (if has_id (wu_id u) then editUser_request (toUser u) else addUser_request (toUser u)))"

text \<open>The role select offers the id of every role as text.\<close>

definition roleSelectData :: "role list \<Rightarrow> (string \<times> string nullable) list result" where
  "roleSelectData rs = map_result (\<lambda>r. case role_id r of Val i \<Rightarrow> Inr (int_to_string i, role_name r) | _ \<Rightarrow> Inl TypeError) rs"

section \<open>Roles\<close>

record roles_page =
  rp_actions :: "(string \<times> string nullable \<times> string list) list"   \<comment> \<open>name, app, actions\<close>
  rp_list :: "role crud"

definition role_matches :: "string \<Rightarrow> role \<Rightarrow> bool result" where
  "role_matches q r = on_string (role_name r) (\<lambda>s. str_includes (toLowerCase s) q)"

definition assign_role :: "role \<Rightarrow> role \<Rightarrow> role" where
  "assign_role old new =
     \<lparr>role_id = assigned (role_id old) (role_id new), role_name = assigned (role_name old) (role_name new),
      role_description = assigned (role_description old) (role_description new),
      role_resources = assigned (role_resources old) (role_resources new)\<rparr>"

definition filterRoles :: "roles_page \<Rightarrow> roles_page \<times> js_error option" where
  "filterRoles p = (let (c, e) = crud_filter role_matches (rp_list p) in (p\<lparr>rp_list := c\<rparr>, e))"

definition rolesPage_getRoles_done :: "role list result \<Rightarrow> roles_page \<Rightarrow> roles_page" where
  "rolesPage_getRoles_done answer p = p\<lparr>rp_list := crud_loaded [] answer (rp_list p)\<rparr>"

definition getAvailableResourceActions_done ::
  "(string \<times> string nullable \<times> string list) list result \<Rightarrow> roles_page \<Rightarrow> roles_page" where
  "getAvailableResourceActions_done answer p =
     (case answer of Inl e \<Rightarrow> p\<lparr>rp_list := crud_toast (Failure (error_message e)) (rp_list p)\<rparr>
      | Inr xs \<Rightarrow> p\<lparr>rp_actions := xs\<rparr>)"

definition deleteRole_done :: "role \<Rightarrow> unit result \<Rightarrow> roles_page \<Rightarrow> roles_page" where
  "deleteRole_done r answer p = p\<lparr>rp_list := crud_deleted role_matches role_id (role_id r)
     (''Role \"'' @ template (role_name r) @ ''\" successfully deleted.'') [] answer (rp_list p)\<rparr>"

definition role_message :: "role \<Rightarrow> bool \<Rightarrow> string" where
  "role_message r isEdit = ''Role \"'' @ template (role_name r) @
     (if isEdit then ''\" successfully edited.'' else ''\" successfully added.'')"

definition roles_handleModalClose :: "role modal_result \<Rightarrow> roles_page \<Rightarrow> roles_page \<times> js_error option" where
  "roles_handleModalClose r p =
     (let (c, e) = crud_modal_closed role_matches role_id assign_role role_message r (rp_list p)
      in (p\<lparr>rp_list := c\<rparr>, e))"

section \<open>The form of a role\<close>

text \<open>Resources added in the form get temporary negative ids.\<close>

record role_modal =
  rm_role :: role
  rm_resources :: "resource list"       \<comment> \<open>the resources of the role\<close>
  rm_actions :: "(string \<times> string nullable \<times> string list) list"
  rm_resourceNames :: "string list"
  rm_mapping :: "int nullable \<Rightarrow> string list option"    \<comment> \<open>the permissions offered, by resource id\<close>
  rm_tempId :: int

definition resource_label :: "string \<times> string nullable \<times> string list \<Rightarrow> string" where
  "resource_label = (\<lambda>(n, app, acts). if truthy_str app then n @ '' - '' @ str_or_empty app else n)"

definition role_modal_ngOnInit :: "role_modal \<Rightarrow> role_modal result" where
  "role_modal_ngOnInit m =
     bind_result (map_result (\<lambda>r. bind_result
         (deref (List.find (\<lambda>(n, app, acts). n = res_name r \<and> app = res_app_name r) (rm_actions m)))
         (\<lambda>(n, app, acts). Inr (res_id r, acts))) (rm_resources m))
       (\<lambda>ps. Inr (m\<lparr>rm_resourceNames := rm_resourceNames m @ map resource_label (rm_actions m),
                    rm_mapping := foldl (\<lambda>f (i, acts). f(i := Some acts)) (rm_mapping m) ps\<rparr>))"

text \<open>\<open>split(' - ')\<close>.\<close>

fun split_dash :: "string \<Rightarrow> string list" where
  "split_dash (a # b # c # s) =
     (if [a, b, c] = '' - '' then [] # split_dash s
      else case split_dash (b # c # s) of [] \<Rightarrow> [[a]] | p # ps \<Rightarrow> (a # p) # ps)"
| "split_dash s = [s]"

definition selected_action ::
  "string \<Rightarrow> (string \<times> string nullable \<times> string list) list \<Rightarrow> (string \<times> string nullable \<times> string list) option" where
  "selected_action sel acts = List.find (\<lambda>(n, app, as).
     (case split_dash sel of [x] \<Rightarrow> n = x | x # y # _ \<Rightarrow> n = x \<and> app = Val y | [] \<Rightarrow> False)) acts"

definition addResource :: "string \<Rightarrow> role_modal \<Rightarrow> role_modal \<times> js_error option" where
  "addResource sel m =
     (let i = rm_tempId m; m1 = m\<lparr>rm_tempId := i - 1\<rparr>
      in case selected_action sel (rm_actions m) of
           None \<Rightarrow> (m1, Some TypeError)
         | Some (n, app, acts) \<Rightarrow>
             (m1\<lparr>rm_mapping := (rm_mapping m1)(Val i := Some acts),
                 rm_resources := rm_resources m1 @ [\<lparr>res_id = Val i, res_role_id = role_id (rm_role m), res_name = n,
                   res_app_name = (if truthy_str app then app else Undefined), res_permissions = []\<rparr>]\<rparr>, None))"

text \<open>The resource is given by its position; \<open>indexOf\<close> finds the object itself.\<close>

definition removeResource :: "nat \<Rightarrow> role_modal \<Rightarrow> role_modal" where
  "removeResource k m = m\<lparr>rm_resources := splice1 (int k) (rm_resources m)\<rparr>"

definition permissionSelectChange :: "string list \<Rightarrow> nat \<Rightarrow> role_modal \<Rightarrow> role_modal" where
  "permissionSelectChange ps k m =
     m\<lparr>rm_resources := (if k < length (rm_resources m)
        then (rm_resources m)[k := (rm_resources m ! k)\<lparr>res_permissions := ps\<rparr>] else rm_resources m)\<rparr>"

definition drop_temp_id :: "resource \<Rightarrow> resource" where
  "drop_temp_id r = (case res_id r of Val i \<Rightarrow> if i < 0 then r\<lparr>res_id := Undefined\<rparr> else r | _ \<Rightarrow> r)"

definition role_submit :: "role_modal \<Rightarrow> settings_body request" where
  "role_submit m =
     (let t = (rm_role m)\<lparr>role_resources := Val (map drop_temp_id (rm_resources m))\<rparr>
      in if has_id (role_id t) then editRole_request t else addRole_request t)"

end
