(* ===== verification/SettingsInvariant.thy ===== *)
theory SettingsInvariant
  imports SettingsPage
begin

text \<open>
  Users and roles: what the two forms send, the temporary ids of new resources, and the two lists as
  instances of the list pages.
\<close>

section \<open>Users\<close>

text \<open>The user form sends a request only when the two passwords agree; a user with an id is
  updated, any other is created and then has a non-empty password.\<close>

theorem user_submit_ok:
  assumes "user_submit w = Inl r"
  shows "\<exists>u. w = Some u \<and> wu_confirmNewPassword u = wu_newPassword u \<and> req_body r = Some (UserBody (toUser u)) \<and>
    (if has_id (wu_id u) then req_method r = PUT else req_method r = POST \<and> truthy_str (usr_password (toUser u)))"
  using assms
  by (cases w)
    (auto simp: user_submit_def user_validate_def http_def editUser_request_def addUser_request_def toUser_def
      split: if_splits)

definition sample_working_user :: working_user where
  "sample_working_user = addUser_working\<lparr>wu_username := Val ''ann'', wu_newPassword := Val ''pw'', wu_confirmNewPassword := Val ''pw''\<rparr>"

theorem user_submit_ok_witness:
  "\<exists>u. Some sample_working_user = Some u \<and> wu_confirmNewPassword u = wu_newPassword u \<and>
    req_body (addUser_request (toUser sample_working_user)) = Some (UserBody (toUser u)) \<and>
    (if has_id (wu_id u) then req_method (addUser_request (toUser sample_working_user)) = PUT
     else req_method (addUser_request (toUser sample_working_user)) = POST \<and> truthy_str (usr_password (toUser u)))"
  by (rule user_submit_ok)
    (simp add: user_submit_def user_validate_def sample_working_user_def addUser_working_def has_id_def)

definition named_user :: "user \<Rightarrow> bool" where
  "named_user u \<longleftrightarrow> (\<exists>s. usr_username u = Val s)"

interpretation user_list: crud_list usr_id assign_user user_matches named_user
proof unfold_locales
  show "usr_id (assign_user y x) = usr_id x" if "usr_id y = usr_id x" for x y
    using that by (simp add: assign_user_def)
  show "\<exists>b. user_matches q x = Inr b" if "named_user x" for x q
    using that by (auto simp: named_user_def user_matches_def)
  show "named_user (assign_user y x)" if "named_user y" "named_user x" for x y
    using that by (auto simp: named_user_def assign_user_def assigned_def)
qed

section \<open>Roles\<close>

definition named_role :: "role \<Rightarrow> bool" where
  "named_role r \<longleftrightarrow> (\<exists>s. role_name r = Val s)"

interpretation role_list: crud_list role_id assign_role role_matches named_role
proof unfold_locales
  show "role_id (assign_role y x) = role_id x" if "role_id y = role_id x" for x y
    using that by (simp add: assign_role_def)
  show "\<exists>b. role_matches q x = Inr b" if "named_role x" for x q
    using that by (auto simp: named_role_def role_matches_def)
  show "named_role (assign_role y x)" if "named_role y" "named_role x" for x y
    using that by (auto simp: named_role_def assign_role_def assigned_def)
qed

lemma deleteUser_shows:
  assumes "distinct (map usr_id (cr_items (se_list p)))" "\<forall>u \<in> set (cr_items (se_list p)). named_user u"
  shows "shows_matching user_matches (se_list (deleteUser_done u (Inr ()) p)) \<and>
    cr_items (se_list (deleteUser_done u (Inr ()) p)) = filter (\<lambda>x. usr_id x \<noteq> usr_id u) (cr_items (se_list p))"
  using user_list.delete_shows[of "se_list p"] assms by (simp add: deleteUser_done_def)

lemma deleteRole_shows:
  assumes "distinct (map role_id (cr_items (rp_list p)))" "\<forall>r \<in> set (cr_items (rp_list p)). named_role r"
  shows "shows_matching role_matches (rp_list (deleteRole_done r (Inr ()) p)) \<and>
    cr_items (rp_list (deleteRole_done r (Inr ()) p)) = filter (\<lambda>x. role_id x \<noteq> role_id r) (cr_items (rp_list p))"
  using role_list.delete_shows[of "rp_list p"] assms by (simp add: deleteRole_done_def)

section \<open>Temporary ids of resources\<close>

text \<open>The ids in use are pairwise different, the temporary ones among them are larger than the next
  one, and the permissions offered for every resource are known.\<close>

definition role_modal_ok :: "role_modal \<Rightarrow> bool" where
  "role_modal_ok m \<longleftrightarrow> distinct (map res_id (rm_resources m)) \<and> rm_tempId m < 0 \<and>
     (\<forall>r \<in> set (rm_resources m). (\<exists>i. res_id r = Val i \<and> rm_tempId m < i) \<and> rm_mapping m (res_id r) \<noteq> None)"

datatype role_edit = AddResource string | RemoveResource nat | ChangePermissions "string list" nat

fun role_step :: "role_edit \<Rightarrow> role_modal \<Rightarrow> role_modal" where
  "role_step (AddResource sel) m = fst (addResource sel m)"
| "role_step (RemoveResource k) m = removeResource k m"
| "role_step (ChangePermissions ps k) m = permissionSelectChange ps k m"

lemma addResource_ok: "role_modal_ok m \<Longrightarrow> role_modal_ok (fst (addResource sel m))"
proof (cases "selected_action sel (rm_actions m)")
  case None
  assume "role_modal_ok m"
  with None show ?thesis by (fastforce simp: addResource_def role_modal_ok_def Let_def)
next
  case (Some a)
  assume ok: "role_modal_ok m"
  have "Val (rm_tempId m) \<notin> res_id ` set (rm_resources m)"
    using ok by (force simp: role_modal_ok_def)
  with ok Some show ?thesis
    by (cases a) (fastforce simp: addResource_def role_modal_ok_def Let_def)
qed

lemma set_splice1_subset: "set (splice1 i xs) \<subseteq> set xs"
  by (auto simp: splice1_def Let_def dest: in_set_takeD in_set_dropD)

lemma distinct_splice1: "distinct (map f xs) \<Longrightarrow> distinct (map f (splice1 (int k) xs))"
proof -
  assume d: "distinct (map f xs)"
  show ?thesis
  proof (cases "k < length xs")
    case True
    have "map f (splice1 (int k) xs) = take k (map f xs) @ drop (Suc k) (map f xs)"
      using True by (simp add: splice1_in_range take_map drop_map)
    moreover have "distinct (take k (map f xs) @ drop (Suc k) (map f xs))"
      using d True set_take_disj_set_drop_if_distinct[OF d, of k "Suc k"] by (simp add: distinct_take distinct_drop)
    ultimately show ?thesis by simp
  next
    case False
    with d show ?thesis by (simp add: splice1_past_end)
  qed
qed

lemma role_step_ok: "role_modal_ok m \<Longrightarrow> role_modal_ok (role_step e m)"
proof (cases e)
  case (RemoveResource k)
  assume "role_modal_ok m"
  with RemoveResource show ?thesis
    using set_splice1_subset[of "int k" "rm_resources m"]
    by (auto simp: role_modal_ok_def removeResource_def distinct_splice1)
next
  case (ChangePermissions ps k)
  assume ok: "role_modal_ok m"
  show ?thesis
  proof (cases "k < length (rm_resources m)")
    case True
    let ?r = "(rm_resources m ! k)\<lparr>res_permissions := ps\<rparr>"
    have "map res_id ((rm_resources m)[k := ?r]) = map res_id (rm_resources m)"
      using True by (simp add: list_eq_iff_nth_eq nth_list_update)
    moreover have "\<forall>r \<in> set ((rm_resources m)[k := ?r]). res_id r \<in> res_id ` set (rm_resources m)"
      using True set_update_subset_insert[of "rm_resources m" k ?r] by fastforce
    ultimately show ?thesis
      using ok True ChangePermissions by (fastforce simp: role_modal_ok_def permissionSelectChange_def)
  qed (use ok ChangePermissions in \<open>simp add: permissionSelectChange_def\<close>)
qed (simp add: addResource_ok)

text \<open>C38. However resources are added to a role, removed and changed in the form, their ids stay
  pairwise different and the permissions of each are known; and the request that is sent carries
  all of them, the new ones without an id.\<close>

theorem role_form_ok:
  assumes "role_modal_ok m"
  shows "role_modal_ok (foldl (\<lambda>m e. role_step e m) m es) \<and>
    (\<exists>r. req_body (role_submit (foldl (\<lambda>m e. role_step e m) m es)) = Some (RoleBody r) \<and>
      (\<exists>rs. role_resources r = Val rs \<and>
        list_all2 (\<lambda>x y. y = (if x \<in> {x. \<exists>i<0. res_id x = Val i} then x\<lparr>res_id := Undefined\<rparr> else x))
          (rm_resources (foldl (\<lambda>m e. role_step e m) m es)) rs))"
proof
  show "role_modal_ok (foldl (\<lambda>m e. role_step e m) m es)"
    using assms by (induction es arbitrary: m) (auto simp: role_step_ok)
  have "y = drop_temp_id x \<Longrightarrow> y = (if x \<in> {x. \<exists>i<0. res_id x = Val i} then x\<lparr>res_id := Undefined\<rparr> else x)" for x y
    by (auto simp: drop_temp_id_def split: nullable.splits)
  then show "\<exists>r. req_body (role_submit (foldl (\<lambda>m e. role_step e m) m es)) = Some (RoleBody r) \<and>
      (\<exists>rs. role_resources r = Val rs \<and>
        list_all2 (\<lambda>x y. y = (if x \<in> {x. \<exists>i<0. res_id x = Val i} then x\<lparr>res_id := Undefined\<rparr> else x))
          (rm_resources (foldl (\<lambda>m e. role_step e m) m es)) rs)"
    by (auto simp: role_submit_def http_def editRole_request_def addRole_request_def Let_def list_all2_map2 list_all2_same)
qed

definition sample_role_modal :: role_modal where
  "sample_role_modal = \<lparr>rm_role = \<lparr>role_id = Undefined, role_name = Val ''guest'', role_description = Undefined, role_resources = Val []\<rparr>,
     rm_resources = [], rm_actions = [(''device'', Undefined, [''read'']), (''app'', Val ''Net'', [''use''])],
     rm_resourceNames = [], rm_mapping = (\<lambda>_. None), rm_tempId = -1\<rparr>"

theorem role_form_ok_witness:
  "role_modal_ok (foldl (\<lambda>m e. role_step e m) sample_role_modal [AddResource ''device'', AddResource ''app - Net'', RemoveResource 0])"
proof -
  have "role_modal_ok sample_role_modal" by (simp add: role_modal_ok_def sample_role_modal_def)
  from role_form_ok[OF this] show ?thesis by blast
qed

text \<open>An available resource whose app name contains the separator cannot be selected.\<close>

lemma separator_in_app_name:
  "selected_action ''app - A - B'' [(''app'', Val ''A - B'', [''use''])] = None"
  by code_simp

end
