(* ===== verification/Auth.thy ===== *)
theory Auth
  imports Utilities
begin

text \<open>
  Tokens (\<^verbatim>\<open>auth/auth.service.ts\<close>, \<^verbatim>\<open>refresh-token-interceptor.ts\<close>,
  \<^verbatim>\<open>login/*.ts\<close>): which token a request goes out with, when it is refreshed, and when
  the user is sent to the login page. The JWT library is a parameter: \<open>expired t\<close> is what
  \<open>isTokenExpired\<close> answers at the moment of the call.
\<close>

section \<open>Session\<close>

record session =
  au_access :: "string option"      \<comment> \<open>\<open>sessionStorage\<close> under \<open>access_token\<close>\<close>
  au_refresh :: "string option"
  au_location :: "string option"    \<comment> \<open>where the page was sent\<close>

datatype auth_body = Credentials string string | RefreshTokenBody "string option" | NoFields

definition bearer :: "string option \<Rightarrow> string" where
  "bearer t = ''Bearer '' @ (case t of None \<Rightarrow> ''null'' | Some s \<Rightarrow> s)"

record auth_request =
  aq_request :: "auth_body request"
  aq_authorization :: "string option"

definition login_request :: "string \<Rightarrow> string \<Rightarrow> auth_request" where
  "login_request username password =
     \<lparr>aq_request = http POST ''/api/auth'' (Some (Credentials username password)), aq_authorization = None\<rparr>"

definition login_done :: "string \<Rightarrow> string \<Rightarrow> session \<Rightarrow> session" where
  "login_done access refresh s = s\<lparr>au_access := Some access, au_refresh := Some refresh, au_location := Some ''/''\<rparr>"

definition loginPage_request :: "string \<Rightarrow> string \<Rightarrow> auth_body request" where
  "loginPage_request username password = http POST ''/login'' (Some (Credentials username password))"

definition logout_request :: "session \<Rightarrow> auth_request" where
  "logout_request s = \<lparr>aq_request = http POST ''/api/auth/logout'' (Some (RefreshTokenBody (au_refresh s))),
     aq_authorization = Some (bearer (au_access s))\<rparr>"

definition clearTokens :: "session \<Rightarrow> session" where
  "clearTokens s = s\<lparr>au_access := None, au_refresh := None\<rparr>"

definition canAccess :: "string \<Rightarrow> string \<Rightarrow> bool" where
  "canAccess resourceName actionName = False"

text \<open>A token that is missing or empty is falsy.\<close>

definition token_expired :: "(string \<Rightarrow> bool) \<Rightarrow> string option \<Rightarrow> bool" where
  "token_expired expired t = (case t of None \<Rightarrow> False | Some s \<Rightarrow> s \<noteq> [] \<and> expired s)"

definition isAccessTokenExpired :: "(string \<Rightarrow> bool) \<Rightarrow> session \<Rightarrow> bool" where
  "isAccessTokenExpired expired s = token_expired expired (au_access s)"

definition isRefreshTokenExpired :: "(string \<Rightarrow> bool) \<Rightarrow> session \<Rightarrow> bool" where
  "isRefreshTokenExpired expired s = token_expired expired (au_refresh s)"

datatype token_outcome =
    Token "string option"            \<comment> \<open>resolved at once\<close>
  | LoginRequired string             \<comment> \<open>rejected with this reason\<close>
  | AskServer auth_request           \<comment> \<open>resolved with the answer to this request\<close>

definition getAccessTokenRefreshed :: "(string \<Rightarrow> bool) \<Rightarrow> session \<Rightarrow> session \<times> token_outcome" where
  "getAccessTokenRefreshed expired s =
     (if \<not> isAccessTokenExpired expired s then (s, Token (au_access s))
      else if isRefreshTokenExpired expired s then
        ((clearTokens s)\<lparr>au_location := Some ''/login''\<rparr>,
         LoginRequired ''Refresh token does not exist or has expired. Please log in again.'')
      else (s, AskServer \<lparr>aq_request = http POST ''/api/auth/refresh'' (Some NoFields),
                          aq_authorization = Some (bearer (au_refresh s))\<rparr>))"

definition refresh_done :: "string result \<Rightarrow> session \<Rightarrow> session \<times> string result" where
  "refresh_done answer s = (case answer of Inl e \<Rightarrow> (s, Inl e) | Inr t \<Rightarrow> (s\<lparr>au_access := Some t\<rparr>, Inr t))"

section \<open>The interceptor\<close>

datatype interception = PassOn | RefreshFirst token_outcome

definition intercept :: "(string \<Rightarrow> bool) \<Rightarrow> bool \<Rightarrow> bool \<Rightarrow> session \<Rightarrow> session \<times> interception" where
  "intercept expired isWhitelistedDomain isBlacklistedRoute s =
     (if isWhitelistedDomain \<and> \<not> isBlacklistedRoute \<and> isAccessTokenExpired expired s
      then (let (s', r) = getAccessTokenRefreshed expired s in (s', RefreshFirst r))
      else (s, PassOn))"

section \<open>What is guaranteed\<close>

text \<open>A token that is handed out without asking the server is not expired; the server is asked
  only when the access token has expired and the refresh token has not, with the refresh token as
  bearer; otherwise both tokens are gone and the user is at the login page.\<close>

theorem getAccessTokenRefreshed_spec:
  "case getAccessTokenRefreshed expired s of
     (s', Token t) \<Rightarrow> s' = s \<and> t = au_access s \<and> \<not> token_expired expired t
   | (s', AskServer q) \<Rightarrow> s' = s \<and> token_expired expired (au_access s) \<and> \<not> token_expired expired (au_refresh s) \<and>
       aq_authorization q = Some (bearer (au_refresh s))
   | (s', LoginRequired m) \<Rightarrow> token_expired expired (au_refresh s) \<and> au_access s' = None \<and> au_refresh s' = None \<and>
       au_location s' = Some ''/login''"
  by (auto simp: getAccessTokenRefreshed_def isAccessTokenExpired_def isRefreshTokenExpired_def clearTokens_def)

text \<open>A request to the application's own domain is passed on as it is only while the access token
  has not expired; one with an expired token waits for a refresh or for the login.\<close>

theorem intercept_spec:
  "snd (intercept expired True False s) = PassOn \<longleftrightarrow> \<not> token_expired expired (au_access s)"
  by (auto simp: intercept_def isAccessTokenExpired_def case_prod_unfold Let_def)

text \<open>After a successful refresh the new token is the one handed out from then on, until it expires;
  the refresh token is kept.\<close>

theorem refresh_then_token:
  assumes "refresh_done answer s = (s', Inr t)" and "t \<noteq> []" and "\<not> expired' t"
  shows "getAccessTokenRefreshed expired' s' = (s', Token (Some t)) \<and> au_refresh s' = au_refresh s"
  using assms
  by (auto simp: refresh_done_def getAccessTokenRefreshed_def isAccessTokenExpired_def token_expired_def split: sum.splits)

theorem refresh_then_token_witness:
  "getAccessTokenRefreshed (\<lambda>t. t = ''old'') \<lparr>au_access = Some ''new'', au_refresh = Some ''r'', au_location = None\<rparr> =
     (\<lparr>au_access = Some ''new'', au_refresh = Some ''r'', au_location = None\<rparr>, Token (Some ''new'')) \<and>
   au_refresh \<lparr>au_access = Some ''new'', au_refresh = Some ''r'', au_location = None\<rparr> =
     au_refresh \<lparr>au_access = Some ''old'', au_refresh = Some ''r'', au_location = None\<rparr>"
  by (rule refresh_then_token[where answer = "Inr ''new''"]) (simp_all add: refresh_done_def)

text \<open>A missing refresh token is not noticed, although the rejection names that case: the server is
  asked with the text \<open>null\<close> as bearer.\<close>

lemma missing_refresh_token:
  assumes "au_access s = Some t" and "t \<noteq> []" and "expired t" and "au_refresh s = None"
  shows "\<exists>q. getAccessTokenRefreshed expired s = (s, AskServer q) \<and> aq_authorization q = Some ''Bearer null''"
  using assms
  by (simp add: getAccessTokenRefreshed_def isAccessTokenExpired_def isRefreshTokenExpired_def token_expired_def bearer_def)

section \<open>The decoded token\<close>

record user_claims =
  uc_username :: string
  uc_roles :: "int list"

record access_token =
  at_exp :: int
  at_fresh :: "bool nullable"
  at_iat :: int
  at_identity :: int
  at_jti :: string
  at_nbf :: int
  at_type :: string
  at_user_claims :: user_claims

definition getRefreshToken :: "session \<Rightarrow> string option" where
  "getRefreshToken s = au_refresh s"

definition getAccessToken :: "session \<Rightarrow> string option" where
  "getAccessToken s = au_access s"

definition jwtTokenGetter :: "session \<Rightarrow> string option" where
  "jwtTokenGetter s = au_access s"

text \<open>\<open>decode\<close> is what the JWT library reads out of a token; it may find none.\<close>

definition getAndDecodeRefreshToken :: "(string option \<Rightarrow> access_token option) \<Rightarrow> session \<Rightarrow> access_token option" where
  "getAndDecodeRefreshToken decode s = decode (getRefreshToken s)"

definition getAndDecodeAccessToken :: "(string option \<Rightarrow> access_token option) \<Rightarrow> session \<Rightarrow> access_token option" where
  "getAndDecodeAccessToken decode s = decode (getAccessToken s)"

definition isAccessTokenFresh :: "(string option \<Rightarrow> access_token option) \<Rightarrow> session \<Rightarrow> bool result" where
  "isAccessTokenFresh decode s =
     bind_result (deref (getAndDecodeAccessToken decode s)) (\<lambda>t. Inr (at_fresh t = Val True))"

text \<open>The name the header of every page shows (\<open>ngOnInit\<close> of the main component).\<close>

definition currentUser :: "(string option \<Rightarrow> access_token option) \<Rightarrow> session \<Rightarrow> string result" where
  "currentUser decode s =
     bind_result (deref (getAndDecodeAccessToken decode s)) (\<lambda>t. Inr (uc_username (at_user_claims t)))"

section \<open>The login page\<close>

text \<open>The page sends what was typed; both continuations of its request do nothing.\<close>

record login_page =
  lp_title :: "string nullable"
  lp_username :: string
  lp_password :: string

definition loginPage_ngOnInit :: "login_page \<Rightarrow> login_page" where
  "loginPage_ngOnInit p = p\<lparr>lp_title := Val ''New Login''\<rparr>"

definition loginPage_login :: "login_page \<Rightarrow> auth_body request" where
  "loginPage_login p = loginPage_request (lp_username p) (lp_password p)"

end
