(* ===== verification/Messages.thy ===== *)
theory Messages
  imports Crud
begin

text \<open>
  Messages: the notifications in the header of every page (\<^verbatim>\<open>main/main.component.ts\<close>),
  the message page (\<^verbatim>\<open>messages/messages.component.ts\<close>), the message modal and their
  requests. A listing of the header can be replaced while its message is being downloaded, so the
  objects of that list have identities, as on the execution page.
\<close>

section \<open>Data and requests\<close>

record message_listing =
  ml_id :: nat
  ml_subject :: string
  ml_created_at :: string
  ml_awaiting_response :: bool
  ml_is_read :: bool
  ml_last_read_at :: "string nullable"

record message =
  msg_id :: nat
  msg_workflow_execution_id :: string
  msg_subject :: string
  msg_awaiting_response :: bool
  msg_responded_at :: "string nullable"

record message_update =
  mu_id :: nat
  mu_username :: string
  mu_timestamp :: string

datatype message_body = IdsAndAction "jsnum list" string | TriggerData "string list" string "(string \<times> string) list"

definition getInterfaceNames_request :: "message_body request" where
  "getInterfaceNames_request = http GET ''/api/interfaces'' None"

definition getInitialNotifications_request :: "message_body request" where
  "getInitialNotifications_request = http GET ''/api/notifications'' None"

definition getMessage_request :: "nat \<Rightarrow> message_body request" where
  "getMessage_request i = http GET (''/api/messages/'' @ nat_to_string i) None"

definition getAllMessageListings :: "(nat \<Rightarrow> message_listing list result) \<Rightarrow> message_listing list result option" where
  "getAllMessageListings serviceCall = paginateAll serviceCall 1 []"

definition getMessageListings_request :: "nat \<Rightarrow> message_body request" where
  "getMessageListings_request page = http GET (''/api/messages?page='' @ nat_to_string page) None"

definition performActionOnMessages_request :: "jsnum list \<Rightarrow> string \<Rightarrow> message_body request" where
  "performActionOnMessages_request ids act = http PUT ''/api/messages'' (Some (IdsAndAction ids act))"

definition respondToMessage_request :: "string \<Rightarrow> string \<Rightarrow> message_body request" where
  "respondToMessage_request execution act =
     http PUT ''/api/triggers/send_data'' (Some (TriggerData [execution] act [(''action'', act)]))"

section \<open>Notifications\<close>

definition MAX_READ_MESSAGES :: nat where "MAX_READ_MESSAGES = 5"
definition MAX_TOTAL_MESSAGES :: nat where "MAX_TOTAL_MESSAGES = 20"

record main_view =
  mv_rows :: "(nat \<times> message_listing) list"
  mv_next :: nat
  mv_newCount :: nat
  mv_times :: "nat \<rightharpoonup> string"
  mv_toasts :: "toast list"

abbreviation listing_id :: "nat \<times> message_listing \<Rightarrow> nat" where
  "listing_id r \<equiv> ml_id (snd r)"

definition main_toast :: "toast \<Rightarrow> main_view \<Rightarrow> main_view" where
  "main_toast t v = v\<lparr>mv_toasts := mv_toasts v @ [t]\<rparr>"

definition recalculateNewMessagesCount :: "main_view \<Rightarrow> main_view" where
  "recalculateNewMessagesCount v = v\<lparr>mv_newCount := length (filter (\<lambda>r. \<not> ml_is_read (snd r)) (mv_rows v))\<rparr>"

definition notification_times :: "(string \<Rightarrow> string) \<Rightarrow> main_view \<Rightarrow> main_view" where
  "notification_times rel v =
     v\<lparr>mv_times := put_all listing_id (\<lambda>r. rel (ml_created_at (snd r))) (mv_rows v) (mv_times v)\<rparr>"

definition getInitialNotifications_done :: "message_listing list result \<Rightarrow> main_view \<Rightarrow> main_view" where
  "getInitialNotifications_done answer v =
     (case answer of
        Inl e \<Rightarrow> main_toast (Failure (''Error retrieving notifications: '' @ error_message e)) v
      | Inr ms \<Rightarrow> recalculateNewMessagesCount
          (v\<lparr>mv_rows := zip [mv_next v ..< mv_next v + length ms] ms @ mv_rows v, mv_next := mv_next v + length ms\<rparr>))"

definition too_many :: "(nat \<times> message_listing) list \<Rightarrow> bool" where
  "too_many rows = (MAX_READ_MESSAGES < length (filter (\<lambda>r. ml_is_read (snd r)) rows) \<or> MAX_TOTAL_MESSAGES < length rows)"

definition message_created :: "(string \<Rightarrow> string) \<Rightarrow> message_listing \<Rightarrow> main_view \<Rightarrow> main_view" where
  "message_created rel m v =
     (let new = (mv_next v, m);
          rows = (if List.find (\<lambda>r. listing_id r = ml_id m) (mv_rows v) \<noteq> None
                  then update_first (\<lambda>r. listing_id r = ml_id m) (\<lambda>_. new) (mv_rows v)
                  else new # mv_rows v);
          rows' = (if too_many rows then butlast rows else rows)
      in notification_times rel (recalculateNewMessagesCount (v\<lparr>mv_rows := rows', mv_next := Suc (mv_next v)\<rparr>)))"

definition message_responded :: "message_update \<Rightarrow> main_view \<Rightarrow> main_view" where
  "message_responded u v = v\<lparr>mv_rows := update_first (\<lambda>r. listing_id r = mu_id u)
     (\<lambda>(a, m). (a, m\<lparr>ml_awaiting_response := False\<rparr>)) (mv_rows v)\<rparr>"

text \<open>The callback of \<open>openMessage\<close> changes the object that was clicked.\<close>

definition main_openMessage_done :: "string \<Rightarrow> nat \<Rightarrow> unit result \<Rightarrow> main_view \<Rightarrow> main_view" where
  "main_openMessage_done now a answer v =
     (case answer of
        Inl e \<Rightarrow> main_toast (Failure (''Error opening message: '' @ error_message e)) v
      | Inr _ \<Rightarrow> recalculateNewMessagesCount
          (v\<lparr>mv_rows := map (\<lambda>(b, m). if b = a then (b, m\<lparr>ml_is_read := True, ml_last_read_at := Val now\<rparr>) else (b, m)) (mv_rows v)\<rparr>))"

datatype main_event =
    Created message_listing
  | Responded message_update
  | Opened nat "unit result"

fun main_step :: "(string \<Rightarrow> string) \<Rightarrow> string \<Rightarrow> main_event \<Rightarrow> main_view \<Rightarrow> main_view" where
  "main_step rel now (Created m) v = message_created rel m v"
| "main_step rel now (Responded u) v = message_responded u v"
| "main_step rel now (Opened a answer) v = main_openMessage_done now a answer v"

text \<open>One row per message, at most \<open>MAX_TOTAL_MESSAGES\<close> of them, and the badge shows the number of
  unread ones.\<close>

definition main_ok :: "main_view \<Rightarrow> bool" where
  "main_ok v \<longleftrightarrow> distinct (map listing_id (mv_rows v)) \<and> length (mv_rows v) \<le> MAX_TOTAL_MESSAGES \<and>
     mv_newCount v = length (filter (\<lambda>r. \<not> ml_is_read (snd r)) (mv_rows v))"

lemma filter_unread_responded:
  "length (filter (\<lambda>r. \<not> ml_is_read (snd r)) (update_first P (\<lambda>(a, m). (a, m\<lparr>ml_awaiting_response := b\<rparr>)) rows)) =
   length (filter (\<lambda>r. \<not> ml_is_read (snd r)) rows)"
  by (induction rows) auto

lemma map_update_first_const:
  "(\<And>x. P x \<Longrightarrow> k x = k y) \<Longrightarrow> map k (update_first P (\<lambda>_. y) xs) = map k xs"
  by (induction xs) auto

lemma main_ok_created: "main_ok v \<Longrightarrow> main_ok (message_created rel m v)"
proof -
  assume ok: "main_ok v"
  let ?new = "(mv_next v, m)"
  let ?rows = "if List.find (\<lambda>r. listing_id r = ml_id m) (mv_rows v) \<noteq> None
      then update_first (\<lambda>r. listing_id r = ml_id m) (\<lambda>_. ?new) (mv_rows v) else ?new # mv_rows v"
  let ?rows' = "if too_many ?rows then butlast ?rows else ?rows"
  have d: "distinct (map listing_id ?rows)"
  proof (cases "List.find (\<lambda>r. listing_id r = ml_id m) (mv_rows v)")
    case None
    then have "ml_id m \<notin> listing_id ` set (mv_rows v)" using find_None_iff_key[of listing_id] by blast
    with None ok show ?thesis by (auto simp: main_ok_def)
  next
    case (Some r)
    have "map listing_id (update_first (\<lambda>r. listing_id r = ml_id m) (\<lambda>_. ?new) (mv_rows v)) = map listing_id (mv_rows v)"
      by (rule map_update_first_const) simp
    with Some ok show ?thesis by (simp add: main_ok_def)
  qed
  have d': "distinct (map listing_id ?rows')"
    using d by (cases "too_many ?rows") (simp_all only: if_True if_False map_butlast distinct_butlast)
  have l: "length ?rows \<le> Suc MAX_TOTAL_MESSAGES" using ok by (auto simp: main_ok_def)
  have l': "length ?rows' \<le> MAX_TOTAL_MESSAGES"
    using l by (cases "too_many ?rows") (auto simp: too_many_def)
  show ?thesis
    using d' l' unfolding message_created_def Let_def main_ok_def notification_times_def recalculateNewMessagesCount_def
    by simp
qed

lemma main_ok_step: "main_ok v \<Longrightarrow> main_ok (main_step rel now e v)"
proof (cases e)
  case (Responded u)
  assume "main_ok v"
  moreover have "map listing_id (mv_rows (message_responded u v)) = map listing_id (mv_rows v)"
    by (auto simp: message_responded_def intro!: map_update_first_same)
  ultimately show ?thesis
    using Responded by (simp add: main_ok_def message_responded_def filter_unread_responded)
next
  case (Opened a answer)
  have "listing_id \<circ> (\<lambda>(b, m). if b = a then (b, m\<lparr>ml_is_read := True, ml_last_read_at := Val now\<rparr>) else (b, m)) =
      (\<lambda>r. listing_id r)"
    by (rule ext) auto
  moreover assume "main_ok v"
  ultimately show ?thesis
    using Opened
    by (cases answer) (simp_all add: main_ok_def main_openMessage_done_def main_toast_def recalculateNewMessagesCount_def)
qed (simp add: main_ok_created)


definition sample_listing :: "nat \<Rightarrow> bool \<Rightarrow> message_listing" where
  "sample_listing i r = \<lparr>ml_id = i, ml_subject = ''approve'', ml_created_at = ''t'', ml_awaiting_response = True,
     ml_is_read = r, ml_last_read_at = Undefined\<rparr>"

definition sample_main :: "message_listing list \<Rightarrow> main_view" where
  "sample_main ms = getInitialNotifications_done (Inr ms)
     \<lparr>mv_rows = [], mv_next = 0, mv_newCount = 0, mv_times = Map.empty, mv_toasts = []\<rparr>"


text \<open>With five read messages and an unread one below them, the arrival of another read message
  removes the unread one, not the oldest read one, and six read messages stay.\<close>

definition six_listings :: "message_listing list" where
  "six_listings = map (\<lambda>i. sample_listing i True) [1, 2, 3, 4, 5] @ [sample_listing 6 False]"

theorem unread_message_is_dropped:
  "map listing_id (mv_rows (message_created id (sample_listing 7 True) (sample_main six_listings))) = [7, 1, 2, 3, 4, 5]
   \<and> mv_newCount (sample_main six_listings) = 1
   \<and> mv_newCount (message_created id (sample_listing 7 True) (sample_main six_listings)) = 0"
  by (simp add: message_created_def sample_main_def getInitialNotifications_done_def recalculateNewMessagesCount_def
      six_listings_def sample_listing_def too_many_def MAX_READ_MESSAGES_def MAX_TOTAL_MESSAGES_def
      notification_times_def upt_conv_Cons Let_def)

section \<open>The message page\<close>

text \<open>The check boxes are kept in an object keyed by message id; enumeration gives the ids back as
  numbers.\<close>

record messages_page =
  mp_messages :: "message_listing list"
  mp_display :: "message_listing list"
  mp_query :: "string nullable"
  mp_selected :: "(string \<times> bool) list"
  mp_times :: "nat \<rightharpoonup> string"
  mp_toasts :: "toast list"

definition page_toast :: "toast \<Rightarrow> messages_page \<Rightarrow> messages_page" where
  "page_toast t p = p\<lparr>mp_toasts := mp_toasts p @ [t]\<rparr>"

definition filterMessages :: "(string \<Rightarrow> string) \<Rightarrow> messages_page \<Rightarrow> messages_page" where
  "filterMessages rel p =
     p\<lparr>mp_times := put_all ml_id (\<lambda>m. rel (ml_created_at m)) (mp_messages p) (mp_times p),
       mp_display := filter (\<lambda>m. str_includes (toLowerCase (ml_subject m)) (search_text (mp_query p))) (mp_messages p)\<rparr>"

definition listMessages_done :: "(string \<Rightarrow> string) \<Rightarrow> message_listing list result \<Rightarrow> messages_page \<Rightarrow> messages_page" where
  "listMessages_done rel answer p =
     (case answer of
        Inl e \<Rightarrow> page_toast (Failure (''Error retrieving messages: '' @ error_message e)) p
      | Inr ms \<Rightarrow> filterMessages rel (p\<lparr>mp_messages := ms\<rparr>))"

definition getSelectedIds :: "(string \<times> bool) list \<Rightarrow> jsnum list" where
  "getSelectedIds sel = map string_to_number (filter (\<lambda>k. obj_get sel k = Some True) (obj_keys sel))"

definition listed :: "jsnum list \<Rightarrow> message_listing \<Rightarrow> bool" where
  "listed ids m = (Fin (of_nat (ml_id m)) \<in> set ids)"

text \<open>The object of a message is in both arrays.\<close>

definition change_messages :: "(message_listing \<Rightarrow> message_listing) \<Rightarrow> messages_page \<Rightarrow> messages_page" where
  "change_messages f p = p\<lparr>mp_messages := map f (mp_messages p), mp_display := map f (mp_display p)\<rparr>"

definition deleteSelected_done :: "(string \<Rightarrow> string) \<Rightarrow> jsnum list \<Rightarrow> unit result \<Rightarrow> messages_page \<Rightarrow> messages_page" where
  "deleteSelected_done rel ids answer p =
     (case answer of
        Inl e \<Rightarrow> page_toast (Failure (''Error deleting messages: '' @ error_message e)) p
      | Inr _ \<Rightarrow> filterMessages rel
          (p\<lparr>mp_messages := filter (\<lambda>m. \<not> listed ids m) (mp_messages p),
             mp_selected := foldl (\<lambda>sel i. obj_set (number_to_string i) False sel) (mp_selected p) ids\<rparr>))"

definition markSelectedAsRead_done :: "string \<Rightarrow> jsnum list \<Rightarrow> unit result \<Rightarrow> messages_page \<Rightarrow> messages_page" where
  "markSelectedAsRead_done now ids answer p =
     (case answer of
        Inl e \<Rightarrow> page_toast (Failure (''Error marking messages as read: '' @ error_message e)) p
      | Inr _ \<Rightarrow> change_messages (\<lambda>m. if listed ids m then m\<lparr>ml_is_read := True, ml_last_read_at := Val now\<rparr> else m) p)"

definition markSelectedAsUnread_done :: "jsnum list \<Rightarrow> unit result \<Rightarrow> messages_page \<Rightarrow> messages_page" where
  "markSelectedAsUnread_done ids answer p =
     (case answer of
        Inl e \<Rightarrow> page_toast (Failure (''Error marking messages as unread: '' @ error_message e)) p
      | Inr _ \<Rightarrow> change_messages (\<lambda>m. if listed ids m then m\<lparr>ml_is_read := False, ml_last_read_at := Null\<rparr> else m) p)"

definition page_openMessage_done :: "string \<Rightarrow> nat \<Rightarrow> unit result \<Rightarrow> messages_page \<Rightarrow> messages_page" where
  "page_openMessage_done now i answer p =
     (case answer of
        Inl e \<Rightarrow> page_toast (Failure (''Error opening message: '' @ error_message e)) p
      | Inr _ \<Rightarrow> change_messages (\<lambda>m. if ml_id m = i then m\<lparr>ml_is_read := True, ml_last_read_at := Val now\<rparr> else m) p)"

definition performMessageAction_done :: "string \<Rightarrow> string \<Rightarrow> unit result \<Rightarrow> message \<times> toast list \<Rightarrow> message \<times> toast list" where
  "performMessageAction_done now act answer = (\<lambda>(m, ts). case answer of
        Inl e \<Rightarrow> (m, ts @ [Failure (''Error performing '' @ act @ '' on message: '' @ error_message e)])
      | Inr _ \<Rightarrow> (m\<lparr>msg_awaiting_response := False, msg_responded_at := Val now\<rparr>,
                  ts @ [Success (''Successfully performed \"'' @ act @ ''\" on message.'')]))"

text \<open>The check boxes of rows are keyed by their ids.\<close>

definition boxes_ok :: "(string \<times> bool) list \<Rightarrow> bool" where
  "boxes_ok sel \<longleftrightarrow> distinct (map fst sel) \<and> (\<forall>k \<in> fst ` set sel. \<exists>i. k = nat_to_string i)"

lemma getSelectedIds_spec:
  assumes "boxes_ok sel"
  shows "Fin (of_nat i) \<in> set (getSelectedIds sel) \<longleftrightarrow> obj_get sel (nat_to_string i) = Some True"
proof
  assume "Fin (of_nat i) \<in> set (getSelectedIds sel)"
  then obtain k where k: "obj_get sel k = Some True" "k \<in> fst ` set sel" "string_to_number k = Fin (of_nat i)"
    unfolding getSelectedIds_def set_map set_filter set_obj_keys by fastforce
  then obtain j where "k = nat_to_string j" using assms by (auto simp: boxes_ok_def)
  with k show "obj_get sel (nat_to_string i) = Some True" by simp
next
  assume g: "obj_get sel (nat_to_string i) = Some True"
  then have "nat_to_string i \<in> fst ` set sel"
    by (force simp: obj_get_def dest: map_of_SomeD)
  with g show "Fin (of_nat i) \<in> set (getSelectedIds sel)"
    by (force simp: getSelectedIds_def)
qed

text \<open>Deleting the selected messages removes exactly those whose box is checked, and the page then
  shows the remaining ones that match the search text.\<close>

theorem deleteSelected_spec:
  assumes "boxes_ok (mp_selected p)"
  shows "mp_messages (deleteSelected_done rel (getSelectedIds (mp_selected p)) (Inr ()) p) =
      filter (\<lambda>m. obj_get (mp_selected p) (nat_to_string (ml_id m)) \<noteq> Some True) (mp_messages p) \<and>
    mp_display (deleteSelected_done rel (getSelectedIds (mp_selected p)) (Inr ()) p) =
      filter (\<lambda>m. str_includes (toLowerCase (ml_subject m)) (search_text (mp_query p)))
        (filter (\<lambda>m. obj_get (mp_selected p) (nat_to_string (ml_id m)) \<noteq> Some True) (mp_messages p))"
  using getSelectedIds_spec[OF assms]
  by (simp add: deleteSelected_done_def filterMessages_def listed_def)

theorem deleteSelected_spec_witness:
  "mp_messages (deleteSelected_done id (getSelectedIds [(nat_to_string 1, True)]) (Inr ())
     \<lparr>mp_messages = [sample_listing 1 True], mp_display = [], mp_query = Null, mp_selected = [(nat_to_string 1, True)],
      mp_times = Map.empty, mp_toasts = []\<rparr>) = []"
  using deleteSelected_spec[of "\<lparr>mp_messages = [sample_listing 1 True], mp_display = [], mp_query = Null,
      mp_selected = [(nat_to_string 1, True)], mp_times = Map.empty, mp_toasts = []\<rparr>" id]
  by (auto simp: boxes_ok_def sample_listing_def obj_get_def)

end
