(* ===== verification/Editor.thy ===== *)
theory Editor
  imports Samples DeviceModel ExecutionInvariant
begin

text \<open>
  The rest of the playbook editor's page (\<^verbatim>\<open>playbook/playbook.component.ts\<close>): what is
  selected in the graph and shown beside it, keyboard and mouse, the results of an execution, and
  the variables of the workflow. Handlers of cytoscape run its commands; the events those commands
  cause in turn (\<open>unselect\<close> above all) are separate steps.

  \<open>cy\<close> is \<open>undefined\<close> until a workflow is loaded and never \<open>null\<close>: the
  guards \<open>this.cy === null\<close> are kept and never hold.
\<close>

section \<open>State\<close>

record branch_params =
  bp_branch :: string                   \<comment> \<open>the id of the branch\<close>
  bp_returnTypes :: "return_api list"
  bp_appName :: string
  bp_actionName :: string

record editor =
  ue_graph :: bool                      \<comment> \<open>whether \<open>cy\<close> is set\<close>
  ue_workflow :: "workflow option"
  ue_apis :: "app_api list"
  ue_devices :: "device list"
  ue_selectedAction :: "string option"
  ue_selectedApi :: "action_api option"
  ue_selectedBranch :: "branch_params option"
  ue_relevantDevices :: "device list"
  ue_users :: "user list option"
  ue_roles :: "role list option"
  ue_waiting :: bool
  ue_statuses :: "action_status list"
  ue_console :: "console_log list"
  ue_started :: "string \<rightharpoonup> string"
  ue_completed :: "string \<rightharpoonup> string"
  ue_toasts :: "toast list"

definition editor_toast :: "toast \<Rightarrow> editor \<Rightarrow> editor" where
  "editor_toast t s = s\<lparr>ue_toasts := ue_toasts s @ [t]\<rparr>"

text \<open>A handler returns the new state, its graph commands and the error it throws.\<close>

type_synonym handled = "editor \<times> cy_command list \<times> js_error option"

section \<open>Selecting\<close>

definition mentions_type :: "string \<Rightarrow> action_api \<Rightarrow> bool" where
  "mentions_type t api = list_ex (\<lambda>p. ps_type (pa_schema p) = t \<or> ps_items (pa_schema p) = OneItem t) (aa_parameters api)"

definition needed_queries :: "action_api \<Rightarrow> editor \<Rightarrow> string list" where
  "needed_queries api s =
     (if ue_users s = None \<and> mentions_type ''user'' api then [''user''] else []) @
     (if ue_roles s = None \<and> mentions_type ''role'' api then [''role''] else [])"

definition show_action :: "action \<Rightarrow> action_api option \<Rightarrow> editor \<Rightarrow> editor" where
  "show_action a api s = s\<lparr>ue_selectedAction := Some (act_id a), ue_selectedApi := api,
     ue_relevantDevices := filter (\<lambda>d. dev_app_name d = Val (act_app_name a)) (ue_devices s)\<rparr>"

text \<open>\<open>onNodeSelect\<close>; the queries for users and roles it starts are returned too.\<close>

definition onNodeSelect :: "string \<Rightarrow> editor \<Rightarrow> handled \<times> string list" where
  "onNodeSelect i s0 =
     (let s = s0\<lparr>ue_selectedBranch := None\<rparr>; cmds = [Unselect (ElementsOtherThan i)]
      in case ue_workflow s of
           None \<Rightarrow> ((s, cmds, Some TypeError), [])
         | Some w \<Rightarrow>
             (case findActionById w i of
                None \<Rightarrow> ((s, cmds, None), [])
              | Some a \<Rightarrow>
                  (case getAction (ue_apis s) (act_app_name a) (act_action_name a) of
                     Inl e \<Rightarrow> ((s, cmds, Some e), [])
                   | Inr None \<Rightarrow>
                       if ue_users s = None \<or> ue_roles s = None then ((s, cmds, Some TypeError), [])
                       else ((show_action a None s, cmds, None), [])
                   | Inr (Some api) \<Rightarrow>
                       let qs = needed_queries api s
                       in ((show_action a (Some api) (if qs \<noteq> [] then s\<lparr>ue_waiting := True\<rparr> else s), cmds, None), qs))))"

definition users_received :: "user list \<Rightarrow> editor \<Rightarrow> editor" where
  "users_received us s = s\<lparr>ue_users := Some us\<rparr>"

definition roles_received :: "role list \<Rightarrow> editor \<Rightarrow> editor" where
  "roles_received rs s = s\<lparr>ue_roles := Some rs\<rparr>"

definition queries_settled :: "unit result \<Rightarrow> editor \<Rightarrow> editor" where
  "queries_settled answer s0 =
     (let s = s0\<lparr>ue_waiting := False\<rparr>
      in case answer of Inr _ \<Rightarrow> s
         | Inl e \<Rightarrow> editor_toast (Failure (''Error grabbing users or roles: '' @ error_message e)) s)"

definition edge_params :: "app_api list \<Rightarrow> string \<Rightarrow> workflow \<Rightarrow> branch_params result" where
  "edge_params apis i w =
     bind_result (deref (List.find (\<lambda>b. br_id b = i) (wf_branches w))) (\<lambda>b.
       bind_result (deref (findActionById w (br_source_id b))) (\<lambda>a.
         bind_result (getActionApi apis (act_app_name a) (act_action_name a)) (\<lambda>api.
           Inr \<lparr>bp_branch = i, bp_returnTypes = aa_returns api, bp_appName = act_app_name a,
                bp_actionName = act_action_name a\<rparr>)))"

definition onEdgeSelect :: "string \<Rightarrow> editor \<Rightarrow> handled" where
  "onEdgeSelect i s0 =
     (let s = s0\<lparr>ue_selectedAction := None, ue_selectedBranch := None\<rparr>; cmds = [Unselect (ElementsOtherThan i)]
      in case bind_result (deref (ue_workflow s)) (edge_params (ue_apis s) i) of
           Inl e \<Rightarrow> (s, cmds, Some e)
         | Inr p \<Rightarrow> (s\<lparr>ue_selectedBranch := Some p\<rparr>, cmds, None))"

text \<open>\<open>onUnselect\<close>, given how many elements are still selected.\<close>

definition onUnselect :: "nat \<Rightarrow> editor \<Rightarrow> handled" where
  "onUnselect selectedCount s =
     ((if selectedCount = 0 then s\<lparr>ue_selectedAction := None, ue_selectedBranch := None\<rparr> else s),
      (case ue_selectedAction s of
         None \<Rightarrow> []
       | Some i \<Rightarrow> (case Option.bind (ue_workflow s) (\<lambda>w. findActionById w i) of
           None \<Rightarrow> []
         | Some a \<Rightarrow> [SetData (NodeWithId i) ''label'' (JStr (act_name a))])),
      None)"

definition removeSelectedNodes :: "nat \<Rightarrow> cy_command list" where
  "removeSelectedNodes selectedCount =
     Unselect SelectedElements # (if 0 < selectedCount then [UrDoRemoveSelected] else [])"

section \<open>Mouse and keyboard\<close>

definition avg :: "rat \<Rightarrow> rat \<Rightarrow> rat" where
  "avg a b = (a + b) / 2"

definition insert_into :: "string \<Rightarrow> string \<Rightarrow> string \<Rightarrow> graph_position \<Rightarrow> bool \<Rightarrow> editor \<Rightarrow> handled" where
  "insert_into uuid appName actionName pos rendered s =
     (case bind_result (getActionApi (ue_apis s) appName actionName) (\<lambda>_. deref (ue_workflow s)) of
        Inl e \<Rightarrow> (s, [], Some e)
      | Inr w \<Rightarrow>
          (case insertNode (ue_apis s) uuid appName actionName pos rendered w of
             Inl e \<Rightarrow> (s, [], Some e)
           | Inr (w', cmds) \<Rightarrow> (s\<lparr>ue_workflow := Some w'\<rparr>, cmds, None)))"

definition handleDropEvent :: "string \<Rightarrow> string \<Rightarrow> string \<Rightarrow> rat \<Rightarrow> rat \<Rightarrow> editor \<Rightarrow> handled" where
  "handleDropEvent uuid appName actionName layerX layerY s =
     insert_into uuid appName actionName \<lparr>pos_x = layerX, pos_y = layerY\<rparr> True s"

definition handleDoubleClickEvent ::
  "string \<Rightarrow> string \<Rightarrow> string \<Rightarrow> rat \<times> rat \<Rightarrow> rat \<times> rat \<Rightarrow> editor \<Rightarrow> handled" where
  "handleDoubleClickEvent uuid appName actionName xs ys s =
     (if \<not> ue_graph s then (s, [], Some TypeError)
      else insert_into uuid appName actionName
             \<lparr>pos_x = avg (fst xs) (snd xs), pos_y = avg (fst ys) (snd ys)\<rparr> False s)"

datatype key_action = KeyIgnored | KeyDelete | KeyCopy | KeyPaste

definition keydown :: "string \<Rightarrow> nat \<Rightarrow> bool \<Rightarrow> key_action" where
  "keydown tagName which ctrlKey =
     (if tagName \<notin> {''BODY'', ''BUTTON''} then KeyIgnored
      else if which = 46 then KeyDelete
      else if ctrlKey then (if which = 67 then KeyCopy else if which = 86 then KeyPaste else KeyIgnored)
      else KeyIgnored)"

section \<open>Execution results\<close>

definition highlights :: "string list" where
  "highlights = [''success-highlight'', ''failure-highlight'', ''executing-highlight'', ''awaiting-data-highlight'']"

definition highlight_of :: "string \<Rightarrow> string option" where
  "highlight_of status =
     (if status = ''success'' then Some ''success-highlight''
      else if status = ''failure'' then Some ''failure-highlight''
      else if status = ''executing'' then Some ''executing-highlight''
      else if status = ''awaiting_data'' then Some ''awaiting-data-highlight'' else None)"

definition highlight_commands :: "string \<Rightarrow> string \<Rightarrow> cy_command list" where
  "highlight_commands i status =
     (case highlight_of status of None \<Rightarrow> []
      | Some h \<Rightarrow> map (\<lambda>c. if c = h then AddClass (NodeWithId i) c else RemoveClass (NodeWithId i) c) highlights)"

definition clearExecutionHighlighting :: "editor \<Rightarrow> handled" where
  "clearExecutionHighlighting s =
     (if \<not> ue_graph s then (s, [], Some TypeError)
      else (s, [RemoveClass AllElements ''success-highlight failure-highlight executing-highlight''], None))"

definition clearExecutionResults :: "editor \<Rightarrow> handled" where
  "clearExecutionResults s =
     (case clearExecutionHighlighting s of
        (s1, cmds, Some e) \<Rightarrow> (s1, cmds, Some e)
      | (s1, cmds, None) \<Rightarrow> (s1\<lparr>ue_console := [], ue_statuses := []\<rparr>, cmds, None))"

text \<open>The workflow to queue, when one is loaded.\<close>

definition executeWorkflow :: "editor \<Rightarrow> handled \<times> string nullable option" where
  "executeWorkflow s =
     (case ue_workflow s of
        None \<Rightarrow> ((s, [], None), None)
      | Some w \<Rightarrow>
          (case clearExecutionHighlighting s of
             (s1, cmds, Some e) \<Rightarrow> ((s1, cmds, Some e), None)
           | (s1, cmds, None) \<Rightarrow> ((s1, cmds, None), Some (wf_id w))))"

definition consoleEventHandler :: "console_log \<Rightarrow> editor \<Rightarrow> editor" where
  "consoleEventHandler l s = s\<lparr>ue_console := ue_console s @ [toNewConsoleLog l]\<rparr>"

definition editor_relative_times :: "(string \<Rightarrow> string) \<Rightarrow> action_status option \<Rightarrow> editor \<Rightarrow> editor" where
  "editor_relative_times rel specificStatus s =
     (let targets = (case specificStatus of Some x \<Rightarrow> [x] | None \<Rightarrow> ue_statuses s)
      in s\<lparr>ue_started := note_times rel as_execution_id as_started_at targets (ue_started s),
           ue_completed := note_times rel as_execution_id as_completed_at targets (ue_completed s)\<rparr>)"

definition editor_actionStatusEventHandler ::
  "(string \<Rightarrow> string) \<Rightarrow> (string \<Rightarrow> string) \<Rightarrow> string \<Rightarrow> action_status_event \<Rightarrow> editor \<Rightarrow> handled" where
  "editor_actionStatusEventHandler local rel typ e s =
     (let cmds = (if ue_graph s then highlight_commands (ae_action_id e) (ae_status e) else []);
          s1 = (case List.find (\<lambda>a. as_execution_id a = ae_execution_id e) (ue_statuses s) of
              None \<Rightarrow> s
            | Some a \<Rightarrow>
                editor_relative_times rel (Some (change_action typ e a))
                  (if typ \<in> known_action_types then s
                   else editor_toast (Warning (''Unknown Action Status SSE Type: '' @ typ @ ''.'')) s))
      in (s1\<lparr>ue_statuses := upsert_action local (typ, e) (ue_statuses s)\<rparr>, cmds, None))"

section \<open>Errors and variables of the workflow\<close>

definition getErrors :: "editor \<Rightarrow> string nullable list" where
  "getErrors s = (case ue_workflow s of None \<Rightarrow> [] | Some w \<Rightarrow> workflow_all_errors w)"

definition getVariables :: "editor \<Rightarrow> environment_variable list" where
  "getVariables s = (case ue_workflow s of None \<Rightarrow> [] | Some w \<Rightarrow> wf_environment_variables w)"

text \<open>The flag tells whether the variable tab is left.\<close>

definition editor_deleteVariable :: "environment_variable \<Rightarrow> workflow \<Rightarrow> workflow \<times> bool" where
  "editor_deleteVariable v w = (let w' = deleteVariable v w in (w', wf_environment_variables w' = []))"

text \<open>The argument for which a variable is created is given by where it is in the workflow:
  \<open>write f\<close> applies \<open>f\<close> to it.\<close>

definition onCreateVariable_done ::
  "((argument \<Rightarrow> argument) \<Rightarrow> workflow \<Rightarrow> workflow) \<Rightarrow> environment_variable option \<Rightarrow> workflow \<Rightarrow> workflow" where
  "onCreateVariable_done write result w =
     (case result of
        Some v \<Rightarrow> write (\<lambda>a. a\<lparr>arg_reference := Val (ev_id v)\<rparr>)
                    (w\<lparr>wf_environment_variables := wf_environment_variables w @ [v]\<rparr>)
      | None \<Rightarrow> write (\<lambda>a. a\<lparr>arg_reference := Val []\<rparr>) w)"

text \<open>The form that edits a variable is bound to the variable itself: what was typed is in the workflow
  however the form is left. Leaving it with Save only makes a new array of the same variables.\<close>

definition type_variable ::
  "string nullable \<Rightarrow> string nullable \<Rightarrow> string nullable \<Rightarrow> environment_variable \<Rightarrow> environment_variable" where
  "type_variable name value description v = v\<lparr>ev_name := name, ev_value := value, ev_description := description\<rparr>"

definition typed_in_workflow :: "(environment_variable \<Rightarrow> environment_variable) \<Rightarrow> string \<Rightarrow> workflow \<Rightarrow> workflow" where
  "typed_in_workflow typed i w =
     w\<lparr>wf_environment_variables := update_first (\<lambda>v. ev_id v = i) typed (wf_environment_variables w)\<rparr>"

definition editVariableModal :: "(environment_variable \<Rightarrow> environment_variable) \<Rightarrow> bool \<Rightarrow> environment_variable \<Rightarrow> workflow \<Rightarrow> workflow" where
  "editVariableModal typed saved v w =
     (let w1 = typed_in_workflow typed (ev_id v) w
      in if saved then w1\<lparr>wf_environment_variables := map (\<lambda>x. x) (wf_environment_variables w1)\<rparr> else w1)"

lemma dismissed_edit_stays: "editVariableModal typed False v w = editVariableModal typed True v w"
  by (simp add: editVariableModal_def Let_def)

definition editor_getPreviousActions :: "workflow \<Rightarrow> action list" where
  "editor_getPreviousActions w = wf_actions w"

definition editor_calculateLocalizedTimes :: "(string \<Rightarrow> string) \<Rightarrow> action_status \<Rightarrow> action_status" where
  "editor_calculateLocalizedTimes local s =
     (let s1 = (if truthy_str (as_started_at s) then s\<lparr>as_localized_started_at := Val (local (str_or_empty (as_started_at s)))\<rparr> else s)
      in if truthy_str (as_completed_at s1)
         then s1\<lparr>as_localized_completed_at := Val (local (str_or_empty (as_completed_at s1)))\<rparr> else s1)"

lemma editor_times_agree: "editor_calculateLocalizedTimes local s = localize_action local s"
  unfolding editor_calculateLocalizedTimes_def localize_action_def set_time_def Let_def
  by (cases "truthy_str (as_started_at s)"; cases "truthy_str (as_completed_at s)")
    (simp_all del: truthy_str_iff)

section \<open>What is shown is consistent\<close>

text \<open>At most one of a node and an edge is shown beside the graph.\<close>

definition one_selected :: "editor \<Rightarrow> bool" where
  "one_selected s \<longleftrightarrow> ue_selectedAction s = None \<or> ue_selectedBranch s = None"

text \<open>Selecting a node of the workflow whose action is described shows that action, its
  description and the devices of its app, and closes the branch form; the lists of users or roles
  are asked for exactly when a parameter needs them and they were never loaded.\<close>

theorem onNodeSelect_spec:
  assumes "ue_workflow s = Some w" and "findActionById w i = Some a"
    and "getActionApi (ue_apis s) (act_app_name a) (act_action_name a) = Inr api"
  shows "\<exists>s'. onNodeSelect i s = ((s', [Unselect (ElementsOtherThan i)], None), needed_queries api s) \<and>
    ue_selectedAction s' = Some i \<and> ue_selectedApi s' = Some api \<and> ue_selectedBranch s' = None \<and>
    ue_relevantDevices s' = filter (\<lambda>d. dev_app_name d = Val (act_app_name a)) (ue_devices s) \<and>
    ue_waiting s' = (ue_waiting s \<or> needed_queries api s \<noteq> [])"
proof -
  have "act_id a = i" using find_SomeD[OF assms(2)[unfolded findActionById_def]] by simp
  moreover have "getAction (ue_apis s) (act_app_name a) (act_action_name a) = Inr (Some api)"
    using assms(3) by (auto simp: getActionApi_def bind_result_Inr_iff)
  moreover have "needed_queries api (s\<lparr>ue_selectedBranch := None\<rparr>) = needed_queries api s"
    by (simp add: needed_queries_def)
  ultimately show ?thesis
    using assms(1,2) by (auto simp: onNodeSelect_def show_action_def Let_def)
qed

datatype select_event = NodeSelected string | EdgeSelected string | Unselected nat

fun select_step :: "select_event \<Rightarrow> editor \<Rightarrow> editor" where
  "select_step (NodeSelected i) s = fst (fst (onNodeSelect i s))"
| "select_step (EdgeSelected i) s = fst (onEdgeSelect i s)"
| "select_step (Unselected n) s = fst (onUnselect n s)"

lemma one_selected_step: "one_selected s \<Longrightarrow> one_selected (select_step e s)"
  by (cases e)
    (auto simp: one_selected_def onNodeSelect_def onEdgeSelect_def onUnselect_def show_action_def Let_def
      split: option.splits sum.splits)

text \<open>Whatever is selected and unselected, in any order and with any error on the way, an action
  and a branch are never shown at the same time, and the last unselection clears both.\<close>

theorem selection_exclusive:
  assumes "one_selected s"
  shows "one_selected (foldl (\<lambda>s e. select_step e s) s es) \<and>
    ue_selectedAction (select_step (Unselected 0) (foldl (\<lambda>s e. select_step e s) s es)) = None \<and>
    ue_selectedBranch (select_step (Unselected 0) (foldl (\<lambda>s e. select_step e s) s es)) = None"
proof -
  have "one_selected (foldl (\<lambda>s e. select_step e s) s es)"
    using assms by (induction es arbitrary: s) (auto simp: one_selected_step simp del: select_step.simps)
  then show ?thesis by (simp add: onUnselect_def)
qed

text \<open>An event with a known status gives its node exactly one highlight and takes the other three
  away.\<close>

theorem highlight_exclusive:
  assumes "highlight_of status = Some h"
  shows "{c. AddClass (NodeWithId i) c \<in> set (highlight_commands i status)} = {h} \<and>
    {c. RemoveClass (NodeWithId i) c \<in> set (highlight_commands i status)} = set highlights - {h}"
proof -
  have "h \<in> set highlights"
    using assms by (auto simp: highlight_of_def highlights_def split: if_splits)
  with assms show ?thesis by (auto simp: highlight_commands_def)
qed

text \<open>Clearing the highlights before a run leaves the highlight of actions that await data: its
  class is not among those removed.\<close>

theorem clear_leaves_awaiting:
  assumes "ue_graph s"
  shows "\<exists>cs. fst (snd (clearExecutionHighlighting s)) = [RemoveClass AllElements cs] \<and>
    set (split_on CHR '' '' cs) = set highlights - {''awaiting-data-highlight''}"
proof -
  have "split_on CHR '' '' ''success-highlight failure-highlight executing-highlight'' =
      [''success-highlight'', ''failure-highlight'', ''executing-highlight'']"
    by code_simp
  with assms show ?thesis by (auto simp: clearExecutionHighlighting_def highlights_def)
qed

text \<open>The result table of the editor refines a map: after any number of action events each action
  execution shows the status of its last event, in one row.\<close>

theorem editor_results_refine:
  assumes "distinct (map as_execution_id (ue_statuses s))"
  shows "(let s' = foldl (\<lambda>s (typ, e). fst (editor_actionStatusEventHandler local rel typ e s)) s es
    in distinct (map as_execution_id (ue_statuses s')) \<and>
       table as_execution_id as_status (ue_statuses s') =
         put_all (\<lambda>x. ae_execution_id (snd x)) (\<lambda>x. ae_status (snd x)) es (table as_execution_id as_status (ue_statuses s)))"
proof -
  have step: "ue_statuses (fst (editor_actionStatusEventHandler local rel ty e s)) = upsert_action local (ty, e) (ue_statuses s)" for ty e s
    by (simp add: editor_actionStatusEventHandler_def Let_def)
  have "ue_statuses (foldl (\<lambda>s (typ, e). fst (editor_actionStatusEventHandler local rel typ e s)) s es) =
      action_events local es (ue_statuses s)"
    by (induction es arbitrary: s) (auto simp: action_events_def step)
  then show ?thesis
    using assms by (simp add: Let_def distinct_action_events table_action_events)
qed

section \<open>A sample editor\<close>

definition sample_editor :: editor where
  "sample_editor = \<lparr>ue_graph = True, ue_workflow = Some sample_workflow, ue_apis = [sample_app], ue_devices = [],
     ue_selectedAction = None, ue_selectedApi = None, ue_selectedBranch = None, ue_relevantDevices = [],
     ue_users = None, ue_roles = None, ue_waiting = False, ue_statuses = [], ue_console = [],
     ue_started = Map.empty, ue_completed = Map.empty, ue_toasts = []\<rparr>"

theorem onNodeSelect_spec_witness:
  "\<exists>s'. onNodeSelect ''a1'' sample_editor = ((s', [Unselect (ElementsOtherThan ''a1'')], None), needed_queries sample_log sample_editor) \<and>
    ue_selectedAction s' = Some ''a1'' \<and> ue_selectedApi s' = Some sample_log \<and> ue_selectedBranch s' = None \<and>
    ue_relevantDevices s' = filter (\<lambda>d. dev_app_name d = Val (act_app_name (hd (wf_actions sample_workflow)))) (ue_devices sample_editor) \<and>
    ue_waiting s' = (ue_waiting sample_editor \<or> needed_queries sample_log sample_editor \<noteq> [])"
  by (rule onNodeSelect_spec[where w = sample_workflow])
    (simp_all add: sample_editor_def findActionById_def getActionApi_def getAction_def find_app_def sample_defs)

theorem selection_exclusive_witness:
  "one_selected (foldl (\<lambda>s e. select_step e s) sample_editor [NodeSelected ''a1'', EdgeSelected ''b1'', Unselected 1])"
  using selection_exclusive[of sample_editor "[NodeSelected ''a1'', EdgeSelected ''b1'', Unselected 1]"]
  by (simp add: one_selected_def sample_editor_def del: select_step.simps foldl_Cons)

theorem highlight_exclusive_witness:
  "{c. AddClass (NodeWithId ''a1'') c \<in> set (highlight_commands ''a1'' ''failure'')} = {''failure-highlight''} \<and>
   {c. RemoveClass (NodeWithId ''a1'') c \<in> set (highlight_commands ''a1'' ''failure'')} = set highlights - {''failure-highlight''}"
  by (rule highlight_exclusive) (simp add: highlight_of_def)

theorem clear_leaves_awaiting_witness:
  "\<exists>cs. fst (snd (clearExecutionHighlighting sample_editor)) = [RemoveClass AllElements cs] \<and>
    set (split_on CHR '' '' cs) = set highlights - {''awaiting-data-highlight''}"
  by (rule clear_leaves_awaiting) (simp add: sample_editor_def)

theorem editor_results_refine_witness:
  "(let s' = foldl (\<lambda>s (typ, e). fst (editor_actionStatusEventHandler id id typ e s)) sample_editor [(''started'', sample_action_event)]
    in distinct (map as_execution_id (ue_statuses s')) \<and>
       table as_execution_id as_status (ue_statuses s') =
         put_all (\<lambda>x. ae_execution_id (snd x)) (\<lambda>x. ae_status (snd x)) [(''started'', sample_action_event)]
           (table as_execution_id as_status (ue_statuses sample_editor)))"
  by (rule editor_results_refine) (simp add: sample_editor_def)

end
