(* ===== verification/PlaybookLibrary.thy ===== *)
theory PlaybookLibrary
  imports Samples Utilities
begin

text \<open>
  Loading, saving and managing playbooks and workflows (\<^verbatim>\<open>playbook/playbook.component.ts\<close>
  and \<^verbatim>\<open>playbook/playbook.service.ts\<close>).

  The loaded playbook is usually an element of the list of playbooks, and after a save the loaded
  workflow is an element of its playbook's list: the handlers change shared objects. Playbooks and
  workflows are therefore kept in two stores by address; a playbook object lists the addresses of its
  workflows. \<open>library_value\<close> forgets the addresses.
\<close>

section \<open>State\<close>

record pb_obj =
  po_id :: "string nullable"
  po_errors :: "string list"
  po_name :: string
  po_workflows :: "nat list"

datatype modal_kind = NoModal | RenameModal nat | DuplicatePlaybookModal nat | NewWorkflowModal | DuplicateWorkflowModal "string nullable"

record modal_params =
  mo_kind :: modal_kind
  mo_title :: string
  mo_submitText :: string
  mo_shouldShowPlaybook :: bool
  mo_shouldShowExistingPlaybooks :: bool
  mo_shouldShowWorkflow :: bool
  mo_selectedPlaybookId :: "string nullable"
  mo_newPlaybook :: "string nullable"
  mo_newWorkflow :: "string nullable"

datatype ui_command = ShowModal | HideModal | HideWorkflowsModal | ClearImportFile | SaveFile string

record library =
  lb_pb :: "nat \<Rightarrow> pb_obj"
  lb_wf :: "nat \<Rightarrow> workflow"
  lb_next :: nat
  lb_playbooks :: "nat list"
  lb_playbook :: "nat option"           \<comment> \<open>\<open>loadedPlaybook\<close>\<close>
  lb_workflow :: "nat option"           \<comment> \<open>\<open>loadedWorkflow\<close>\<close>
  lb_selection :: bool                  \<comment> \<open>whether an action or branch form is shown\<close>
  lb_graph :: bool
  lb_modal :: modal_params
  lb_import :: "string option"          \<comment> \<open>the name of the file to import\<close>
  lb_ui :: "ui_command list"
  lb_toasts :: "toast list"

definition lib_toast :: "toast \<Rightarrow> library \<Rightarrow> library" where
  "lib_toast t l = l\<lparr>lb_toasts := lb_toasts l @ [t]\<rparr>"

definition lib_ui :: "ui_command \<Rightarrow> library \<Rightarrow> library" where
  "lib_ui c l = l\<lparr>lb_ui := lb_ui l @ [c]\<rparr>"

definition pb_name_of :: "library \<Rightarrow> nat \<Rightarrow> string" where
  "pb_name_of l a = po_name (lb_pb l a)"

definition playbook_value :: "library \<Rightarrow> nat \<Rightarrow> playbook" where
  "playbook_value l a = \<lparr>pb_id = po_id (lb_pb l a), pb_errors = po_errors (lb_pb l a),
     pb_name = po_name (lb_pb l a), pb_workflows = map (lb_wf l) (po_workflows (lb_pb l a))\<rparr>"

definition library_value :: "library \<Rightarrow> playbook list" where
  "library_value l = map (playbook_value l) (lb_playbooks l)"

section \<open>Objects from the server\<close>

definition alloc_workflow :: "workflow \<Rightarrow> library \<Rightarrow> nat \<times> library" where
  "alloc_workflow w l = (lb_next l, l\<lparr>lb_wf := (lb_wf l)(lb_next l := w), lb_next := Suc (lb_next l)\<rparr>)"

definition alloc_playbook :: "playbook \<Rightarrow> library \<Rightarrow> nat \<times> library" where
  "alloc_playbook p l =
     (let n = lb_next l; k = length (pb_workflows p)
      in (n + k, l\<lparr>lb_wf := (\<lambda>a. if n \<le> a \<and> a < n + k then pb_workflows p ! (a - n) else lb_wf l a),
                  lb_pb := (lb_pb l)(n + k := \<lparr>po_id = pb_id p, po_errors = pb_errors p, po_name = pb_name p,
                                               po_workflows = [n ..< n + k]\<rparr>),
                  lb_next := Suc (n + k)\<rparr>))"

fun alloc_playbooks :: "playbook list \<Rightarrow> library \<Rightarrow> nat list \<times> library" where
  "alloc_playbooks [] l = ([], l)"
| "alloc_playbooks (p # ps) l =
     (let (a, l1) = alloc_playbook p l; (as, l2) = alloc_playbooks ps l1 in (a # as, l2))"

definition find_playbook :: "string nullable \<Rightarrow> library \<Rightarrow> nat option" where
  "find_playbook i l = List.find (\<lambda>a. po_id (lb_pb l a) = i) (lb_playbooks l)"

definition sort_playbooks :: "library \<Rightarrow> library" where
  "sort_playbooks l = l\<lparr>lb_playbooks := sort_by_name (pb_name_of l) (lb_playbooks l)\<rparr>"

definition push_playbook :: "nat \<Rightarrow> library \<Rightarrow> library" where
  "push_playbook a l = sort_playbooks (l\<lparr>lb_playbooks := lb_playbooks l @ [a]\<rparr>)"

definition set_workflows :: "nat \<Rightarrow> nat list \<Rightarrow> library \<Rightarrow> library" where
  "set_workflows a ws l = l\<lparr>lb_pb := (lb_pb l)(a := (lb_pb l a)\<lparr>po_workflows := ws\<rparr>)\<rparr>"

definition push_workflow :: "nat \<Rightarrow> nat \<Rightarrow> library \<Rightarrow> library" where
  "push_workflow a w l = set_workflows a
     (sort_by_name (\<lambda>x. wf_name (lb_wf l x)) (po_workflows (lb_pb l a) @ [w])) l"

definition getPlaybooksWithWorkflows_done :: "playbook list \<Rightarrow> library \<Rightarrow> library" where
  "getPlaybooksWithWorkflows_done ps l = (let (as, l1) = alloc_playbooks ps l in l1\<lparr>lb_playbooks := as\<rparr>)"

section \<open>Requests\<close>

datatype playbook_body =
    PlaybookBody playbook
  | RenameBody "string nullable" "string nullable"
  | NameBody "string nullable"
  | FileBody string
  | WorkflowBody workflow
  | DuplicateWorkflowBody "string nullable" "string nullable"

definition getPlaybooks_request :: "playbook_body request" where
  "getPlaybooks_request = http GET ''/api/playbooks'' None"

definition newPlaybook_request :: "playbook \<Rightarrow> playbook_body request" where
  "newPlaybook_request p = http POST ''/api/playbooks'' (Some (PlaybookBody p))"

definition renamePlaybook_request :: "string nullable \<Rightarrow> string nullable \<Rightarrow> playbook_body request" where
  "renamePlaybook_request i n = http PATCH ''/api/playbooks'' (Some (RenameBody i n))"

definition duplicatePlaybook_request :: "string nullable \<Rightarrow> string nullable \<Rightarrow> playbook_body request" where
  "duplicatePlaybook_request i n = http POST (''/api/playbooks?source='' @ template i) (Some (NameBody n))"

definition deletePlaybook_request :: "string nullable \<Rightarrow> playbook_body request" where
  "deletePlaybook_request i = http DELETE (''/api/playbooks/'' @ template i) None"

definition exportPlaybook_request :: "string nullable \<Rightarrow> playbook_body request" where
  "exportPlaybook_request i = http GET (''/api/playbooks/'' @ template i @ ''?mode=export'') None"

definition importPlaybook_request :: "string \<Rightarrow> playbook_body request" where
  "importPlaybook_request f = http POST ''/api/playbooks'' (Some (FileBody f))"

definition duplicateWorkflow_request :: "string nullable \<Rightarrow> string nullable \<Rightarrow> string nullable \<Rightarrow> playbook_body request" where
  "duplicateWorkflow_request source pb n =
     http POST (''/api/workflows?source='' @ template source) (Some (DuplicateWorkflowBody pb n))"

definition deleteWorkflow_request :: "string nullable \<Rightarrow> playbook_body request" where
  "deleteWorkflow_request i = http DELETE (''/api/workflows/'' @ template i) None"

definition newWorkflow_request :: "string nullable \<Rightarrow> workflow \<Rightarrow> playbook_body request" where
  "newWorkflow_request i w = http POST ''/api/workflows'' (Some (WorkflowBody (w\<lparr>wf_playbook_id := i\<rparr>)))"

definition saveWorkflow_request :: "workflow \<Rightarrow> playbook_body request" where
  "saveWorkflow_request w = http PUT ''/api/workflows'' (Some (WorkflowBody w))"

definition loadWorkflow_request :: "string nullable \<Rightarrow> playbook_body request" where
  "loadWorkflow_request i = http GET (''/api/workflows/'' @ template i) None"

definition getApis_request :: "playbook_body request" where
  "getApis_request = http GET ''/api/apps/apis'' None"

text \<open>The list of apps is sorted by name when it arrives.\<close>

definition getApis_done :: "app_api list \<Rightarrow> app_api list" where
  "getApis_done apis = sort_by_name app_name apis"

section \<open>Loading and closing\<close>

definition closeWorkflow :: "library \<Rightarrow> library" where
  "closeWorkflow l = l\<lparr>lb_playbook := None, lb_workflow := None, lb_selection := False\<rparr>"

text \<open>\<open>setupGraph\<close> for the loaded workflow. When it throws (an action whose app or description is
  unknown) the selections are converted and the graph exists.\<close>

definition setup_loaded :: "app_api list \<Rightarrow> string list \<Rightarrow> library \<Rightarrow> library \<times> js_error option" where
  "setup_loaded apis roots l =
     (case lb_workflow l of
        None \<Rightarrow> (l, Some TypeError)
      | Some a \<Rightarrow>
          (case setupGraph apis roots (lb_wf l a) of
             Inl e \<Rightarrow> (l\<lparr>lb_graph := True,
                 lb_wf := (lb_wf l)(a := (lb_wf l a)\<lparr>wf_actions := map action_for_editor (wf_actions (lb_wf l a))\<rparr>)\<rparr>, Some e)
           | Inr (w, cmds) \<Rightarrow> (l\<lparr>lb_graph := True, lb_wf := (lb_wf l)(a := w)\<rparr>, None)))"

datatype load_outcome = LoadRequest "playbook_body request" | LoadedNow "js_error option"

definition loadWorkflow :: "app_api list \<Rightarrow> string list \<Rightarrow> nat \<Rightarrow> nat \<Rightarrow> library \<Rightarrow> library \<times> load_outcome" where
  "loadWorkflow apis roots pb wa l0 =
     (let l = closeWorkflow l0
      in if truthy_str (po_id (lb_pb l pb)) \<and> truthy_str (wf_id (lb_wf l wa))
         then (l, LoadRequest (loadWorkflow_request (wf_id (lb_wf l wa))))
         else (let (l1, e) = setup_loaded apis roots (l\<lparr>lb_playbook := Some pb, lb_workflow := Some wa\<rparr>)
               in (l1, LoadedNow e)))"

definition loadWorkflow_done ::
  "app_api list \<Rightarrow> string list \<Rightarrow> nat \<Rightarrow> nat \<Rightarrow> workflow result \<Rightarrow> library \<Rightarrow> library" where
  "loadWorkflow_done apis roots pb wa answer l =
     (let failed = (\<lambda>e l. lib_toast (Failure (''Error loading workflow \"'' @ po_name (lb_pb l pb) @ '' - '' @
            wf_name (lb_wf l wa) @ ''\": '' @ error_message e)) l)
      in case answer of
           Inl e \<Rightarrow> failed e l
         | Inr w \<Rightarrow>
             let (a, l1) = alloc_workflow w l
             in case setup_loaded apis roots (l1\<lparr>lb_playbook := Some pb, lb_workflow := Some a\<rparr>) of
                  (l2, None) \<Rightarrow> lib_ui HideWorkflowsModal l2
                | (l2, Some e) \<Rightarrow> failed e l2)"

section \<open>Saving\<close>

text \<open>The copy that is sent: positions from the graph, device and arguments sanitized.\<close>

definition prepare_action :: "(string \<times> graph_position) list \<Rightarrow> action \<Rightarrow> action result" where
  "prepare_action cyData a =
     bind_result (deref (List.find (\<lambda>(i, p). i = act_id a) cyData)) (\<lambda>(i, p).
       bind_result (deref (act_device_id a)) (\<lambda>d.
         Inr (a\<lparr>act_position := Val p,
                act_device_id := (if hasInput d then Some (sanitize d) else None),
                act_arguments := sanitizeArgumentsForSave (act_arguments a),
                act_trigger := sanitize_opt_expr (act_trigger a)\<rparr>)))"

definition prepare_branch :: "branch \<Rightarrow> branch" where
  "prepare_branch b = b\<lparr>br_condition := sanitize_opt_expr (br_condition b)\<rparr>"

definition prepare_workflow :: "(string \<times> graph_position) list \<Rightarrow> workflow \<Rightarrow> workflow result" where
  "prepare_workflow cyData w =
     bind_result (map_result (prepare_action cyData) (wf_actions w)) (\<lambda>as.
       Inr (w\<lparr>wf_actions := as, wf_branches := map prepare_branch (wf_branches w)\<rparr>))"

text \<open>The selected node or edge is unselected first, which closes its form.\<close>

datatype save_outcome = NotSaved | SaveRequest "playbook_body request"

definition saveWorkflow :: "(string \<times> graph_position) list \<Rightarrow> library \<Rightarrow> (library \<times> save_outcome) result" where
  "saveWorkflow cyData l0 =
     (if \<not> lb_graph l0 then Inl TypeError
      else let l = l0\<lparr>lb_selection := False\<rparr> in bind_result (deref (lb_workflow l)) (\<lambda>a.
        if \<not> truthy_str (wf_start (lb_wf l a)) then
          Inr (lib_toast (Warning ''Workflow cannot be saved without a starting action.'') l, NotSaved)
        else bind_result (prepare_workflow cyData (lb_wf l a)) (\<lambda>w.
          bind_result (deref (lb_playbook l)) (\<lambda>pb.
            Inr (l, SaveRequest
              (if truthy_str (po_id (lb_pb l pb)) then
                 (if truthy_str (wf_id (lb_wf l a)) then saveWorkflow_request w
                  else newWorkflow_request (po_id (lb_pb l pb)) w)
               else newPlaybook_request ((playbook_value l pb)\<lparr>pb_workflows := [w]\<rparr>)))))))"

datatype save_answer = SavedWorkflow workflow | CreatedPlaybook playbook

text \<open>The callback after the answer, given the name of the workflow that was sent. It reads
  \<open>loadedPlaybook\<close> when the answer arrives; with none loaded it throws, and so does its
  error handler. When a created playbook comes back without a workflow, \<open>undefined\<close> is pushed to its list
  and loaded, and drawing it throws; the list is kept here without that element.\<close>

definition receive_saved :: "save_answer \<Rightarrow> library \<Rightarrow> nat option \<times> library" where
  "receive_saved answer l =
     (case answer of
        SavedWorkflow w \<Rightarrow> (let (a, l1) = alloc_workflow w l in (Some a, l1))
      | CreatedPlaybook p \<Rightarrow>
          (let (pb, l1) = alloc_playbook p l; l2 = push_playbook pb (l1\<lparr>lb_playbook := Some pb\<rparr>)
           in (case po_workflows (lb_pb l2 pb) of [] \<Rightarrow> None | a # _ \<Rightarrow> Some a, l2)))"

definition has_workflow :: "nat \<Rightarrow> string nullable \<Rightarrow> library \<Rightarrow> bool" where
  "has_workflow pb i l = list_ex (\<lambda>a. wf_id (lb_wf l a) = i) (po_workflows (lb_pb l pb))"

definition saved_in :: "nat \<Rightarrow> nat \<Rightarrow> library \<Rightarrow> library" where
  "saved_in pb a l = (if has_workflow pb (wf_id (lb_wf l a)) l then l else push_workflow pb a l)\<lparr>lb_workflow := Some a\<rparr>"

definition saveWorkflow_done ::
  "app_api list \<Rightarrow> string list \<Rightarrow> string \<Rightarrow> save_answer result \<Rightarrow> library \<Rightarrow> library \<times> js_error option" where
  "saveWorkflow_done apis roots sentName answer l =
     (let failed = (\<lambda>e l. case lb_playbook l of
            None \<Rightarrow> (l, Some TypeError)
          | Some pb \<Rightarrow> (lib_toast (Failure (''Error saving workflow '' @ pb_name_of l pb @ '' - '' @ sentName @ '': '' @ error_message e)) l, None))
      in case answer of
           Inl e \<Rightarrow> failed e l
         | Inr ans \<Rightarrow>
             (case receive_saved ans l of
                (None, l1) \<Rightarrow> failed TypeError (l1\<lparr>lb_workflow := None\<rparr>)
              | (Some a, l1) \<Rightarrow>
                  (case lb_playbook l1 of
                     None \<Rightarrow> failed TypeError l1
                   | Some pb \<Rightarrow>
                       (case setup_loaded apis roots (saved_in pb a l1) of
                          (l2, Some e) \<Rightarrow> failed e l2
                        | (l2, None) \<Rightarrow>
                            (lib_toast (Success (''Successfully saved workflow '' @ pb_name_of l2 pb @ '' - '' @ sentName @ ''.'')) l2, None)))))"

section \<open>Managing playbooks\<close>

definition no_modal :: modal_params where
  "no_modal = \<lparr>mo_kind = NoModal, mo_title = [], mo_submitText = [], mo_shouldShowPlaybook = False,
     mo_shouldShowExistingPlaybooks = False, mo_shouldShowWorkflow = False, mo_selectedPlaybookId = Val [],
     mo_newPlaybook = Val [], mo_newWorkflow = Val []\<rparr>"

definition empty_modal :: "modal_kind \<Rightarrow> string \<Rightarrow> string \<Rightarrow> modal_params" where
  "empty_modal k title submitText = \<lparr>mo_kind = k, mo_title = title, mo_submitText = submitText,
     mo_shouldShowPlaybook = True, mo_shouldShowExistingPlaybooks = False, mo_shouldShowWorkflow = False,
     mo_selectedPlaybookId = Undefined, mo_newPlaybook = Undefined, mo_newWorkflow = Undefined\<rparr>"

definition open_with :: "modal_params \<Rightarrow> library \<Rightarrow> library" where
  "open_with m l = lib_ui ShowModal (l\<lparr>lb_modal := m\<rparr>)"

definition renamePlaybookModal :: "nat \<Rightarrow> library \<Rightarrow> library" where
  "renamePlaybookModal pb l =
     open_with (empty_modal (RenameModal pb) ''Rename Existing Playbook'' ''Rename Playbook'') (lib_ui HideWorkflowsModal l)"

definition rename_done :: "playbook result \<Rightarrow> library \<Rightarrow> library" where
  "rename_done answer l =
     (let failed = (\<lambda>e. lib_toast (Failure (''Error renaming playbook \"'' @ template (mo_newPlaybook (lb_modal l)) @ ''\": '' @ error_message e)) l)
      in case answer of
           Inl e \<Rightarrow> failed e
         | Inr p \<Rightarrow>
             (case find_playbook (pb_id p) l of
                None \<Rightarrow> failed TypeError
              | Some a \<Rightarrow> lib_ui HideModal (lib_toast (Success (''Successfully renamed playbook \"'' @ pb_name p @ ''\".''))
                  (sort_playbooks (l\<lparr>lb_pb := (lb_pb l)(a := (lb_pb l a)\<lparr>po_name := pb_name p\<rparr>)\<rparr>)))))"

definition duplicatePlaybookModal :: "nat \<Rightarrow> library \<Rightarrow> library" where
  "duplicatePlaybookModal pb l =
     open_with (empty_modal (DuplicatePlaybookModal pb) ''Duplicate Existing Playbook'' ''Duplicate Playbook'') (lib_ui HideWorkflowsModal l)"

definition duplicate_done :: "nat \<Rightarrow> playbook result \<Rightarrow> library \<Rightarrow> library" where
  "duplicate_done pb answer l =
     (case answer of
        Inl e \<Rightarrow> lib_toast (Failure (''Error duplicating playbook \"'' @ template (mo_newPlaybook (lb_modal l)) @ ''\": '' @ error_message e)) l
      | Inr p \<Rightarrow>
          let (a, l1) = alloc_playbook p l
          in lib_ui HideModal (lib_toast (Success (''Successfully duplicated playbook \"'' @ pb_name_of l1 pb @ ''\" as \"'' @ pb_name p @ ''\".''))
               (push_playbook a l1)))"

definition deletePlaybook_done :: "nat \<Rightarrow> unit result \<Rightarrow> library \<Rightarrow> library" where
  "deletePlaybook_done pb answer l =
     (case answer of
        Inl e \<Rightarrow> lib_toast (Failure (''Error deleting playbook \"'' @ pb_name_of l pb @ ''\": '' @ error_message e)) l
      | Inr _ \<Rightarrow>
          let i = po_id (lb_pb l pb);
              l1 = l\<lparr>lb_playbooks := filter (\<lambda>a. po_id (lb_pb l a) \<noteq> i) (lb_playbooks l)\<rparr>;
              l2 = (case lb_playbook l1 of None \<Rightarrow> l1 | Some q \<Rightarrow> if i = po_id (lb_pb l1 q) then closeWorkflow l1 else l1)
          in lib_toast (Success (''Successfully deleted playbook \"'' @ pb_name_of l pb @ ''\".'')) l2)"

definition exportPlaybook_done :: "nat \<Rightarrow> unit result \<Rightarrow> library \<Rightarrow> library" where
  "exportPlaybook_done pb answer l =
     (case answer of
        Inl e \<Rightarrow> lib_toast (Failure (''Error exporting playbook \"'' @ pb_name_of l pb @ ''\": '' @ error_message e)) l
      | Inr _ \<Rightarrow> lib_ui (SaveFile (pb_name_of l pb @ ''.playbook'')) l)"

definition onImportSelectChange :: "string option \<Rightarrow> library \<Rightarrow> library" where
  "onImportSelectChange f l = l\<lparr>lb_import := f\<rparr>"

definition importPlaybook :: "library \<Rightarrow> playbook_body request option" where
  "importPlaybook l = map_option importPlaybook_request (lb_import l)"

definition importPlaybook_done :: "playbook result \<Rightarrow> library \<Rightarrow> library \<times> js_error option" where
  "importPlaybook_done answer l =
     (case answer of
        Inl e \<Rightarrow> (case lb_import l of None \<Rightarrow> (l, Some TypeError)
          | Some f \<Rightarrow> (lib_toast (Failure (''Error importing playbook \"'' @ f @ ''\": '' @ error_message e)) l, None))
      | Inr p \<Rightarrow>
          let (a, l1) = alloc_playbook p l; l2 = push_playbook a l1
          in case lb_import l of None \<Rightarrow> (l2, Some TypeError)
             | Some f \<Rightarrow> (lib_ui ClearImportFile ((lib_toast (Success (''Successfuly imported playbook \"'' @ f @ ''\".'')) l2)\<lparr>lb_import := None\<rparr>), None))"

section \<open>Managing workflows\<close>

definition newWorkflowModal :: "bool \<Rightarrow> library \<Rightarrow> library" where
  "newWorkflowModal confirmed l =
     (if lb_workflow l \<noteq> None \<and> \<not> confirmed then l
      else open_with ((empty_modal NewWorkflowModal ''Create New Workflow'' ''Add Workflow'')
             \<lparr>mo_shouldShowExistingPlaybooks := True, mo_shouldShowWorkflow := True\<rparr>) l)"

definition alloc_new_playbook :: "string nullable \<Rightarrow> nat \<Rightarrow> library \<Rightarrow> nat \<times> library" where
  "alloc_new_playbook name w l = (lb_next l, l\<lparr>lb_pb := (lb_pb l)(lb_next l :=
     \<lparr>po_id = Undefined, po_errors = [], po_name = str_or_empty name, po_workflows = [w]\<rparr>), lb_next := Suc (lb_next l)\<rparr>)"

text \<open>A new workflow in an existing playbook is not added to that playbook's list until it is saved;
  a new playbook has it from the start.\<close>

definition newWorkflow_submit :: "app_api list \<Rightarrow> string list \<Rightarrow> library \<Rightarrow> library \<times> js_error option" where
  "newWorkflow_submit apis roots l =
     (let (w, l1) = alloc_workflow (new_workflow\<lparr>wf_name := str_or_empty (mo_newWorkflow (lb_modal l))\<rparr>) l;
          (pb, l2) = (case find_playbook (mo_selectedPlaybookId (lb_modal l1)) l1 of
              Some a \<Rightarrow> (a, l1) | None \<Rightarrow> alloc_new_playbook (mo_newPlaybook (lb_modal l1)) w l1)
      in case loadWorkflow apis roots pb w l2 of
           (l3, LoadedNow (Some e)) \<Rightarrow> (l3, Some e)
         | (l3, _) \<Rightarrow> (lib_ui HideModal l3, None))"

definition duplicateWorkflowModal :: "string nullable \<Rightarrow> string nullable \<Rightarrow> library \<Rightarrow> library" where
  "duplicateWorkflowModal pbId wfId l =
     open_with ((empty_modal (DuplicateWorkflowModal wfId) ''Duplicate Existing Workflow'' ''Duplicate Workflow'')
       \<lparr>mo_shouldShowExistingPlaybooks := True, mo_shouldShowWorkflow := True, mo_selectedPlaybookId := pbId\<rparr>)
       (lib_ui HideWorkflowsModal l)"

datatype duplicate_outcome = CreatePlaybookFirst "playbook_body request" | DuplicateNow "nat option"

definition duplicateWorkflow_submit :: "library \<Rightarrow> duplicate_outcome" where
  "duplicateWorkflow_submit l =
     (case find_playbook (mo_selectedPlaybookId (lb_modal l)) l of
        Some a \<Rightarrow> DuplicateNow (Some a)
      | None \<Rightarrow>
          if truthy_str (mo_newPlaybook (lb_modal l))
          then CreatePlaybookFirst (newPlaybook_request (new_playbook\<lparr>pb_name := str_or_empty (mo_newPlaybook (lb_modal l))\<rparr>))
          else DuplicateNow None)"

definition duplicateWorkflow_playbook_done :: "playbook \<Rightarrow> library \<Rightarrow> nat \<times> library" where
  "duplicateWorkflow_playbook_done p l =
     (let (a, l1) = alloc_playbook p l; l2 = push_playbook a l1
      in (a, l2\<lparr>lb_modal := (lb_modal l2)\<lparr>mo_selectedPlaybookId := pb_id p\<rparr>\<rparr>))"

text \<open>The error handler of the whole chain names the destination playbook; when there is none it
  throws instead of reporting.\<close>

definition duplicateWorkflow_failed :: "nat option \<Rightarrow> js_error \<Rightarrow> library \<Rightarrow> library \<times> js_error option" where
  "duplicateWorkflow_failed destination e l =
     (case destination of
        None \<Rightarrow> (l, Some TypeError)
      | Some pb \<Rightarrow> (lib_toast (Failure (''Error duplicating workflow \"'' @ pb_name_of l pb @ '' - '' @
            template (mo_newWorkflow (lb_modal l)) @ ''\": '' @ error_message e)) l, None))"

definition duplicateWorkflow_done :: "nat \<Rightarrow> workflow result \<Rightarrow> library \<Rightarrow> library" where
  "duplicateWorkflow_done pb answer l =
     (case answer of
        Inl e \<Rightarrow> fst (duplicateWorkflow_failed (Some pb) e l)
      | Inr w \<Rightarrow>
          let (a, l1) = alloc_workflow w l; l2 = push_workflow pb a l1
          in lib_ui HideModal (lib_toast (Success (''Successfully duplicated workflow \"'' @ pb_name_of l2 pb @ '' - '' @
               template (mo_newWorkflow (lb_modal l2)) @ ''\".'')) l2))"

definition is_loaded :: "string nullable \<Rightarrow> string nullable \<Rightarrow> library \<Rightarrow> bool" where
  "is_loaded pbId wfId l = (case (lb_playbook l, lb_workflow l) of
     (Some p, Some w) \<Rightarrow> pbId = po_id (lb_pb l p) \<and> wfId = wf_id (lb_wf l w) | _ \<Rightarrow> False)"

definition deleteWorkflow_done :: "nat \<Rightarrow> nat \<Rightarrow> unit result \<Rightarrow> library \<Rightarrow> library" where
  "deleteWorkflow_done pb wa answer l =
     (let label = pb_name_of l pb @ '' - '' @ wf_name (lb_wf l wa);
          failed = (\<lambda>e l. lib_toast (Failure (''Error deleting workflow \"'' @ label @ ''\": '' @ error_message e)) l)
      in case answer of
           Inl e \<Rightarrow> failed e l
         | Inr _ \<Rightarrow>
             (case find_playbook (po_id (lb_pb l pb)) l of
                None \<Rightarrow> failed TypeError l
              | Some a \<Rightarrow>
                  let ws = filter (\<lambda>x. wf_id (lb_wf l x) \<noteq> wf_id (lb_wf l wa)) (po_workflows (lb_pb l a));
                      l1 = set_workflows a ws l;
                      l2 = (if ws = [] then l1\<lparr>lb_playbooks := filter (\<lambda>x. po_id (lb_pb l1 x) \<noteq> po_id (lb_pb l1 a)) (lb_playbooks l1)\<rparr> else l1);
                      l3 = (if is_loaded (po_id (lb_pb l2 pb)) (wf_id (lb_wf l2 wa)) l2 then closeWorkflow l2 else l2)
                  in lib_toast (Success (''Successfully deleted workflow \"'' @ label @ ''\".'')) l3))"

end
