(* ===== verification/LibraryInvariant.thy ===== *)
theory LibraryInvariant
  imports PlaybookLibrary
begin

text \<open>
  What is sent on save: the loaded workflow with clean arguments and the positions of the drawing.
\<close>

section \<open>What is sent\<close>

fun body_workflows :: "playbook_body option \<Rightarrow> workflow list" where
  "body_workflows (Some (WorkflowBody w)) = [w]"
| "body_workflows (Some (PlaybookBody p)) = pb_workflows p"
| "body_workflows _ = []"

text \<open>A device identifier of blanks only passes \<open>hasInput\<close>, is trimmed to the empty string, and
  is sent as such.\<close>

definition device_clean :: "argument \<Rightarrow> bool" where
  "device_clean d \<longleftrightarrow> arg_clean d \<or> (arg_value d = JStr [] \<and> arg_errors d = Undefined)"

definition sent_ok :: "(string \<times> graph_position) list \<Rightarrow> workflow \<Rightarrow> workflow \<Rightarrow> bool" where
  "sent_ok cyData w s \<longleftrightarrow>
     list_all arg_clean (all_arguments s) \<and>
     list_all (\<lambda>a. case act_device_id a of None \<Rightarrow> True | Some d \<Rightarrow> device_clean d) (wf_actions s) \<and>
     list_all (\<lambda>a. list_ex (\<lambda>(i, p). i = act_id a \<and> act_position a = Val p) cyData) (wf_actions s) \<and>
     map act_id (wf_actions s) = map act_id (wf_actions w) \<and>
     map (\<lambda>b. (br_source_id b, br_destination_id b)) (wf_branches s) =
       map (\<lambda>b. (br_source_id b, br_destination_id b)) (wf_branches w) \<and>
     wf_start s = wf_start w \<and> wf_name s = wf_name w \<and> wf_id s = wf_id w"

lemma sanitize_device_clean [clean_intros]: "hasInput d \<Longrightarrow> device_clean (sanitize d)"
proof -
  let ?b = "drop_value_or_reference d"
  have "arg_clean (sanitize d)" if "truthy (arg_value ?b) \<or> truthy_str (arg_reference ?b)"
    using that arg_clean_sanitized[of d]
    by (auto simp: sanitize_def Let_def simp del: drop_value_or_reference_sel truthy_str_iff)
  moreover have "arg_value ?b = JStr [] \<and> arg_errors ?b = Undefined"
    if "hasInput d" "\<not> truthy (arg_value ?b)" "\<not> truthy_str (arg_reference ?b)"
    using that by (cases "arg_value d")
      (auto simp: hasInput_def drop_value_or_reference_def Let_def simp del: truthy_str_iff split: if_splits)
  moreover have "sanitize d = ?b" if "\<not> truthy (arg_value ?b)" "\<not> truthy_str (arg_reference ?b)"
    using that by (simp add: sanitize_def Let_def del: truthy_str_iff)
  ultimately show "hasInput d \<Longrightarrow> device_clean (sanitize d)"
    unfolding device_clean_def by metis
qed

lemma sanitize_opt_expr_clean [clean_intros]:
  "\<forall>a \<in> set (opt_expr_arguments (sanitize_opt_expr e)). arg_clean a"
  using sanitize_expr_once_clean
  by (auto simp: opt_expr_arguments_def sanitize_opt_expr_def sanitizeExpressionAndChildren_eq split: option.splits)

lemma prepare_action_spec:
  assumes "prepare_action cyData a = Inr s"
  shows "(\<exists>p. (act_id s, p) \<in> set cyData \<and> act_position s = Val p) \<and> act_id s = act_id a \<and>
         (\<forall>x \<in> set (action_all_arguments s). arg_clean x) \<and>
         (\<forall>d. act_device_id s = Some d \<longrightarrow> device_clean d)"
  using assms sanitizeArgumentsForSave_clean sanitize_opt_expr_clean
  by (auto simp: prepare_action_def bind_result_Inr_iff action_all_arguments_def split: if_splits
        intro: sanitize_device_clean dest!: find_SomeD)

lemma prepare_workflow_spec:
  assumes "prepare_workflow cyData w = Inr s"
  shows "sent_ok cyData w s"
proof -
  obtain as where as: "map_result (prepare_action cyData) (wf_actions w) = Inr as"
    and s: "s = w\<lparr>wf_actions := as, wf_branches := map prepare_branch (wf_branches w)\<rparr>"
    using assms by (auto simp: prepare_workflow_def bind_result_Inr_iff)
  have all: "list_all2 (\<lambda>a s. prepare_action cyData a = Inr s) (wf_actions w) as"
    using as by (simp add: map_result_Inr_iff)
  have ids: "map act_id as = map act_id (wf_actions w)"
    using all by (induction rule: list_all2_induct) (auto dest: prepare_action_spec)
  have each: "(\<exists>p. (act_id s, p) \<in> set cyData \<and> act_position s = Val p) \<and>
      (\<forall>x \<in> set (action_all_arguments s). arg_clean x) \<and> (\<forall>d. act_device_id s = Some d \<longrightarrow> device_clean d)"
    if "s \<in> set as" for s
    using all that by (induction rule: list_all2_induct) (auto dest: prepare_action_spec)
  have pos: "\<exists>(i, p) \<in> set cyData. i = act_id s \<and> act_position s = Val p" if "s \<in> set as" for s
    using each[OF that] by fastforce
  show ?thesis
    using sanitize_opt_expr_clean
    unfolding sent_ok_def s
    by (auto simp: ids all_arguments_def list_all_iff list_ex_iff prepare_branch_def branch_all_arguments_def
          dest: each intro: pos split: option.split)
qed

lemma sent_ok_playbook_id: "sent_ok cyData w s \<Longrightarrow> sent_ok cyData w (s\<lparr>wf_playbook_id := i\<rparr>)"
  by (simp add: sent_ok_def all_arguments_def)

lemma body_workflows_requests [simp]:
  "body_workflows (req_body (saveWorkflow_request w)) = [w]"
  "body_workflows (req_body (newWorkflow_request i w)) = [w\<lparr>wf_playbook_id := i\<rparr>]"
  "body_workflows (req_body (newPlaybook_request p)) = pb_workflows p"
  by (simp_all add: saveWorkflow_request_def newWorkflow_request_def newPlaybook_request_def http_def)

definition request_line :: "'b request \<Rightarrow> http_method \<times> string" where
  "request_line r = (req_method r, req_url r)"

lemma request_lines [simp]:
  "request_line (saveWorkflow_request w) = (PUT, ''/api/workflows'')"
  "request_line (newWorkflow_request i w) = (POST, ''/api/workflows'')"
  "request_line (newPlaybook_request p) = (POST, ''/api/playbooks'')"
  by (simp_all add: request_line_def saveWorkflow_request_def newWorkflow_request_def newPlaybook_request_def http_def)


definition sample_library :: library where
  "sample_library = \<lparr>lb_pb = (\<lambda>_. \<lparr>po_id = Val ''p1'', po_errors = [], po_name = ''Main'', po_workflows = [0]\<rparr>),
     lb_wf = (\<lambda>_. sample_workflow\<lparr>wf_actions := map (\<lambda>a. a\<lparr>act_device_id := Some new_argument\<rparr>) (wf_actions sample_workflow)\<rparr>),
     lb_next = 2, lb_playbooks = [1], lb_playbook = Some 1, lb_workflow = Some 0, lb_selection = True,
     lb_graph = True, lb_modal = no_modal, lb_import = None, lb_ui = [], lb_toasts = []\<rparr>"

definition sample_positions :: "(string \<times> graph_position) list" where
  "sample_positions = [(''a1'', \<lparr>pos_x = 1, pos_y = 2\<rparr>), (''a2'', \<lparr>pos_x = 3, pos_y = 4\<rparr>)]"

lemmas sample_library_defs [sample_defs] = sample_library_def sample_positions_def

lemma sample_save:
  "\<exists>r. saveWorkflow sample_positions sample_library = Inr (sample_library\<lparr>lb_selection := False\<rparr>, SaveRequest r)"
  by (simp add: saveWorkflow_def prepare_workflow_def prepare_action_def bind_result_def sample_defs
      hasInput_def)


end
