(* ===== verification/LibraryMenu.thy ===== *)
theory LibraryMenu
  imports LibraryInvariant
begin

text \<open>
  The list of playbooks as the load dialog shows it: identifiers and names of playbooks and of their
  workflows. \<open>menu_step\<close> is the specification of what each answer of the server does to it;
  \<open>library_step\<close> collects the handlers that run on these answers.
\<close>

section \<open>The menu\<close>

type_synonym menu_entry = "string nullable \<times> string \<times> (string nullable \<times> string) list"

definition label_of :: "workflow \<Rightarrow> string nullable \<times> string" where
  "label_of w = (wf_id w, wf_name w)"

definition entry_of :: "library \<Rightarrow> nat \<Rightarrow> menu_entry" where
  "entry_of l a = (po_id (lb_pb l a), po_name (lb_pb l a), map (\<lambda>w. label_of (lb_wf l w)) (po_workflows (lb_pb l a)))"

definition menu_of :: "library \<Rightarrow> menu_entry list" where
  "menu_of l = map (entry_of l) (lb_playbooks l)"

definition playbook_entry :: "playbook \<Rightarrow> menu_entry" where
  "playbook_entry p = (pb_id p, pb_name p, map label_of (pb_workflows p))"

definition entry_name :: "menu_entry \<Rightarrow> string" where
  "entry_name e = fst (snd e)"

datatype menu_change =
    MenuSame
  | MenuSet "menu_entry list"
  | MenuAdd menu_entry
  | MenuRename "string nullable" string
  | MenuRemove "string nullable"
  | MenuAddWorkflow "string nullable" "string nullable \<times> string"
  | MenuRemoveWorkflow "string nullable" "string nullable"

definition add_label :: "string nullable \<times> string \<Rightarrow> menu_entry \<Rightarrow> menu_entry" where
  "add_label x e = (case e of (i, n, ws) \<Rightarrow> (i, n, sort_by_name snd (ws @ [x])))"

definition remove_label :: "string nullable \<Rightarrow> menu_entry \<Rightarrow> menu_entry" where
  "remove_label wi e = (case e of (i, n, ws) \<Rightarrow> (i, n, filter (\<lambda>(j, _). j \<noteq> wi) ws))"

definition find_entry :: "string nullable \<Rightarrow> menu_entry list \<Rightarrow> menu_entry option" where
  "find_entry i m = List.find (\<lambda>e. fst e = i) m"

fun menu_step :: "menu_change \<Rightarrow> menu_entry list \<Rightarrow> menu_entry list" where
  "menu_step MenuSame m = m"
| "menu_step (MenuSet m') m = m'"
| "menu_step (MenuAdd e) m = sort_by_name entry_name (m @ [e])"
| "menu_step (MenuRename i n) m =
     (case find_entry i m of None \<Rightarrow> m
      | Some _ \<Rightarrow> sort_by_name entry_name (update_first (\<lambda>e. fst e = i) (\<lambda>(j, _, ws). (j, n, ws)) m))"
| "menu_step (MenuRemove i) m = filter (\<lambda>e. fst e \<noteq> i) m"
| "menu_step (MenuAddWorkflow i x) m = update_first (\<lambda>e. fst e = i) (add_label x) m"
| "menu_step (MenuRemoveWorkflow i wi) m =
     (case find_entry i m of None \<Rightarrow> m
      | Some e \<Rightarrow>
          let m1 = update_first (\<lambda>e. fst e = i) (remove_label wi) m
          in if snd (snd (remove_label wi e)) = [] then filter (\<lambda>e. fst e \<noteq> i) m1 else m1)"

section \<open>Well-formed libraries\<close>

text \<open>No playbook object is listed twice, and every address in use has been allocated.\<close>

definition allocated :: "library \<Rightarrow> nat \<Rightarrow> bool" where
  "allocated l a \<longleftrightarrow> a < lb_next l \<and> (\<forall>w \<in> set (po_workflows (lb_pb l a)). w < lb_next l)"

definition library_ok :: "library \<Rightarrow> bool" where
  "library_ok l \<longleftrightarrow> distinct (lb_playbooks l) \<and> (\<forall>a \<in> set (lb_playbooks l). allocated l a) \<and>
     (\<forall>a. lb_playbook l = Some a \<longrightarrow> allocated l a) \<and> (\<forall>w. lb_workflow l = Some w \<longrightarrow> w < lb_next l)"

lemma allocated_simps [simp]:
  "allocated (lib_toast t l) = allocated l" "allocated (lib_ui c l) = allocated l"
  by (simp_all add: fun_eq_iff allocated_def lib_toast_def lib_ui_def)

lemma library_ok_ui [simp]:
  "library_ok (lib_toast t l) = library_ok l" "library_ok (lib_ui c l) = library_ok l"
  by (simp_all add: library_ok_def allocated_def lib_toast_def lib_ui_def)

lemma menu_of_ui [simp]: "menu_of (lib_toast t l) = menu_of l" "menu_of (lib_ui c l) = menu_of l"
  by (simp_all add: menu_of_def entry_of_def lib_toast_def lib_ui_def)

lemma entry_of_ui [simp]: "entry_of (lib_toast t l) = entry_of l" "entry_of (lib_ui c l) = entry_of l"
  by (simp_all add: fun_eq_iff entry_of_def lib_toast_def lib_ui_def)

section \<open>Sorting and updating by address or by value\<close>

lemma insert_right_map:
  "map f (insert_right (name_comparator (g \<circ> f)) x xs) = insert_right (name_comparator g) (f x) (map f xs)"
  by (induction xs) (auto simp: name_comparator_def)

lemma foldl_insert_right_map:
  "map f (foldl (\<lambda>acc x. insert_right (name_comparator (g \<circ> f)) x acc) acc xs) =
   foldl (\<lambda>acc x. insert_right (name_comparator g) x acc) (map f acc) (map f xs)"
  by (induction xs arbitrary: acc) (simp_all add: insert_right_map)

lemma map_sort_by_name: "map f (sort_by_name (g \<circ> f) xs) = sort_by_name g (map f xs)"
  by (simp add: js_sort_def rev_map[symmetric] foldl_insert_right_map)

lemma map_sort_by_name':
  assumes "\<And>x. h x = g (f x)"
  shows "map f (sort_by_name h xs) = sort_by_name g (map f xs)"
proof -
  have "h = g \<circ> f" using assms by (simp add: fun_eq_iff)
  then show ?thesis by (simp only: map_sort_by_name)
qed

lemma find_map_key: "List.find P (map f xs) = map_option f (List.find (P \<circ> f) xs)"
  by (induction xs) auto

lemma map_update_at_first:
  assumes "distinct xs" "List.find (\<lambda>x. P (f x)) xs = Some a"
    and "\<And>x. x \<noteq> a \<Longrightarrow> f' x = f x" and "f' a = h (f a)"
  shows "map f' xs = update_first P h (map f xs)"
  using assms
proof (induction xs)
  case (Cons x xs)
  show ?case
  proof (cases "P (f x)")
    case True
    with Cons.prems have "a = x" by simp
    moreover have "f' y = f y" if "y \<in> set xs" for y
      using Cons.prems(1) Cons.prems(3)[of y] \<open>a = x\<close> that by auto
    ultimately have "map f' xs = map f xs" by simp
    then show ?thesis using True \<open>a = x\<close> Cons.prems(4) by simp
  next
    case False
    then have "List.find (\<lambda>x. P (f x)) xs = Some a" using Cons.prems by simp
    then have "a \<in> set xs" by (auto dest: find_SomeD)
    then have "x \<noteq> a" using Cons.prems(1) by auto
    then have "f' x = f x" by (rule Cons.prems(3))
    then show ?thesis using Cons False by simp
  qed
qed simp

section \<open>The handlers of the answers\<close>

datatype library_event =
    PlaybooksArrived "playbook list"
  | RenameAnswer "playbook result"
  | DuplicateAnswer nat "playbook result"
  | DeleteAnswer nat "unit result"
  | ImportAnswer "playbook result"
  | LoadWorkflow nat nat
  | LoadAnswer nat nat "workflow result"
  | CloseWorkflow
  | SaveAnswer string "save_answer result"
  | NewWorkflowSubmit
  | NewPlaybookAnswer playbook
  | DuplicateWorkflowAnswer nat "workflow result"
  | DeleteWorkflowAnswer nat nat "unit result"

fun library_step :: "app_api list \<Rightarrow> string list \<Rightarrow> library_event \<Rightarrow> library \<Rightarrow> library" where
  "library_step apis roots (PlaybooksArrived ps) l = getPlaybooksWithWorkflows_done ps l"
| "library_step apis roots (RenameAnswer r) l = rename_done r l"
| "library_step apis roots (DuplicateAnswer pb r) l = duplicate_done pb r l"
| "library_step apis roots (DeleteAnswer pb r) l = deletePlaybook_done pb r l"
| "library_step apis roots (ImportAnswer r) l = fst (importPlaybook_done r l)"
| "library_step apis roots (LoadWorkflow pb w) l = fst (loadWorkflow apis roots pb w l)"
| "library_step apis roots (LoadAnswer pb w r) l = loadWorkflow_done apis roots pb w r l"
| "library_step apis roots CloseWorkflow l = closeWorkflow l"
| "library_step apis roots (SaveAnswer n r) l = fst (saveWorkflow_done apis roots n r l)"
| "library_step apis roots NewWorkflowSubmit l = fst (newWorkflow_submit apis roots l)"
| "library_step apis roots (NewPlaybookAnswer p) l = snd (duplicateWorkflow_playbook_done p l)"
| "library_step apis roots (DuplicateWorkflowAnswer pb r) l = duplicateWorkflow_done pb r l"
| "library_step apis roots (DeleteWorkflowAnswer pb w r) l = deleteWorkflow_done pb w r l"

text \<open>The objects an event refers to exist; a playbook a workflow is added to is the one of the list
  with its identifier; a created playbook comes back with the workflow it was sent with.\<close>

definition listed :: "nat \<Rightarrow> library \<Rightarrow> bool" where
  "listed pb l \<longleftrightarrow> find_playbook (po_id (lb_pb l pb)) l = Some pb"

fun event_ok :: "library_event \<Rightarrow> library \<Rightarrow> bool" where
  "event_ok (LoadWorkflow pb w) l = (allocated l pb \<and> w < lb_next l)"
| "event_ok (LoadAnswer pb w r) l = allocated l pb"
| "event_ok (SaveAnswer n (Inr (SavedWorkflow w))) l = (case lb_playbook l of None \<Rightarrow> True | Some pb \<Rightarrow> listed pb l)"
| "event_ok (SaveAnswer n (Inr (CreatedPlaybook p))) l = (pb_workflows p \<noteq> [])"
| "event_ok (DuplicateWorkflowAnswer pb (Inr w)) l = listed pb l"
| "event_ok _ l = True"

fun change_of :: "library_event \<Rightarrow> library \<Rightarrow> menu_change" where
  "change_of (PlaybooksArrived ps) l = MenuSet (map playbook_entry ps)"
| "change_of (RenameAnswer (Inr p)) l = MenuRename (pb_id p) (pb_name p)"
| "change_of (DuplicateAnswer pb (Inr p)) l = MenuAdd (playbook_entry p)"
| "change_of (DeleteAnswer pb (Inr _)) l = MenuRemove (po_id (lb_pb l pb))"
| "change_of (ImportAnswer (Inr p)) l = MenuAdd (playbook_entry p)"
| "change_of (SaveAnswer n (Inr (SavedWorkflow w))) l =
     (case lb_playbook l of
        None \<Rightarrow> MenuSame
      | Some pb \<Rightarrow> if has_workflow pb (wf_id w) l then MenuSame else MenuAddWorkflow (po_id (lb_pb l pb)) (label_of w))"
| "change_of (SaveAnswer n (Inr (CreatedPlaybook p))) l = MenuAdd (playbook_entry p)"
| "change_of (NewPlaybookAnswer p) l = MenuAdd (playbook_entry p)"
| "change_of (DuplicateWorkflowAnswer pb (Inr w)) l = MenuAddWorkflow (po_id (lb_pb l pb)) (label_of w)"
| "change_of (DeleteWorkflowAnswer pb w (Inr _)) l = MenuRemoveWorkflow (po_id (lb_pb l pb)) (wf_id (lb_wf l w))"
| "change_of _ l = MenuSame"

section \<open>What the building blocks do\<close>

text \<open>New objects are at fresh addresses: nothing that was allocated changes.\<close>

definition extends :: "library \<Rightarrow> library \<Rightarrow> bool" where
  "extends l l' \<longleftrightarrow> lb_next l \<le> lb_next l' \<and> lb_playbooks l' = lb_playbooks l \<and> lb_playbook l' = lb_playbook l \<and>
     lb_workflow l' = lb_workflow l \<and> lb_modal l' = lb_modal l \<and>
     (\<forall>a < lb_next l. lb_pb l' a = lb_pb l a \<and> lb_wf l' a = lb_wf l a)"

lemma extends_entry:
  "extends l l' \<Longrightarrow> allocated l a \<Longrightarrow> entry_of l' a = entry_of l a \<and> allocated l' a"
  by (force simp: extends_def allocated_def entry_of_def)

lemma extends_menu:
  assumes "extends l l'" "library_ok l"
  shows "menu_of l' = menu_of l"
proof -
  have "entry_of l' a = entry_of l a" if "a \<in> set (lb_playbooks l)" for a
    using extends_entry[OF assms(1)] assms(2) that by (simp add: library_ok_def)
  then show ?thesis using assms(1) by (simp add: menu_of_def extends_def)
qed

lemma extends_ok: "extends l l' \<Longrightarrow> library_ok l \<Longrightarrow> library_ok l'"
  using extends_entry[of l l']
  by (simp add: library_ok_def extends_def) (meson less_le_trans)

lemma alloc_workflow_spec:
  assumes "alloc_workflow w l = (a, l')"
  shows "extends l l'" "a < lb_next l'" "lb_wf l' a = w" "lb_next l \<le> a"
  using assms by (auto simp: alloc_workflow_def extends_def)

lemma map_eq_labels: "map f xs = ys \<Longrightarrow> map (\<lambda>x. label_of (f x)) xs = map label_of ys"
  by auto

lemma alloc_playbook_spec:
  assumes "alloc_playbook p l = (a, l')"
  shows "extends l l'" "allocated l' a" "entry_of l' a = playbook_entry p" "lb_next l \<le> a"
    "map (lb_wf l') (po_workflows (lb_pb l' a)) = pb_workflows p"
proof -
  let ?n = "lb_next l" and ?k = "length (pb_workflows p)"
  have a: "a = ?n + ?k"
    and l': "l' = l\<lparr>lb_wf := (\<lambda>a. if ?n \<le> a \<and> a < ?n + ?k then pb_workflows p ! (a - ?n) else lb_wf l a),
                  lb_pb := (lb_pb l)(?n + ?k := \<lparr>po_id = pb_id p, po_errors = pb_errors p, po_name = pb_name p,
                                               po_workflows = [?n ..< ?n + ?k]\<rparr>),
                  lb_next := Suc (?n + ?k)\<rparr>"
    using assms[symmetric] by (simp_all add: alloc_playbook_def Let_def)
  show "extends l l'" "allocated l' a" "lb_next l \<le> a"
    by (simp_all add: a l' extends_def allocated_def)
  show 1: "map (lb_wf l') (po_workflows (lb_pb l' a)) = pb_workflows p"
    by (rule nth_equalityI) (simp_all add: a l')
  show "entry_of l' a = playbook_entry p"
    using map_eq_labels[OF 1] by (simp add: entry_of_def playbook_entry_def a l')
qed

lemma entry_of_frame [simp]:
  "entry_of (l\<lparr>lb_playbooks := as\<rparr>) = entry_of l" "entry_of (l\<lparr>lb_playbook := p\<rparr>) = entry_of l"
  "entry_of (l\<lparr>lb_workflow := w\<rparr>) = entry_of l" "entry_of (l\<lparr>lb_graph := g\<rparr>) = entry_of l"
  "entry_of (l\<lparr>lb_selection := g\<rparr>) = entry_of l" "entry_of (l\<lparr>lb_modal := m\<rparr>) = entry_of l"
  "entry_of (l\<lparr>lb_import := i\<rparr>) = entry_of l"
  by (simp_all add: fun_eq_iff entry_of_def)

lemma entry_name_of [simp]: "entry_name (entry_of l a) = pb_name_of l a"
  by (simp add: entry_name_def entry_of_def pb_name_of_def)

lemma distinct_js_sort [simp]: "distinct (js_sort cmp xs) = distinct xs"
  using js_sort.sort_distinct_map[of "\<lambda>x. x" cmp xs] by simp

lemma push_playbook_spec:
  assumes "library_ok l" "allocated l a" "a \<notin> set (lb_playbooks l)"
  shows "library_ok (push_playbook a l)"
    "menu_of (push_playbook a l) = menu_step (MenuAdd (entry_of l a)) (menu_of l)"
proof -
  show "library_ok (push_playbook a l)"
    using assms
    by (auto simp: library_ok_def push_playbook_def sort_playbooks_def allocated_def)
  show "menu_of (push_playbook a l) = menu_step (MenuAdd (entry_of l a)) (menu_of l)"
    by (simp add: push_playbook_def sort_playbooks_def menu_of_def pb_name_of_def
        map_sort_by_name'[where g = entry_name and f = "entry_of l"])
qed

lemma setupGraph_label: "setupGraph apis roots w = Inr (w', cmds) \<Longrightarrow> label_of w' = label_of w"
  by (auto simp: setupGraph_def bind_result_Inr_iff setStartNode_def label_of_def Let_def
      split: if_splits list.splits)

text \<open>Drawing a workflow changes its selections and its start action, not its label.\<close>

lemma setup_loaded_spec:
  assumes "setup_loaded apis roots l = (l', e)"
  shows "lb_pb l' = lb_pb l" "\<And>a. label_of (lb_wf l' a) = label_of (lb_wf l a)"
    "lb_next l' = lb_next l" "lb_playbooks l' = lb_playbooks l" "lb_playbook l' = lb_playbook l"
    "lb_workflow l' = lb_workflow l" "lb_modal l' = lb_modal l"
  using assms
  by (auto simp: setup_loaded_def setupGraph_label label_of_def split: option.splits sum.splits if_splits
        dest: setupGraph_label)

lemma setup_loaded_menu:
  assumes "setup_loaded apis roots l = (l', e)"
  shows "menu_of l' = menu_of l" "library_ok l' = library_ok l"
  using setup_loaded_spec[OF assms]
  by (simp_all add: menu_of_def entry_of_def library_ok_def allocated_def)

lemma closeWorkflow_frame:
  "library_ok l \<Longrightarrow> library_ok (closeWorkflow l)" "menu_of (closeWorkflow l) = menu_of l"
  "lb_pb (closeWorkflow l) = lb_pb l" "lb_wf (closeWorkflow l) = lb_wf l"
  "lb_next (closeWorkflow l) = lb_next l" "lb_playbooks (closeWorkflow l) = lb_playbooks l"
  by (auto simp: closeWorkflow_def library_ok_def allocated_def menu_of_def entry_of_def fun_eq_iff)

lemma add_workflow_entry:
  "entry_of (push_workflow pb w l) a = (if a = pb then add_label (label_of (lb_wf l w)) (entry_of l pb) else entry_of l a)"
  by (simp add: push_workflow_def set_workflows_def entry_of_def add_label_def label_of_def
      map_sort_by_name'[where g = snd and f = "\<lambda>w. (wf_id (lb_wf l w), wf_name (lb_wf l w))"])

lemma find_playbook_entry: "find_playbook i l = List.find (\<lambda>a. fst (entry_of l a) = i) (lb_playbooks l)"
  by (simp add: find_playbook_def entry_of_def)

lemma menu_update_first:
  assumes "library_ok l" "find_playbook i l = Some a" "lb_playbooks l' = lb_playbooks l"
    and other: "\<And>x. x \<noteq> a \<Longrightarrow> entry_of l' x = entry_of l x" and upd: "entry_of l' a = h (entry_of l a)"
  shows "menu_of l' = update_first (\<lambda>e. fst e = i) h (menu_of l)"
  unfolding menu_of_def assms(3)
  by (rule map_update_at_first[where a = a])
     (use assms(1,2) other upd in \<open>simp_all add: library_ok_def find_playbook_entry\<close>)

lemma push_workflow_playbooks [simp]: "lb_playbooks (push_workflow pb w l) = lb_playbooks l"
  by (simp add: push_workflow_def set_workflows_def)

lemma push_workflow_spec:
  assumes "library_ok l" "listed pb l" "w < lb_next l"
  shows "library_ok (push_workflow pb w l)"
    "menu_of (push_workflow pb w l) = menu_step (MenuAddWorkflow (po_id (lb_pb l pb)) (label_of (lb_wf l w))) (menu_of l)"
proof -
  show "library_ok (push_workflow pb w l)"
    using assms by (auto simp: library_ok_def allocated_def push_workflow_def set_workflows_def)
  show "menu_of (push_workflow pb w l) = menu_step (MenuAddWorkflow (po_id (lb_pb l pb)) (label_of (lb_wf l w))) (menu_of l)"
    unfolding menu_step.simps
    by (rule menu_update_first[where a = pb])
       (use assms(1,2) in \<open>simp_all add: add_workflow_entry listed_def\<close>)
qed

section \<open>Every answer refines its change of the menu\<close>

lemma alloc_playbooks_spec:
  assumes "alloc_playbooks ps l = (as, l')"
  shows "extends l l' \<and> map (entry_of l') as = map playbook_entry ps \<and> distinct as \<and>
         (\<forall>a \<in> set as. allocated l' a \<and> lb_next l \<le> a)"
  using assms
proof (induction ps arbitrary: l as l')
  case Nil
  then show ?case by (simp add: extends_def)
next
  case (Cons p ps)
  obtain a l1 where a: "alloc_playbook p l = (a, l1)" by fastforce
  obtain bs l2 where bs: "alloc_playbooks ps l1 = (bs, l2)" by fastforce
  have eq: "as = a # bs" "l' = l2" using Cons.prems by (simp_all add: a bs)
  note one = alloc_playbook_spec[OF a]
  note rest = Cons.IH[OF bs]
  have keep: "entry_of l2 a = playbook_entry p \<and> allocated l2 a"
    using extends_entry[of l1 l2 a] rest one by simp
  have "extends l l2" using one(1) rest by (auto simp: extends_def)
  moreover have "a < lb_next l1" using one(2) by (simp add: allocated_def)
  moreover have "lb_next l \<le> lb_next l1" using one(1) by (simp add: extends_def)
  ultimately show ?case using keep one(4) rest by (fastforce simp: eq)
qed

definition refines :: "library \<Rightarrow> menu_change \<Rightarrow> library \<Rightarrow> bool" where
  "refines l c l' \<longleftrightarrow> library_ok l' \<and> menu_of l' = menu_step c (menu_of l)"

lemma refines_ui [simp]:
  "refines l c (lib_toast t l') = refines l c l'" "refines l c (lib_ui u l') = refines l c l'"
  by (simp_all add: refines_def)

lemma refines_frame [simp]:
  "refines l c (l'\<lparr>lb_modal := m\<rparr>) = refines l c l'" "refines l c (l'\<lparr>lb_import := i\<rparr>) = refines l c l'"
  by (simp_all add: refines_def library_ok_def allocated_def menu_of_def entry_of_def)

lemma refines_same: "library_ok l \<Longrightarrow> refines l MenuSame l"
  by (simp add: refines_def)

lemma add_playbook:
  assumes "library_ok l" "alloc_playbook p l = (a, l1)"
  shows "refines l (MenuAdd (playbook_entry p)) (push_playbook a l1)"
    "refines l (MenuAdd (playbook_entry p)) (push_playbook a (l1\<lparr>lb_playbook := Some a\<rparr>))"
proof -
  note one = alloc_playbook_spec[OF assms(2)]
  have ok: "library_ok l1" using extends_ok[OF one(1) assms(1)] .
  have new: "a \<notin> set (lb_playbooks l1)"
    using assms(1) one(1,4) by (force simp: library_ok_def allocated_def extends_def)
  show "refines l (MenuAdd (playbook_entry p)) (push_playbook a l1)"
    using push_playbook_spec[OF ok one(2) new] one(3) extends_menu[OF one(1) assms(1)]
    by (simp add: refines_def)
  let ?l = "l1\<lparr>lb_playbook := Some a\<rparr>"
  have "library_ok ?l" "allocated ?l a" using ok one(2) by (auto simp: library_ok_def allocated_def)
  moreover have "menu_of ?l = menu_of l1" by (simp add: menu_of_def)
  ultimately show "refines l (MenuAdd (playbook_entry p)) (push_playbook a ?l)"
    using push_playbook_spec[of ?l a] new one(3) extends_menu[OF one(1) assms(1)]
    by (simp add: refines_def)
qed

lemma rename_refines:
  assumes "library_ok l"
  shows "refines l (MenuRename (pb_id p) (pb_name p)) (rename_done (Inr p) l)"
proof (cases "find_playbook (pb_id p) l")
  case None
  then have "find_entry (pb_id p) (menu_of l) = None"
    by (simp add: find_entry_def menu_of_def find_map_key comp_def find_playbook_entry)
  then show ?thesis using None assms by (simp add: rename_done_def refines_def)
next
  case (Some a)
  let ?l = "l\<lparr>lb_pb := (lb_pb l)(a := (lb_pb l a)\<lparr>po_name := pb_name p\<rparr>)\<rparr>"
  have find: "find_entry (pb_id p) (menu_of l) = Some (entry_of l a)"
    using Some by (simp add: find_entry_def menu_of_def find_map_key comp_def find_playbook_entry)
  have "menu_of ?l = update_first (\<lambda>e. fst e = pb_id p) (\<lambda>(j, _, ws). (j, pb_name p, ws)) (menu_of l)"
    by (rule menu_update_first[OF assms Some]) (simp_all add: entry_of_def)
  moreover have "menu_of (sort_playbooks ?l) = sort_by_name entry_name (menu_of ?l)"
    by (simp add: sort_playbooks_def menu_of_def map_sort_by_name'[where g = entry_name and f = "entry_of ?l"])
  moreover have "library_ok (sort_playbooks ?l)"
    using assms by (auto simp: library_ok_def sort_playbooks_def allocated_def)
  ultimately show ?thesis using Some find by (simp add: rename_done_def refines_def Let_def)
qed

lemma filter_playbooks_refines:
  assumes "library_ok l"
  shows "refines l (MenuRemove i) (l\<lparr>lb_playbooks := filter (\<lambda>a. po_id (lb_pb l a) \<noteq> i) (lb_playbooks l)\<rparr>)"
  using assms by (auto simp: refines_def library_ok_def allocated_def menu_of_def filter_map comp_def entry_of_def)

lemma refines_close: "refines l c l' \<Longrightarrow> refines l c (if b then closeWorkflow l' else l')"
  using closeWorkflow_frame[of l'] by (simp add: refines_def)

lemma delete_refines:
  assumes "library_ok l"
  shows "refines l (MenuRemove (po_id (lb_pb l pb))) (deletePlaybook_done pb (Inr u) l)"
proof -
  obtain i where i: "po_id (lb_pb l pb) = i" by simp
  note removed = filter_playbooks_refines[OF assms, of i]
  show ?thesis
    using removed refines_close[OF removed, of True]
    by (auto simp: deletePlaybook_done_def Let_def i split: option.split simp del: menu_step.simps)
qed

lemma set_workflows_spec:
  assumes "library_ok l" "find_playbook i l = Some a" "set ws \<subseteq> set (po_workflows (lb_pb l a))"
    "map (\<lambda>w. label_of (lb_wf l w)) ws = f (map (\<lambda>w. label_of (lb_wf l w)) (po_workflows (lb_pb l a)))"
  shows "library_ok (set_workflows a ws l)"
    "menu_of (set_workflows a ws l) = update_first (\<lambda>e. fst e = i) (\<lambda>(i, n, ws). (i, n, f ws)) (menu_of l)"
proof -
  show "library_ok (set_workflows a ws l)"
    using assms(1,3) by (auto simp: library_ok_def allocated_def set_workflows_def)
  show "menu_of (set_workflows a ws l) = update_first (\<lambda>e. fst e = i) (\<lambda>(i, n, ws). (i, n, f ws)) (menu_of l)"
    by (rule menu_update_first[OF assms(1,2)]) (simp_all add: set_workflows_def entry_of_def assms(4))
qed

lemma deleteWorkflow_refines:
  assumes "library_ok l"
  shows "refines l (MenuRemoveWorkflow (po_id (lb_pb l pb)) (wf_id (lb_wf l w))) (deleteWorkflow_done pb w (Inr u) l)"
proof (cases "find_playbook (po_id (lb_pb l pb)) l")
  case None
  then have "find_entry (po_id (lb_pb l pb)) (menu_of l) = None"
    by (simp add: find_entry_def menu_of_def find_map_key comp_def find_playbook_entry)
  then show ?thesis using None assms by (simp add: deleteWorkflow_done_def Let_def refines_def)
next
  case (Some a)
  let ?i = "po_id (lb_pb l pb)" and ?wi = "wf_id (lb_wf l w)"
  let ?keep = "\<lambda>(j, n). j \<noteq> ?wi"
  let ?ws = "filter (\<lambda>x. wf_id (lb_wf l x) \<noteq> ?wi) (po_workflows (lb_pb l a))"
  let ?l1 = "set_workflows a ?ws l"
  have find: "find_entry ?i (menu_of l) = Some (entry_of l a)"
    using Some by (simp add: find_entry_def menu_of_def find_map_key comp_def find_playbook_entry)
  have id: "po_id (lb_pb l a) = ?i" using Some by (auto simp: find_playbook_def dest: find_SomeD)
  have labels: "map (\<lambda>x. label_of (lb_wf l x)) ?ws = filter ?keep (map (\<lambda>x. label_of (lb_wf l x)) (po_workflows (lb_pb l a)))"
    by (simp add: filter_map comp_def label_of_def)
  have ws: "(snd (snd (remove_label ?wi (entry_of l a))) = []) = (?ws = [])"
    by (simp add: remove_label_def entry_of_def labels[symmetric])
  have remove: "remove_label ?wi = (\<lambda>(i, n, ws). (i, n, filter ?keep ws))"
    by (simp add: fun_eq_iff remove_label_def)
  have ok1: "library_ok ?l1"
    and menu1: "menu_of ?l1 = update_first (\<lambda>e. fst e = ?i) (remove_label ?wi) (menu_of l)"
    using set_workflows_spec[OF assms Some, where f = "filter ?keep", OF _ labels] by (auto simp: remove)
  obtain ws' where ws': "?ws = ws'" by simp
  have id1: "po_id (lb_pb (set_workflows a ws' l) a) = ?i" by (simp add: set_workflows_def id)
  note removed = filter_playbooks_refines[OF ok1, of ?i]
  have step: "refines l (MenuRemoveWorkflow ?i ?wi)
      (if ws' = [] then (set_workflows a ws' l)\<lparr>lb_playbooks := filter (\<lambda>x. po_id (lb_pb (set_workflows a ws' l) x) \<noteq> ?i)
          (lb_playbooks (set_workflows a ws' l))\<rparr> else set_workflows a ws' l)"
    using removed ok1 menu1 ws by (cases "ws' = []") (simp_all add: refines_def find ws')
  show ?thesis
    using step refines_close[OF step, of True] id1
    by (cases "ws' = []") (simp_all add: deleteWorkflow_done_def Some ws' Let_def del: menu_step.simps)
qed

lemma save_in_existing:
  assumes "library_ok l" "lb_playbook l = Some pb" "listed pb l" "alloc_workflow w l = (a, l1)"
  shows "refines l (if has_workflow pb (wf_id w) l then MenuSame else MenuAddWorkflow (po_id (lb_pb l pb)) (label_of w))
           (saved_in pb a l1)"
proof -
  note one = alloc_workflow_spec[OF assms(4)]
  note ext = extends_ok[OF one(1) assms(1)] extends_menu[OF one(1) assms(1)]
  have alloc: "allocated l pb" using assms(1,2) by (simp add: library_ok_def)
  have pb: "lb_pb l1 pb = lb_pb l pb" using one(1) alloc by (simp add: extends_def allocated_def)
  have same: "has_workflow pb (wf_id w) l1 = has_workflow pb (wf_id w) l"
    using one(1) alloc by (auto simp: has_workflow_def list_ex_iff extends_def allocated_def)
  have listed: "listed pb l1"
  proof -
    have "find_playbook i l1 = find_playbook i l" for i
    proof -
      have "List.find (\<lambda>a. po_id (lb_pb l1 a) = i) (lb_playbooks l) = List.find (\<lambda>a. po_id (lb_pb l a) = i) (lb_playbooks l)"
        by (rule find_cong) (use assms(1) one(1) in \<open>auto simp: library_ok_def extends_def allocated_def\<close>)
      then show ?thesis using one(1) by (simp add: find_playbook_def extends_def)
    qed
    then show ?thesis using assms(3) pb by (simp add: listed_def)
  qed
  let ?set = "\<lambda>l. l\<lparr>lb_workflow := Some a\<rparr>"
  have set: "library_ok (?set l')" "menu_of (?set l') = menu_of l'" if "library_ok l'" "lb_next l' = lb_next l1" for l'
    using that one(2) by (simp_all add: library_ok_def allocated_def menu_of_def)
  have next1: "lb_next (push_workflow pb a l1) = lb_next l1" by (simp add: push_workflow_def set_workflows_def)
  show ?thesis
    using set[of l1] set[OF push_workflow_spec(1)[OF ext(1) listed one(2)]] next1 ext
      push_workflow_spec[OF ext(1) listed one(2)] pb same one(3)
    by (simp add: saved_in_def refines_def)
qed

lemma setup_refines:
  "setup_loaded apis roots l1 = (l2, e) \<Longrightarrow> refines l c l1 \<Longrightarrow> refines l c l2"
  by (simp add: refines_def setup_loaded_menu)

lemma save_refines:
  assumes "library_ok l" "event_ok (SaveAnswer n (Inr ans)) l"
  shows "refines l (change_of (SaveAnswer n (Inr ans)) l) (fst (saveWorkflow_done apis roots n (Inr ans) l))"
proof (cases ans)
  case (CreatedPlaybook p)
  obtain a l1 where a: "alloc_playbook p l = (a, l1)" by fastforce
  let ?l = "push_playbook a (l1\<lparr>lb_playbook := Some a\<rparr>)"
  note added = add_playbook(2)[OF assms(1) a]
  have saved: "refines l (MenuAdd (playbook_entry p)) (saved_in a w ?l)" if "po_workflows (lb_pb ?l a) = w # ws" for w ws
  proof -
    have "allocated ?l a"
      using alloc_playbook_spec(2)[OF a] by (simp add: push_playbook_def sort_playbooks_def allocated_def)
    then have "w < lb_next ?l" using that by (simp add: allocated_def)
    moreover have "has_workflow a (wf_id (lb_wf ?l w)) ?l" using that by (simp add: has_workflow_def)
    ultimately show ?thesis
      using added by (simp add: saved_in_def refines_def library_ok_def allocated_def menu_of_def entry_of_def)
  qed
  have current: "lb_playbook ?l = Some a" by (simp add: push_playbook_def sort_playbooks_def)
  have one: "po_workflows (lb_pb ?l a) \<noteq> []"
    using assms(2) a by (auto simp: CreatedPlaybook alloc_playbook_def push_playbook_def sort_playbooks_def Let_def)
  show ?thesis
    using added saved current one
    by (auto simp: CreatedPlaybook saveWorkflow_done_def receive_saved_def a Let_def
          split: list.split option.split prod.split dest: setup_refines simp del: menu_step.simps)
next
  case (SavedWorkflow w)
  obtain a l1 where a: "alloc_workflow w l = (a, l1)" by fastforce
  note one = alloc_workflow_spec(1)[OF a]
  have l1: "refines l MenuSame l1" using extends_ok[OF one assms(1)] extends_menu[OF one assms(1)] by (simp add: refines_def)
  have pb: "lb_playbook l1 = lb_playbook l" using one by (simp add: extends_def)
  show ?thesis
  proof (cases "lb_playbook l")
    case None
    then show ?thesis using l1 pb by (simp add: SavedWorkflow saveWorkflow_done_def receive_saved_def a)
  next
    case (Some q)
    have "listed q l" using assms(2) by (simp add: SavedWorkflow Some)
    from save_in_existing[OF assms(1) Some this a]
    show ?thesis
      using pb by (auto simp: SavedWorkflow Some saveWorkflow_done_def receive_saved_def a
          split: option.split prod.split dest: setup_refines simp del: menu_step.simps)
  qed
qed

lemma open_refines:
  assumes "refines l c l1" "allocated l1 pb" "w < lb_next l1"
  shows "refines l c (fst (loadWorkflow apis roots pb w l1))"
proof -
  have close: "refines l c (closeWorkflow l1)" using refines_close[OF assms(1), of True] by simp
  have "refines l c ((closeWorkflow l1)\<lparr>lb_playbook := Some pb, lb_workflow := Some w\<rparr>)"
    using close assms(2,3)
    by (auto simp: refines_def library_ok_def allocated_def menu_of_def entry_of_def closeWorkflow_frame)
  then show ?thesis
    using close by (auto simp: loadWorkflow_def Let_def split: prod.split dest: setup_refines)
qed

lemma load_refines:
  assumes "library_ok l" "allocated l pb"
  shows "refines l MenuSame (loadWorkflow_done apis roots pb w r l)"
proof (cases r)
  case (Inr v)
  obtain a l1 where a: "alloc_workflow v l = (a, l1)" by fastforce
  note one = alloc_workflow_spec[OF a]
  have "refines l MenuSame (l1\<lparr>lb_playbook := Some pb, lb_workflow := Some a\<rparr>)"
    using extends_ok[OF one(1) assms(1)] extends_menu[OF one(1) assms(1)] extends_entry[OF one(1) assms(2)] one(2)
    by (auto simp: refines_def library_ok_def allocated_def menu_of_def entry_of_def)
  then show ?thesis
    by (auto simp: loadWorkflow_done_def Inr a Let_def split: option.split prod.split dest: setup_refines)
qed (simp add: loadWorkflow_done_def refines_same assms)

lemma newWorkflow_refines:
  assumes "library_ok l"
  shows "refines l MenuSame (fst (newWorkflow_submit apis roots l))"
proof -
  obtain w l1 where w: "alloc_workflow (new_workflow\<lparr>wf_name := str_or_empty (mo_newWorkflow (lb_modal l))\<rparr>) l = (w, l1)"
    by fastforce
  note one = alloc_workflow_spec[OF w]
  have l1: "refines l MenuSame l1" using extends_ok[OF one(1) assms] extends_menu[OF one(1) assms] by (simp add: refines_def)
  let ?r = "case find_playbook (mo_selectedPlaybookId (lb_modal l1)) l1 of Some a \<Rightarrow> (a, l1)
              | None \<Rightarrow> alloc_new_playbook (mo_newPlaybook (lb_modal l1)) w l1"
  obtain pb l2 where r: "?r = (pb, l2)" by fastforce
  have "refines l MenuSame l2 \<and> allocated l2 pb \<and> w < lb_next l2"
  proof (cases "find_playbook (mo_selectedPlaybookId (lb_modal l1)) l1")
    case None
    have "extends l1 l2 \<and> allocated l2 pb \<and> w < lb_next l2"
      using r None one(2) by (auto simp: alloc_new_playbook_def extends_def allocated_def)
    then show ?thesis
      using l1 extends_ok[of l1 l2] extends_menu[of l1 l2] by (simp add: refines_def)
  next
    case (Some a)
    then show ?thesis
      using r l1 one(2) by (auto simp: refines_def library_ok_def find_playbook_def dest: find_SomeD)
  qed
  then have "refines l MenuSame (fst (loadWorkflow apis roots pb w l2))" by (blast intro: open_refines)
  then show ?thesis
    by (auto simp: newWorkflow_submit_def w r Let_def split: prod.split load_outcome.split option.split)
qed

lemma playbooks_refines:
  assumes "library_ok l"
  shows "refines l (MenuSet (map playbook_entry ps)) (getPlaybooksWithWorkflows_done ps l)"
proof -
  obtain as l1 where as: "alloc_playbooks ps l = (as, l1)" by fastforce
  note spec = alloc_playbooks_spec[OF as]
  have "library_ok l1" using spec extends_ok assms by blast
  then show ?thesis
    using spec by (auto simp: getPlaybooksWithWorkflows_done_def as refines_def library_ok_def allocated_def menu_of_def)
qed

lemma duplicateWorkflow_refines:
  assumes "library_ok l" "listed pb l"
  shows "refines l (MenuAddWorkflow (po_id (lb_pb l pb)) (label_of w)) (duplicateWorkflow_done pb (Inr w) l)"
proof -
  obtain a l1 where a: "alloc_workflow w l = (a, l1)" by fastforce
  note one = alloc_workflow_spec[OF a]
  have same: "lb_playbooks l1 = lb_playbooks l" "lb_pb l1 = lb_pb l"
    using a by (auto simp: alloc_workflow_def)
  have "listed pb l1" using assms(2) by (simp add: listed_def find_playbook_def same)
  from push_workflow_spec[OF extends_ok[OF one(1) assms(1)] this one(2)]
  show ?thesis
    using extends_menu[OF one(1) assms(1)] one(3)
    by (simp add: duplicateWorkflow_done_def a Let_def refines_def same)
qed

text \<open>One lemma per event.\<close>

lemma PlaybooksArrived_refines:
  assumes "library_ok l"
  shows "refines l (change_of (PlaybooksArrived ps) l) (library_step apis roots (PlaybooksArrived ps) l)"
  using playbooks_refines[OF assms(1)] by (simp del: menu_step.simps)

lemma RenameAnswer_refines:
  assumes "library_ok l"
  shows "refines l (change_of (RenameAnswer r) l) (library_step apis roots (RenameAnswer r) l)"
  using rename_refines[OF assms(1)] by (cases r) (simp_all add: rename_done_def refines_same assms(1))

lemma DuplicateAnswer_refines:
  assumes "library_ok l"
  shows "refines l (change_of (DuplicateAnswer pb r) l) (library_step apis roots (DuplicateAnswer pb r) l)"
  using add_playbook(1)[OF assms(1)]
  by (cases r) (auto simp: duplicate_done_def refines_same assms(1) Let_def simp del: menu_step.simps split: prod.split)

lemma DeleteAnswer_refines:
  assumes "library_ok l"
  shows "refines l (change_of (DeleteAnswer pb r) l) (library_step apis roots (DeleteAnswer pb r) l)"
  using delete_refines[OF assms(1)] by (cases r) (simp_all add: deletePlaybook_done_def refines_same assms(1) Let_def)

lemma ImportAnswer_refines:
  assumes "library_ok l"
  shows "refines l (change_of (ImportAnswer r) l) (library_step apis roots (ImportAnswer r) l)"
  using add_playbook(1)[OF assms(1)]
  by (cases r) (auto simp: importPlaybook_done_def refines_same assms(1) Let_def simp del: menu_step.simps
        split: prod.split option.split)

lemma LoadWorkflow_refines:
  assumes "library_ok l" "event_ok (LoadWorkflow pb w) l"
  shows "refines l (change_of (LoadWorkflow pb w) l) (library_step apis roots (LoadWorkflow pb w) l)"
  using open_refines[OF refines_same[OF assms(1)]] assms(2) by simp

lemma LoadAnswer_refines:
  assumes "library_ok l" "event_ok (LoadAnswer pb w r) l"
  shows "refines l (change_of (LoadAnswer pb w r) l) (library_step apis roots (LoadAnswer pb w r) l)"
  using load_refines[OF assms(1)] assms(2) by simp

lemma CloseWorkflow_refines:
  assumes "library_ok l"
  shows "refines l (change_of CloseWorkflow l) (library_step apis roots CloseWorkflow l)"
  using refines_close[OF refines_same[OF assms(1)], of True] by simp

lemma SaveAnswer_refines:
  assumes "library_ok l" "event_ok (SaveAnswer n r) l"
  shows "refines l (change_of (SaveAnswer n r) l) (library_step apis roots (SaveAnswer n r) l)"
  using save_refines[OF assms(1)] assms(2)
  by (cases r) (simp_all add: saveWorkflow_done_def refines_same assms(1) split: option.split)

lemma NewWorkflowSubmit_refines:
  assumes "library_ok l"
  shows "refines l (change_of NewWorkflowSubmit l) (library_step apis roots NewWorkflowSubmit l)"
  using newWorkflow_refines[OF assms(1)] by simp

lemma NewPlaybookAnswer_refines:
  assumes "library_ok l"
  shows "refines l (change_of (NewPlaybookAnswer p) l) (library_step apis roots (NewPlaybookAnswer p) l)"
  using add_playbook(1)[OF assms(1)]
  by (auto simp: duplicateWorkflow_playbook_done_def Let_def simp del: menu_step.simps split: prod.split)

lemma DuplicateWorkflowAnswer_refines:
  assumes "library_ok l" "event_ok (DuplicateWorkflowAnswer pb r) l"
  shows "refines l (change_of (DuplicateWorkflowAnswer pb r) l) (library_step apis roots (DuplicateWorkflowAnswer pb r) l)"
  using duplicateWorkflow_refines[OF assms(1)] assms(2)
  by (cases r) (simp_all add: duplicateWorkflow_done_def duplicateWorkflow_failed_def refines_same assms(1) del: menu_step.simps)

lemma DeleteWorkflowAnswer_refines:
  assumes "library_ok l"
  shows "refines l (change_of (DeleteWorkflowAnswer pb w r) l) (library_step apis roots (DeleteWorkflowAnswer pb w r) l)"
  using deleteWorkflow_refines[OF assms(1)]
  by (cases r) (simp_all add: deleteWorkflow_done_def refines_same assms(1) Let_def)

lemmas event_refines =
  PlaybooksArrived_refines RenameAnswer_refines DuplicateAnswer_refines DeleteAnswer_refines ImportAnswer_refines
  LoadWorkflow_refines LoadAnswer_refines CloseWorkflow_refines SaveAnswer_refines NewWorkflowSubmit_refines
  NewPlaybookAnswer_refines DuplicateWorkflowAnswer_refines DeleteWorkflowAnswer_refines

text \<open>C2. Every answer of the server changes the menu of playbooks and workflows exactly as its
  specification says, errors not at all, and keeps the stores well-formed; this although playbook and
  workflow objects are shared by the list, the editor and the open forms.\<close>

theorem library_refines_menu:
  assumes "library_ok l" "event_ok ev l"
  shows "menu_of (library_step apis roots ev l) = menu_step (change_of ev l) (menu_of l) \<and>
         library_ok (library_step apis roots ev l)"
proof -
  have "refines l (change_of ev l) (library_step apis roots ev l)"
    using assms by (cases ev) (simp_all only: event_refines)
  then show ?thesis by (simp add: refines_def)
qed

definition sample_playbook :: playbook where
  "sample_playbook = \<lparr>pb_id = Val ''p0'', pb_errors = [], pb_name = ''Alerts'', pb_workflows = [sample_workflow]\<rparr>"

theorem library_refines_menu_witness:
  "menu_of (library_step [] [] (ImportAnswer (Inr sample_playbook)) sample_library) =
     [(Val ''p0'', ''Alerts'', [(Val ''w1'', ''flow'')]), (Val ''p1'', ''Main'', [(Val ''w1'', ''flow'')])]"
proof -
  have ok: "library_ok sample_library" by (simp add: library_ok_def allocated_def sample_defs)
  have "menu_step (change_of (ImportAnswer (Inr sample_playbook)) sample_library) (menu_of sample_library) =
     [(Val ''p0'', ''Alerts'', [(Val ''w1'', ''flow'')]), (Val ''p1'', ''Main'', [(Val ''w1'', ''flow'')])]"
    by (simp add: menu_of_def entry_of_def playbook_entry_def label_of_def sample_playbook_def sample_defs
        js_sort_def name_comparator_def entry_name_def)
  then show ?thesis using library_refines_menu[OF ok, of "ImportAnswer (Inr sample_playbook)" "[]" "[]"] by simp
qed

section \<open>Playbooks that are loaded but no longer listed\<close>

text \<open>A playbook whose last workflow is deleted leaves the list. When a new, unsaved workflow of that
  playbook is open, it stays open; saving it then adds it to the removed playbook object, so the menu
  does not show it until the page is reloaded.\<close>

lemma save_into_unlisted:
  assumes "library_ok l" "lb_playbook l = Some pb" "pb \<notin> set (lb_playbooks l)"
  shows "menu_of (fst (saveWorkflow_done apis roots n (Inr (SavedWorkflow v)) l)) = menu_of l"
proof -
  obtain a l1 where a: "alloc_workflow v l = (a, l1)" by fastforce
  note one = alloc_workflow_spec[OF a]
  have menu: "menu_of l1 = menu_of l" by (rule extends_menu[OF one(1) assms(1)])
  have l1: "lb_playbook l1 = Some pb" "pb \<notin> set (lb_playbooks l1)" using one(1) assms(2,3) by (simp_all add: extends_def)
  have "menu_of (push_workflow pb a l1) = menu_of l1"
    using l1(2) by (auto simp: menu_of_def add_workflow_entry)
  moreover have "menu_of (l'\<lparr>lb_workflow := y\<rparr>) = menu_of l'" for l' y by (simp add: menu_of_def)
  ultimately have "menu_of (saved_in pb a l1) = menu_of l" using menu by (simp add: saved_in_def)
  then show ?thesis
    using l1(1) menu
    by (auto simp: saveWorkflow_done_def receive_saved_def a split: prod.split option.split dest: setup_loaded_menu(1))
qed

lemma emptied_playbook_hides_saved_workflow:
  assumes "library_ok l" "listed pb l" "lb_playbook l = Some pb" "lb_workflow l = Some new"
    and "wf_id (lb_wf l new) \<noteq> wf_id (lb_wf l w)"
    and "\<forall>x \<in> set (po_workflows (lb_pb l pb)). wf_id (lb_wf l x) = wf_id (lb_wf l w)"
  shows "lb_workflow (deleteWorkflow_done pb w (Inr ()) l) = Some new \<and>
    menu_of (fst (saveWorkflow_done apis roots n (Inr (SavedWorkflow v)) (deleteWorkflow_done pb w (Inr ()) l))) =
    menu_of (deleteWorkflow_done pb w (Inr ()) l)"
proof -
  let ?l = "deleteWorkflow_done pb w (Inr ()) l"
  have find: "find_playbook (po_id (lb_pb l pb)) l = Some pb" using assms(2) by (simp add: listed_def)
  have none: "filter (\<lambda>x. wf_id (lb_wf l x) \<noteq> wf_id (lb_wf l w)) (po_workflows (lb_pb l pb)) = []"
    using assms(6) by (simp add: filter_empty_conv)
  have "lb_workflow ?l = Some new \<and> lb_playbook ?l = Some pb \<and> pb \<notin> set (lb_playbooks ?l)"
    using assms(3-5) by (simp add: deleteWorkflow_done_def find none Let_def is_loaded_def set_workflows_def lib_toast_def)
  moreover have "library_ok ?l" using deleteWorkflow_refines[OF assms(1)] by (simp add: refines_def)
  ultimately show ?thesis by (blast intro: save_into_unlisted)
qed

text \<open>The callback of a save reads the loaded playbook when the answer arrives: a workflow saved while
  another playbook is opened is added to that other playbook's entry.\<close>

lemma late_answer_goes_to_other_playbook:
  assumes "library_ok l" "lb_playbook l = Some other" "listed other l" "\<not> has_workflow other (wf_id v) l"
  shows "menu_of (library_step apis roots (SaveAnswer n (Inr (SavedWorkflow v))) l) =
    update_first (\<lambda>e. fst e = po_id (lb_pb l other)) (add_label (label_of v)) (menu_of l)"
  using save_refines[OF assms(1), of n "SavedWorkflow v" apis roots] assms(2-4) by (simp add: refines_def)

end
