(* ===== verification/ArgumentEditor.thy ===== *)
theory ArgumentEditor
  imports DeviceModel Samples Utilities
begin

text \<open>
  The form for one argument of an action, condition or transform
  (\<^verbatim>\<open>playbook/playbook.argument.component.ts\<close>): which kind of input is offered, the
  types of the items of an array and of the properties of an object that are kept beside the value,
  and the select boxes for users and roles, whose choices are strings while the argument holds
  numbers.
\<close>

section \<open>State\<close>

record select_config =
  sc_placeholder :: string
  sc_multiple :: bool

record arg_editor =
  pe_argument :: argument
  pe_parameterApi :: "parameter_api option"
  pe_devices :: bool                            \<comment> \<open>whether a list of devices is given\<close>
  pe_workflow :: workflow
  pe_users :: "user list"
  pe_roles :: "role list"
  pe_branchCounters :: "(string \<times> string) list"
  pe_valueType :: string
  pe_valueTypes :: "(string \<times> string) list"
  pe_propertyName :: string
  pe_selectedType :: string
  pe_arrayTypes :: "string list"
  pe_objectTypes :: "(string \<times> string) list"
  pe_parameterSchema :: "parameter_schema option"
  pe_selectData :: "(string \<times> string) list"
  pe_selectConfig :: "select_config option"
  pe_selectInitialValue :: jsval

definition open_argument ::
  "argument \<Rightarrow> parameter_api option \<Rightarrow> bool \<Rightarrow> workflow \<Rightarrow> user list \<Rightarrow> role list \<Rightarrow> arg_editor" where
  "open_argument a p devices w us rs =
     \<lparr>pe_argument = a, pe_parameterApi = p, pe_devices = devices, pe_workflow = w, pe_users = us, pe_roles = rs,
      pe_branchCounters = [], pe_valueType = ''static'', pe_valueTypes = [], pe_propertyName = [],
      pe_selectedType = [], pe_arrayTypes = [], pe_objectTypes = [], pe_parameterSchema = None,
      pe_selectData = [], pe_selectConfig = None, pe_selectInitialValue = JUndef\<rparr>"

section \<open>What the form shows\<close>

definition isDeviceArgument :: "arg_editor \<Rightarrow> bool" where
  "isDeviceArgument s = (pe_devices s \<and> pe_parameterApi s = None)"

definition selects :: "string \<Rightarrow> arg_editor \<Rightarrow> bool" where
  "selects t s = (case pe_parameterSchema s of None \<Rightarrow> False
     | Some sch \<Rightarrow> ps_type sch = t \<or> (ps_type sch = ''array'' \<and> ps_items sch = OneItem t))"

definition isUserSelect :: "arg_editor \<Rightarrow> bool" where "isUserSelect s = selects ''user'' s"
definition isRoleSelect :: "arg_editor \<Rightarrow> bool" where "isRoleSelect s = selects ''role'' s"

definition isReference :: "arg_editor \<Rightarrow> bool" where
  "isReference s = (pe_valueType s \<notin> {''static'', ''device'', ''branch'', ''variable''})"

definition isStatic :: "arg_editor \<Rightarrow> bool" where
  "isStatic s = (pe_valueType s = ''static'')"

definition isActionSelect :: "arg_editor \<Rightarrow> bool" where
  "isActionSelect s = (pe_valueType s = ''action'')"

definition isVariableSelect :: "arg_editor \<Rightarrow> bool" where
  "isVariableSelect s = (pe_valueType s = ''variable'')"

definition isDeviceSelect :: "arg_editor \<Rightarrow> bool" where
  "isDeviceSelect s = (pe_valueType s = ''device'')"

definition isBranchCounterSelect :: "arg_editor \<Rightarrow> bool" where
  "isBranchCounterSelect s = (pe_valueType s = ''branch'')"

definition static_schema :: "(parameter_schema \<Rightarrow> bool) \<Rightarrow> arg_editor \<Rightarrow> bool" where
  "static_schema P s = (isStatic s \<and> (case pe_parameterSchema s of None \<Rightarrow> False | Some sch \<Rightarrow> P sch))"

definition has_enum :: "parameter_schema \<Rightarrow> bool" where
  "has_enum sch = (\<not> is_nullish (ps_enum sch))"

definition isStringSelect :: "arg_editor \<Rightarrow> bool" where
  "isStringSelect = static_schema (\<lambda>sch. ps_type sch = ''string'' \<and> \<not> has_enum sch)"

definition isNumberSelect :: "arg_editor \<Rightarrow> bool" where
  "isNumberSelect = static_schema (\<lambda>sch. ps_type sch = ''number'' \<or> ps_type sch = ''integer'')"

definition isEnumSelect :: "arg_editor \<Rightarrow> bool" where
  "isEnumSelect = static_schema has_enum"

definition isBooleanSelect :: "arg_editor \<Rightarrow> bool" where
  "isBooleanSelect = static_schema (\<lambda>sch. ps_type sch = ''boolean'')"

text \<open>\<open>isNormalArray\<close>: the \<open>return false\<close> for a list of item types is inside a
  \<open>forEach\<close> callback and has no effect.\<close>

definition isNormalArray :: "parameter_schema \<Rightarrow> bool" where
  "isNormalArray sch =
     (ps_type sch = ''array'' \<and>
      (case ps_items sch of
         ManyItems ts \<Rightarrow> True
       | OneItem t \<Rightarrow> \<not> (t = ''user'' \<or> t = ''role'')
       | NoItems \<Rightarrow> True))"

section \<open>Initialisation\<close>

text \<open>The items the compiled loop visits (it reads \<open>length\<close> and indexes), and the own
  enumerable properties.\<close>

fun loop_items :: "jsval \<Rightarrow> jsval list" where
  "loop_items (JArr vs) = vs"
| "loop_items (JStr s) = map (\<lambda>c. JStr [c]) s"
| "loop_items _ = []"

fun own_properties :: "jsval \<Rightarrow> (string \<times> jsval) list" where
  "own_properties (JObj ob) = map (\<lambda>k. (k, obj_read ob k)) (obj_keys ob)"
| "own_properties (JArr vs) = map (\<lambda>i. (nat_to_string i, vs ! i)) [0 ..< length vs]"
| "own_properties (JStr s) = map (\<lambda>i. (nat_to_string i, JStr [s ! i])) [0 ..< length s]"
| "own_properties _ = []"

definition initParameterSchema :: "arg_editor \<Rightarrow> arg_editor result" where
  "initParameterSchema s =
     (if isDeviceArgument s then Inr s
      else bind_result (deref (pe_parameterApi s)) (\<lambda>p.
        let sch = pa_schema p; a = pe_argument s; v = arg_value a;
            a1 = (if is_nullish (arg_reference a) then a\<lparr>arg_reference := Val []\<rparr> else a);
            s1 = s\<lparr>pe_parameterSchema := Some sch, pe_argument := a1\<rparr>
        in Inr
          (if nullish v then
             (if ps_type sch = ''array'' then s1\<lparr>pe_argument := a1\<lparr>arg_value := JArr []\<rparr>\<rparr>
              else if ps_type sch = ''object'' then s1\<lparr>pe_argument := a1\<lparr>arg_value := JObj []\<rparr>\<rparr>
              else s1)
           else if truthy v \<and> ps_type sch = ''array'' then
             s1\<lparr>pe_arrayTypes := pe_arrayTypes s @ map typeof (loop_items v)\<rparr>
           else if truthy v \<and> ps_type sch = ''object'' then
             s1\<lparr>pe_objectTypes := foldl (\<lambda>ts (k, x). obj_set k (typeof x) ts) (pe_objectTypes s) (own_properties v)\<rparr>
           else s1)))"

text \<open>The name of the argument is only set for devices; the test reads a getter.\<close>

definition initDeviceSelect :: "arg_editor \<Rightarrow> arg_editor" where
  "initDeviceSelect s =
     (if \<not> isDeviceArgument s then s
      else s\<lparr>pe_argument := (pe_argument s)\<lparr>arg_name := Val ''__device__''\<rparr>\<rparr>)"

definition initBranchCounterSelect :: "arg_editor \<Rightarrow> arg_editor" where
  "initBranchCounterSelect s = s\<lparr>pe_branchCounters := listBranchCounters (pe_workflow s)\<rparr>"

definition offered_types :: "bool \<Rightarrow> (string \<times> string) list" where
  "offered_types device =
     (if device then [(''device'', ''Device''), (''action'', ''Action Output'')]
      else [(''static'', ''Static Value''), (''action'', ''Action Output''),
            (''branch'', ''Branch Counter''), (''variable'', ''Environment Variable'')])"

definition reference_type :: "workflow \<Rightarrow> string \<Rightarrow> string" where
  "reference_type w r =
     (if List.find (\<lambda>a. act_id a = r) (wf_actions w) \<noteq> None then ''action''
      else if List.find (\<lambda>b. br_id b = r) (wf_branches w) \<noteq> None then ''branch''
      else if List.find (\<lambda>v. ev_id v = r) (wf_environment_variables w) \<noteq> None then ''variable''
      else ''static'')"

definition initTypeSelector :: "arg_editor \<Rightarrow> arg_editor" where
  "initTypeSelector s =
     (let r = arg_reference (pe_argument s)
      in s\<lparr>pe_valueTypes := offered_types (isDeviceArgument s),
           pe_valueType :=
             (if isDeviceArgument s \<and> \<not> truthy_str r then ''device''
              else if truthy_str r then reference_type (pe_workflow s) (str_or_empty r)
              else ''static''),
           pe_selectedType := ''string''\<rparr>)"

text \<open>\<open>JSON.parse(JSON.stringify(v))\<close>: \<open>undefined\<close> has no text, and parsing that throws; in
  an array it becomes \<open>null\<close>, in an object the property goes; a number that is not finite becomes
  \<open>null\<close>. \<open>dt\<close> prints a date.\<close>

fun json_image :: "(rat \<Rightarrow> string) \<Rightarrow> jsval \<Rightarrow> jsval" where
  "json_image dt (JNum (Fin x)) = JNum (Fin x)"
| "json_image dt (JNum _) = JNull"
| "json_image dt (JArr vs) = JArr (map (json_image dt) vs)"
| "json_image dt (JObj ob) = JObj (map (\<lambda>(k, v). (k, json_image dt v)) (filter (\<lambda>(_, v). v \<noteq> JUndef) ob))"
| "json_image dt (JMoment t) = JStr (dt t)"
| "json_image dt JUndef = JNull"
| "json_image dt v = v"

definition json_copy :: "(rat \<Rightarrow> string) \<Rightarrow> jsval \<Rightarrow> jsval result" where
  "json_copy dt v =
     (if v = JUndef then Inl (ErrorMsg ''Unexpected token u in JSON at position 0'') else Inr (json_image dt v))"

text \<open>\<open>val.toString()\<close>, which throws for \<open>null\<close> and \<open>undefined\<close>.\<close>

definition item_text :: "jsval \<Rightarrow> jsval result" where
  "item_text v = (if nullish v then Inl TypeError else Inr (JStr (to_string v)))"

text \<open>The two select boxes differ in their data and their placeholder.\<close>

definition init_select ::
  "(rat \<Rightarrow> string) \<Rightarrow> string \<Rightarrow> (string \<times> string) list result \<Rightarrow> arg_editor \<Rightarrow> arg_editor result" where
  "init_select dt placeholder choices s =
     bind_result choices (\<lambda>cs.
     bind_result (deref (pe_parameterSchema s)) (\<lambda>sch.
     bind_result (json_copy dt (arg_value (pe_argument s))) (\<lambda>v.
       if ps_type sch = ''array'' then
         bind_result
           (case arg_value (pe_argument s) of JArr vs \<Rightarrow> bind_result (map_result item_text vs) (\<lambda>ts. Inr (JArr ts)) | _ \<Rightarrow> Inr v)
           (\<lambda>initial. Inr (s\<lparr>pe_selectData := cs, pe_selectInitialValue := initial,
               pe_selectConfig := Some \<lparr>sc_placeholder = placeholder @ ''(s)'', sc_multiple = True\<rparr>\<rparr>))
       else Inr (s\<lparr>pe_selectData := cs, pe_selectInitialValue := v,
               pe_selectConfig := Some \<lparr>sc_placeholder = placeholder, sc_multiple = False\<rparr>\<rparr>))))"

fun id_text :: "int nullable \<Rightarrow> string result" where
  "id_text (Val i) = Inr (int_to_string i)"
| "id_text _ = Inl TypeError"

definition user_choices :: "user list \<Rightarrow> (string \<times> string) list result" where
  "user_choices us = map_result (\<lambda>u. bind_result (id_text (usr_id u)) (\<lambda>i. Inr (i, str_or_empty (usr_username u)))) us"

definition role_choices :: "role list \<Rightarrow> (string \<times> string) list result" where
  "role_choices rs = map_result (\<lambda>r. bind_result (id_text (role_id r)) (\<lambda>i. Inr (i, str_or_empty (role_name r)))) rs"

definition initUserSelect :: "(rat \<Rightarrow> string) \<Rightarrow> arg_editor \<Rightarrow> arg_editor result" where
  "initUserSelect dt s = (if \<not> isUserSelect s then Inr s else init_select dt ''Select user'' (user_choices (pe_users s)) s)"

definition initRoleSelect :: "(rat \<Rightarrow> string) \<Rightarrow> arg_editor \<Rightarrow> arg_editor result" where
  "initRoleSelect dt s = (if \<not> isRoleSelect s then Inr s else init_select dt ''Select role'' (role_choices (pe_roles s)) s)"

definition ngOnChanges :: "(rat \<Rightarrow> string) \<Rightarrow> arg_editor \<Rightarrow> arg_editor result" where
  "ngOnChanges dt s =
     bind_result (initParameterSchema s) (\<lambda>s1.
     bind_result (initUserSelect dt (initTypeSelector (initBranchCounterSelect (initDeviceSelect s1))))
       (initRoleSelect dt))"

section \<open>Editing\<close>

definition put_value :: "jsval \<Rightarrow> arg_editor \<Rightarrow> arg_editor" where
  "put_value v s = s\<lparr>pe_argument := (pe_argument s)\<lparr>arg_value := v\<rparr>\<rparr>"

definition clearReference :: "arg_editor \<Rightarrow> arg_editor" where
  "clearReference s = s\<lparr>pe_argument := (pe_argument s)\<lparr>arg_reference := Undefined\<rparr>\<rparr>"

text \<open>\<open>selectChange\<close>; the reference is cleared before anything can throw.\<close>

definition selectChange :: "jsval \<Rightarrow> arg_editor \<Rightarrow> arg_editor \<times> js_error option" where
  "selectChange v s0 =
     (let s = clearReference s0
      in case pe_parameterSchema s of
           None \<Rightarrow> (s, Some TypeError)
         | Some sch \<Rightarrow>
             if ps_type sch = ''array'' then
               (case v of JArr vs \<Rightarrow> (put_value (JArr (map (\<lambda>i. JNum (to_number i)) vs)) s, None) | _ \<Rightarrow> (s, Some TypeError))
             else (put_value (JNum (to_number v)) s, None))"

definition initial_item :: "string \<Rightarrow> jsval option" where
  "initial_item t =
     (if t = ''string'' then Some (JStr []) else if t = ''number'' then Some JNull
      else if t = ''boolean'' then Some (JBool False) else None)"

text \<open>The buttons for items are offered for arrays only, those for properties for objects only; on any
  other value the operation is taken to throw.\<close>

definition on_items ::
  "(jsval list \<Rightarrow> jsval list) \<Rightarrow> (string list \<Rightarrow> string list) \<Rightarrow> arg_editor \<Rightarrow> arg_editor \<times> js_error option" where
  "on_items f g s = (case arg_value (pe_argument s) of
       JArr vs \<Rightarrow> (put_value (JArr (f vs)) (s\<lparr>pe_arrayTypes := g (pe_arrayTypes s)\<rparr>), None)
     | _ \<Rightarrow> (s, Some TypeError))"

definition addItem :: "arg_editor \<Rightarrow> arg_editor \<times> js_error option" where
  "addItem s0 =
     (let s = clearReference s0
      in case initial_item (pe_selectedType s) of
           None \<Rightarrow> (s, None)
         | Some v \<Rightarrow> on_items (\<lambda>vs. vs @ [v]) (\<lambda>ts. ts @ [pe_selectedType s]) s)"

definition argument_moveUp :: "int \<Rightarrow> arg_editor \<Rightarrow> arg_editor \<times> js_error option" where
  "argument_moveUp index = on_items (\<lambda>vs. js_swap JUndef vs index (index - 1)) (\<lambda>ts. js_swap ''undefined'' ts index (index - 1))"

definition argument_moveDown :: "int \<Rightarrow> arg_editor \<Rightarrow> arg_editor \<times> js_error option" where
  "argument_moveDown index = on_items (\<lambda>vs. js_swap JUndef vs index (index + 1)) (\<lambda>ts. js_swap ''undefined'' ts index (index + 1))"

definition removeItem :: "int \<Rightarrow> arg_editor \<Rightarrow> arg_editor \<times> js_error option" where
  "removeItem index = on_items (splice1 index) (splice1 index)"

text \<open>\<open>addProperty\<close>: the name is tested before it is trimmed, and used afterwards.\<close>

definition addProperty :: "arg_editor \<Rightarrow> arg_editor \<times> js_error option" where
  "addProperty s0 =
     (let s = clearReference s0
      in case arg_value (pe_argument s) of
           JObj ob \<Rightarrow>
             if obj_get ob (pe_propertyName s) \<noteq> None then (s, None)
             else (let n = trim (pe_propertyName s); s1 = s\<lparr>pe_propertyName := n\<rparr>
                   in case initial_item (pe_selectedType s) of
                        None \<Rightarrow> (s1, None)
                      | Some v \<Rightarrow> (put_value (JObj (obj_set n v ob))
                          (s1\<lparr>pe_objectTypes := obj_set n (pe_selectedType s) (pe_objectTypes s), pe_propertyName := []\<rparr>), None))
         | _ \<Rightarrow> (s, Some TypeError))"

definition removeProperty :: "string \<Rightarrow> arg_editor \<Rightarrow> arg_editor \<times> js_error option" where
  "removeProperty k s =
     (case arg_value (pe_argument s) of
        JObj ob \<Rightarrow> (put_value (JObj (obj_del k ob)) (s\<lparr>pe_objectTypes := obj_del k (pe_objectTypes s)\<rparr>), None)
      | _ \<Rightarrow> (s, Some TypeError))"

definition getPreviousActions :: "arg_editor \<Rightarrow> action list" where
  "getPreviousActions s = wf_actions (pe_workflow s)"

section \<open>The types beside the value\<close>

text \<open>A new number item is \<open>null\<close> until it is filled in.\<close>

definition agrees :: "string \<Rightarrow> jsval \<Rightarrow> bool" where
  "agrees t v \<longleftrightarrow> t = typeof v \<or> (t = ''number'' \<and> v = JNull)"

definition array_ok :: "arg_editor \<Rightarrow> bool" where
  "array_ok s = (case arg_value (pe_argument s) of JArr vs \<Rightarrow> list_all2 agrees (pe_arrayTypes s) vs | _ \<Rightarrow> False)"

datatype item_edit = AddItem string | MoveUp nat | MoveDown nat | RemoveItem nat

definition item_count :: "arg_editor \<Rightarrow> nat" where
  "item_count s = (case arg_value (pe_argument s) of JArr vs \<Rightarrow> length vs | _ \<Rightarrow> 0)"

text \<open>What the template offers: a type to choose for a new item, no \<open>up\<close> on the first item, no
  \<open>down\<close> on the last.\<close>

fun offered :: "item_edit \<Rightarrow> arg_editor \<Rightarrow> bool" where
  "offered (AddItem t) s = True"
| "offered (MoveUp i) s = (0 < i \<and> i < item_count s)"
| "offered (MoveDown i) s = (Suc i < item_count s)"
| "offered (RemoveItem i) s = (i < item_count s)"

fun array_edit :: "item_edit \<Rightarrow> arg_editor \<Rightarrow> arg_editor \<times> js_error option" where
  "array_edit (AddItem t) s = addItem (s\<lparr>pe_selectedType := t\<rparr>)"
| "array_edit (MoveUp i) s = argument_moveUp (int i) s"
| "array_edit (MoveDown i) s = argument_moveDown (int i) s"
| "array_edit (RemoveItem i) s = removeItem (int i) s"

definition array_step :: "arg_editor \<Rightarrow> item_edit \<Rightarrow> arg_editor" where
  "array_step s e = (if offered e s then fst (array_edit e s) else s)"

lemma agrees_swap:
  assumes "list_all2 agrees ts vs" "i < length vs" "j < length vs"
  shows "list_all2 agrees (js_swap ''undefined'' ts (int i) (int j)) (js_swap JUndef vs (int i) (int j))"
proof -
  have n: "length ts = length vs" using assms(1) by (rule list_all2_lengthD)
  have "agrees (ts ! k) (vs ! k)" if "k < length vs" for k
    using list_all2_nthD2[OF assms(1)] that by simp
  then show ?thesis
    using assms(2,3) n by (simp add: js_swap_in_range list_all2_conv_all_nth nth_list_update)
qed

lemma agrees_splice: "list_all2 agrees ts vs \<Longrightarrow> i < length vs \<Longrightarrow> list_all2 agrees (splice1 (int i) ts) (splice1 (int i) vs)"
  by (simp add: splice1_in_range list_all2_lengthD list_all2_appendI list_all2_takeI list_all2_dropI)

lemma array_ok_swap:
  assumes "array_ok s" "i < item_count s" "j < item_count s"
  shows "array_ok (fst (on_items (\<lambda>vs. js_swap JUndef vs (int i) (int j)) (\<lambda>ts. js_swap ''undefined'' ts (int i) (int j)) s))"
  using assms by (auto simp: array_ok_def item_count_def on_items_def put_value_def agrees_swap split: jsval.splits)

lemma array_ok_edit:
  assumes "array_ok s" "offered e s"
  shows "array_ok (fst (array_edit e s)) \<and> snd (array_edit e s) = None"
proof -
  obtain vs where vs: "arg_value (pe_argument s) = JArr vs" and n: "item_count s = length vs"
    using assms(1) by (auto simp: array_ok_def item_count_def split: jsval.splits)
  show ?thesis
  proof (cases e)
    case (AddItem t)
    then show ?thesis
      using assms(1) vs
      by (auto simp: addItem_def Let_def initial_item_def on_items_def array_ok_def clearReference_def put_value_def
          agrees_def intro: list_all2_appendI)
  next
    case (MoveUp i)
    then have i: "i < item_count s" "i - 1 < item_count s" "int i - 1 = int (i - 1)" using assms(2) by auto
    show ?thesis
      using array_ok_swap[OF assms(1) i(1,2)] vs by (simp add: MoveUp argument_moveUp_def i(3) on_items_def)
  next
    case (MoveDown i)
    then have i: "i < item_count s" "Suc i < item_count s" "int i + 1 = int (Suc i)" using assms(2) by auto
    show ?thesis
      using array_ok_swap[OF assms(1) i(1,2)] vs by (simp add: MoveDown argument_moveDown_def i(3) on_items_def)
  next
    case (RemoveItem i)
    then show ?thesis
      using assms vs n by (simp add: removeItem_def on_items_def array_ok_def put_value_def agrees_splice)
  qed
qed

text \<open>C27. Whatever is added, moved and removed with the buttons that are offered, every item of an array
  keeps the input for its own type, and no handler throws.\<close>

theorem array_types_agree:
  assumes "array_ok s"
  shows "array_ok (foldl array_step s es) \<and>
    (offered e (foldl array_step s es) \<longrightarrow> snd (array_edit e (foldl array_step s es)) = None)"
proof -
  have "array_ok (foldl array_step s es)"
    using assms by (induction es arbitrary: s) (simp_all add: array_step_def array_ok_edit)
  then show ?thesis by (simp add: array_ok_edit)
qed

definition sample_array_editor :: arg_editor where
  "sample_array_editor = (open_argument (new_argument\<lparr>arg_value := JArr [JStr ''x'', JNull]\<rparr>) None False new_workflow [] [])
     \<lparr>pe_arrayTypes := [''string'', ''number'']\<rparr>"

theorem array_types_agree_witness:
  "array_ok sample_array_editor \<and>
   array_ok (foldl array_step sample_array_editor [AddItem ''boolean'', MoveUp 2, RemoveItem 0]) \<and>
   snd (array_edit (MoveDown 0) (foldl array_step sample_array_editor [AddItem ''boolean'', MoveUp 2, RemoveItem 0])) = None"
proof -
  have ok: "array_ok sample_array_editor"
    by (simp add: array_ok_def sample_array_editor_def open_argument_def agrees_def)
  have "offered (MoveDown 0) (foldl array_step sample_array_editor [AddItem ''boolean'', MoveUp 2, RemoveItem 0])"
    by (simp add: array_step_def sample_array_editor_def open_argument_def item_count_def addItem_def initial_item_def
        on_items_def clearReference_def put_value_def argument_moveUp_def removeItem_def js_swap_def js_get_def
        js_set_def splice1_def Let_def)
  with array_types_agree[OF ok, of "[AddItem ''boolean'', MoveUp 2, RemoveItem 0]" "MoveDown 0"] ok
  show ?thesis by simp
qed

text \<open>The lists of types are never reset: when the inputs of the form change again, the types of all
  items are appended once more, and a new item then takes the input of the first one.\<close>

lemma second_change_repeats_types:
  assumes "initParameterSchema s = Inr s1" "initParameterSchema s1 = Inr s2" "pe_arrayTypes s = []"
    and "\<not> isDeviceArgument s" "pe_parameterApi s = Some p" "ps_type (pa_schema p) = ''array''"
    and "arg_value (pe_argument s) = JArr vs"
  shows "pe_arrayTypes s1 = map typeof vs \<and> pe_arrayTypes s2 = map typeof vs @ map typeof vs"
  using assms by (auto simp: initParameterSchema_def isDeviceArgument_def Let_def split: if_splits)

section \<open>Properties of an object\<close>

definition object_ok :: "arg_editor \<Rightarrow> bool" where
  "object_ok s = (case arg_value (pe_argument s) of
     JObj ob \<Rightarrow> distinct (map fst ob) \<and> distinct (map fst (pe_objectTypes s)) \<and>
       fst ` set (pe_objectTypes s) = fst ` set ob \<and>
       list_all (\<lambda>(k, v). \<exists>t. obj_get (pe_objectTypes s) k = Some t \<and> agrees t v) ob
   | _ \<Rightarrow> False)"

lemma keys_obj_set: "fst ` set (obj_set k v ob) = insert k (fst ` set ob)"
proof -
  have "set (map fst (obj_set k v ob)) = insert k (set (map fst ob))"
    by (simp only: map_fst_obj_set) auto
  then show ?thesis by simp
qed

lemma in_obj_set: "distinct (map fst ob) \<Longrightarrow> (q, x) \<in> set (obj_set k v ob) \<Longrightarrow> (q = k \<and> x = v) \<or> (q \<noteq> k \<and> (q, x) \<in> set ob)"
  by (induction ob) (auto split: if_splits simp: image_iff, (metis fst_conv)+)

lemma distinct_obj_del: "distinct (map fst ob) \<Longrightarrow> distinct (map fst (obj_del k ob))"
  by (simp add: obj_del_def distinct_map_filter)

lemma keys_obj_del: "fst ` set (obj_del k ob) = fst ` set ob - {k}"
  by (force simp: obj_del_def)

lemma object_ok_add:
  assumes "object_ok s"
  shows "object_ok (fst (addProperty s)) \<and> snd (addProperty s) = None"
proof -
  obtain ob where ob: "arg_value (pe_argument s) = JObj ob" "distinct (map fst ob)" "distinct (map fst (pe_objectTypes s))"
    "fst ` set (pe_objectTypes s) = fst ` set ob"
    and ty: "\<And>k v. (k, v) \<in> set ob \<Longrightarrow> \<exists>t. obj_get (pe_objectTypes s) k = Some t \<and> agrees t v"
    using assms by (simp add: object_ok_def list_all_iff split: jsval.splits) blast
  let ?n = "trim (pe_propertyName s)"
  have added: "object_ok (put_value (JObj (obj_set ?n v ob)) (s'\<lparr>pe_objectTypes := obj_set ?n t (pe_objectTypes s), pe_propertyName := []\<rparr>))"
    if "agrees t v" for s' t v
    using ob ty that
    by (auto simp: object_ok_def put_value_def keys_obj_set list_all_iff dest!: in_obj_set)
  have frame: "object_ok (clearReference s)" "object_ok ((clearReference s)\<lparr>pe_propertyName := ?n\<rparr>)"
    using assms by (simp_all add: object_ok_def clearReference_def split: jsval.splits)
  have same: "arg_value (pe_argument (clearReference s)) = JObj ob" "pe_propertyName (clearReference s) = pe_propertyName s"
    "pe_selectedType (clearReference s) = pe_selectedType s" "pe_objectTypes (clearReference s) = pe_objectTypes s"
    by (simp_all add: clearReference_def ob)
  have initial: "agrees (pe_selectedType s) v" if "initial_item (pe_selectedType s) = Some v" for v
    using that by (auto simp: initial_item_def agrees_def split: if_splits)
  show ?thesis
    using frame added[OF initial] by (simp add: addProperty_def Let_def same split: option.split)
qed

lemma object_ok_remove:
  assumes "object_ok s"
  shows "object_ok (fst (removeProperty k s)) \<and> snd (removeProperty k s) = None"
  using assms
  by (auto simp: object_ok_def removeProperty_def put_value_def list_all_iff distinct_obj_del keys_obj_del
      split: jsval.splits) (auto simp: obj_del_def)

text \<open>C28. Adding and removing properties keeps exactly one input, of the right type, for every property
  of the object; a removed property is gone, and a new one whose name is trimmed and unused leaves the
  others as they were.\<close>

theorem object_types_agree:
  assumes "object_ok s" and "arg_value (pe_argument s) = JObj ob"
  shows "object_ok (fst (addProperty s)) \<and> object_ok (fst (removeProperty k s)) \<and>
    (\<exists>ob'. arg_value (pe_argument (fst (removeProperty k s))) = JObj ob' \<and>
       (\<forall>q. obj_get ob' q = (if q = k then None else obj_get ob q))) \<and>
    (trim (pe_propertyName s) = pe_propertyName s \<longrightarrow>
      (\<exists>ob'. arg_value (pe_argument (fst (addProperty s))) = JObj ob' \<and>
         (\<forall>q v. obj_get ob q = Some v \<longrightarrow> obj_get ob' q = Some v)))"
proof -
  have "\<exists>ob'. arg_value (pe_argument (fst (addProperty s))) = JObj ob' \<and>
      (\<forall>q v. obj_get ob q = Some v \<longrightarrow> obj_get ob' q = Some v)"
    if "trim (pe_propertyName s) = pe_propertyName s"
    using assms(2) that by (auto simp: addProperty_def clearReference_def put_value_def Let_def initial_item_def)
  moreover have "arg_value (pe_argument (fst (removeProperty k s))) = JObj (obj_del k ob)"
    using assms(2) by (simp add: removeProperty_def put_value_def)
  ultimately show ?thesis using object_ok_add[OF assms(1)] object_ok_remove[OF assms(1)] by simp
qed

definition sample_object_editor :: arg_editor where
  "sample_object_editor = (open_argument (new_argument\<lparr>arg_value := JObj [(''a'', JStr ''x'')]\<rparr>) None False new_workflow [] [])
     \<lparr>pe_objectTypes := [(''a'', ''string'')], pe_propertyName := ''b'', pe_selectedType := ''number''\<rparr>"

theorem object_types_agree_witness:
  "object_ok sample_object_editor \<and> object_ok (fst (addProperty sample_object_editor)) \<and>
   object_ok (fst (removeProperty ''a'' sample_object_editor))"
proof -
  have ok: "object_ok sample_object_editor"
    by (simp add: object_ok_def sample_object_editor_def open_argument_def agrees_def obj_get_def)
  have "arg_value (pe_argument sample_object_editor) = JObj [(''a'', JStr ''x'')]"
    by (simp add: sample_object_editor_def open_argument_def)
  from object_types_agree[OF ok this, of "''a''"] ok show ?thesis by simp
qed

text \<open>The test for an existing property reads the name before it is trimmed: a name with blanks around
  that of an existing property replaces its value.\<close>

lemma padded_name_overwrites:
  assumes "arg_value (pe_argument s) = JObj ob" "obj_get ob (trim (pe_propertyName s)) = Some (JStr v)"
    and "obj_get ob (pe_propertyName s) = None" "pe_selectedType s = ''string''"
  shows "\<exists>ob'. arg_value (pe_argument (fst (addProperty s))) = JObj ob' \<and> obj_get ob' (trim (pe_propertyName s)) = Some (JStr [])"
  using assms by (simp add: addProperty_def clearReference_def put_value_def Let_def initial_item_def)

section \<open>Kinds of values and select boxes\<close>

text \<open>The kind of value shown is one of those offered, except for a device argument whose reference
  is no action; for any other argument a non-empty reference is shown as an action output exactly when it
  is an action of the workflow, and an argument without reference as a static value.\<close>

theorem initTypeSelector_spec:
  "let s' = initTypeSelector s; r = arg_reference (pe_argument s)
   in (pe_valueType s' \<in> set (map fst (pe_valueTypes s')) \<or>
       (isDeviceArgument s \<and> truthy_str r \<and> str_or_empty r \<notin> act_id ` set (wf_actions (pe_workflow s)))) \<and>
      (pe_valueType s' = ''action'') =
        (truthy_str r \<and> str_or_empty r \<in> act_id ` set (wf_actions (pe_workflow s))) \<and>
      (pe_valueType s' = ''device'') = (isDeviceArgument s \<and> \<not> truthy_str r)"
  using find_None_iff_key[of act_id "str_or_empty (arg_reference (pe_argument s))" "wf_actions (pe_workflow s)"]
  by (auto simp: initTypeSelector_def offered_types_def reference_type_def Let_def simp del: truthy_str_iff
      split: if_splits)

lemma item_texts: "map_result item_text (map (\<lambda>n. JNum (Fin (of_nat n))) ns) = Inr (map (\<lambda>n. JStr (nat_to_string n)) ns)"
  by (induction ns) (simp_all add: item_text_def bind_result_def del: number_to_string.simps)

text \<open>The select box for users shows the identifiers an argument holds as text, and choosing just
  these again gives the argument the same numbers.\<close>

theorem user_select_roundtrip:
  assumes "isUserSelect s" "initUserSelect dt s = Inr s'" "pe_parameterSchema s = Some sch" "ps_type sch = ''array''"
    and "arg_value (pe_argument s) = JArr (map (\<lambda>n. JNum (Fin (of_nat n))) ns)"
  shows "pe_selectInitialValue s' = JArr (map (\<lambda>n. JStr (nat_to_string n)) ns) \<and>
    arg_value (pe_argument (fst (selectChange (pe_selectInitialValue s') s'))) = arg_value (pe_argument s) \<and>
    arg_reference (pe_argument (fst (selectChange (pe_selectInitialValue s') s'))) = Undefined"
proof -
  have s': "pe_selectInitialValue s' = JArr (map (\<lambda>n. JStr (nat_to_string n)) ns)"
    "pe_parameterSchema s' = Some sch" "pe_argument s' = pe_argument s"
    using assms by (auto simp: initUserSelect_def init_select_def bind_result_Inr_iff json_copy_def item_texts)
  then show ?thesis
    using assms(4,5) by (simp add: selectChange_def clearReference_def put_value_def comp_def)
qed

lemma user_select_succeeds:
  assumes "isUserSelect s" "pe_parameterSchema s = Some sch" "user_choices (pe_users s) = Inr cs"
    and "arg_value (pe_argument s) = JArr (map (\<lambda>n. JNum (Fin (of_nat n))) ns)"
  shows "\<exists>s'. initUserSelect dt s = Inr s'"
  using assms by (simp add: initUserSelect_def init_select_def json_copy_def bind_result_def item_texts)

text \<open>The bounds of a number field, as in the form of a device.\<close>

definition argument_getMin :: "parameter_schema \<Rightarrow> rat option" where
  "argument_getMin s = (case ps_minimum s of
      Undefined \<Rightarrow> None
    | Null \<Rightarrow> if ps_exclusiveMinimum s then Some 1 else None
    | Val x \<Rightarrow> Some (if ps_exclusiveMinimum s then x + 1 else x))"

definition argument_getMax :: "parameter_schema \<Rightarrow> rat option" where
  "argument_getMax s = (case ps_maximum s of
      Undefined \<Rightarrow> None
    | Null \<Rightarrow> if ps_exclusiveMaximum s then Some (- 1) else None
    | Val x \<Rightarrow> Some (if ps_exclusiveMaximum s then x - 1 else x))"

text \<open>A user argument without a value (a reference was saved, which removes the value) makes the
  initialisation of its form throw.\<close>

lemma missing_value_breaks_select:
  assumes "isUserSelect s" "arg_value (pe_argument s) = JUndef" "user_choices (pe_users s) = Inr cs"
  shows "\<exists>m. initUserSelect dt s = Inl (ErrorMsg m)"
proof -
  obtain sch where "pe_parameterSchema s = Some sch" using assms(1) by (auto simp: isUserSelect_def selects_def split: option.splits)
  with assms show ?thesis by (simp add: initUserSelect_def init_select_def bind_result_def json_copy_def)
qed

definition sample_user_editor :: arg_editor where
  "sample_user_editor = (open_argument (new_argument\<lparr>arg_value := JArr (map (\<lambda>n. JNum (Fin (of_nat n))) [3, 12])\<rparr>) None False new_workflow [] [])
     \<lparr>pe_parameterSchema := Some ((plain_schema ''array'')\<lparr>ps_items := OneItem ''user''\<rparr>)\<rparr>"

theorem user_select_roundtrip_witness:
  "\<exists>s'. initUserSelect (\<lambda>_. []) sample_user_editor = Inr s' \<and>
     arg_value (pe_argument (fst (selectChange (pe_selectInitialValue s') s'))) =
       JArr (map (\<lambda>n. JNum (Fin (of_nat n))) [3, 12])"
proof -
  have u: "isUserSelect sample_user_editor"
    by (simp add: isUserSelect_def selects_def sample_user_editor_def plain_schema_def)
  have v: "arg_value (pe_argument sample_user_editor) = JArr (map (\<lambda>n. JNum (Fin (of_nat n))) [3, 12])"
    by (simp add: sample_user_editor_def open_argument_def)
  have sch: "pe_parameterSchema sample_user_editor = Some ((plain_schema ''array'')\<lparr>ps_items := OneItem ''user''\<rparr>)"
    by (simp add: sample_user_editor_def)
  obtain s' where s': "initUserSelect (\<lambda>_. []) sample_user_editor = Inr s'"
    using user_select_succeeds[OF u sch _ v] by (auto simp: user_choices_def sample_user_editor_def open_argument_def)
  from user_select_roundtrip[OF u s' sch _ v] s' v show ?thesis by (auto simp: plain_schema_def)
qed

end
