(* ===== verification/EventStreams.thy ===== *)
theory EventStreams
  imports ExecutionView
begin

text \<open>
  The event streams of the pages and the requests that start and steer executions
  (\<^verbatim>\<open>getActionStatusSSE\<close>, \<^verbatim>\<open>getConsoleSSE\<close>, \<^verbatim>\<open>getWorkflowStatusSSE\<close>,
  \<^verbatim>\<open>getNotificationsSSE\<close> and \<^verbatim>\<open>ngOnDestroy\<close> of the pages,
  \<^verbatim>\<open>execution/execution.service.ts\<close>).

  A page keeps the last stream it opened in a field. Opening one takes two steps: the current stream is
  closed when it is asked for, the new one is created when the access token has arrived. What the two
  steps promise together depends on what happens between them.
\<close>

section \<open>Requests of the execution service\<close>

datatype execution_body = QueueWorkflow "string nullable" "environment_variable list option" | SetStatus string string

text \<open>Entered variables are sent only when there are any.\<close>

definition addWorkflowToQueue_request ::
  "string nullable \<Rightarrow> environment_variable list \<Rightarrow> execution_body request" where
  "addWorkflowToQueue_request workflow_id vars =
     http POST ''api/workflowqueue'' (Some (QueueWorkflow workflow_id (if 0 < length vars then Some vars else None)))"

definition performWorkflowStatusAction_request :: "string \<Rightarrow> string \<Rightarrow> execution_body request" where
  "performWorkflowStatusAction_request executionId action =
     http PATCH ''api/workflowqueue'' (Some (SetStatus executionId action))"

definition getAllWorkflowStatuses :: "(nat \<Rightarrow> workflow_status list result) \<Rightarrow> workflow_status list result option" where
  "getAllWorkflowStatuses serviceCall = paginateAll serviceCall 1 []"

definition getWorkflowStatuses_request :: "nat \<Rightarrow> execution_body request" where
  "getWorkflowStatuses_request page = http GET (''api/workflowqueue?page='' @ nat_to_string page) None"

definition getWorkflowStatus_request :: "string \<Rightarrow> execution_body request" where
  "getWorkflowStatus_request executionId = http GET (''api/workflowqueue/'' @ executionId) None"

section \<open>A field that holds a stream\<close>

record streams =
  st_current :: "nat option"        \<comment> \<open>the field; it keeps a closed stream\<close>
  st_open :: "(nat \<times> string) list"  \<comment> \<open>the streams that are open, with their addresses\<close>
  st_next :: nat

definition no_streams :: streams where
  "no_streams = \<lparr>st_current = None, st_open = [], st_next = 0\<rparr>"

definition close_current :: "streams \<Rightarrow> streams" where
  "close_current s =
     (case st_current s of None \<Rightarrow> s | Some a \<Rightarrow> s\<lparr>st_open := filter (\<lambda>(b, _). b \<noteq> a) (st_open s)\<rparr>)"

definition open_stream :: "string \<Rightarrow> streams \<Rightarrow> streams" where
  "open_stream url s =
     s\<lparr>st_current := Some (st_next s), st_open := st_open s @ [(st_next s, url)], st_next := Suc (st_next s)\<rparr>"

text \<open>The two steps of each function: when it is called, and when the token has arrived. The two
  streams that are opened once close nothing.\<close>

definition editor_getActionStatusSSE :: "streams \<Rightarrow> streams" where
  "editor_getActionStatusSSE = close_current"

definition editor_getActionStatusSSE_token :: "string \<Rightarrow> string \<Rightarrow> streams \<Rightarrow> streams" where
  "editor_getActionStatusSSE_token executionId token =
     open_stream (''api/streams/workflowqueue/actions?access_token='' @ token @ ''&workflow_execution_id='' @ executionId)"

definition getConsoleSSE :: "streams \<Rightarrow> streams" where
  "getConsoleSSE = close_current"

definition getConsoleSSE_token :: "string \<Rightarrow> string \<Rightarrow> streams \<Rightarrow> streams" where
  "getConsoleSSE_token executionId token =
     open_stream (''api/streams/console/log?access_token='' @ token @ ''&workflow_execution_id='' @ executionId)"

definition getActionStatusSSE :: "streams \<Rightarrow> streams" where
  "getActionStatusSSE = close_current"

definition getActionStatusSSE_token :: "string nullable \<Rightarrow> string \<Rightarrow> streams \<Rightarrow> streams" where
  "getActionStatusSSE_token executionId token =
     open_stream (''api/streams/workflowqueue/actions?summary=true&access_token='' @ token @
       (if truthy_str executionId then ''&workflow_execution_id='' @ template executionId else []))"

definition getWorkflowStatusSSE_token :: "string \<Rightarrow> streams \<Rightarrow> streams" where
  "getWorkflowStatusSSE_token token = open_stream (''api/streams/workflowqueue/workflow_status?access_token='' @ token)"

definition getNotificationsSSE_token :: "string \<Rightarrow> streams \<Rightarrow> streams" where
  "getNotificationsSSE_token token = open_stream (''/api/streams/messages/notifications?access_token='' @ token)"

text \<open>\<open>ngOnDestroy\<close> of the editor, the execution page and the main page closes what their fields
  hold.\<close>

definition editor_ngOnDestroy :: "streams \<times> streams \<Rightarrow> streams \<times> streams" where
  "editor_ngOnDestroy = map_prod close_current close_current"

definition execution_ngOnDestroy :: "streams \<times> streams \<Rightarrow> streams \<times> streams" where
  "execution_ngOnDestroy = map_prod close_current close_current"

definition main_ngOnDestroy :: "streams \<Rightarrow> streams" where
  "main_ngOnDestroy = close_current"

section \<open>Starting an execution from the editor\<close>

text \<open>The answer closes the two streams of the previous execution and asks for those of the new one,
  then names the loaded workflow in its message. With none loaded any more the message throws, and so does
  that of the error handler.\<close>

definition executeWorkflow_done ::
  "(string \<times> string) option \<Rightarrow> string result \<Rightarrow> streams \<times> streams \<Rightarrow> (streams \<times> streams) \<times> toast list \<times> js_error option" where
  "executeWorkflow_done loaded answer ss =
     (let ss' = (case answer of Inl e \<Rightarrow> ss | Inr i \<Rightarrow> map_prod editor_getActionStatusSSE getConsoleSSE ss)
      in case loaded of
           None \<Rightarrow> (ss', [], Some TypeError)
         | Some (pb, w) \<Rightarrow> (ss',
             [case answer of
                Inl e \<Rightarrow> Failure (''Error starting execution of '' @ pb @ '' - '' @ w @ '': '' @ error_message e)
              | Inr i \<Rightarrow> Success (''Starting execution of '' @ pb @ '' - '' @ w @ ''.'')], None))"

section \<open>One stream at a time\<close>

definition only_current :: "streams \<Rightarrow> bool" where
  "only_current s \<longleftrightarrow> (\<forall>(a, u) \<in> set (st_open s). st_current s = Some a)"

lemma close_only_current: "only_current s \<Longrightarrow> st_open (close_current s) = []"
  by (cases "st_open s"; cases "st_current s") (auto simp: only_current_def close_current_def filter_empty_conv)

text \<open>C29. When every access token arrives before the next stream is asked for, exactly one stream is open,
  the one asked for last, and leaving the page closes it.\<close>

theorem one_stream_at_a_time:
  assumes "only_current s" and "requests \<noteq> []"
  shows "map snd (st_open (foldl (\<lambda>s (i, t). editor_getActionStatusSSE_token i t (editor_getActionStatusSSE s)) s requests)) =
      map snd (st_open (editor_getActionStatusSSE_token (fst (last requests)) (snd (last requests)) no_streams)) \<and>
    st_open (close_current (foldl (\<lambda>s (i, t). editor_getActionStatusSSE_token i t (editor_getActionStatusSSE s)) s requests)) = []"
proof -
  let ?run = "foldl (\<lambda>s (i, t). editor_getActionStatusSSE_token i t (editor_getActionStatusSSE s)) s"
  have step: "map snd (st_open (editor_getActionStatusSSE_token i t (editor_getActionStatusSSE s'))) =
      map snd (st_open (editor_getActionStatusSSE_token i t no_streams)) \<and>
      only_current (editor_getActionStatusSSE_token i t (editor_getActionStatusSSE s'))" if "only_current s'" for i t s'
    using close_only_current[OF that]
    by (simp add: editor_getActionStatusSSE_token_def editor_getActionStatusSSE_def open_stream_def only_current_def no_streams_def)
  have all: "only_current (?run rs)" for rs
    by (induction rs rule: rev_induct) (auto simp: assms(1) step)
  obtain rs r where rs: "requests = rs @ [r]" using assms(2) by (cases requests rule: rev_cases) auto
  have "map snd (st_open (?run requests)) = map snd (st_open (editor_getActionStatusSSE_token (fst r) (snd r) no_streams))"
    using step[OF all[of rs]] by (simp add: rs split_beta)
  then show ?thesis using close_only_current[OF all[of requests]] by (simp add: rs)
qed

theorem one_stream_at_a_time_witness:
  "only_current no_streams \<and>
   map snd (st_open (foldl (\<lambda>s (i, t). editor_getActionStatusSSE_token i t (editor_getActionStatusSSE s)) no_streams
     [(''6'', ''t''), (''7'', ''u'')])) =
   [''api/streams/workflowqueue/actions?access_token=u&workflow_execution_id=7'']"
proof -
  have ok: "only_current no_streams" by (simp add: only_current_def no_streams_def)
  from one_stream_at_a_time[OF ok, of "[(''6'', ''t''), (''7'', ''u'')]"] ok
  show ?thesis by (simp add: editor_getActionStatusSSE_token_def open_stream_def no_streams_def)
qed

text \<open>C30. Asked for twice before the first token arrives, two streams are open: the second request found
  nothing to close. Leaving the page closes only the later one. A token that arrives after the page was left
  opens a stream that nothing closes.\<close>

theorem overlapping_requests_leak:
  assumes "only_current s"
  shows "(let asked = editor_getActionStatusSSE (editor_getActionStatusSSE s);
         opened = editor_getActionStatusSSE_token i2 t2 (editor_getActionStatusSSE_token i1 t1 asked)
     in length (st_open opened) = 2 \<and>
        st_open (fst (editor_ngOnDestroy (opened, c))) = [hd (st_open opened)] \<and>
        length (st_open (editor_getActionStatusSSE_token i2 t2 (fst (editor_ngOnDestroy (s, c))))) = 1)"
proof -
  have c: "st_open (close_current s) = []" by (rule close_only_current[OF assms])
  then have "st_open (close_current (close_current s)) = []"
    by (cases "st_current (close_current s)") (simp_all add: close_current_def[of "close_current s"])
  with c show ?thesis
    by (simp add: editor_getActionStatusSSE_def editor_getActionStatusSSE_token_def editor_ngOnDestroy_def open_stream_def Let_def)
       (simp add: close_current_def)
qed

theorem overlapping_requests_leak_witness:
  "length (st_open (editor_getActionStatusSSE_token ''7'' ''u'' (editor_getActionStatusSSE_token ''6'' ''t''
     (editor_getActionStatusSSE (editor_getActionStatusSSE no_streams))))) = 2"
proof -
  have "only_current no_streams" by (simp add: only_current_def no_streams_def)
  from overlapping_requests_leak[OF this, of "''7''" "''u''" "''6''" "''t''" no_streams] show ?thesis by (simp add: Let_def)
qed

end
