(* ===== verification/Metrics.thy ===== *)
theory Metrics
  imports Utilities
begin

text \<open>
  The metrics page (\<^verbatim>\<open>metrics/*.ts\<close>, \<^verbatim>\<open>models/metric/*.ts\<close>): how often each action of
  each app and each workflow succeeded and failed, and how long it took. The parsing of a duration
  (moment.js) is a parameter: \<open>seconds t\<close> is the length of the duration \<open>t\<close> in seconds.
\<close>

section \<open>Data\<close>

record metric =
  me_count :: nat
  me_avg_time :: string

definition new_metric :: metric where
  "new_metric = \<lparr>me_count = 0, me_avg_time = ''0:00:00.000000''\<rparr>"

record action_metric =
  am_name :: string
  am_success :: metric
  am_error :: metric

record app_metric =
  ap_name :: string
  ap_count :: string
  ap_actions :: "action_metric list"

record workflow_metric = metric +
  wm_name :: string

definition display_avg_time :: "(string \<Rightarrow> rat) \<Rightarrow> metric \<Rightarrow> string" where
  "display_avg_time seconds m =
     (let s = seconds (me_avg_time m)
      in if 1 \<le> s then number_to_string (Fin s) @ '' s'' else number_to_string (Fin (1000 * s)) @ '' ms'')"

definition display_text :: "(string \<Rightarrow> rat) \<Rightarrow> metric \<Rightarrow> string" where
  "display_text seconds m =
     (if 0 < me_count m then nat_to_string (me_count m) @ '' ('' @ display_avg_time seconds m @ '')'' else ''0'')"

section \<open>The page\<close>

record metrics_page =
  mp_apps :: "app_metric list"
  mp_filter :: string
  mp_workflows :: "workflow_metric list"
  mp_available :: "(string \<times> string) list"
  mp_toasts :: "toast list"

definition appSelectChange_metrics :: "string nullable \<Rightarrow> metrics_page \<Rightarrow> metrics_page" where
  "appSelectChange_metrics v p = p\<lparr>mp_filter := (if \<not> truthy_str v then [] else str_or_empty v)\<rparr>"

definition getFilteredAppMetrics :: "metrics_page \<Rightarrow> app_metric list" where
  "getFilteredAppMetrics p =
     (if mp_filter p = [] \<or> mp_filter p = ''all'' then mp_apps p
      else filter (\<lambda>a. ap_name a = mp_filter p) (mp_apps p))"

record metric_row =
  mr_app :: string
  mr_action :: string
  mr_success :: string
  mr_error :: string
  mr_total_count :: nat

fun push_rows :: "(string \<Rightarrow> rat) \<Rightarrow> string \<Rightarrow> action_metric list \<Rightarrow> metric_row list \<Rightarrow> metric_row list" where
  "push_rows seconds app [] rows = rows"
| "push_rows seconds app (a # as) rows =
     push_rows seconds app as (rows @ [\<lparr>mr_app = app, mr_action = am_name a,
       mr_success = display_text seconds (am_success a), mr_error = display_text seconds (am_error a),
       mr_total_count = me_count (am_success a) + me_count (am_error a)\<rparr>])"

definition displayAppMetrics :: "(string \<Rightarrow> rat) \<Rightarrow> metrics_page \<Rightarrow> metric_row list" where
  "displayAppMetrics seconds p =
     foldl (\<lambda>rows a. push_rows seconds (ap_name a) (ap_actions a) rows) [] (getFilteredAppMetrics p)"

definition getAppMetrics_done :: "app_metric list result \<Rightarrow> metrics_page \<Rightarrow> metrics_page" where
  "getAppMetrics_done answer p =
     (case answer of
        Inl e \<Rightarrow> p\<lparr>mp_toasts := mp_toasts p @ [Failure (''Error retrieving app metrics: '' @ error_message e)]\<rparr>
      | Inr ms \<Rightarrow> p\<lparr>mp_apps := ms, mp_available := [([], []), (''all'', ''All'')] @ map (\<lambda>m. (ap_name m, ap_name m)) ms\<rparr>)"

definition getWorkflowMetrics_done :: "workflow_metric list result \<Rightarrow> metrics_page \<Rightarrow> metrics_page" where
  "getWorkflowMetrics_done answer p =
     (case answer of
        Inl e \<Rightarrow> p\<lparr>mp_toasts := mp_toasts p @ [Failure (''Error retrieving workflow metrics: '' @ error_message e)]\<rparr>
      | Inr ms \<Rightarrow> p\<lparr>mp_workflows := ms\<rparr>)"

definition getFriendlyArray :: "string list \<Rightarrow> string" where
  "getFriendlyArray input = join '', '' input"

definition getAppMetrics_request :: "unit request" where
  "getAppMetrics_request = http GET ''/api/metrics/apps'' None"

definition getWorkflowMetrics_request :: "unit request" where
  "getWorkflowMetrics_request = http GET ''/api/metrics/workflows'' None"

section \<open>What the table shows\<close>

lemma push_rows_spec:
  "map (\<lambda>r. (mr_app r, mr_action r, mr_total_count r)) (push_rows seconds app as rows) =
   map (\<lambda>r. (mr_app r, mr_action r, mr_total_count r)) rows @
   map (\<lambda>a. (app, am_name a, me_count (am_success a) + me_count (am_error a))) as"
  by (induction as arbitrary: rows) simp_all

lemma rows_spec:
  "map (\<lambda>r. (mr_app r, mr_action r, mr_total_count r))
     (foldl (\<lambda>rows a. push_rows seconds (ap_name a) (ap_actions a) rows) rows apps) =
   map (\<lambda>r. (mr_app r, mr_action r, mr_total_count r)) rows @
   List.concat (map (\<lambda>app. map (\<lambda>a. (ap_name app, am_name a, me_count (am_success a) + me_count (am_error a))) (ap_actions app)) apps)"
  by (induction apps arbitrary: rows) (simp_all add: push_rows_spec)

text \<open>The table has one row for each action of each app that the selection shows, in the order of the
  server, with the number of all its executions. An app named \<open>all\<close> cannot be selected alone.\<close>

theorem displayAppMetrics_rows:
  "map (\<lambda>r. (mr_app r, mr_action r, mr_total_count r)) (displayAppMetrics seconds p) =
   List.concat (map (\<lambda>app. map (\<lambda>a. (ap_name app, am_name a, me_count (am_success a) + me_count (am_error a))) (ap_actions app))
     (filter (\<lambda>app. mp_filter p \<in> {[], ''all'', ap_name app}) (mp_apps p)))"
proof -
  have "getFilteredAppMetrics p = filter (\<lambda>app. mp_filter p \<in> {[], ''all'', ap_name app}) (mp_apps p)"
    by (auto simp: getFilteredAppMetrics_def intro!: filter_cong)
  then show ?thesis by (simp add: displayAppMetrics_def rows_spec)
qed

end
