(* ===== verification/Witnesses.thy ===== *)
theory Witnesses
  imports ArgumentTree Sanitize ExpressionEditor Samples
begin


theorem referenced_variables_deleteVariable_witness:
  "referenced_variables sample_workflow \<noteq> [] \<and>
   referenced_variables (deleteVariable sample_variable sample_workflow) = []"
proof -
  have "\<forall>v \<in> set (wf_environment_variables sample_workflow). ev_id v \<noteq> []" by (simp add: sample_defs)
  from referenced_variables_deleteVariable[OF this, of sample_variable]
  show ?thesis
    by (simp add: sample_defs referenced_variables_def all_arguments_def action_all_arguments_def opt_expr_arguments_def)
qed

definition sample_arguments :: "argument list" where
  "sample_arguments = [new_argument\<lparr>arg_value := JStr '' hi '', arg_reference := Val []\<rparr>,
     new_argument\<lparr>arg_value := JStr ''  '', arg_reference := Val []\<rparr>,
     new_argument\<lparr>arg_value := JStr ''x'', arg_reference := Val ''a1'', arg_selection := Val (SelText '''')\<rparr>]"

theorem sanitizeArgumentsForSave_spec_witness:
  "list_all arg_clean (sanitizeArgumentsForSave sample_arguments) \<and>
   map arg_value (sanitizeArgumentsForSave sample_arguments) = [JStr ''hi'', JUndef]"
proof -
  have "map arg_value (sanitizeArgumentsForSave sample_arguments) = [JStr ''hi'', JUndef]"
    unfolding sanitize_closed
    by (simp add: sample_arguments_def blank_arg_def drop_value_or_reference_def finish_selection_def
        new_argument_def trim_def is_ws_def splice1_def Let_def)
  then show ?thesis using sanitizeArgumentsForSave_spec[of sample_arguments] by (simp add: list_all_iff)
qed


end
