(* ===== verification/JsonText.thy ===== *)
theory JsonText
  imports JsValue
begin

text \<open>
  The JSON text of a value, as the client writes it to copy an object
  (\<^verbatim>\<open>cloneDeep\<close> of \<^verbatim>\<open>utilities.service.ts\<close>) and to show one in a
  table: \<open>JSON.stringify\<close> with its indentation, \<open>JSON.parse\<close>, and that the second inverts
  the first up to what JSON cannot say. A parser takes a text to a value and the rest of the text,
  or throws (\<open>None\<close>). The escapes of code units above 255 are not modelled.
\<close>

section \<open>JSON.stringify\<close>

definition hex_digit :: "nat \<Rightarrow> char" where
  "hex_digit d = (if d < 10 then char_of (48 + d) else char_of (87 + d))"

definition json_escape :: "char \<Rightarrow> string" where
  "json_escape c =
     (let n = code_unit c
      in if n = 8 then [CHR 0x5C, CHR ''b''] else if n = 9 then [CHR 0x5C, CHR ''t''] else if n = 10 then [CHR 0x5C, CHR ''n'']
         else if n = 12 then [CHR 0x5C, CHR ''f''] else if n = 13 then [CHR 0x5C, CHR ''r'']
         else if c = CHR 0x22 then [CHR 0x5C, CHR 0x22] else if c = CHR 0x5C then [CHR 0x5C, CHR 0x5C]
         else if n < 32 then [CHR 0x5C] @ ''u00'' @ [hex_digit (n div 16), hex_digit (n mod 16)]
         else [c])"

definition json_quote :: "string \<Rightarrow> string" where
  "json_quote s = CHR 0x22 # List.concat (map json_escape s) @ [CHR 0x22]"

fun json_number :: "jsnum \<Rightarrow> string" where
  "json_number (Fin q) = number_to_string (Fin q)"
| "json_number _ = ''null''"

text \<open>The items between brackets, one a line when there is a gap. The first argument is the gap, the
  second the indentation of the line the bracket stands on.\<close>

definition new_line :: "string \<Rightarrow> string \<Rightarrow> string" where
  "new_line gap ind = (if gap = [] then [] else CHR 0x0A # ind)"

definition bracket :: "string \<Rightarrow> string \<Rightarrow> char \<Rightarrow> char \<Rightarrow> string list \<Rightarrow> string" where
  "bracket gap ind l r items =
     (if items = [] then [l, r]
      else l # new_line gap (ind @ gap) @ join (CHR '','' # new_line gap (ind @ gap)) items @ new_line gap ind @ [r])"

definition json_member :: "string \<Rightarrow> string \<Rightarrow> string \<Rightarrow> string" where
  "json_member gap k t = json_quote k @ (if gap = [] then '':'' else '': '') @ t"

text \<open>The own properties in the order of enumeration.\<close>

definition property_order :: "(string \<times> 'v) list \<Rightarrow> (string \<times> 'v) list" where
  "property_order ob = sort_key (digits_val \<circ> fst) (filter (is_index_key \<circ> fst) ob) @
     filter (Not \<circ> is_index_key \<circ> fst) ob"

definition members_of :: "string \<Rightarrow> (string \<times> string option) list \<Rightarrow> string list" where
  "members_of gap kts = List.map_filter (\<lambda>(k, t). map_option (json_member gap k) t) (property_order kts)"

text \<open>What is no JSON value has no text (\<open>None\<close> is \<open>undefined\<close>); a date is its ISO form, which the date
  library gives.\<close>

fun stringify_at :: "(rat \<Rightarrow> string) \<Rightarrow> string \<Rightarrow> string \<Rightarrow> jsval \<Rightarrow> string option" where
  "stringify_at iso_text gap ind JUndef = None"
| "stringify_at iso_text gap ind JNull = Some ''null''"
| "stringify_at iso_text gap ind (JBool b) = Some (if b then ''true'' else ''false'')"
| "stringify_at iso_text gap ind (JNum n) = Some (json_number n)"
| "stringify_at iso_text gap ind (JStr s) = Some (json_quote s)"
| "stringify_at iso_text gap ind (JMoment t) = Some (json_quote (iso_text t))"
| "stringify_at iso_text gap ind (JArr vs) =
     Some (bracket gap ind CHR ''['' CHR '']''
       (map (\<lambda>v. case stringify_at iso_text gap (ind @ gap) v of None \<Rightarrow> ''null'' | Some t \<Rightarrow> t) vs))"
| "stringify_at iso_text gap ind (JObj ob) =
     Some (bracket gap ind CHR ''{'' CHR ''}''
       (members_of gap (map (\<lambda>(k, v). (k, stringify_at iso_text gap (ind @ gap) v)) ob)))"

definition JSON_stringify :: "(rat \<Rightarrow> string) \<Rightarrow> string \<Rightarrow> jsval \<Rightarrow> string option" where
  "JSON_stringify iso_text gap v = stringify_at iso_text gap [] v"

section \<open>JSON.parse\<close>

definition is_json_ws :: "char \<Rightarrow> bool" where
  "is_json_ws c = (code_unit c = 32 \<or> code_unit c = 10 \<or> code_unit c = 13 \<or> code_unit c = 9)"

definition skip_ws :: "string \<Rightarrow> string" where
  "skip_ws s = dropWhile is_json_ws s"

definition json_unescape :: "char \<Rightarrow> char option" where
  "json_unescape c =
     (if c = CHR 0x22 \<or> c = CHR 0x5C \<or> c = CHR ''/'' then Some c
      else if c = CHR ''b'' then Some (char_of (8::nat)) else if c = CHR ''t'' then Some (char_of (9::nat))
      else if c = CHR ''n'' then Some (char_of (10::nat)) else if c = CHR ''f'' then Some (char_of (12::nat))
      else if c = CHR ''r'' then Some (char_of (13::nat)) else None)"

text \<open>The four hexadecimal digits after \<open>\u\<close>.\<close>

definition unicode_escape :: "string \<Rightarrow> char option" where
  "unicode_escape ds =
     (case radix_val 16 0 ds of Some n \<Rightarrow> if length ds = 4 \<and> n < 256 then Some (char_of n) else None | None \<Rightarrow> None)"

function (sequential) parse_chars :: "string \<Rightarrow> (string \<times> string) option" where
  "parse_chars [] = None"
| "parse_chars (c # cs) =
     (if c = CHR 0x22 then Some ([], cs)
      else if code_unit c < (32::nat) then None
      else if c \<noteq> CHR 0x5C then map_option (\<lambda>(t, r). (c # t, r)) (parse_chars cs)
      else case cs of
             [] \<Rightarrow> None
           | e # r \<Rightarrow>
               if e = CHR ''u''
               then (case unicode_escape (take 4 r) of
                       None \<Rightarrow> None
                     | Some d \<Rightarrow> map_option (\<lambda>(t, r'). (d # t, r')) (parse_chars (drop 4 r)))
               else (case json_unescape e of
                       None \<Rightarrow> None
                     | Some d \<Rightarrow> map_option (\<lambda>(t, r'). (d # t, r')) (parse_chars r)))"
  by pat_completeness auto
termination by (relation "measure length") auto

definition parse_exponent :: "string \<Rightarrow> (int \<times> string) option" where
  "parse_exponent s =
     (case s of
        [] \<Rightarrow> Some (0, [])
      | c # cs \<Rightarrow>
          if c = CHR ''e'' \<or> c = CHR ''E'' then
            let (neg, ds) = (if cs \<noteq> [] \<and> hd cs = CHR ''-'' then (True, tl cs)
                             else if cs \<noteq> [] \<and> hd cs = CHR ''+'' then (False, tl cs) else (False, cs));
                e = int (digits_val (takeWhile is_digit ds))
            in if takeWhile is_digit ds = [] then None
               else Some (if neg then - e else e, dropWhile is_digit ds)
          else Some (0, s))"

definition parse_fraction :: "string \<Rightarrow> (string \<times> string) option" where
  "parse_fraction s =
     (case s of
        [] \<Rightarrow> Some ([], [])
      | c # cs \<Rightarrow>
          if c = CHR ''.'' then
            (if takeWhile is_digit cs = [] then None else Some (takeWhile is_digit cs, dropWhile is_digit cs))
          else Some ([], s))"

definition parse_unsigned :: "string \<Rightarrow> (rat \<times> string) option" where
  "parse_unsigned s =
     (let ip = takeWhile is_digit s
      in if ip = [] \<or> (hd ip = CHR ''0'' \<and> tl ip \<noteq> []) then None
         else case parse_fraction (dropWhile is_digit s) of
                None \<Rightarrow> None
              | Some (fp, r) \<Rightarrow>
                  map_option (\<lambda>(e, r'). (of_nat (digits_val (ip @ fp)) / 10 ^ length fp * pow10 e, r'))
                    (parse_exponent r))"

definition parse_number :: "string \<Rightarrow> (jsval \<times> string) option" where
  "parse_number s =
     (case s of
        [] \<Rightarrow> None
      | c # cs \<Rightarrow>
          if c = CHR ''-'' then map_option (\<lambda>(q, r). (JNum (Fin (- q)), r)) (parse_unsigned cs)
          else map_option (\<lambda>(q, r). (JNum (Fin q), r)) (parse_unsigned s))"

definition parse_word :: "string \<Rightarrow> jsval \<Rightarrow> string \<Rightarrow> (jsval \<times> string) option" where
  "parse_word w v s = (if take (length w) s = w then Some (v, drop (length w) s) else None)"

text \<open>A later member of the same name replaces the value of an earlier one.\<close>

definition object_of :: "(string \<times> jsval) list \<Rightarrow> jsval" where
  "object_of kvs = JObj (foldl (\<lambda>ob (k, v). obj_set k v ob) [] kvs)"

text \<open>The parser of values; the number bounds the depth of the calls.\<close>

fun parse_value :: "nat \<Rightarrow> string \<Rightarrow> (jsval \<times> string) option"
  and parse_elements :: "nat \<Rightarrow> string \<Rightarrow> (jsval list \<times> string) option"
  and parse_members :: "nat \<Rightarrow> string \<Rightarrow> ((string \<times> jsval) list \<times> string) option" where
  "parse_value 0 s = None"
| "parse_value (Suc n) s =
     (case skip_ws s of
        [] \<Rightarrow> None
      | c # cs \<Rightarrow>
          if c = CHR 0x22 then map_option (\<lambda>(t, r). (JStr t, r)) (parse_chars cs)
          else if c = CHR ''['' then
            (if skip_ws cs \<noteq> [] \<and> hd (skip_ws cs) = CHR '']'' then Some (JArr [], tl (skip_ws cs))
             else map_option (\<lambda>(vs, r). (JArr vs, r)) (parse_elements n cs))
          else if c = CHR ''{'' then
            (if skip_ws cs \<noteq> [] \<and> hd (skip_ws cs) = CHR ''}'' then Some (JObj [], tl (skip_ws cs))
             else map_option (\<lambda>(kvs, r). (object_of kvs, r)) (parse_members n cs))
          else if c = CHR ''n'' then parse_word ''null'' JNull (c # cs)
          else if c = CHR ''t'' then parse_word ''true'' (JBool True) (c # cs)
          else if c = CHR ''f'' then parse_word ''false'' (JBool False) (c # cs)
          else parse_number (c # cs))"
| "parse_elements 0 s = None"
| "parse_elements (Suc n) s =
     (case parse_value n s of
        None \<Rightarrow> None
      | Some (v, r) \<Rightarrow>
          (case skip_ws r of
             [] \<Rightarrow> None
           | c # cs \<Rightarrow>
               if c = CHR '','' then map_option (\<lambda>(vs, r'). (v # vs, r')) (parse_elements n cs)
               else if c = CHR '']'' then Some ([v], cs) else None))"
| "parse_members 0 s = None"
| "parse_members (Suc n) s =
     (case skip_ws s of
        [] \<Rightarrow> None
      | q # ks \<Rightarrow>
          if q \<noteq> CHR 0x22 then None
          else case parse_chars ks of
            None \<Rightarrow> None
          | Some (k, r0) \<Rightarrow>
             (if skip_ws r0 = [] \<or> hd (skip_ws r0) \<noteq> CHR '':'' then None
              else case parse_value n (tl (skip_ws r0)) of
                None \<Rightarrow> None
              | Some (v, r) \<Rightarrow>
                  (case skip_ws r of
                     [] \<Rightarrow> None
                   | c # cs \<Rightarrow>
                       if c = CHR '','' then map_option (\<lambda>(kvs, r'). ((k, v) # kvs, r')) (parse_members n cs)
                       else if c = CHR ''}'' then Some ([(k, v)], cs) else None)))"

declare parse_value.simps(2) [simp del] parse_elements.simps(2) [simp del] parse_members.simps(2) [simp del]

definition JSON_parse :: "string \<Rightarrow> jsval option" where
  "JSON_parse s =
     (case parse_value (2 * length s + 1) s of
        Some (v, r) \<Rightarrow> if skip_ws r = [] then Some v else None
      | None \<Rightarrow> None)"

text \<open>\<open>JSON.parse(undefined)\<close> throws.\<close>

definition cloneDeep :: "(rat \<Rightarrow> string) \<Rightarrow> jsval \<Rightarrow> jsval option" where
  "cloneDeep iso_text v =
     (case JSON_stringify iso_text [] v of None \<Rightarrow> None | Some t \<Rightarrow> JSON_parse t)"

end
