(* ===== verification/JsonNumber.thy ===== *)
theory JsonNumber
  imports JsonText
begin

text \<open>
  The leaves of a JSON text: a quoted string and a printed number are read back as they were. Numbers
  are integers and decimal fractions of at most twenty places.
\<close>

section \<open>Strings\<close>

lemma radix_digit_hex: "d < 16 \<Longrightarrow> radix_digit 16 (hex_digit d) = Some d"
  by (auto simp: radix_digit_def hex_digit_def is_digit_def digit_val_def Let_def of_char_of)

lemma radix_digit_0: "radix_digit 16 CHR ''0'' = Some 0"
  by (simp add: radix_digit_def is_digit_def digit_val_def)

lemma unicode_escape_control:
  "n < 32 \<Longrightarrow> unicode_escape (''00'' @ [hex_digit (n div 16), hex_digit (n mod 16)]) = Some (char_of n)"
  by (simp add: unicode_escape_def radix_digit_0 radix_digit_hex)

lemma code_unit_eq: "code_unit c = (n::nat) \<Longrightarrow> c = char_of n"
  by auto

lemma parse_escape:
  "parse_chars (json_escape c @ t) = map_option (\<lambda>(u, r). (c # u, r)) (parse_chars t)"
proof -
  consider "code_unit c \<in> {8::nat, 9, 10, 12, 13}" | "c = CHR 0x22 \<or> c = CHR 0x5C"
    | "code_unit c < (32::nat)" "code_unit c \<notin> {8::nat, 9, 10, 12, 13}"
    | "code_unit c \<ge> (32::nat)" "c \<noteq> CHR 0x22" "c \<noteq> CHR 0x5C" by fastforce
  then show ?thesis
  proof cases
    case 1 then show ?thesis by (auto simp: json_escape_def json_unescape_def dest!: code_unit_eq)
  next
    case 2 then show ?thesis by (auto simp: json_escape_def json_unescape_def)
  next
    case 3
    then have c: "c \<noteq> CHR 0x22" "c \<noteq> CHR 0x5C" by auto
    show ?thesis
      using 3 c unicode_escape_control[OF 3(1)] by (simp add: json_escape_def Let_def)
  next
    case 4
    then have "json_escape c = [c]" by (auto simp: json_escape_def Let_def)
    with 4 show ?thesis by (simp add: not_less)
  qed
qed

lemma parse_quoted: "parse_chars (List.concat (map json_escape s) @ CHR 0x22 # r) = Some (s, r)"
  by (induction s) (simp_all add: parse_escape del: parse_chars.simps(2), simp)

section \<open>Numbers\<close>

lemma nat_to_string_hd0: "hd (nat_to_string n) = CHR ''0'' \<Longrightarrow> n = 0"
proof (induction n rule: nat_to_string.induct)
  case (1 n)
  have c: "digit_char d = CHR ''0'' \<Longrightarrow> d < 10 \<Longrightarrow> d = 0" for d
  proof -
    assume "digit_char d = CHR ''0''" "d < 10"
    then have "48 + d = code_unit CHR ''0''" using code_unit_digit_char[of d] by simp
    then show "d = 0" by simp
  qed
  show ?case
  proof (cases "n < 10")
    case True
    with 1(2) c show ?thesis by (simp add: nat_to_string.simps[of n])
  next
    case False
    then have "hd (nat_to_string (n div 10)) = CHR ''0''"
      using 1(2) by (simp add: nat_to_string.simps[of n] hd_append)
    with 1(1) False have "n div 10 = 0" by simp
    with False show ?thesis by simp
  qed
qed

lemma nat_to_string_0: "nat_to_string 0 = ''0''"
  by code_simp

lemma nat_to_string_no_zero: "hd (nat_to_string n) = CHR ''0'' \<Longrightarrow> tl (nat_to_string n) = []"
  using nat_to_string_hd0[of n] by (auto simp: nat_to_string_0)

definition no_digit :: "string \<Rightarrow> bool" where
  "no_digit r = (r = [] \<or> \<not> is_digit (hd r))"

lemma span_digits:
  assumes "\<And>c. c \<in> set ds \<Longrightarrow> is_digit c" "no_digit r"
  shows "takeWhile is_digit (ds @ r) = ds" "dropWhile is_digit (ds @ r) = r"
  using assms by (cases r; auto simp: no_digit_def takeWhile_append2 dropWhile_append2)+

text \<open>The fraction of a number of at most \<open>k\<close> decimal places is printed exactly.\<close>

lemma fraction_digits_digits: "0 \<le> q \<Longrightarrow> q < 1 \<Longrightarrow> c \<in> set (fraction_digits k q) \<Longrightarrow> is_digit c"
proof (induction k arbitrary: q)
  case (Suc k)
  have "nat \<lfloor>10 * q\<rfloor> < 10" using Suc.prems by linarith
  moreover have q: "0 \<le> 10 * q - of_int \<lfloor>10 * q\<rfloor>" "10 * q - of_int \<lfloor>10 * q\<rfloor> < 1" by linarith+
  ultimately show ?case using Suc.prems Suc.IH[OF q] by (auto split: if_splits)
qed simp

lemma digits_val_Cons: "digits_val (c # ds) = digit_val c * 10 ^ length ds + digits_val ds"
proof (induction ds rule: rev_induct)
  case (snoc d ds)
  have "digits_val (c # ds @ [d]) = 10 * digits_val (c # ds) + digit_val d"
    using digits_val_snoc[of "c # ds" d] by simp
  then show ?case by (simp add: snoc digits_val_snoc algebra_simps)
qed (simp add: digits_val_def)

lemma digits_val_append: "digits_val (xs @ ys) = digits_val xs * 10 ^ length ys + digits_val ys"
  by (induction xs) (simp_all add: digits_val_Cons algebra_simps power_add, simp add: digits_val_def)

lemma fraction_digits_value:
  "0 \<le> q \<Longrightarrow> q < 1 \<Longrightarrow> of_int \<lfloor>q * 10 ^ k\<rfloor> = q * 10 ^ k \<Longrightarrow>
   of_nat (digits_val (fraction_digits k q)) = q * 10 ^ length (fraction_digits k q)"
proof (induction k arbitrary: q)
  case 0
  have "q = of_int \<lfloor>q\<rfloor>" using 0(3) by (simp only: power_0 mult_1_right)
  moreover have "\<lfloor>q\<rfloor> = 0" using 0 by linarith
  ultimately show ?case by (simp add: digits_val_def)
next
  case (Suc k)
  let ?d = "\<lfloor>10 * q\<rfloor>" and ?q = "10 * q - of_int \<lfloor>10 * q\<rfloor>"
  have d: "0 \<le> ?d" "?d < 10" using Suc.prems by linarith+
  have e: "?q * 10 ^ k = of_int (\<lfloor>q * 10 ^ Suc k\<rfloor> - ?d * 10 ^ k)"
    unfolding of_int_diff Suc.prems(3) by (simp add: algebra_simps)
  have q: "0 \<le> ?q" "?q < 1" by linarith+
  have v: "of_nat (digits_val (fraction_digits k ?q)) = ?q * 10 ^ length (fraction_digits k ?q)"
    by (rule Suc.IH[OF q]) (simp only: e floor_of_int)
  show ?case
  proof (cases "q = 0")
    case True then show ?thesis by (simp add: digits_val_def)
  next
    case False
    have "nat ?d < 10" using d by linarith
    then have "(of_nat (digit_val (digit_char (nat ?d))) :: rat) = of_int ?d" using d by simp
    with False v show ?thesis
      by (simp add: digits_val_Cons algebra_simps)
  qed
qed

section \<open>Printed numbers\<close>

definition decimal :: "rat \<Rightarrow> bool" where
  "decimal q = (of_int \<lfloor>q * 10 ^ 20\<rfloor> = q * 10 ^ 20)"

text \<open>What may follow a value in a text.\<close>

definition delim :: "string \<Rightarrow> bool" where
  "delim r = (r = [] \<or> hd r \<in> {CHR '','', CHR '']'', CHR ''}''} \<or> is_json_ws (hd r))"

lemma delim_no_number:
  assumes "delim r"
  shows "no_digit r" "parse_exponent r = Some (0, r)" "parse_fraction r = Some ([], r)"
proof -
  have "is_json_ws c \<Longrightarrow> \<not> is_digit c \<and> c \<notin> {CHR ''e'', CHR ''E'', CHR ''.''}" for c
    by (auto simp: is_json_ws_def is_digit_def)
  then show "no_digit r" "parse_exponent r = Some (0, r)" "parse_fraction r = Some ([], r)"
    using assms by (cases r; auto simp: delim_def no_digit_def parse_exponent_def parse_fraction_def is_digit_def)+
qed

lemma parse_unsigned_nat:
  assumes "delim r"
  shows "parse_unsigned (nat_to_string n @ r) = Some (of_nat n, r)"
  using span_digits[of "nat_to_string n" r] delim_no_number[OF assms] nat_to_string_no_zero[of n]
  by (auto simp: parse_unsigned_def nat_to_string_digits Let_def pow10_def)

lemma parse_unsigned_fraction:
  assumes "delim r" "fs \<noteq> []" "\<And>c. c \<in> set fs \<Longrightarrow> is_digit c"
  shows "parse_unsigned (nat_to_string n @ CHR ''.'' # fs @ r) =
    Some (of_nat n + of_nat (digits_val fs) / 10 ^ length fs, r)"
proof -
  have "no_digit (CHR ''.'' # fs @ r)" by (simp add: no_digit_def is_digit_def)
  note sp = span_digits[of "nat_to_string n", OF nat_to_string_digits this]
  have f: "parse_fraction (CHR ''.'' # fs @ r) = Some (fs, r)"
    using span_digits[of fs r, OF assms(3)] delim_no_number(1)[OF assms(1)] assms(2)
    by (auto simp: parse_fraction_def)
  have "(of_nat (digits_val (nat_to_string n @ fs)) :: rat) / 10 ^ length fs =
      of_nat n + of_nat (digits_val fs) / 10 ^ length fs"
    by (simp add: digits_val_append add_divide_distrib)
  with sp f show ?thesis
    using delim_no_number(2)[OF assms(1)] nat_to_string_no_zero[of n]
    by (auto simp: parse_unsigned_def Let_def pow10_def)
qed

lemma nat_to_string_hd: "hd (nat_to_string n @ r) \<noteq> CHR ''-''"
proof
  assume "hd (nat_to_string n @ r) = CHR ''-''"
  then have "is_digit CHR ''-''"
    by (metis hd_in_set nat_to_string_nonempty nat_to_string_digits hd_append2)
  then show False by (simp add: is_digit_def)
qed

lemma parse_number_unsigned:
  "s \<noteq> [] \<Longrightarrow> hd s \<noteq> CHR ''-'' \<Longrightarrow> parse_unsigned s = Some (q, r) \<Longrightarrow> parse_number s = Some (JNum (Fin q), r)"
  by (cases s) (simp_all add: parse_number_def)

lemma parse_number_negative:
  "parse_unsigned s = Some (q, r) \<Longrightarrow> parse_number (CHR ''-'' # s) = Some (JNum (Fin (- q)), r)"
  by (simp add: parse_number_def)

lemma parse_number_integer:
  assumes "delim r"
  shows "parse_number (int_to_string i @ r) = Some (JNum (Fin (of_int i)), r)"
proof (cases "i < 0")
  case True
  then show ?thesis
    using parse_number_negative[OF parse_unsigned_nat[OF assms, of "nat (- i)"]] by (simp add: int_to_string_def)
next
  case False
  then show ?thesis
    using parse_number_unsigned[OF _ nat_to_string_hd parse_unsigned_nat[OF assms, of "nat i"]]
    by (simp add: int_to_string_def)
qed

lemma parse_positive_decimal:
  assumes "delim r" "0 < a" "of_int \<lfloor>a\<rfloor> \<noteq> a" "decimal a"
  shows "parse_unsigned (int_to_string \<lfloor>a\<rfloor> @ CHR ''.'' # fraction_digits 20 (a - of_int \<lfloor>a\<rfloor>) @ r) = Some (a, r)"
proof -
  let ?f = "a - of_int \<lfloor>a\<rfloor>"
  let ?fs = "fraction_digits 20 ?f"
  have f: "0 \<le> ?f" "?f < 1" by linarith+
  have "of_int (\<lfloor>a * 10 ^ 20\<rfloor> - \<lfloor>a\<rfloor> * 10 ^ 20) = ?f * 10 ^ 20"
    using assms(4) by (simp add: decimal_def algebra_simps)
  then have "of_int \<lfloor>?f * 10 ^ 20\<rfloor> = ?f * 10 ^ 20" by (metis floor_of_int)
  note v = fraction_digits_value[OF f this]
  have ne: "?fs \<noteq> []"
  proof
    assume "?fs = []"
    with v have "?f = 0" by (simp add: digits_val_def)
    with assms(3) show False by simp
  qed
  have "0 \<le> \<lfloor>a\<rfloor>" using assms(2) by linarith
  then have i: "int_to_string \<lfloor>a\<rfloor> = nat_to_string (nat \<lfloor>a\<rfloor>)" "(of_nat (nat \<lfloor>a\<rfloor>) :: rat) = of_int \<lfloor>a\<rfloor>"
    by (simp_all add: int_to_string_def)
  have "parse_unsigned (nat_to_string (nat \<lfloor>a\<rfloor>) @ CHR ''.'' # ?fs @ r) =
      Some (of_nat (nat \<lfloor>a\<rfloor>) + of_nat (digits_val ?fs) / 10 ^ length ?fs, r)"
    by (rule parse_unsigned_fraction[OF assms(1) ne]) (rule fraction_digits_digits[OF f])
  then show ?thesis using v by (simp add: i)
qed

lemma parse_printed_number:
  assumes "delim r" "decimal q"
  shows "parse_number (number_to_string (Fin q) @ r) = Some (JNum (Fin q), r)"
proof (cases "of_int \<lfloor>q\<rfloor> = q")
  case True
  then show ?thesis using parse_number_integer[OF assms(1), of "\<lfloor>q\<rfloor>"] by simp
next
  case False
  show ?thesis
  proof (cases "q < 0")
    case True
    have "of_int \<lfloor>- q\<rfloor> \<noteq> - q"
      using False by (metis floor_of_int minus_equation_iff of_int_minus)
    moreover have "decimal (- q)"
      using assms(2) unfolding decimal_def by (metis floor_of_int minus_mult_left of_int_minus)
    ultimately show ?thesis
      using True False parse_number_negative[OF parse_positive_decimal[OF assms(1), of "- q"]] by simp
  next
    case nn: False
    then have "0 < q" using False by (cases "q = 0") auto
    moreover have "hd (int_to_string \<lfloor>q\<rfloor> @ t) \<noteq> CHR ''-''" "int_to_string \<lfloor>q\<rfloor> \<noteq> []" for t
      using nn nat_to_string_hd by (auto simp: int_to_string_def)
    ultimately show ?thesis
      using nn False parse_number_unsigned[OF _ _ parse_positive_decimal[OF assms(1) _ False assms(2)]] by simp
  qed
qed

end
