(* ===== verification/JsonRoundtrip.thy ===== *)
theory JsonRoundtrip
  imports JsonNumber
begin

text \<open>
  Parsing inverts printing: \<open>JSON_parse\<close> reads what \<open>JSON_stringify\<close> writes, with or without
  indentation, and gives the value back with what JSON cannot say cleaned away. The bound on the depth
  of the parser never matters.
\<close>

section \<open>The bound on the depth\<close>

definition all_ws :: "string \<Rightarrow> bool" where
  "all_ws w = list_all is_json_ws w"

lemma all_ws_simps [simp]: "all_ws []" "all_ws (v @ w) = (all_ws v \<and> all_ws w)"
  by (simp_all add: all_ws_def)

lemma skip_ws_append [simp]: "all_ws w \<Longrightarrow> skip_ws (w @ s) = skip_ws s"
  by (induction w) (simp_all add: all_ws_def skip_ws_def)

lemma parse_value_ws: "all_ws w \<Longrightarrow> parse_value n (w @ s) = parse_value n s"
  by (cases n) (simp_all add: parse_value.simps(2))

lemma parse_chars_consumes: "parse_chars s = Some (t, r) \<Longrightarrow> length r < length s"
proof (induction s arbitrary: t r rule: parse_chars.induct)
  case (2 c cs)
  then show ?case
    by (fastforce split: if_splits option.splits list.splits)
qed simp

lemma skip_ws_length: "length (skip_ws s) \<le> length s"
  by (simp add: skip_ws_def length_dropWhile_le)

lemma skip_ws_Cons: "skip_ws s = c # cs \<Longrightarrow> length cs < length s"
  using skip_ws_length[of s] by simp

lemma digits_consumed: "length (dropWhile is_digit s) \<le> length s"
  by (rule length_dropWhile_le)

lemma parse_exponent_length: "parse_exponent s = Some (e, r) \<Longrightarrow> length r \<le> length s"
proof -
  assume a: "parse_exponent s = Some (e, r)"
  show ?thesis
  proof (cases s)
    case Nil with a show ?thesis by (simp add: parse_exponent_def)
  next
    case (Cons c cs)
    have "length (dropWhile is_digit (tl cs)) \<le> length cs" "length (dropWhile is_digit cs) \<le> length cs"
      using digits_consumed[of "tl cs"] digits_consumed[of cs] by (auto simp del: length_dropWhile_le)
    with a Cons show ?thesis by (auto simp: parse_exponent_def Let_def split: if_splits)
  qed
qed

lemma parse_fraction_length: "parse_fraction s = Some (fp, r) \<Longrightarrow> length r \<le> length s"
  by (auto simp: parse_fraction_def le_SucI length_dropWhile_le split: list.splits if_splits)

lemma parse_unsigned_consumes: "parse_unsigned s = Some (q, r) \<Longrightarrow> length r < length s"
proof -
  assume a: "parse_unsigned s = Some (q, r)"
  then obtain fp r1 where "takeWhile is_digit s \<noteq> []" and f: "parse_fraction (dropWhile is_digit s) = Some (fp, r1)"
    and e: "\<exists>e. parse_exponent r1 = Some (e, r)"
    by (auto simp: parse_unsigned_def Let_def split: if_splits option.splits)
  then have "length (dropWhile is_digit s) < length s"
    by (metis append_self_conv2 length_append length_greater_0_conv less_add_same_cancel2 takeWhile_dropWhile_id)
  with parse_fraction_length[OF f] parse_exponent_length e show ?thesis by (meson le_less_trans order.trans)
qed

lemma parse_number_consumes: "parse_number s = Some (v, r) \<Longrightarrow> length r < length s"
  using parse_unsigned_consumes by (fastforce simp: parse_number_def split: list.splits if_splits)

lemma parse_word_consumes: "w \<noteq> [] \<Longrightarrow> parse_word w v s = Some (v', r) \<Longrightarrow> length r < length s"
  by (cases s) (auto simp: parse_word_def split: if_splits)

lemma tl_skip_ws: "skip_ws s \<noteq> [] \<Longrightarrow> length (tl (skip_ws s)) < length s"
  using skip_ws_length[of s] by (cases "skip_ws s") auto

lemma parse_value_step_consumes:
  assumes "\<And>s vs r. parse_elements n s = Some (vs, r) \<Longrightarrow> length r < length s"
    "\<And>s kvs r. parse_members n s = Some (kvs, r) \<Longrightarrow> length r < length s"
    and p: "parse_value (Suc n) s = Some (v, r)"
  shows "length r < length s"
proof (cases "skip_ws s")
  case Nil with p show ?thesis by (simp add: parse_value.simps(2))
next
  case (Cons c cs)
  have l: "Suc (length cs) \<le> length s" using skip_ws_Cons[OF Cons] by simp
  show ?thesis
    using p l assms(1)[of cs] assms(2)[of cs] parse_chars_consumes[of cs] tl_skip_ws[of cs]
      parse_word_consumes[of _ _ "c # cs"] parse_number_consumes[of "c # cs"]
    by (fastforce simp: parse_value.simps(2) Cons split: if_splits)
qed

lemma parse_elements_step_consumes:
  assumes "\<And>s v r. parse_value n s = Some (v, r) \<Longrightarrow> length r < length s"
    "\<And>s vs r. parse_elements n s = Some (vs, r) \<Longrightarrow> length r < length s"
    and p: "parse_elements (Suc n) s = Some (vs, r)"
  shows "length r < length s"
proof -
  from p obtain v r1 where v: "parse_value n s = Some (v, r1)"
    by (auto simp: parse_elements.simps(2) split: option.splits)
  then have l: "length r1 < length s" by (rule assms(1))
  show ?thesis
  proof (cases "skip_ws r1")
    case Nil with p v show ?thesis by (simp add: parse_elements.simps(2))
  next
    case (Cons c cs)
    with p v l skip_ws_Cons[OF Cons] show ?thesis
      by (fastforce simp: parse_elements.simps(2) dest: assms(2) split: if_splits)
  qed
qed

lemma parse_members_step_consumes:
  assumes "\<And>s v r. parse_value n s = Some (v, r) \<Longrightarrow> length r < length s"
    "\<And>s kvs r. parse_members n s = Some (kvs, r) \<Longrightarrow> length r < length s"
    and p: "parse_members (Suc n) s = Some (kvs, r)"
  shows "length r < length s"
proof -
  from p obtain ks k r0 v r1 where k: "skip_ws s = CHR 0x22 # ks" "parse_chars ks = Some (k, r0)"
      "skip_ws r0 \<noteq> []" "hd (skip_ws r0) = CHR '':''" and v: "parse_value n (tl (skip_ws r0)) = Some (v, r1)"
    by (auto simp: parse_members.simps(2) split: option.splits list.splits if_splits)
  have "length r1 < length (tl (skip_ws r0))" using v by (rule assms(1))
  also have "\<dots> < length r0" by (rule tl_skip_ws) fact
  also have "\<dots> < length ks" using k(2) by (rule parse_chars_consumes)
  also have "\<dots> < length s" using k(1) by (rule skip_ws_Cons)
  finally have l: "length r1 < length s" .
  show ?thesis
  proof (cases "skip_ws r1")
    case Nil with p v k show ?thesis by (simp add: parse_members.simps(2))
  next
    case (Cons c cs)
    with p v k l skip_ws_Cons[OF Cons] show ?thesis
      by (fastforce simp: parse_members.simps(2) dest: assms(2) split: if_splits)
  qed
qed

lemma parse_consumes:
  "(parse_value n s = Some (v, r) \<longrightarrow> length r < length s) \<and>
   (parse_elements n s = Some (vs, r) \<longrightarrow> length r < length s) \<and>
   (parse_members n s = Some (kvs, r) \<longrightarrow> length r < length s)"
proof (induction n arbitrary: s v vs kvs r)
  case (Suc n)
  have ih: "parse_value n s = Some (v, r) \<Longrightarrow> length r < length s"
    "parse_elements n s = Some (vs, r) \<Longrightarrow> length r < length s"
    "parse_members n s = Some (kvs, r) \<Longrightarrow> length r < length s" for s v vs kvs r
    using Suc.IH by blast+
  show ?case
    by (intro conjI impI; erule parse_value_step_consumes[rotated 2] parse_elements_step_consumes[rotated 2]
        parse_members_step_consumes[rotated 2]; erule ih)
qed simp

lemmas parse_value_consumes = parse_consumes[THEN conjunct1, rule_format]

text \<open>A call with more depth than twice the length of its text never runs out of it.\<close>

lemma depth_enough:
  "(2 * length s < n \<longrightarrow> parse_value (Suc n) s = parse_value n s) \<and>
   (2 * length s + 1 < n \<longrightarrow> parse_elements (Suc n) s = parse_elements n s) \<and>
   (2 * length s + 1 < n \<longrightarrow> parse_members (Suc n) s = parse_members n s)"
proof (induction n arbitrary: s)
  case (Suc n)
  have v: "parse_value (Suc n) t = parse_value n t" if "2 * length t < n" for t using Suc that by blast
  have e: "parse_elements (Suc n) t = parse_elements n t" if "2 * length t + 1 < n" for t using Suc that by blast
  have m: "parse_members (Suc n) t = parse_members n t" if "2 * length t + 1 < n" for t using Suc that by blast
  have 1: "parse_value (Suc (Suc n)) s = parse_value (Suc n) s" if "2 * length s < Suc n"
  proof (cases "skip_ws s")
    case (Cons c cs)
    then have "2 * length cs + 1 < n" using skip_ws_Cons[OF Cons] that by simp
    then show ?thesis
      by (simp only: parse_value.simps Cons list.case e m)
  next
    case Nil then show ?thesis by (simp only: parse_value.simps list.case)
  qed
  have 2: "parse_elements (Suc (Suc n)) s = parse_elements (Suc n) s" if "2 * length s + 1 < Suc n"
  proof (cases "parse_value n s")
    case None
    with v[of s] that show ?thesis by (simp add: parse_elements.simps(2))
  next
    case (Some x)
    obtain w r where x: "x = (w, r)" by (cases x)
    have l: "length r < length s" using parse_value_consumes Some x by blast
    have c: "2 * length cs + 1 < n" if "skip_ws r = c # cs" for c cs
      using skip_ws_Cons[OF that] l \<open>2 * length s + 1 < Suc n\<close> by simp
    show ?thesis
      using Some v[of s] that x e[OF c]
      by (cases "skip_ws r") (simp_all add: parse_elements.simps(2))
  qed
  have 3: "parse_members (Suc (Suc n)) s = parse_members (Suc n) s" if "2 * length s + 1 < Suc n"
  proof (cases "skip_ws s")
    case (Cons q ks)
    show ?thesis
    proof (cases "parse_chars ks")
      case (Some x)
      obtain k r0 where x: "x = (k, r0)" by (cases x)
      show ?thesis
      proof (cases "skip_ws r0 = []")
        case False
        let ?t = "tl (skip_ws r0)"
        have l: "length ?t < length s"
          using tl_skip_ws[OF False] parse_chars_consumes[of ks k r0] skip_ws_Cons[OF Cons] Some x by simp
        then have vt: "parse_value (Suc n) ?t = parse_value n ?t" using that by (intro v) simp
        have c: "2 * length cs + 1 < n" if "parse_value n ?t = Some (w, r)" "skip_ws r = c # cs" for w r c cs
          using skip_ws_Cons[OF that(2)] parse_value_consumes[OF that(1)] l \<open>2 * length s + 1 < Suc n\<close> by simp
        show ?thesis
          using Some vt m[OF c] x Cons False
          unfolding parse_members.simps(2)[of "Suc n" s] parse_members.simps(2)[of n s]
          by (auto split: list.splits option.splits)
      qed (use Some x Cons in \<open>simp add: parse_members.simps(2)\<close>)
    qed (simp add: Cons parse_members.simps(2))
  next
    case Nil then show ?thesis by (simp only: parse_members.simps list.case)
  qed
  show ?case using 1 2 3 by blast
qed simp

lemma depth_irrelevant: "2 * length s < n \<Longrightarrow> parse_value n s = parse_value (2 * length s + 1) s"
proof (induction n)
  case (Suc n)
  then show ?case
    using depth_enough[of s n] by (cases "2 * length s < n") (auto simp: less_Suc_eq)
qed simp

section \<open>Reading what was printed\<close>

text \<open>What JSON keeps of a value: \<open>undefined\<close> is dropped from an object and \<open>null\<close> in an array, the
  numbers that are not finite are \<open>null\<close>, a date is its text, the properties are in the order of
  enumeration.\<close>

fun clean_json :: "(rat \<Rightarrow> string) \<Rightarrow> jsval \<Rightarrow> jsval" where
  "clean_json iso_text JUndef = JNull"
| "clean_json iso_text JNull = JNull"
| "clean_json iso_text (JBool b) = JBool b"
| "clean_json iso_text (JNum n) = (case n of Fin q \<Rightarrow> JNum (Fin q) | _ \<Rightarrow> JNull)"
| "clean_json iso_text (JStr s) = JStr s"
| "clean_json iso_text (JMoment t) = JStr (iso_text t)"
| "clean_json iso_text (JArr vs) = JArr (map (clean_json iso_text) vs)"
| "clean_json iso_text (JObj ob) =
     JObj (property_order (map (\<lambda>(k, v). (k, clean_json iso_text v)) (filter (\<lambda>(k, v). v \<noteq> JUndef) ob)))"

text \<open>The values that occur: objects with distinct keys, and numbers with at most twenty decimal places.\<close>

fun json_ok :: "jsval \<Rightarrow> bool" where
  "json_ok (JNum (Fin q)) = decimal q"
| "json_ok (JArr vs) = list_all json_ok vs"
| "json_ok (JObj ob) = (distinct (map fst ob) \<and> list_all (\<lambda>(k, v). json_ok v) ob)"
| "json_ok _ = True"

definition parses :: "string \<Rightarrow> jsval \<Rightarrow> bool" where
  "parses t v = (\<forall>n r. delim r \<longrightarrow> 2 * length (t @ r) < n \<longrightarrow> parse_value n (t @ r) = Some (v, r))"

lemma parsesD: "parses t v \<Longrightarrow> delim r \<Longrightarrow> 2 * length (t @ r) < n \<Longrightarrow> parse_value n (t @ r) = Some (v, r)"
  by (simp add: parses_def)

lemma parsesI:
  "(\<And>n r. delim r \<Longrightarrow> 2 * length (t @ r) \<le> n \<Longrightarrow> parse_value (Suc n) (t @ r) = Some (v, r)) \<Longrightarrow> parses t v"
  unfolding parses_def by (metis less_Suc_eq_le not_less0 old.nat.exhaust)

lemma skip_ws_Cons_simp: "skip_ws (c # cs) = (if is_json_ws c then skip_ws cs else c # cs)"
  by (simp add: skip_ws_def)

lemma is_json_ws_not [simp]:
  "\<not> is_json_ws CHR '']''" "\<not> is_json_ws CHR ''[''" "\<not> is_json_ws CHR ''{''" "\<not> is_json_ws CHR ''}''"
  "\<not> is_json_ws CHR '',''" "\<not> is_json_ws CHR '':''" "\<not> is_json_ws CHR 0x22" "\<not> is_json_ws CHR ''n''"
  "\<not> is_json_ws CHR ''t''" "\<not> is_json_ws CHR ''f''" "\<not> is_json_ws CHR ''-''"
  by (simp_all add: is_json_ws_def)

lemma delim_ws: "all_ws w \<Longrightarrow> delim r \<Longrightarrow> delim (w @ r)"
  by (cases w) (auto simp: delim_def all_ws_def)

lemma delim_Cons: "c \<in> {CHR '','', CHR '']'', CHR ''}''} \<Longrightarrow> delim (c # r)"
  by (simp add: delim_def)

lemma parse_elements_ws: "all_ws w \<Longrightarrow> parse_elements n (w @ s) = parse_elements n s"
  by (cases n) (simp_all add: parse_elements.simps(2) parse_value_ws)

lemma parse_members_ws: "all_ws w \<Longrightarrow> parse_members n (w @ s) = parse_members n s"
  by (cases n) (simp_all add: parse_members.simps(2))

lemma parse_elements_printed:
  assumes "list_all2 parses ts vs" "ts \<noteq> []" "all_ws sep" "all_ws w"
    "2 * length (join (CHR '','' # sep) ts @ w @ CHR '']'' # r) + 1 < n"
  shows "parse_elements n (join (CHR '','' # sep) ts @ w @ CHR '']'' # r) = Some (vs, r)"
  using assms
proof (induction ts vs arbitrary: n rule: list_all2_induct)
  case (Cons t ts v vs)
  obtain m where n: "n = Suc m" using Cons.prems(4) by (cases n) auto
  show ?case
  proof (cases "ts = []")
    case True
    have "parse_value m (t @ w @ CHR '']'' # r) = Some (v, w @ CHR '']'' # r)"
      using Cons.prems True n by (intro parsesD[OF Cons.hyps(1)] delim_ws delim_Cons) auto
    with True Cons.hyps(2) Cons.prems(3) show ?thesis
      by (simp add: n parse_elements.simps(2) skip_ws_Cons_simp)
  next
    case False
    let ?rest = "join (CHR '','' # sep) ts @ w @ CHR '']'' # r"
    have "parse_value m (t @ CHR '','' # sep @ ?rest) = Some (v, CHR '','' # sep @ ?rest)"
      using Cons.prems False n by (intro parsesD[OF Cons.hyps(1)] delim_Cons) (auto simp: join_Cons)
    moreover have "parse_elements m ?rest = Some (vs, r)"
      using Cons.prems False n by (intro Cons.IH) (auto simp: join_Cons)
    ultimately show ?thesis
      using False Cons.prems(2) by (simp add: n parse_elements.simps(2) join_Cons skip_ws_Cons_simp parse_elements_ws)
  qed
qed simp

lemma parse_members_printed:
  assumes "list_all2 (\<lambda>(k, t) (k', v). k = k' \<and> parses t v) kts kvs" "kts \<noteq> []" "all_ws sep" "all_ws w"
    "2 * length (join (CHR '','' # sep) (map (\<lambda>(k, t). json_member gap k t) kts) @ w @ CHR ''}'' # r) + 1 < n"
  shows "parse_members n (join (CHR '','' # sep) (map (\<lambda>(k, t). json_member gap k t) kts) @ w @ CHR ''}'' # r) =
    Some (kvs, r)"
  using assms
proof (induction kts kvs arbitrary: n rule: list_all2_induct)
  case (Cons kt kts kv kvs)
  obtain k t v where kt: "kt = (k, t)" and kv: "kv = (k, v)" and t: "parses t v"
    using Cons.hyps(1) by (cases kt; cases kv) auto
  obtain m where n: "n = Suc m" using Cons.prems(4) by (cases n) auto
  let ?sp = "if gap = [] then [] else '' ''"
  have sp: "all_ws ?sp" by (simp add: all_ws_def is_json_ws_def)
  have q: "json_member gap k t @ u = CHR 0x22 # List.concat (map json_escape k) @ CHR 0x22 # CHR '':'' # ?sp @ t @ u" for u
    by (simp add: json_member_def json_quote_def)
  have len: "length t < length (json_member gap k t)" by (simp add: json_member_def json_quote_def)
  show ?case
  proof (cases "kts = []")
    case True
    have "parse_value m (t @ w @ CHR ''}'' # r) = Some (v, w @ CHR ''}'' # r)"
      using Cons.prems True n len kt by (intro parsesD[OF t] delim_ws delim_Cons) auto
    with True Cons.hyps(2) Cons.prems(3) show ?thesis
      by (simp add: n kt kv q parse_members.simps(2) skip_ws_Cons_simp parse_quoted parse_value_ws[OF sp])
  next
    case False
    let ?rest = "join (CHR '','' # sep) (map (\<lambda>(k, t). json_member gap k t) kts) @ w @ CHR ''}'' # r"
    have "parse_value m (t @ CHR '','' # sep @ ?rest) = Some (v, CHR '','' # sep @ ?rest)"
      using Cons.prems False n len kt by (intro parsesD[OF t] delim_Cons) (auto simp: join_Cons)
    moreover have "parse_members m ?rest = Some (kvs, r)"
      using Cons.prems False n by (intro Cons.IH) (auto simp: join_Cons)
    ultimately show ?thesis
      using False Cons.prems(2)
      by (simp add: n kt kv join_Cons q parse_members.simps(2) skip_ws_Cons_simp parse_quoted parse_value_ws[OF sp]
          parse_members_ws)
  qed
qed simp

section \<open>Objects\<close>

lemma sort_key_filter_swap: "filter P (sort_key f xs) = sort_key f (filter P xs)"
  by (rule filter_sort)

lemma sort_key_map: "sort_key f (map g xs) = map g (sort_key (f \<circ> g) xs)"
proof (induction xs)
  case (Cons x xs)
  have "insort_key f (g x) (map g ys) = map g (insort_key (f \<circ> g) x ys)" for ys
    by (induction ys) auto
  with Cons show ?case by (simp add: comp_def)
qed simp

lemma property_order_map: "property_order (map (\<lambda>(k, v). (k, h v)) ob) = map (\<lambda>(k, v). (k, h v)) (property_order ob)"
proof -
  have c: "(f \<circ> fst) \<circ> (\<lambda>(k, v). (k, h v)) = f \<circ> fst" for f :: "string \<Rightarrow> 'c" by auto
  show ?thesis unfolding property_order_def filter_map sort_key_map map_append o_assoc[symmetric] by (simp add: c o_assoc[symmetric] comp_def case_prod_beta)
qed

lemma property_order_filter: "property_order (filter P ob) = filter P (property_order ob)"
  by (simp add: property_order_def filter_sort conj_commute)

lemma set_property_order [simp]: "set (property_order ob) = set ob"
  by (auto simp: property_order_def)

lemma distinct_property_order: "distinct (map fst ob) \<Longrightarrow> distinct (map fst (property_order ob))"
proof -
  assume d: "distinct (map fst ob)"
  then have "distinct (property_order ob)" by (auto simp: property_order_def distinct_map)
  with d show ?thesis by (simp add: distinct_map)
qed

lemma object_of_distinct: "distinct (map fst kvs) \<Longrightarrow> object_of kvs = JObj kvs"
proof -
  have "foldl (\<lambda>ob (k, v). obj_set k v ob) acc kvs = acc @ kvs" if "distinct (map fst (acc @ kvs))" for acc
    using that
  proof (induction kvs arbitrary: acc)
    case (Cons kv kvs)
    obtain k v where kv: "kv = (k, v)" by (cases kv)
    have "obj_set k v acc = acc @ [(k, v)]" using Cons.prems by (intro obj_set_new) (auto simp: kv)
    with Cons show ?case by (simp add: kv)
  qed simp
  from this[of "[]"] show "distinct (map fst kvs) \<Longrightarrow> object_of kvs = JObj kvs" by (simp add: object_of_def)
qed

lemma stringify_undefined: "stringify_at iso_text gap ind v = None \<longleftrightarrow> v = JUndef"
  by (cases v) simp_all

text \<open>The members of an object, their texts and what they are read as.\<close>

definition printed_members :: "(rat \<Rightarrow> string) \<Rightarrow> string \<Rightarrow> string \<Rightarrow> jsobj \<Rightarrow> (string \<times> string) list" where
  "printed_members iso_text gap ind ob =
     map (\<lambda>(k, v). (k, the (stringify_at iso_text gap ind v))) (filter (\<lambda>(k, v). v \<noteq> JUndef) (property_order ob))"

lemma members_of_printed:
  "members_of gap (map (\<lambda>(k, v). (k, stringify_at iso_text gap ind v)) ob) =
     map (\<lambda>(k, t). json_member gap k t) (printed_members iso_text gap ind ob)"
proof -
  have "List.map_filter (\<lambda>(k, t). map_option (json_member gap k) t) (map (\<lambda>(k, v). (k, stringify_at iso_text gap ind v)) po) =
      map (\<lambda>(k, t). json_member gap k t)
        (map (\<lambda>(k, v). (k, the (stringify_at iso_text gap ind v))) (filter (\<lambda>(k, v). v \<noteq> JUndef) po))" for po
  proof (induction po)
    case (Cons kv po)
    obtain k v where kv: "kv = (k, v)" by (cases kv)
    show ?case
      using Cons stringify_undefined[of iso_text gap ind v]
      by (cases "stringify_at iso_text gap ind v") (auto simp: kv List.map_filter_simps)
  qed (simp add: List.map_filter_simps)
  then show ?thesis by (simp only: members_of_def printed_members_def property_order_map)
qed

section \<open>The round trip\<close>

lemma all_ws_new_line: "all_ws gap \<Longrightarrow> all_ws ind \<Longrightarrow> all_ws (new_line gap ind)"
  by (simp add: new_line_def all_ws_def is_json_ws_def)

lemma parse_value_Cons:
  "\<not> is_json_ws c \<Longrightarrow> parse_value (Suc n) (c # cs) =
     (if c = CHR 0x22 then map_option (\<lambda>(t, r). (JStr t, r)) (parse_chars cs)
      else if c = CHR ''['' then
        (if skip_ws cs \<noteq> [] \<and> hd (skip_ws cs) = CHR '']'' then Some (JArr [], tl (skip_ws cs))
         else map_option (\<lambda>(vs, r). (JArr vs, r)) (parse_elements n cs))
      else if c = CHR ''{'' then
        (if skip_ws cs \<noteq> [] \<and> hd (skip_ws cs) = CHR ''}'' then Some (JObj [], tl (skip_ws cs))
         else map_option (\<lambda>(kvs, r). (object_of kvs, r)) (parse_members n cs))
      else if c = CHR ''n'' then parse_word ''null'' JNull (c # cs)
      else if c = CHR ''t'' then parse_word ''true'' (JBool True) (c # cs)
      else if c = CHR ''f'' then parse_word ''false'' (JBool False) (c # cs)
      else parse_number (c # cs))"
  by (simp add: parse_value.simps(2) skip_ws_Cons_simp)

lemma parses_null: "parses ''null'' JNull"
  by (rule parsesI) (simp add: parse_value_Cons parse_word_def)

lemma parses_bool: "parses ''true'' (JBool True)" "parses ''false'' (JBool False)"
  by (rule parsesI, simp add: parse_value_Cons parse_word_def)+

lemma parses_string: "parses (json_quote s) (JStr s)"
  by (rule parsesI) (simp add: parse_value_Cons json_quote_def parse_quoted)

lemma number_start:
  "number_to_string (Fin q) \<noteq> [] \<and> (is_digit (hd (number_to_string (Fin q))) \<or> hd (number_to_string (Fin q)) = CHR ''-'')"
proof -
  have n: "is_digit (hd (nat_to_string n @ t))" for n t
    by (metis hd_append2 hd_in_set nat_to_string_digits nat_to_string_nonempty)
  then have "int_to_string i \<noteq> [] \<and> (is_digit (hd (int_to_string i @ t)) \<or> hd (int_to_string i @ t) = CHR ''-'')" for i t
    by (simp add: int_to_string_def)
  from this[of _ "[]"] this show ?thesis by auto
qed

lemma parses_number:
  assumes "decimal q"
  shows "parses (number_to_string (Fin q)) (JNum (Fin q))"
proof (rule parsesI)
  fix n r assume r: "delim r"
  obtain c cs where c: "number_to_string (Fin q) = c # cs" using number_start[of q] by (cases "number_to_string (Fin q)") auto
  then have "is_digit c \<or> c = CHR ''-''" using number_start[of q] by simp
  then have "\<not> is_json_ws c \<and> c \<notin> {CHR 0x22, CHR ''['', CHR ''{'', CHR ''n'', CHR ''t'', CHR ''f''}"
    by (auto simp: is_digit_def is_json_ws_def)
  then have "parse_value (Suc n) (number_to_string (Fin q) @ r) = parse_number (number_to_string (Fin q) @ r)"
    unfolding c by (simp add: parse_value_Cons)
  then show "parse_value (Suc n) (number_to_string (Fin q) @ r) = Some (JNum (Fin q), r)"
    using parse_printed_number[OF r assms] by simp
qed

lemma parse_value_not_bracket: "parse_value n s = Some x \<Longrightarrow> skip_ws s \<noteq> [] \<and> hd (skip_ws s) \<noteq> CHR '']''"
  by (cases n) (auto simp: parse_value.simps(2) parse_number_def parse_unsigned_def is_digit_def split: list.splits)

lemma parse_elements_not_bracket: "parse_elements n s = Some x \<Longrightarrow> hd (skip_ws s) \<noteq> CHR '']''"
  by (cases n) (auto simp: parse_elements.simps(2) split: option.splits dest: parse_value_not_bracket)

lemma parse_members_not_brace: "parse_members n s = Some x \<Longrightarrow> hd (skip_ws s) \<noteq> CHR ''}''"
  by (cases n) (auto simp: parse_members.simps(2) split: list.splits if_splits)

lemma parses_array:
  assumes "all_ws gap" "all_ws ind" "list_all2 parses ts vs"
  shows "parses (bracket gap ind CHR ''['' CHR '']'' ts) (JArr vs)"
proof (cases "ts = []")
  case True
  with assms show ?thesis by (intro parsesI) (simp add: parse_value_Cons bracket_def skip_ws_Cons_simp)
next
  case False
  let ?w = "new_line gap (ind @ gap)" and ?e = "new_line gap ind"
  have ws: "all_ws ?w" "all_ws ?e" using assms by (simp_all add: all_ws_new_line)
  show ?thesis
  proof (rule parsesI)
    fix n r assume l: "2 * length (bracket gap ind CHR ''['' CHR '']'' ts @ r) \<le> n"
    let ?s = "join (CHR '','' # ?w) ts @ ?e @ CHR '']'' # r"
    have "parse_elements n ?s = Some (vs, r)"
      using l False by (intro parse_elements_printed[OF assms(3) False ws]) (simp add: bracket_def)
    then have "parse_elements n (?w @ ?s) = Some (vs, r)" by (simp add: parse_elements_ws[OF ws(1)])
    with parse_elements_not_bracket[OF this] False
    show "parse_value (Suc n) (bracket gap ind CHR ''['' CHR '']'' ts @ r) = Some (JArr vs, r)"
      by (simp add: bracket_def parse_value_Cons)
  qed
qed

lemma parses_object:
  assumes "all_ws gap" "all_ws ind" "list_all2 (\<lambda>(k, t) (k', v). k = k' \<and> parses t v) kts kvs"
    and d: "distinct (map fst kvs)"
  shows "parses (bracket gap ind CHR ''{'' CHR ''}'' (map (\<lambda>(k, t). json_member gap k t) kts)) (JObj kvs)"
proof (cases "kts = []")
  case True
  with assms show ?thesis by (intro parsesI) (simp add: parse_value_Cons bracket_def skip_ws_Cons_simp)
next
  case False
  let ?w = "new_line gap (ind @ gap)" and ?e = "new_line gap ind" and ?ms = "map (\<lambda>(k, t). json_member gap k t) kts"
  have ws: "all_ws ?w" "all_ws ?e" using assms by (simp_all add: all_ws_new_line)
  show ?thesis
  proof (rule parsesI)
    fix n r assume l: "2 * length (bracket gap ind CHR ''{'' CHR ''}'' ?ms @ r) \<le> n"
    let ?s = "join (CHR '','' # ?w) ?ms @ ?e @ CHR ''}'' # r"
    have "parse_members n ?s = Some (kvs, r)"
      using l False by (intro parse_members_printed[OF assms(3) False ws]) (simp add: bracket_def)
    then have "parse_members n (?w @ ?s) = Some (kvs, r)" by (simp add: parse_members_ws[OF ws(1)])
    with parse_members_not_brace[OF this] False
    show "parse_value (Suc n) (bracket gap ind CHR ''{'' CHR ''}'' ?ms @ r) = Some (JObj kvs, r)"
      by (simp add: bracket_def parse_value_Cons object_of_distinct[OF d])
  qed
qed

lemma json_number_parses: "json_ok (JNum n) \<Longrightarrow> parses (json_number n) (clean_json iso_text (JNum n))"
  by (cases n) (simp_all add: parses_null parses_number del: number_to_string.simps(4))

lemma clean_object: "clean_json iso_text (JObj ob) =
  JObj (map (\<lambda>(k, v). (k, clean_json iso_text v)) (filter (\<lambda>(k, v). v \<noteq> JUndef) (property_order ob)))"
  by (simp add: property_order_map property_order_filter)

lemma stringify_parses:
  "json_ok v \<Longrightarrow> all_ws gap \<Longrightarrow> all_ws ind \<Longrightarrow> stringify_at iso_text gap ind v = Some t \<Longrightarrow>
   parses t (clean_json iso_text v)"
proof (induction v arbitrary: ind t)
  case (JArr vs)
  let ?f = "\<lambda>v. case stringify_at iso_text gap (ind @ gap) v of None \<Rightarrow> ''null'' | Some t \<Rightarrow> t"
  have "parses (?f v) (clean_json iso_text v)" if "v \<in> set vs" for v
  proof (cases "stringify_at iso_text gap (ind @ gap) v")
    case None
    then have "v = JUndef" by (simp add: stringify_undefined)
    then show ?thesis by (simp add: parses_null)
  next
    case (Some t)
    with JArr.IH[OF that _ _ _ Some] JArr.prems that show ?thesis by (simp add: list_all_iff)
  qed
  then have "list_all2 parses (map ?f vs) (map (clean_json iso_text) vs)"
    by (simp add: list_all2_map1 list_all2_map2 list_all2_same)
  with JArr.prems parses_array show ?case by auto
next
  case (JObj ob)
  let ?po = "filter (\<lambda>(k, v). v \<noteq> JUndef) (property_order ob)"
  let ?kts = "printed_members iso_text gap (ind @ gap) ob" and ?kvs = "map (\<lambda>(k, v). (k, clean_json iso_text v)) ?po"
  have "parses (the (stringify_at iso_text gap (ind @ gap) v)) (clean_json iso_text v)" if "(k, v) \<in> set ?po" for k v
  proof -
    have v: "(k, v) \<in> set ob" "v \<noteq> JUndef" using that by auto
    then obtain t where t: "stringify_at iso_text gap (ind @ gap) v = Some t" using stringify_undefined by blast
    have "json_ok v" using JObj.prems(1) v by (auto simp: list_all_iff)
    with JObj.IH[OF v(1) _ this _ _ t] JObj.prems t show ?thesis by simp
  qed
  then have "list_all2 (\<lambda>(k, t) (k', v). k = k' \<and> parses t v) ?kts ?kvs"
    by (auto simp: printed_members_def list_all2_map1 list_all2_map2 case_prod_beta intro!: list.rel_refl_strong)
  moreover have "distinct (map fst ?kvs)"
    using JObj.prems(1) distinct_property_order[of ob]
    by (auto simp: case_prod_beta comp_def intro: distinct_map_filter)
  ultimately have "parses (bracket gap ind CHR ''{'' CHR ''}'' (map (\<lambda>(k, t). json_member gap k t) ?kts)) (JObj ?kvs)"
    using JObj.prems by (intro parses_object) auto
  then show ?case using JObj.prems(4) by (simp add: members_of_printed clean_object del: clean_json.simps(8))
qed (auto simp: parses_null parses_bool parses_string json_number_parses simp del: clean_json.simps(4) split: if_splits)


definition sample_json :: jsval where
  "sample_json = JObj [(''name'', JStr [CHR 0x22, CHR ''x'', CHR 0x0A]), (''b'', JUndef), (''7'', JArr [JUndef, JNum (Fin (- 5 / 4)), JBool True]),
     (''start'', JMoment 0)]"

lemma sample_json_ok: "json_ok sample_json" "sample_json \<noteq> JUndef"
  by code_simp+


text \<open>The copy of a value is what JSON keeps of it; a copy of a copy is the copy.\<close>

lemma cloneDeep_eq: "json_ok v \<Longrightarrow> v \<noteq> JUndef \<Longrightarrow> cloneDeep iso_text v = Some (clean_json iso_text v)"
proof -
  assume v: "json_ok v" "v \<noteq> JUndef"
  obtain t where t: "JSON_stringify iso_text [] v = Some t" using v(2) stringify_undefined by (fastforce simp: JSON_stringify_def)
  have "parses t (clean_json iso_text v)"
    using stringify_parses[OF v(1), of "[]" "[]"] t by (simp add: JSON_stringify_def)
  from parsesD[OF this, of "[]" "2 * length t + 1"] t show ?thesis
    by (simp add: cloneDeep_def JSON_parse_def delim_def skip_ws_def)
qed

fun plain_json :: "jsval \<Rightarrow> bool" where
  "plain_json JUndef = False"
| "plain_json (JMoment t) = False"
| "plain_json (JNum n) = (case n of Fin q \<Rightarrow> True | _ \<Rightarrow> False)"
| "plain_json (JArr vs) = list_all plain_json vs"
| "plain_json (JObj ob) = (property_order ob = ob \<and> list_all (\<lambda>(k, v). plain_json v) ob)"
| "plain_json _ = True"

lemma clean_plain: "plain_json v \<Longrightarrow> clean_json iso_text v = v"
proof (induction v)
  case (JNum n) then show ?case by (cases n) auto
next
  case (JArr vs) then show ?case by (simp add: list_all_iff map_idI)
next
  case (JObj ob)
  have e: "clean_json iso_text v = v \<and> v \<noteq> JUndef" if "(k, v) \<in> set ob" for k v
    using JObj.prems JObj.IH[OF that] that by (auto simp: list_all_iff)
  then have "filter (\<lambda>(k, v). v \<noteq> JUndef) ob = ob" by (auto simp: filter_id_conv)
  moreover have "map (\<lambda>(k, v). (k, clean_json iso_text v)) ob = ob" by (rule map_idI) (use e in auto)
  ultimately show ?case using JObj.prems by simp
qed simp_all

lemma property_order_idem: "property_order (property_order ob) = property_order ob"
proof -
  have "filter P (sort_key f (filter P ob)) = sort_key f (filter P ob)" for P f
    by (simp add: filter_sort)
  moreover have "filter P (filter (Not \<circ> P) ob) = []" "filter (Not \<circ> P) (filter (Not \<circ> P) ob) = filter (Not \<circ> P) ob"
    "filter (Not \<circ> P) (sort_key f (filter P ob)) = []" for P f
    by (auto simp: filter_sort filter_empty_conv comp_def)
  ultimately show ?thesis
    by (simp add: property_order_def o_assoc sort_key_id_if_sorted) (simp add: comp_def)
qed

lemma plain_clean: "plain_json (clean_json iso_text v)"
proof (induction v)
  case (JNum n) then show ?case by (cases n) auto
next
  case (JObj ob)
  have "list_all (\<lambda>(k, v). plain_json v) (property_order (map (\<lambda>(k, v). (k, clean_json iso_text v)) (filter (\<lambda>(k, v). v \<noteq> JUndef) ob)))"
    using JObj.IH by (fastforce simp: list_all_iff)
  then show ?case by (simp add: property_order_idem)
qed (simp_all add: list_all_iff)

lemma json_ok_clean: "json_ok v \<Longrightarrow> json_ok (clean_json iso_text v)"
proof (induction v)
  case (JNum n) then show ?case by (cases n) auto
next
  case (JObj ob)
  have "distinct (map fst (filter (\<lambda>(k, v). v \<noteq> JUndef) ob))" using JObj.prems by (auto intro: distinct_map_filter)
  then have "distinct (map fst (map (\<lambda>(k, v). (k, clean_json iso_text v)) (filter (\<lambda>(k, v). v \<noteq> JUndef) ob)))"
    by (simp add: case_prod_beta comp_def)
  moreover have "list_all (\<lambda>(k, v). json_ok v) (map (\<lambda>(k, v). (k, clean_json iso_text v)) (filter (\<lambda>(k, v). v \<noteq> JUndef) ob))"
    using JObj by (fastforce simp: list_all_iff)
  ultimately show ?case by (simp add: distinct_property_order list_all_iff del: map_map)
qed (simp_all add: list_all_iff)

text \<open>C16. \<open>cloneDeep\<close> throws on \<open>undefined\<close> only. Of what JSON can say it makes an equal copy; in general its
  result is a plain value, and copying that again changes nothing more.\<close>

theorem cloneDeep_spec:
  assumes "json_ok v"
  shows "(cloneDeep iso_text v = None) = (v = JUndef) \<and>
    (plain_json v \<longrightarrow> cloneDeep iso_text v = Some v) \<and>
    (\<forall>c. cloneDeep iso_text v = Some c \<longrightarrow> plain_json c \<and> cloneDeep iso_text c = Some c)"
proof (cases "v = JUndef")
  case True
  then show ?thesis by (simp add: cloneDeep_def JSON_stringify_def)
next
  case False
  let ?c = "clean_json iso_text v"
  have c: "plain_json ?c" "json_ok ?c" by (auto intro: plain_clean json_ok_clean[OF assms])
  then have "?c \<noteq> JUndef" by auto
  then have "cloneDeep iso_text ?c = Some ?c" using cloneDeep_eq[OF c(2)] clean_plain[OF c(1)] by simp
  then show ?thesis using False c cloneDeep_eq[OF assms False] clean_plain[of v] by auto
qed

theorem cloneDeep_spec_witness:
  "cloneDeep (\<lambda>_. ''1970'') sample_json \<noteq> None \<and>
   list_all (\<lambda>c. plain_json c \<and> cloneDeep (\<lambda>_. ''1970'') c = Some c)
     (case cloneDeep (\<lambda>_. ''1970'') sample_json of None \<Rightarrow> [] | Some c \<Rightarrow> [c])"
proof (cases "cloneDeep (\<lambda>_. ''1970'') sample_json")
  case None
  then show ?thesis using cloneDeep_spec[OF sample_json_ok(1), THEN conjunct1] sample_json_ok(2) by blast
next
  case (Some c)
  with cloneDeep_spec[OF sample_json_ok(1), THEN conjunct2, THEN conjunct2, rule_format, OF Some]
  show ?thesis by simp
qed

end
