(* ===== verification/DisplayText.thy ===== *)
theory DisplayText
  imports JsonRoundtrip Sanitize SchedulerPage SettingsPage
begin

text \<open>
  The texts the tables show for structured data: the JSON text of an object with the quotes, and for
  some tables the brackets, taken out. \<^verbatim>\<open>getRule\<close> (scheduler), \<^verbatim>\<open>getCustomFields\<close>
  (devices), \<^verbatim>\<open>getFriendlyPermissions\<close> (roles), \<^verbatim>\<open>getFriendlyObject\<close> (metrics),
  \<^verbatim>\<open>getFriendlyJSON\<close> and \<^verbatim>\<open>getFriendlyArguments\<close> (action results, once on
  the playbook page and once on the execution page). All of them print with an indentation of one space.
\<close>

definition remove_chars :: "string \<Rightarrow> string \<Rightarrow> string" where
  "remove_chars cs s = filter (\<lambda>c. c \<notin> set cs) s"

abbreviation quote_char :: char where
  "quote_char \<equiv> CHR 0x22"

text \<open>\<open>out.substr(1, out.length - 2).replace(/"/g, '')\<close>.\<close>

definition inner_text :: "string \<Rightarrow> string" where
  "inner_text s = remove_chars [quote_char] (take (length s - 2) (drop 1 s))"

section \<open>Rules, fields and permissions\<close>

text \<open>Arguments that are \<open>undefined\<close> have no JSON text, and reading its \<open>substr\<close> throws.\<close>

definition getRule :: "(rat \<Rightarrow> string) \<Rightarrow> scheduled_task \<Rightarrow> string result" where
  "getRule iso_text t =
     (case task_args t of
        None \<Rightarrow> Inl TypeError
      | Some args \<Rightarrow>
          (case JSON_stringify iso_text '' '' (JObj args) of
             None \<Rightarrow> Inl TypeError | Some rule \<Rightarrow> Inr (inner_text rule)))"

definition shown_fields :: "(string \<times> jsval) list \<Rightarrow> jsobj" where
  "shown_fields fs = foldl (\<lambda>ob (n, v). if truthy v then obj_set n v ob else ob) [] fs"

definition json_text :: "(rat \<Rightarrow> string) \<Rightarrow> jsval \<Rightarrow> string" where
  "json_text iso_text v = (case JSON_stringify iso_text '' '' v of None \<Rightarrow> [] | Some t \<Rightarrow> t)"

definition getCustomFields :: "(rat \<Rightarrow> string) \<Rightarrow> device \<Rightarrow> string" where
  "getCustomFields iso_text d = inner_text (json_text iso_text (JObj (shown_fields (dev_fields d))))"

definition getFriendlyObject :: "(rat \<Rightarrow> string) \<Rightarrow> jsobj \<Rightarrow> string" where
  "getFriendlyObject iso_text ob = inner_text (json_text iso_text (JObj ob))"

definition permission_key :: "resource \<Rightarrow> string" where
  "permission_key r = (if truthy_str (res_app_name r) then res_name r @ '' - '' @ template (res_app_name r) else res_name r)"

definition permissions_object :: "resource list \<Rightarrow> jsobj" where
  "permissions_object rs = foldl (\<lambda>ob r. obj_set (permission_key r) (JArr (map JStr (res_permissions r))) ob) [] rs"

definition getFriendlyPermissions :: "(rat \<Rightarrow> string) \<Rightarrow> role \<Rightarrow> string result" where
  "getFriendlyPermissions iso_text r =
     (case role_resources r of
        Val rs \<Rightarrow> Inr (trim (remove_chars [CHR ''{'', CHR ''}'', quote_char] (json_text iso_text (JObj (permissions_object rs)))))
      | _ \<Rightarrow> Inl TypeError)"

section \<open>Action results\<close>

definition getFriendlyJSON :: "(rat \<Rightarrow> string) \<Rightarrow> jsval \<Rightarrow> string" where
  "getFriendlyJSON iso_text v =
     (if \<not> truthy v then ''N/A''
      else let out = trim (remove_chars (''{[]}'' @ [quote_char]) (json_text iso_text v))
           in if out = [] then ''N/A'' else out)"

text \<open>The execution page has the same function once more.\<close>

definition execution_getFriendlyJSON :: "(rat \<Rightarrow> string) \<Rightarrow> jsval \<Rightarrow> string" where
  "execution_getFriendlyJSON = getFriendlyJSON"

text \<open>An argument is shown by its value or, over it, its reference.\<close>

definition shown_argument :: "argument \<Rightarrow> jsobj \<Rightarrow> jsobj" where
  "shown_argument a ob =
     (let ob1 = (if truthy (arg_value a) then obj_set (template (arg_name a)) (arg_value a) ob else ob)
      in if truthy_str (arg_reference a)
         then obj_set (template (arg_name a)) (JStr (template (arg_reference a))) ob1 else ob1)"

definition append_selection :: "argument \<Rightarrow> sel_item list \<Rightarrow> jsobj \<Rightarrow> jsobj" where
  "append_selection a path ob =
     obj_set (template (arg_name a))
       (JStr (to_string (obj_read ob (template (arg_name a))) @ '' ('' @ join ''.'' (map item_string path) @ '')'')) ob"

text \<open>The playbook page appends every selection that is not empty, and a text has no \<open>join\<close>; the
  execution page every selection that is an array.\<close>

definition playbook_shown_argument :: "argument \<Rightarrow> jsobj \<Rightarrow> jsobj result" where
  "playbook_shown_argument a ob =
     (let ob1 = shown_argument a ob
      in case arg_selection a of
           Val (SelPath path) \<Rightarrow> Inr (if path \<noteq> [] then append_selection a path ob1 else ob1)
         | Val (SelText s) \<Rightarrow> if s \<noteq> [] then Inl TypeError else Inr ob1
         | _ \<Rightarrow> Inr ob1)"

definition execution_shown_argument :: "argument \<Rightarrow> jsobj \<Rightarrow> jsobj result" where
  "execution_shown_argument a ob =
     (let ob1 = shown_argument a ob
      in case arg_selection a of
           Val (SelPath path) \<Rightarrow> Inr (append_selection a path ob1)
         | _ \<Rightarrow> Inr ob1)"

fun shown_arguments :: "(argument \<Rightarrow> jsobj \<Rightarrow> jsobj result) \<Rightarrow> argument list \<Rightarrow> jsobj \<Rightarrow> jsobj result" where
  "shown_arguments show_arg [] ob = Inr ob"
| "shown_arguments show_arg (a # as) ob = bind_result (show_arg a ob) (shown_arguments show_arg as)"

definition friendly_arguments ::
  "(argument \<Rightarrow> jsobj \<Rightarrow> jsobj result) \<Rightarrow> (rat \<Rightarrow> string) \<Rightarrow> argument list \<Rightarrow> string result" where
  "friendly_arguments show_arg iso_text as =
     (if as = [] then Inr ''N/A''
      else bind_result (shown_arguments show_arg as [])
             (\<lambda>ob. Inr (remove_chars [CHR ''{'', CHR ''}'', quote_char] (json_text iso_text (JObj ob)))))"

definition playbook_getFriendlyArguments :: "(rat \<Rightarrow> string) \<Rightarrow> argument list \<Rightarrow> string result" where
  "playbook_getFriendlyArguments = friendly_arguments playbook_shown_argument"

definition execution_getFriendlyArguments :: "(rat \<Rightarrow> string) \<Rightarrow> argument list \<Rightarrow> string result" where
  "execution_getFriendlyArguments = friendly_arguments execution_shown_argument"

text \<open>The identifiers of the collapsible parts of the page.\<close>

definition removeWhitespace :: "string \<Rightarrow> string" where
  "removeWhitespace s = filter (\<lambda>c. \<not> is_ws c) s"

definition keys_pipe :: "jsobj \<Rightarrow> string list" where
  "keys_pipe ob = obj_keys ob"

section \<open>What the tables show\<close>

text \<open>A text without quotes, backslashes and control characters is printed as it is.\<close>

definition plain_text :: "string \<Rightarrow> bool" where
  "plain_text s = list_all (\<lambda>c. c \<noteq> quote_char \<and> c \<noteq> CHR 0x5C \<and> 32 \<le> code_unit c) s"

fun scalar :: "jsval \<Rightarrow> bool" where
  "scalar (JStr s) = plain_text s"
| "scalar (JNum (Fin q)) = True"
| "scalar (JBool b) = True"
| "scalar _ = False"

definition flat_object :: "jsobj \<Rightarrow> bool" where
  "flat_object ob = list_all (\<lambda>(k, v). plain_text k \<and> \<not> is_index_key k \<and> scalar v) ob"

definition shown_line :: "string \<times> jsval \<Rightarrow> string" where
  "shown_line = (\<lambda>(k, v). k @ '': '' @ to_string v)"

definition shown_lines :: "jsobj \<Rightarrow> string" where
  "shown_lines ob =
     (if ob = [] then []
      else [CHR 0x0A, CHR '' ''] @ join [CHR '','', CHR 0x0A, CHR '' ''] (map shown_line ob) @ [CHR 0x0A])"

lemma remove_chars_append [simp]: "remove_chars cs (s @ t) = remove_chars cs s @ remove_chars cs t"
  by (simp add: remove_chars_def)

lemma remove_chars_simps [simp]:
  "remove_chars cs [] = []"
  "remove_chars cs (c # s) = (if c \<in> set cs then remove_chars cs s else c # remove_chars cs s)"
  by (simp_all add: remove_chars_def)

lemma remove_chars_join: "remove_chars cs (join sep ts) = join (remove_chars cs sep) (map (remove_chars cs) ts)"
  by (induction sep ts rule: join.induct) simp_all

lemma json_escape_plain: "c \<noteq> quote_char \<Longrightarrow> c \<noteq> CHR 0x5C \<Longrightarrow> 32 \<le> code_unit c \<Longrightarrow> json_escape c = [c]"
  by (simp add: json_escape_def Let_def)

lemma plain_text_quoted: "plain_text s \<Longrightarrow> json_quote s = quote_char # s @ [quote_char]"
proof -
  assume p: "plain_text s"
  have "json_escape c = [c]" if "c \<in> set s" for c
    using p that by (intro json_escape_plain) (auto simp: plain_text_def list_all_iff)
  then have "List.concat (map json_escape s) = s" by (induction s) auto
  then show ?thesis by (simp add: json_quote_def)
qed

lemma plain_text_unquoted: "plain_text s \<Longrightarrow> remove_chars [quote_char] s = s"
  by (auto simp: plain_text_def remove_chars_def list_all_iff filter_id_conv)

lemma number_to_string_no_quote: "quote_char \<notin> set (number_to_string (Fin q))"
proof -
  have n: "quote_char \<notin> set (nat_to_string n)" for n
    using nat_to_string_digits[of quote_char n] by (auto simp: is_digit_def)
  have f: "quote_char \<notin> set (fraction_digits 20 (r - of_int \<lfloor>r\<rfloor>))" for r :: rat
  proof
    assume a: "quote_char \<in> set (fraction_digits 20 (r - of_int \<lfloor>r\<rfloor>))"
    have "is_digit quote_char" by (rule fraction_digits_digits[OF _ _ a]) linarith+
    then show False by (simp add: is_digit_def)
  qed
  show ?thesis using n f[of q] f[of "\<bar>q\<bar>"] by (auto simp: int_to_string_def)
qed

lemma scalar_printed:
  "scalar v \<Longrightarrow> \<exists>t. stringify_at iso_text gap ind v = Some t \<and> remove_chars [quote_char] t = to_string v"
proof (cases v)
  case (JNum n)
  assume "scalar v"
  with JNum obtain q where "n = Fin q" by (cases n) auto
  with JNum number_to_string_no_quote[of q] show ?thesis
    by (auto simp: remove_chars_def filter_id_conv simp del: number_to_string.simps)
next
  case (JStr s)
  assume "scalar v"
  with JStr show ?thesis using plain_text_unquoted[of s]
    by (simp add: plain_text_quoted)
qed auto

lemma member_unquoted:
  assumes "plain_text k" "scalar v"
  shows "remove_chars [quote_char] (json_member '' '' k (the (stringify_at iso_text '' '' ind v))) = shown_line (k, v)"
proof -
  obtain t where "stringify_at iso_text '' '' ind v = Some t" "remove_chars [quote_char] t = to_string v"
    using scalar_printed[OF assms(2)] by blast
  then show ?thesis using plain_text_unquoted[OF assms(1)]
    by (simp add: json_member_def shown_line_def plain_text_quoted[OF assms(1)])
qed

lemma flat_object_order: "flat_object ob \<Longrightarrow> property_order ob = ob"
proof -
  assume "flat_object ob"
  then have "filter (is_index_key \<circ> fst) ob = []" "filter (Not \<circ> is_index_key \<circ> fst) ob = ob"
    by (auto simp: flat_object_def list_all_iff filter_empty_conv filter_id_conv)
  then show ?thesis by (simp add: property_order_def)
qed

lemma flat_members:
  assumes "flat_object ob"
  shows "map (remove_chars [quote_char])
     (members_of '' '' (map (\<lambda>(k, v). (k, stringify_at iso_text '' '' ind v)) ob)) = map shown_line ob"
proof -
  have "filter (\<lambda>(k, v). v \<noteq> JUndef) ob = ob"
    using assms by (auto simp: flat_object_def list_all_iff filter_id_conv)
  then show ?thesis
    using assms by (auto simp: members_of_printed printed_members_def flat_object_order member_unquoted
        flat_object_def list_all_iff)
qed

lemma inner_text_bracket: "inner_text (l # s @ [r]) = remove_chars [quote_char] s"
  by (simp add: inner_text_def)

lemma flat_object_text:
  assumes "flat_object ob"
  shows "inner_text (json_text iso_text (JObj ob)) = shown_lines ob"
proof (cases "ob = []")
  case True
  then show ?thesis
    by (simp add: json_text_def JSON_stringify_def members_of_def property_order_def List.map_filter_simps
        bracket_def shown_lines_def inner_text_def remove_chars_def)
next
  case False
  let ?items = "members_of '' '' (map (\<lambda>(k, v). (k, stringify_at iso_text '' '' '' '' v)) ob)"
  have m: "map (remove_chars [quote_char]) ?items = map shown_line ob" by (rule flat_members[OF assms])
  with False have ne: "?items \<noteq> []" by (metis Nil_is_map_conv)
  have "json_text iso_text (JObj ob) = CHR ''{'' #
      (CHR 0x0A # '' '' @ join [CHR '','', CHR 0x0A, CHR '' ''] ?items @ [CHR 0x0A]) @ [CHR ''}'']"
    using ne by (simp add: json_text_def JSON_stringify_def bracket_def new_line_def)
  then have "inner_text (json_text iso_text (JObj ob)) =
      remove_chars [quote_char] (CHR 0x0A # '' '' @ join [CHR '','', CHR 0x0A, CHR '' ''] ?items @ [CHR 0x0A])"
    by (simp only: inner_text_bracket)
  also have "\<dots> = shown_lines ob"
    using False m by (simp add: shown_lines_def remove_chars_join)
  finally show ?thesis .
qed

lemma shown_fields_distinct:
  "distinct (map fst fs) \<Longrightarrow> shown_fields fs = filter (\<lambda>(n, v). truthy v) fs"
proof -
  have "foldl (\<lambda>ob (n, v). if truthy v then obj_set n v ob else ob) acc fs = acc @ filter (\<lambda>(n, v). truthy v) fs"
    if "distinct (map fst (acc @ fs))" for acc
    using that
  proof (induction fs arbitrary: acc)
    case (Cons x fs)
    obtain n v where x: "x = (n, v)" by (cases x)
    show ?case
    proof (cases "truthy v")
      case True
      have "obj_set n v acc = acc @ [(n, v)]" using Cons.prems by (intro obj_set_new) (auto simp: x)
      with Cons True show ?thesis by (simp add: x)
    next
      case False
      with Cons show ?thesis by (simp add: x)
    qed
  qed simp
  from this[of "[]"] show "distinct (map fst fs) \<Longrightarrow> shown_fields fs = filter (\<lambda>(n, v). truthy v) fs"
    by (simp add: shown_fields_def)
qed

text \<open>C34. For flat objects whose texts need no escapes the tables show one line per property, name and
  value: of a trigger all its arguments, of a device exactly the fields whose value is truthy.\<close>

theorem shown_lines_spec:
  assumes "task_args t = Some args" "flat_object args"
    and "distinct (map fst (dev_fields d))" "flat_object (filter (\<lambda>(n, v). truthy v) (dev_fields d))"
  shows "getRule iso_text t = Inr (shown_lines args) \<and>
    getCustomFields iso_text d = shown_lines (filter (\<lambda>(n, v). truthy v) (dev_fields d))"
proof -
  obtain rule where r: "JSON_stringify iso_text '' '' (JObj args) = Some rule"
    by (simp add: JSON_stringify_def)
  then have "getRule iso_text t = Inr (inner_text (json_text iso_text (JObj args)))"
    by (simp add: getRule_def assms(1) json_text_def)
  then show ?thesis
    using flat_object_text[OF assms(2), of iso_text] flat_object_text[OF assms(4), of iso_text]
    by (simp add: getCustomFields_def shown_fields_distinct[OF assms(3)])
qed

definition sample_cron_task :: scheduled_task where
  "sample_cron_task = new_task\<lparr>task_args := Some [(''hour'', JStr ''*/2''), (''minute'', JNum (Fin 30))]\<rparr>"

lemma sample_flat:
  "flat_object [(''hour'', JStr ''*/2''), (''minute'', JNum (Fin 30))]"
  "flat_object (filter (\<lambda>(n, v). truthy v) (dev_fields sample_device))"
  by code_simp+

theorem shown_lines_spec_witness:
  "getRule (\<lambda>_. []) sample_cron_task = Inr (shown_lines [(''hour'', JStr ''*/2''), (''minute'', JNum (Fin 30))]) \<and>
   getCustomFields (\<lambda>_. []) sample_device = shown_lines (filter (\<lambda>(n, v). truthy v) (dev_fields sample_device))"
  by (rule shown_lines_spec) (simp_all add: sample_flat, simp_all add: sample_cron_task_def sample_device_def)

lemma shown_lines_example:
  "shown_lines [(''hour'', JStr ''*/2''), (''minute'', JNum (Fin 30))] =
     [CHR 0x0A] @ '' hour: */2,'' @ [CHR 0x0A] @ '' minute: 30'' @ [CHR 0x0A]"
  by code_simp

text \<open>Taking the quotes out leaves the backslash of an escaped one behind.\<close>

lemma escaped_quote_leaves_backslash:
  "getRule (\<lambda>_. []) (new_task\<lparr>task_args := Some [(''k'', JStr [quote_char])]\<rparr>) =
     Inr ([CHR 0x0A] @ '' k: '' @ [CHR 0x5C] @ [CHR 0x0A])"
  by code_simp

section \<open>The two pages of action results\<close>

text \<open>A result that is \<open>false\<close> or \<open>0\<close> is shown as not available.\<close>

lemma falsy_result_hidden:
  "getFriendlyJSON iso_text (JBool False) = ''N/A''" "getFriendlyJSON iso_text (JNum (Fin 0)) = ''N/A''"
  by (simp_all add: getFriendlyJSON_def)

definition text_selection :: "argument \<Rightarrow> bool" where
  "text_selection a = (case arg_selection a of Val (SelText s) \<Rightarrow> s \<noteq> [] | _ \<Rightarrow> False)"

definition empty_path :: "argument \<Rightarrow> bool" where
  "empty_path a = (arg_selection a = Val (SelPath []))"

lemma playbook_shown_argument_error: "playbook_shown_argument a ob = Inl e \<longleftrightarrow> text_selection a \<and> e = TypeError"
  by (auto simp: playbook_shown_argument_def text_selection_def Let_def split: nullable.splits selection.splits)

lemma execution_shown_argument_total: "\<exists>ob'. execution_shown_argument a ob = Inr ob'"
  by (simp add: execution_shown_argument_def Let_def split: nullable.splits selection.splits)

lemma shown_argument_agree:
  "\<not> text_selection a \<Longrightarrow> \<not> empty_path a \<Longrightarrow> playbook_shown_argument a ob = execution_shown_argument a ob"
  by (auto simp: playbook_shown_argument_def execution_shown_argument_def text_selection_def empty_path_def Let_def
      split: nullable.splits selection.splits)

lemma shown_arguments_error:
  "(\<exists>e. shown_arguments playbook_shown_argument as ob = Inl e) \<longleftrightarrow> list_ex text_selection as"
proof (induction as arbitrary: ob)
  case (Cons a as)
  show ?case
  proof (cases "playbook_shown_argument a ob")
    case (Inl e)
    then show ?thesis using playbook_shown_argument_error[of a ob e] by simp
  next
    case (Inr ob')
    then have "\<not> text_selection a" using playbook_shown_argument_error[of a ob TypeError] by auto
    with Inr Cons show ?thesis by simp
  qed
qed simp

lemma shown_arguments_total: "\<exists>ob'. shown_arguments execution_shown_argument as ob = Inr ob'"
proof (induction as arbitrary: ob)
  case (Cons a as)
  obtain ob' where "execution_shown_argument a ob = Inr ob'" using execution_shown_argument_total by blast
  with Cons show ?case by simp
qed simp

lemma shown_arguments_agree:
  "\<not> list_ex text_selection as \<Longrightarrow> \<not> list_ex empty_path as \<Longrightarrow>
   shown_arguments playbook_shown_argument as ob = shown_arguments execution_shown_argument as ob"
proof (induction as arbitrary: ob)
  case (Cons a as)
  then have "shown_arguments playbook_shown_argument as = shown_arguments execution_shown_argument as"
    by (intro ext) auto
  with Cons.prems show ?case by (simp add: shown_argument_agree)
qed simp

text \<open>C33. The arguments of an action are shown the same on the playbook page and on the execution page
  unless a selection is an empty array; the playbook page fails exactly when a selection is a
  text, the execution page never.\<close>

theorem friendly_arguments_agree:
  assumes "\<not> list_ex empty_path as"
  shows "((\<exists>e. playbook_getFriendlyArguments iso_text as = Inl e) = list_ex text_selection as) \<and>
    (\<exists>t. execution_getFriendlyArguments iso_text as = Inr t \<and>
       (list_ex text_selection as \<or> playbook_getFriendlyArguments iso_text as = Inr t))"
proof (cases "as = []")
  case True
  then show ?thesis by (simp add: playbook_getFriendlyArguments_def execution_getFriendlyArguments_def friendly_arguments_def)
next
  case False
  obtain ob where ob: "shown_arguments execution_shown_argument as [] = Inr ob" using shown_arguments_total by blast
  show ?thesis
  proof (cases "list_ex text_selection as")
    case True
    then obtain e where "shown_arguments playbook_shown_argument as [] = Inl e" using shown_arguments_error by blast
    with True False ob show ?thesis
      by (simp add: playbook_getFriendlyArguments_def execution_getFriendlyArguments_def friendly_arguments_def)
  next
    case nt: False
    with shown_arguments_agree[OF nt assms, of "[]"] False ob show ?thesis
      by (simp add: playbook_getFriendlyArguments_def execution_getFriendlyArguments_def friendly_arguments_def)
  qed
qed

definition shown_sample :: "argument list" where
  "shown_sample = [new_argument\<lparr>arg_name := Val ''host'', arg_value := JStr ''a''\<rparr>,
     new_argument\<lparr>arg_name := Val ''id'', arg_reference := Val ''55'', arg_selection := Val (SelPath [SelStr ''r''])\<rparr>]"

theorem friendly_arguments_agree_witness:
  "((\<exists>e. playbook_getFriendlyArguments (\<lambda>_. []) shown_sample = Inl e) = list_ex text_selection shown_sample) \<and>
   (\<exists>t. execution_getFriendlyArguments (\<lambda>_. []) shown_sample = Inr t \<and>
      (list_ex text_selection shown_sample \<or> playbook_getFriendlyArguments (\<lambda>_. []) shown_sample = Inr t))"
  by (rule friendly_arguments_agree) (simp add: shown_sample_def empty_path_def new_argument_def)

text \<open>The server sends an empty array for an argument without selection; the execution page shows it
  as a pair of parentheses after the value.\<close>

lemma empty_selection_shows_parentheses:
  "execution_getFriendlyArguments (\<lambda>_. [])
     [new_argument\<lparr>arg_name := Val ''host'', arg_value := JStr ''a'', arg_selection := Val (SelPath [])\<rparr>] =
     Inr ([CHR 0x0A] @ '' host: a ()'' @ [CHR 0x0A])"
  "playbook_getFriendlyArguments (\<lambda>_. [])
     [new_argument\<lparr>arg_name := Val ''host'', arg_value := JStr ''a'', arg_selection := Val (SelPath [])\<rparr>] =
     Inr ([CHR 0x0A] @ '' host: a'' @ [CHR 0x0A])"
  by code_simp+

text \<open>Two playbooks whose names differ in white space only share the identifier of their collapsible part.\<close>

lemma collapse_ids_collide: "removeWhitespace ''a b'' = removeWhitespace ''ab''"
  by code_simp

end
