(* ===== verification/Modals.thy ===== *)
theory Modals
  imports DisplayText Messages Auth
begin

text \<open>
  How the pages open their forms: a new item, or a copy of the one to edit. Scheduled tasks, roles and
  messages are copied with \<^verbatim>\<open>cloneDeep\<close>, through their JSON text, users by \<^verbatim>\<open>WorkingUser.fromUser\<close>.
  The second half relates the copies to the originals.
\<close>

section \<open>Items as objects\<close>

fun nullable_json :: "('a \<Rightarrow> jsval) \<Rightarrow> 'a nullable \<Rightarrow> jsval" where
  "nullable_json f Undefined = JUndef"
| "nullable_json f Null = JNull"
| "nullable_json f (Val x) = f x"

abbreviation int_json :: "int \<Rightarrow> jsval" where
  "int_json i \<equiv> JNum (Fin (of_int i))"

text \<open>A property of an object seen at the type its class declares.\<close>

fun view_string :: "jsval \<Rightarrow> string nullable" where
  "view_string JNull = Null"
| "view_string (JStr s) = Val s"
| "view_string _ = Undefined"

fun view_int :: "jsval \<Rightarrow> int nullable" where
  "view_int JNull = Null"
| "view_int (JNum (Fin q)) = Val \<lfloor>q\<rfloor>"
| "view_int _ = Undefined"

fun view_list :: "(jsval \<Rightarrow> 'a) \<Rightarrow> jsval \<Rightarrow> 'a list nullable" where
  "view_list f JNull = Null"
| "view_list f (JArr vs) = Val (map f vs)"
| "view_list f _ = Undefined"

fun the_string :: "jsval \<Rightarrow> string" where
  "the_string (JStr s) = s"
| "the_string _ = []"

fun view_object :: "jsval \<Rightarrow> jsobj option" where
  "view_object (JObj ob) = Some ob"
| "view_object _ = None"

definition property :: "string \<Rightarrow> jsval \<Rightarrow> jsval" where
  "property k v = (case v of JObj ob \<Rightarrow> obj_read ob k | _ \<Rightarrow> JUndef)"

fun args_json :: "jsobj option \<Rightarrow> jsval" where
  "args_json None = JUndef"
| "args_json (Some ob) = JObj ob"

definition task_object :: "scheduled_task \<Rightarrow> jsval" where
  "task_object t = JObj
     [(''id'', nullable_json int_json (task_id t)), (''name'', nullable_json JStr (task_name t)),
      (''description'', nullable_json JStr (task_description t)), (''status'', nullable_json JStr (task_status t)),
      (''workflows'', nullable_json (\<lambda>ws. JArr (map JStr ws)) (task_workflows t)),
      (''task_trigger'', JObj [(''type'', nullable_json JStr (task_trigger_type t)),
         (''args'', args_json (task_args t))])]"

definition view_task :: "jsval \<Rightarrow> scheduled_task" where
  "view_task v = \<lparr>task_id = view_int (property ''id'' v), task_name = view_string (property ''name'' v),
     task_description = view_string (property ''description'' v), task_status = view_string (property ''status'' v),
     task_workflows = view_list the_string (property ''workflows'' v),
     task_trigger_type = view_string (property ''type'' (property ''task_trigger'' v)),
     task_args = view_object (property ''args'' (property ''task_trigger'' v))\<rparr>"

definition resource_object :: "resource \<Rightarrow> jsval" where
  "resource_object r = JObj
     [(''resource_id'', nullable_json int_json (res_id r)), (''role_id'', nullable_json int_json (res_role_id r)),
      (''name'', JStr (res_name r)), (''app_name'', nullable_json JStr (res_app_name r)),
      (''permissions'', JArr (map JStr (res_permissions r)))]"

definition view_resource :: "jsval \<Rightarrow> resource" where
  "view_resource v = \<lparr>res_id = view_int (property ''resource_id'' v), res_role_id = view_int (property ''role_id'' v),
     res_name = the_string (property ''name'' v), res_app_name = view_string (property ''app_name'' v),
     res_permissions = (case property ''permissions'' v of JArr ps \<Rightarrow> map the_string ps | _ \<Rightarrow> [])\<rparr>"

definition role_object :: "role \<Rightarrow> jsval" where
  "role_object r = JObj
     [(''id'', nullable_json int_json (role_id r)), (''name'', nullable_json JStr (role_name r)),
      (''description'', nullable_json JStr (role_description r)),
      (''resources'', nullable_json (\<lambda>rs. JArr (map resource_object rs)) (role_resources r))]"

definition view_role :: "jsval \<Rightarrow> role" where
  "view_role v = \<lparr>role_id = view_int (property ''id'' v), role_name = view_string (property ''name'' v),
     role_description = view_string (property ''description'' v),
     role_resources = view_list view_resource (property ''resources'' v)\<rparr>"

definition clone_task :: "(rat \<Rightarrow> string) \<Rightarrow> scheduled_task \<Rightarrow> scheduled_task option" where
  "clone_task iso_text t = map_option view_task (cloneDeep iso_text (task_object t))"

definition clone_role :: "(rat \<Rightarrow> string) \<Rightarrow> role \<Rightarrow> role option" where
  "clone_role iso_text r = map_option view_role (cloneDeep iso_text (role_object r))"

section \<open>Opening the forms\<close>

record 'a form =
  fm_title :: string
  fm_submitText :: string
  fm_data :: 'a

text \<open>The form of a task gets the workflows on offer; the task it works on is its own new one or a copy.
  The index the table has added to the copied object is removed again.\<close>

definition addScheduledTask :: "scheduler_page \<Rightarrow> ((string nullable \<times> string) list \<times> scheduler_modal) form" where
  "addScheduledTask p = \<lparr>fm_title = ''Schedule a New Task'', fm_submitText = ''Add Scheduled Task'',
     fm_data = (sp_workflows p, open_scheduler_modal new_task)\<rparr>"

definition editScheduledTask ::
  "(rat \<Rightarrow> string) \<Rightarrow> scheduled_task \<Rightarrow> scheduler_page \<Rightarrow> ((string nullable \<times> string) list \<times> scheduler_modal) form option" where
  "editScheduledTask iso_text t p =
     map_option (\<lambda>copy. \<lparr>fm_title = ''Edit Task '' @ template (task_name t), fm_submitText = ''Save Changes'',
       fm_data = (sp_workflows p, open_scheduler_modal copy)\<rparr>) (clone_task iso_text t)"

definition editUser :: "user \<Rightarrow> settings_page \<Rightarrow> (role list \<times> working_user) form" where
  "editUser u p = \<lparr>fm_title = ''Edit User: '' @ template (usr_username u), fm_submitText = ''Save Changes'',
     fm_data = (se_roles p, fromUser u)\<rparr>"

definition addUser_form :: "settings_page \<Rightarrow> (role list \<times> working_user) form" where
  "addUser_form p = \<lparr>fm_title = ''Add New User'', fm_submitText = ''Add User'', fm_data = (se_roles p, addUser_working)\<rparr>"

definition new_role :: role where
  "new_role = \<lparr>role_id = Undefined, role_name = Undefined, role_description = Undefined, role_resources = Val []\<rparr>"

text \<open>The form of a role before its \<open>ngOnInit\<close>; a role without a list of resources makes that throw.\<close>

definition role_form :: "(string \<times> string nullable \<times> string list) list \<Rightarrow> role \<Rightarrow> role_modal result" where
  "role_form actions r =
     (case role_resources r of
        Val rs \<Rightarrow> Inr \<lparr>rm_role = r, rm_resources = rs, rm_actions = actions, rm_resourceNames = [],
                    rm_mapping = (\<lambda>_. None), rm_tempId = - 1\<rparr>
      | _ \<Rightarrow> Inl TypeError)"

definition addRole :: "roles_page \<Rightarrow> role form" where
  "addRole p = \<lparr>fm_title = ''Add New Role'', fm_submitText = ''Add Role'', fm_data = new_role\<rparr>"

definition editRole :: "(rat \<Rightarrow> string) \<Rightarrow> role \<Rightarrow> role form option" where
  "editRole iso_text r =
     map_option (\<lambda>copy. \<lparr>fm_title = ''Edit Role: '' @ template (role_name r), fm_submitText = ''Save Changes'',
       fm_data = copy\<rparr>) (clone_role iso_text r)"

text \<open>A modal that shows a message can only be dismissed; an error of it is reported.\<close>

definition dismissed :: "js_error option \<Rightarrow> toast list" where
  "dismissed reason = (case reason of None \<Rightarrow> [] | Some e \<Rightarrow> [Failure (error_message e)])"

definition getInterfaceNames_done :: "string list result \<Rightarrow> string list \<Rightarrow> string list \<times> toast list" where
  "getInterfaceNames_done answer names =
     (case answer of
        Inl e \<Rightarrow> (names, [Failure (''Error retrieving interfaces: '' @ error_message e)])
      | Inr ns \<Rightarrow> (ns, []))"

text \<open>After a logout the browser leaves for the login page; a failure is only logged.\<close>

definition logout_done :: "unit result \<Rightarrow> string option" where
  "logout_done answer = (case answer of Inl e \<Rightarrow> None | Inr _ \<Rightarrow> Some ''/login'')"

section \<open>The copies\<close>

lemma map_of_property_order: "distinct (map fst ob) \<Longrightarrow> map_of (property_order ob) = map_of ob"
  by (simp add: map_of_inject_set distinct_property_order)

lemma map_of_kept:
  "distinct (map fst ob) \<Longrightarrow>
   map_of (map (\<lambda>(k, v). (k, f v)) (filter (\<lambda>(k, v). v \<noteq> JUndef) ob)) k =
     (case map_of ob k of None \<Rightarrow> None | Some v \<Rightarrow> if v = JUndef then None else Some (f v))"
proof (induction ob)
  case (Cons x ob)
  obtain k' v where x: "x = (k', v)" by (cases x)
  have "map_of ob k' = None" using Cons.prems x by (simp add: map_of_eq_None_iff)
  with Cons show ?case by (auto simp: x)
qed simp

lemma property_clean:
  assumes "distinct (map fst ob)"
  shows "property k (clean_json iso_text (JObj ob)) =
    (case map_of ob k of None \<Rightarrow> JUndef | Some v \<Rightarrow> if v = JUndef then JUndef else clean_json iso_text v)"
proof -
  let ?c = "map (\<lambda>(k, v). (k, clean_json iso_text v)) (filter (\<lambda>(k, v). v \<noteq> JUndef) ob)"
  have "distinct (map fst (filter (\<lambda>(k, v). v \<noteq> JUndef) ob))" using assms by (rule distinct_map_filter)
  then have "distinct (map fst ?c)" by (simp add: case_prod_beta comp_def)
  note order = map_of_property_order[OF this]
  show ?thesis
    by (simp add: property_def obj_read_def obj_get_def order map_of_kept[OF assms] split: option.splits)
qed

lemma clean_strings: "map (clean_json iso_text) (map JStr ss) = map JStr ss"
  by simp

lemma view_clean_string [simp]:
  "view_string (if nullable_json JStr x = JUndef then JUndef else clean_json iso_text (nullable_json JStr x)) = x"
  by (cases x) simp_all

lemma view_clean_int [simp]:
  "view_int (if nullable_json int_json x = JUndef then JUndef else clean_json iso_text (nullable_json int_json x)) = x"
  by (cases x) simp_all

lemma view_clean_strings [simp]:
  "view_list the_string (if nullable_json (\<lambda>ws. JArr (map JStr ws)) x = JUndef then JUndef
     else clean_json iso_text (nullable_json (\<lambda>ws. JArr (map JStr ws)) x)) = x"
  by (cases x) (simp_all add: comp_def)

definition clean_args :: "(rat \<Rightarrow> string) \<Rightarrow> jsobj \<Rightarrow> jsobj" where
  "clean_args iso_text ob = the (view_object (clean_json iso_text (JObj ob)))"

lemma decimal_int [simp]: "decimal (of_int i)"
proof -
  have "(of_int i :: rat) * 10 ^ 20 = of_int (i * 10 ^ 20)" by simp
  then show ?thesis by (simp only: decimal_def floor_of_int)
qed

lemma json_ok_string [simp]: "json_ok (nullable_json JStr x)"
  by (cases x) simp_all

lemma json_ok_int [simp]: "json_ok (nullable_json int_json i)"
  by (cases i) simp_all

lemma json_ok_strings [simp]: "json_ok (nullable_json (\<lambda>ws. JArr (map JStr ws)) ws)"
  by (cases ws) (simp_all add: list_all_iff)

lemma view_clean_args [simp]:
  "view_object (if args_json a = JUndef then JUndef else clean_json iso_text (args_json a)) = map_option (clean_args iso_text) a"
  by (cases a) (simp_all add: clean_args_def)

lemma view_task_clean: "view_task (clean_json iso_text (task_object t)) = t\<lparr>task_args := map_option (clean_args iso_text) (task_args t)\<rparr>"
  unfolding view_task_def task_object_def
  by (simp add: property_clean del: clean_json.simps)

text \<open>The form that edits a task works on a copy that agrees with the task in everything but the
  arguments of the trigger, which have gone through JSON; what JSON can say arrives unchanged.\<close>

theorem editScheduledTask_spec:
  assumes "task_args t = Some args" "json_ok (JObj args)"
  shows "\<exists>f. editScheduledTask iso_text t p = Some f \<and> fst (fm_data f) = sp_workflows p \<and>
    current_args (snd (fm_data f)) = Some (clean_args iso_text args) \<and>
    sm_task (snd (fm_data f)) = (if plain_json (JObj args) then t else t\<lparr>task_args := Some (clean_args iso_text args)\<rparr>)"
proof -
  have "json_ok (task_object t)" "task_object t \<noteq> JUndef"
    using assms by (simp_all add: task_object_def)
  then have c: "clone_task iso_text t = Some (t\<lparr>task_args := Some (clean_args iso_text args)\<rparr>)"
    by (simp add: clone_task_def cloneDeep_eq view_task_clean assms(1))
  have "clean_args iso_text args = args" if "plain_json (JObj args)"
    using clean_plain[OF that] by (simp add: clean_args_def)
  then have "(t\<lparr>task_args := Some (clean_args iso_text args)\<rparr>) = t" if "plain_json (JObj args)"
    using that assms(1) by simp
  then show ?thesis
    by (simp add: editScheduledTask_def c open_scheduler_modal_def current_args_def del: plain_json.simps)
qed

definition empty_scheduler_page :: scheduler_page where
  "empty_scheduler_page = \<lparr>sp_list = new_crud, sp_status = Undefined, sp_workflows = [(Val ''w'', ''p - w'')]\<rparr>"

theorem editScheduledTask_spec_witness:
  "\<exists>f. editScheduledTask (\<lambda>_. []) sample_cron_task empty_scheduler_page = Some f \<and>
    fst (fm_data f) = sp_workflows empty_scheduler_page \<and>
    current_args (snd (fm_data f)) = Some (clean_args (\<lambda>_. []) [(''hour'', JStr ''*/2''), (''minute'', JNum (Fin 30))]) \<and>
    sm_task (snd (fm_data f)) =
      (if plain_json (JObj [(''hour'', JStr ''*/2''), (''minute'', JNum (Fin 30))]) then sample_cron_task
       else sample_cron_task\<lparr>task_args := Some (clean_args (\<lambda>_. []) [(''hour'', JStr ''*/2''), (''minute'', JNum (Fin 30))])\<rparr>)"
  by (rule editScheduledTask_spec) (simp add: sample_cron_task_def, code_simp)

lemma resource_object_ok [simp]: "json_ok (resource_object r)" "resource_object r \<noteq> JUndef"
  by (simp_all add: resource_object_def list_all_iff)

lemma view_resource_clean [simp]: "view_resource (clean_json iso_text (resource_object r)) = r"
  unfolding view_resource_def resource_object_def
  by (simp add: property_clean comp_def del: clean_json.simps(8))

lemma json_ok_resources [simp]: "json_ok (nullable_json (\<lambda>rs. JArr (map resource_object rs)) x)"
  by (cases x) (simp_all add: list_all_iff)

lemma view_clean_resources [simp]:
  "view_list view_resource (if nullable_json (\<lambda>rs. JArr (map resource_object rs)) x = JUndef then JUndef
     else clean_json iso_text (nullable_json (\<lambda>rs. JArr (map resource_object rs)) x)) = x"
  by (cases x) (simp_all add: comp_def)

lemma clone_role_eq: "clone_role iso_text r = Some r"
proof -
  have "json_ok (role_object r)" "role_object r \<noteq> JUndef" by (simp_all add: role_object_def)
  moreover have "view_role (clean_json iso_text (role_object r)) = r"
    unfolding view_role_def role_object_def by (simp add: property_clean del: clean_json.simps)
  ultimately show ?thesis by (simp add: clone_role_def cloneDeep_eq)
qed

text \<open>C23. Opening the form of a role and saving without a change sends the role the list shows: the two
  copies on the way and the removal of temporary ids change nothing.\<close>

theorem edit_role_roundtrip:
  assumes "has_id (role_id r)" "role_resources r = Val rs" "list_all (\<lambda>x. \<exists>i \<ge> 0. res_id x = Val i) rs"
    and "editRole iso_text r = Some f" "role_form actions (fm_data f) = Inr m0" "role_modal_ngOnInit m0 = Inr m"
  shows "role_submit m = editRole_request r \<and> fm_data f = r"
proof -
  have f: "fm_data f = r" using assms(4) by (auto simp: editRole_def clone_role_eq)
  then have "rm_role m0 = r" "rm_resources m0 = rs" using assms(2,5) by (auto simp: role_form_def)
  then have m: "rm_role m = r" "rm_resources m = rs"
    using assms(6) by (auto simp: role_modal_ngOnInit_def bind_result_Inr_iff)
  have "map drop_temp_id rs = rs"
    by (rule map_idI) (use assms(3) in \<open>auto simp: list_all_iff drop_temp_id_def\<close>)
  moreover have "(r\<lparr>role_resources := Val rs\<rparr>) = r" using assms(2) by simp
  ultimately show ?thesis using f assms(1) by (simp add: role_submit_def m Let_def)
qed

definition admin_role :: role where
  "admin_role = \<lparr>role_id = Val 1, role_name = Val ''admin'', role_description = Null,
     role_resources = Val [\<lparr>res_id = Val 4, res_role_id = Val 1, res_name = ''devices'', res_app_name = Undefined,
       res_permissions = [''read'']\<rparr>]\<rparr>"

definition admin_form :: role_modal where
  "admin_form = \<lparr>rm_role = admin_role,
     rm_resources = [\<lparr>res_id = Val 4, res_role_id = Val 1, res_name = ''devices'', res_app_name = Undefined,
       res_permissions = [''read'']\<rparr>],
     rm_actions = [(''devices'', Undefined, [''read'', ''update''])], rm_resourceNames = [],
     rm_mapping = (\<lambda>_. None), rm_tempId = - 1\<rparr>"

definition admin_modal :: role_modal where
  "admin_modal = admin_form\<lparr>rm_resourceNames := [''devices''], rm_mapping := [Val 4 \<mapsto> [''read'', ''update'']]\<rparr>"

definition admin_edit :: "role form" where
  "admin_edit = \<lparr>fm_title = ''Edit Role: admin'', fm_submitText = ''Save Changes'', fm_data = admin_role\<rparr>"

theorem edit_role_roundtrip_witness:
  "role_submit admin_modal = editRole_request admin_role \<and> fm_data admin_edit = admin_role"
proof (rule edit_role_roundtrip)
  show "has_id (role_id admin_role)" "role_resources admin_role = Val (rm_resources admin_form)"
    "list_all (\<lambda>x. \<exists>i \<ge> 0. res_id x = Val i) (rm_resources admin_form)"
    by (simp_all add: admin_role_def admin_form_def has_id_def)
  show "editRole (\<lambda>_. []) admin_role = Some admin_edit"
    by (simp add: editRole_def clone_role_eq admin_edit_def) (simp add: admin_role_def)
  show "role_form (rm_actions admin_form) (fm_data admin_edit) = Inr admin_form"
    by (simp add: role_form_def admin_form_def admin_edit_def admin_role_def)
  show "role_modal_ngOnInit admin_form = Inr admin_modal"
    by (simp add: role_modal_ngOnInit_def admin_form_def admin_modal_def resource_label_def)
qed

end
