(* ===== verification/SaveRoundtrip.thy ===== *)
theory SaveRoundtrip
  imports LibraryMenu
begin

text \<open>
  Saving and loading compose. The server answers a save with the workflow it stored; the editor sets up
  its graph for the answer (\<open>setupGraph\<close> of \<^verbatim>\<open>playbook/playbook.component.ts\<close>), and a
  second save without a change sends the same workflow again.

  \<open>received\<close> is the answer as the classes of \<^verbatim>\<open>models/playbook/\<close> take it when the
  server repeats what it was sent: an argument starts with an empty error list, an action without a
  device with a new argument, and the server leaves an empty selection out.
\<close>

section \<open>The answer of the server\<close>

definition received_argument :: "argument \<Rightarrow> argument" where
  "received_argument a = a\<lparr>arg_errors := Val [],
     arg_selection := (if arg_selection a = Val (SelPath []) then Undefined else arg_selection a)\<rparr>"

definition received_action :: "action \<Rightarrow> action" where
  "received_action a = (map_action_args received_argument a)
     \<lparr>act_device_id := Some (case act_device_id a of None \<Rightarrow> new_argument | Some d \<Rightarrow> received_argument d)\<rparr>"

definition received :: "workflow \<Rightarrow> workflow" where
  "received w = w\<lparr>wf_actions := map received_action (wf_actions w),
     wf_branches := map (map_branch_args received_argument) (wf_branches w)\<rparr>"

definition canonical_selection :: "argument \<Rightarrow> bool" where
  "canonical_selection a = (case arg_selection a of Val (SelPath p) \<Rightarrow> list_all canonical_item p | _ \<Rightarrow> True)"

section \<open>Arguments, expressions and devices come back\<close>

lemma finish_received:
  assumes "arg_clean a"
  shows "finish_selection (drop_value_or_reference (received_argument a)) = a"
proof (cases "truthy_str (arg_reference a)")
  case True
  with assms obtain p where "arg_selection a = Val (SelPath p)" by (auto simp: arg_clean_def)
  with True assms show ?thesis
    by (intro argument.equality) (simp_all add: arg_clean_def received_argument_def)
next
  case False
  with assms show ?thesis
    by (intro argument.equality) (simp_all add: arg_clean_def received_argument_def del: truthy_str_iff)
qed

lemma finish_shown:
  assumes "arg_clean a" "canonical_selection a"
  shows "finish_selection (drop_value_or_reference (argument_for_editor (received_argument a))) = a"
proof (cases "truthy_str (arg_reference a)")
  case True
  with assms obtain p where p: "arg_selection a = Val (SelPath p)" by (auto simp: arg_clean_def)
  have "normalize_selection (selection_to_text (arg_selection (received_argument a))) = arg_selection a"
    using split_selection_join[of p] assms(2) p
    by (simp add: received_argument_def canonical_selection_def list_all_iff)
  with True assms(1) show ?thesis
    by (intro argument.equality)
      (simp_all add: arg_clean_def argument_for_editor_def del: truthy_str_iff, simp_all add: received_argument_def)
next
  case False
  with assms(1) show ?thesis
    by (intro argument.equality)
      (simp_all add: arg_clean_def argument_for_editor_def received_argument_def del: truthy_str_iff)
qed

lemma blank_received [simp]: "blank_arg (received_argument a) = blank_arg a"
  "blank_arg (argument_for_editor a) = blank_arg a"
  by (simp_all add: blank_arg_def received_argument_def argument_for_editor_def Let_def)

lemma sanitize_each:
  "(\<And>a. a \<in> set as \<Longrightarrow> \<not> blank_arg a) \<Longrightarrow>
   sanitizeArgumentsForSave as = map (\<lambda>a. finish_selection (drop_value_or_reference a)) as"
proof -
  assume "\<And>a. a \<in> set as \<Longrightarrow> \<not> blank_arg a"
  then have "filter (\<lambda>a. \<not> blank_arg a) as = as" by (simp add: filter_id_conv)
  then show ?thesis
    unfolding sanitizeArgumentsForSave_def Let_def splice_blank_args by simp
qed

lemma sanitize_received:
  assumes "\<forall>a \<in> set as. arg_clean a"
  shows "sanitizeArgumentsForSave (map received_argument as) = as"
proof -
  have "sanitizeArgumentsForSave (map received_argument as) =
      map (\<lambda>a. finish_selection (drop_value_or_reference a)) (map received_argument as)"
    by (rule sanitize_each) (use assms arg_clean_not_blank in auto)
  also have "\<dots> = as" unfolding map_map by (rule map_idI) (use assms in \<open>simp add: finish_received\<close>)
  finally show ?thesis .
qed

lemma sanitize_shown:
  assumes "\<forall>a \<in> set as. arg_clean a \<and> canonical_selection a"
  shows "sanitizeArgumentsForSave (map argument_for_editor (map received_argument as)) = as"
proof -
  have "sanitizeArgumentsForSave (map argument_for_editor (map received_argument as)) =
      map (\<lambda>a. finish_selection (drop_value_or_reference a)) (map argument_for_editor (map received_argument as))"
    by (rule sanitize_each) (use assms arg_clean_not_blank in auto)
  also have "\<dots> = as" unfolding map_map by (rule map_idI) (use assms in \<open>simp add: finish_shown\<close>)
  finally show ?thesis .
qed

lemma sanitize_transform_received:
  "\<forall>a \<in> set (tr_arguments t). arg_clean a \<Longrightarrow> sanitize_transform (map_transform_args received_argument t) = t"
  by (simp add: sanitize_transform_def map_transform_args_def sanitize_received)

lemma sanitize_condition_received:
  assumes "\<forall>a \<in> set (condition_arguments c). arg_clean a"
  shows "sanitize_condition (map_condition_args received_argument c) = c"
proof -
  have "map (sanitize_transform \<circ> map_transform_args received_argument) (cond_transforms c) = cond_transforms c"
    by (rule map_idI) (use assms in \<open>auto simp: condition_arguments_def transforms_arguments_def
        intro!: sanitize_transform_received\<close>)
  then show ?thesis
    using assms by (simp add: sanitize_condition_def map_condition_args_def condition_arguments_def sanitize_received)
qed

lemma sanitize_expr_received:
  "\<forall>a \<in> set (expr_arguments e). arg_clean a \<Longrightarrow> sanitize_expr_once (map_expr_args received_argument e) = e"
proof (induction e rule: sanitize_expr_once.induct)
  case (1 i errs opr neg cs es)
  have "map (sanitize_condition \<circ> map_condition_args received_argument) cs = cs"
    by (rule map_idI) (use 1(2) in \<open>auto intro!: sanitize_condition_received\<close>)
  moreover have "map (sanitize_expr_once \<circ> map_expr_args received_argument) es = es"
    by (rule map_idI) (use 1 in auto)
  ultimately show ?case by simp
qed

lemma sanitize_opt_received:
  "\<forall>a \<in> set (opt_expr_arguments e). arg_clean a \<Longrightarrow> sanitize_opt_expr (map_option (map_expr_args received_argument) e) = e"
  by (cases e) (simp_all add: sanitize_opt_expr_def opt_expr_arguments_def sanitizeExpressionAndChildren_eq sanitize_expr_received)

lemma device_received:
  assumes "arg_clean d" "hasInput d"
  shows "hasInput (received_argument d)" "sanitize (received_argument d) = d"
proof -
  show "hasInput (received_argument d)" using assms(2) by (simp add: hasInput_def received_argument_def)
  have "truthy (arg_value (drop_value_or_reference (received_argument d))) \<or>
      truthy_str (arg_reference (drop_value_or_reference (received_argument d)))"
    using assms unfolding arg_clean_def hasInput_def
    by (simp add: received_argument_def del: truthy_str_iff split: if_splits)
  then have "sanitize (received_argument d) = finish_selection (drop_value_or_reference (received_argument d))"
    unfolding sanitize_def Let_def by (subst if_not_P) blast+
  then show "sanitize (received_argument d) = d" using finish_received[OF assms(1)] by simp
qed

section \<open>Actions and workflows come back\<close>

definition device_kept :: "action \<Rightarrow> bool" where
  "device_kept a = (case act_device_id a of None \<Rightarrow> True | Some d \<Rightarrow> arg_clean d \<and> hasInput d)"

lemma prepare_received_action:
  assumes "\<forall>x \<in> set (action_all_arguments a). arg_clean x" "\<forall>x \<in> set (act_arguments a). canonical_selection x"
    and "device_kept a" "List.find (\<lambda>(i, p). i = act_id a) cyData = Some (i, p)" "act_position a = Val p"
  shows "prepare_action cyData (action_for_editor (received_action a)) = Inr a"
proof -
  have args: "sanitizeArgumentsForSave (map argument_for_editor (map received_argument (act_arguments a))) = act_arguments a"
    using assms(1,2) by (intro sanitize_shown) (auto simp: action_all_arguments_def)
  have trig: "sanitize_opt_expr (map_option (map_expr_args received_argument) (act_trigger a)) = act_trigger a"
    using assms(1) by (intro sanitize_opt_received) (auto simp: action_all_arguments_def)
  let ?d = "case act_device_id a of None \<Rightarrow> new_argument | Some d \<Rightarrow> received_argument d"
  have dev: "(if hasInput ?d then Some (sanitize ?d) else None) = act_device_id a"
    using assms(3) device_received by (cases "act_device_id a") (simp_all add: device_kept_def hasInput_def new_argument_def)
  let ?b = "action_for_editor (received_action a)"
  have b: "act_id ?b = act_id a" "act_device_id ?b = Some ?d" "act_trigger ?b = map_option (map_expr_args received_argument) (act_trigger a)"
    "act_arguments ?b = map argument_for_editor (map received_argument (act_arguments a))"
    by (simp_all add: action_for_editor_def received_action_def map_action_args_def)
  have "prepare_action cyData ?b = Inr (?b\<lparr>act_position := act_position a, act_device_id := act_device_id a,
      act_arguments := act_arguments a, act_trigger := act_trigger a\<rparr>)"
    unfolding prepare_action_def b args trig using assms(4,5) dev by simp
  also have "\<dots> = Inr a"
    by (simp add: action_for_editor_def received_action_def map_action_args_def)
  finally show ?thesis .
qed

lemma prepare_received_branch:
  "\<forall>x \<in> set (branch_all_arguments b). arg_clean x \<Longrightarrow> prepare_branch (map_branch_args received_argument b) = b"
  by (simp add: prepare_branch_def map_branch_args_def sanitize_opt_received branch_all_arguments_def)

lemma setupGraph_started:
  assumes "setupGraph apis roots w = Inr (w', cmds)" "truthy_str (wf_start w)"
  shows "w' = w\<lparr>wf_actions := map action_for_editor (wf_actions w)\<rparr>"
proof -
  have "w' = fst (setStartNode roots (wf_start w) (w\<lparr>wf_actions := map action_for_editor (wf_actions w)\<rparr>))"
    using assms(1)
    by (cases "map_result (action_node apis (wf_start w)) (map action_for_editor (wf_actions w))";
        cases "setStartNode roots (wf_start w) (w\<lparr>wf_actions := map action_for_editor (wf_actions w)\<rparr>)")
      (simp_all add: setupGraph_def Let_def)
  then show ?thesis using assms(2) by (simp add: setStartNode_def del: truthy_str_iff)
qed

lemma sent_positions:
  assumes "prepare_workflow cyData w = Inr s" "a \<in> set (wf_actions s)"
  shows "\<exists>i p. List.find (\<lambda>(i, p). i = act_id a) cyData = Some (i, p) \<and> act_position a = Val p"
proof -
  have "list_all2 (\<lambda>a s. prepare_action cyData a = Inr s) (wf_actions w) (wf_actions s)"
    using assms(1) by (auto simp: prepare_workflow_def bind_result_Inr_iff map_result_Inr_iff)
  then obtain a0 where "prepare_action cyData a0 = Inr a"
    using assms(2) by (auto simp: list_all2_conv_all_nth in_set_conv_nth)
  then show ?thesis by (auto simp: prepare_action_def bind_result_Inr_iff)
qed

text \<open>A workflow with an action that has no position cannot be opened: copying the position through
  JSON throws.\<close>

lemma missing_position_stops_loading:
  assumes "a \<in> set (wf_actions w)" "act_position a = Undefined"
  shows "\<exists>e. setupGraph apis roots w = Inl e"
proof -
  let ?as = "map action_for_editor (wf_actions w)"
  have "\<exists>e. map_result (action_node apis (wf_start w)) ?as = Inl e"
  proof (cases "map_result (action_node apis (wf_start w)) ?as")
    case (Inr ns)
    then have "list_all2 (\<lambda>a n. action_node apis (wf_start w) a = Inr n) ?as ns" by (simp add: map_result_Inr_iff)
    then have "\<exists>n. action_node apis (wf_start w) (action_for_editor a) = Inr n"
      using assms(1) by (auto simp: list_all2_map1 list_all2_conv_all_nth in_set_conv_nth)
    then show ?thesis using assms(2) by (simp add: action_node_def action_for_editor_def)
  qed blast
  then show ?thesis by (auto simp: setupGraph_def Let_def)
qed

text \<open>C3. Saving and loading compose: when the server answers a save with the workflow it was sent, the
  editor shows that workflow, and saving again at the same positions sends exactly the same workflow.
  The selections are paths of names and natural numbers, and no action has a device of blanks.\<close>

theorem save_load_save:
  assumes "prepare_workflow cyData w = Inr s" "truthy_str (wf_start s)"
    and "\<forall>a \<in> set (wf_actions s). device_kept a \<and> (\<forall>x \<in> set (act_arguments a). canonical_selection x)"
    and "setupGraph apis roots (received s) = Inr (w', cmds)"
  shows "prepare_workflow cyData w' = Inr s"
proof -
  have clean: "\<forall>x \<in> set (all_arguments s). arg_clean x"
    using prepare_workflow_spec[OF assms(1)] by (simp add: sent_ok_def list_all_iff)
  have w': "w' = (received s)\<lparr>wf_actions := map action_for_editor (map received_action (wf_actions s))\<rparr>"
    using setupGraph_started[OF assms(4)] assms(2) by (simp add: received_def del: truthy_str_iff)
  have "prepare_action cyData (action_for_editor (received_action a)) = Inr a" if a: "a \<in> set (wf_actions s)" for a
  proof -
    obtain i p where p: "List.find (\<lambda>(i, p). i = act_id a) cyData = Some (i, p)" "act_position a = Val p"
      using sent_positions[OF assms(1) a] by blast
    have "\<forall>x \<in> set (action_all_arguments a). arg_clean x" using clean a by (auto simp: all_arguments_def)
    then show ?thesis using prepare_received_action p assms(3) a by blast
  qed
  then have "map_result (prepare_action cyData) (map action_for_editor (map received_action (wf_actions s))) = Inr (wf_actions s)"
    by (simp add: map_result_Inr_iff list_all2_map1 list_all2_same)
  moreover have "map prepare_branch (map (map_branch_args received_argument) (wf_branches s)) = wf_branches s"
    unfolding map_map by (rule map_idI) (use clean in \<open>auto simp: all_arguments_def intro!: prepare_received_branch\<close>)
  ultimately show ?thesis
    by (simp add: prepare_workflow_def w' del: map_map) (simp add: received_def)
qed

definition editor_workflow :: workflow where
  "editor_workflow = lb_wf sample_library 0"

definition sent_workflow :: workflow where
  "sent_workflow = sample_workflow\<lparr>wf_actions :=
     [(sample_action ''a1'' ''log'' [(sample_argument Undefined (JStr ''hi''))\<lparr>arg_selection := Undefined, arg_errors := Undefined\<rparr>])
        \<lparr>act_device_id := None, act_position := Val \<lparr>pos_x = 1, pos_y = 2\<rparr>\<rparr>,
      (sample_action ''a2'' ''log 2'' [(sample_argument (Val ''v1'') JUndef)\<lparr>arg_selection := Val (SelPath []), arg_errors := Undefined\<rparr>])
        \<lparr>act_device_id := None, act_position := Val \<lparr>pos_x = 3, pos_y = 4\<rparr>\<rparr>]\<rparr>"

lemma editor_workflow_sent: "prepare_workflow sample_positions editor_workflow = Inr sent_workflow"
  by code_simp

theorem save_load_save_witness:
  "\<exists>w' cmds. setupGraph [sample_app] [] (received sent_workflow) = Inr (w', cmds) \<and>
     prepare_workflow sample_positions w' = Inr sent_workflow"
proof -
  have "case setupGraph [sample_app] [] (received sent_workflow) of Inl e \<Rightarrow> False | Inr x \<Rightarrow> True" by code_simp
  then obtain x where x: "setupGraph [sample_app] [] (received sent_workflow) = Inr x" by (auto split: sum.splits)
  obtain w' cmds where "x = (w', cmds)" by (cases x)
  with x have g: "setupGraph [sample_app] [] (received sent_workflow) = Inr (w', cmds)" by simp
  have "prepare_workflow sample_positions w' = Inr sent_workflow"
  proof (rule save_load_save[OF editor_workflow_sent _ _ g])
    show "truthy_str (wf_start sent_workflow)" by (simp add: sent_workflow_def sample_workflow_def)
    show "\<forall>a \<in> set (wf_actions sent_workflow). device_kept a \<and> (\<forall>x \<in> set (act_arguments a). canonical_selection x)"
      by (simp add: sent_workflow_def device_kept_def canonical_selection_def sample_action_def)
  qed
  with g show ?thesis by blast
qed

end
