(* ===== verification/Drawing.thy ===== *)
theory Drawing
  imports LibraryInvariant WorkflowInvariant
begin

text \<open>
  The drawing beside the workflow (\<^verbatim>\<open>playbook/playbook.component.ts\<close>). cytoscape
  keeps nodes and edges of its own, and the handlers of \<^verbatim>\<open>WorkflowGraph\<close> keep the
  workflow in step with them. This theory composes the two: what the library's documentation says of
  adding and removing elements is stated as predicates over the drawing before and after and the events
  that are fired, in any order; the handlers are the code's.
  An element has two identifiers. \<open>id\<close> is cytoscape's and can not be changed once the element
  exists (\<open>id\<close>, \<open>source\<close> and \<open>target\<close> are its immutable fields); \<open>_id\<close> is the
  page's, the id of the action or branch. They are equal for what is loaded or inserted, and differ for a
  pasted node, whose \<open>id\<close> the clipboard extension has chosen.
\<close>

section \<open>The drawing\<close>

record drawn_node =
  dn_cy :: string             \<comment> \<open>\<open>id\<close>\<close>
  dn_id :: string             \<comment> \<open>\<open>_id\<close>\<close>

record drawn_edge =
  de_id :: string             \<comment> \<open>\<open>_id\<close>\<close>
  de_cy :: string
  de_source :: string         \<comment> \<open>the \<open>id\<close> of a node\<close>
  de_target :: string

record drawing =
  dr_nodes :: "drawn_node list"
  dr_edges :: "drawn_edge list"

definition drawing_of :: "cy_node list \<Rightarrow> cy_edge list \<Rightarrow> drawing" where
  "drawing_of ns es =
     \<lparr>dr_nodes = map (\<lambda>n. \<lparr>dn_cy = nd_id n, dn_id = nd_id n\<rparr>) ns,
      dr_edges = map (\<lambda>e. \<lparr>de_id = ed_id e, de_cy = ed_id e, de_source = ed_source e, de_target = ed_target e\<rparr>) es\<rparr>"

text \<open>The page's name of the node with a given \<open>id\<close>, and what an edge joins in those names.\<close>

definition the_id :: "drawing \<Rightarrow> string \<Rightarrow> string" where
  "the_id d c = (case List.find (\<lambda>n. dn_cy n = c) (dr_nodes d) of Some n \<Rightarrow> dn_id n | None \<Rightarrow> [])"

definition edge_key :: "drawing \<Rightarrow> drawn_edge \<Rightarrow> string \<times> string \<times> string" where
  "edge_key d e = (de_id e, the_id d (de_source e), the_id d (de_target e))"

definition branch_key :: "branch \<Rightarrow> string \<times> string \<times> string" where
  "branch_key b = (br_id b, br_source_id b, br_destination_id b)"

text \<open>The roots: nodes no edge of another node leads to.\<close>

definition drawing_roots :: "drawing \<Rightarrow> string list" where
  "drawing_roots d = map dn_id (filter (\<lambda>n. \<not> list_ex (\<lambda>e. de_target e = dn_cy n \<and> de_source e \<noteq> dn_cy n) (dr_edges d)) (dr_nodes d))"

definition add_nodes :: "drawn_node list \<Rightarrow> drawing \<Rightarrow> drawing" where
  "add_nodes ns d = d\<lparr>dr_nodes := dr_nodes d @ ns\<rparr>"

definition add_edge :: "drawn_edge \<Rightarrow> drawing \<Rightarrow> drawing" where
  "add_edge e d = d\<lparr>dr_edges := dr_edges d @ [e]\<rparr>"

section \<open>Events\<close>

text \<open>
  Removing the elements with the ids \<open>sel\<close> takes them and the edges of removed nodes out of
  the drawing; then one \<open>remove\<close> event is fired for each.
\<close>

datatype removed = RemovedNode drawn_node | RemovedEdge drawn_edge

definition edge_removed :: "string set \<Rightarrow> drawn_edge \<Rightarrow> bool" where
  "edge_removed sel e \<longleftrightarrow> de_cy e \<in> sel \<or> de_source e \<in> sel \<or> de_target e \<in> sel"

definition cy_removes :: "string set \<Rightarrow> drawing \<Rightarrow> drawing \<Rightarrow> removed list \<Rightarrow> bool" where
  "cy_removes sel d d' evs \<longleftrightarrow>
     dr_nodes d' = filter (\<lambda>n. dn_cy n \<notin> sel) (dr_nodes d) \<and>
     dr_edges d' = filter (\<lambda>e. \<not> edge_removed sel e) (dr_edges d) \<and>
     mset evs = mset (map RemovedNode (filter (\<lambda>n. dn_cy n \<in> sel) (dr_nodes d)) @
                      map RemovedEdge (filter (edge_removed sel) (dr_edges d)))"

text \<open>What the page's handlers do with the events of one removal; with the workflow goes the
  selected action.\<close>

fun handle_removed :: "string list \<Rightarrow> removed \<Rightarrow> workflow \<times> string option \<Rightarrow> workflow \<times> string option" where
  "handle_removed roots (RemovedNode n) (w, sel) =
     (let (w', sel', _) = onNodeRemoved True (dn_id n) roots sel w in (w', sel'))"
| "handle_removed roots (RemovedEdge e) (w, sel) =
     (onEdgeRemove (Some (False, de_source e, de_target e)) w, sel)"

definition run_removed :: "string list \<Rightarrow> removed list \<Rightarrow> workflow \<times> string option \<Rightarrow> workflow \<times> string option" where
  "run_removed roots evs ws = fold (handle_removed roots) evs ws"

text \<open>The \<open>add\<close> events of nodes, fired when all of them are in the drawing.\<close>

definition run_added :: "drawing \<Rightarrow> drawn_node list \<Rightarrow> workflow \<Rightarrow> workflow" where
  "run_added d ns w =
     fold (\<lambda>n w. fst (onNodeAdded True (length (dr_nodes d)) (dn_id n) (drawing_roots d) w)) ns w"

section \<open>Drawing and workflow agree\<close>

text \<open>
  The drawing names its elements without clashes: no two nodes share an \<open>id\<close> or an \<open>_id\<close>,
  the \<open>id\<close> of one is not the \<open>_id\<close> of another, edges join nodes of the drawing, and no two edges
  join the same pair.
\<close>

definition drawing_ok :: "drawing \<Rightarrow> bool" where
  "drawing_ok d \<longleftrightarrow>
     inj_on dn_cy (set (dr_nodes d)) \<and> inj_on dn_id (set (dr_nodes d)) \<and>
     (\<forall>n \<in> set (dr_nodes d). \<forall>m \<in> set (dr_nodes d). dn_cy n = dn_id m \<longrightarrow> n = m) \<and>
     (\<forall>e \<in> set (dr_edges d). de_source e \<in> dn_cy ` set (dr_nodes d) \<and> de_target e \<in> dn_cy ` set (dr_nodes d)) \<and>
     inj_on (\<lambda>e. (de_source e, de_target e)) (set (dr_edges d))"

text \<open>
  Nodes are the actions, and every drawn edge is a branch, known by its \<open>_id\<close> and its ends. When
  \<open>exact\<close>, every branch is drawn too, and both identifiers of each node are equal.
\<close>

definition synced :: "bool \<Rightarrow> drawing \<Rightarrow> workflow \<Rightarrow> bool" where
  "synced exact d w \<longleftrightarrow> graph_ok w \<and> drawing_ok d \<and>
     dn_id ` set (dr_nodes d) = action_ids w \<and>
     edge_key d ` set (dr_edges d) \<subseteq> branch_key ` set (wf_branches w) \<and>
     (exact \<longrightarrow> edge_key d ` set (dr_edges d) = branch_key ` set (wf_branches w) \<and>
        (\<forall>n \<in> set (dr_nodes d). dn_cy n = dn_id n))"

section \<open>Names\<close>

lemma the_id_node [simp]:
  assumes "inj_on dn_cy (set (dr_nodes d))" and "n \<in> set (dr_nodes d)"
  shows "the_id d (dn_cy n) = dn_id n"
proof (cases "List.find (\<lambda>m. dn_cy m = dn_cy n) (dr_nodes d)")
  case None
  then show ?thesis using assms(2) by (auto simp: find_None_iff)
next
  case (Some m)
  then have "m \<in> set (dr_nodes d)" "dn_cy m = dn_cy n" by (auto dest: find_SomeD)
  with assms have "m = n" by (auto dest: inj_onD)
  with Some show ?thesis by (simp add: the_id_def)
qed

text \<open>What an edge joins does not change when nodes are added, nor when others are removed.\<close>

lemma edge_key_same:
  assumes "inj_on dn_cy (set (dr_nodes d))" "inj_on dn_cy (set (dr_nodes d'))"
    and "n \<in> set (dr_nodes d) \<inter> set (dr_nodes d')" "m \<in> set (dr_nodes d) \<inter> set (dr_nodes d')"
    and "de_source e = dn_cy n" "de_target e = dn_cy m"
  shows "edge_key d' e = edge_key d e"
  using assms by (simp add: edge_key_def)

lemma drawing_okD:
  assumes "drawing_ok d"
  shows "inj_on dn_cy (set (dr_nodes d))" "inj_on dn_id (set (dr_nodes d))"
    "\<And>n m. n \<in> set (dr_nodes d) \<Longrightarrow> m \<in> set (dr_nodes d) \<Longrightarrow> dn_cy n = dn_id m \<Longrightarrow> n = m"
    "inj_on (\<lambda>e. (de_source e, de_target e)) (set (dr_edges d))"
  using assms by (simp_all add: drawing_ok_def)

lemma drawing_ok_edgeE:
  assumes "drawing_ok d" and "e \<in> set (dr_edges d)"
  obtains n m where "n \<in> set (dr_nodes d)" "m \<in> set (dr_nodes d)" "de_source e = dn_cy n" "de_target e = dn_cy m"
    "edge_key d e = (de_id e, dn_id n, dn_id m)"
proof -
  obtain n m where *: "n \<in> set (dr_nodes d)" "m \<in> set (dr_nodes d)" "de_source e = dn_cy n" "de_target e = dn_cy m"
    using assms by (auto simp: drawing_ok_def)
  then have "edge_key d e = (de_id e, dn_id n, dn_id m)"
    using assms(1) by (simp add: edge_key_def drawing_ok_def)
  with * that show thesis by blast
qed

lemma branch_ends_key: "branch_ends b = snd (branch_key b)"
  by (simp add: branch_ends_def branch_key_def)

lemma graph_ok_key_cong:
  assumes "map act_id (wf_actions w') = map act_id (wf_actions w)"
    and "map branch_key (wf_branches w') = map branch_key (wf_branches w)"
  shows "graph_ok w' = graph_ok w"
proof (rule graph_ok_cong)
  have "map snd (map branch_key (wf_branches w')) = map snd (map branch_key (wf_branches w))"
    using assms(2) by simp
  then show "map branch_ends (wf_branches w') = map branch_ends (wf_branches w)"
    by (simp add: comp_def branch_ends_key[abs_def])
qed (rule assms(1))

lemma synced_cong:
  assumes "map act_id (wf_actions w') = map act_id (wf_actions w)"
    and "map branch_key (wf_branches w') = map branch_key (wf_branches w)"
  shows "synced exact d w' = synced exact d w"
proof -
  have "action_ids w' = action_ids w" using assms(1) by (metis action_ids_def list.set_map)
  moreover have "branch_key ` set (wf_branches w') = branch_key ` set (wf_branches w)"
    using assms(2) by (metis list.set_map)
  ultimately show ?thesis using graph_ok_key_cong[OF assms] by (simp add: synced_def)
qed

lemma synced_onNodeAdded: "synced exact d (fst (onNodeAdded b n i roots w)) = synced exact d w"
  by (rule synced_cong) (simp_all add: onNodeAdded_def)

lemma run_added_sel [simp]:
  "wf_actions (run_added d ns w) = wf_actions w" "wf_branches (run_added d ns w) = wf_branches w"
  unfolding run_added_def by (induction ns arbitrary: w) (simp_all add: onNodeAdded_def)

section \<open>A workflow that is shown\<close>

lemma map_result_action_node:
  "map_result (action_node apis st) as = Inr ns \<Longrightarrow> map nd_id ns = map act_id as"
  by (induction as arbitrary: ns) (auto simp: bind_result_Inr_iff action_node_def)

lemma setupGraph_elements:
  assumes "setupGraph apis roots w = Inr (w', AddElements ns es # cmds)"
  shows "map nd_id ns = map act_id (wf_actions w')" "es = map branch_edge (wf_branches w')"
    "wf_branches w' = wf_branches w"
proof -
  let ?w = "w\<lparr>wf_actions := map action_for_editor (wf_actions w)\<rparr>"
  obtain ms where ms: "map_result (action_node apis (wf_start ?w)) (wf_actions ?w) = Inr ms"
    and r: "w' = fst (setStartNode roots (wf_start ?w) ?w)" "ns = ms" "es = map branch_edge (wf_branches ?w)"
    using assms
    by (cases "setStartNode roots (wf_start ?w) ?w") (auto simp: setupGraph_def Let_def bind_result_Inr_iff)
  from map_result_action_node[OF ms] r
  show "map nd_id ns = map act_id (wf_actions w')" "es = map branch_edge (wf_branches w')"
    "wf_branches w' = wf_branches w" by simp_all
qed

lemma synced_shown:
  assumes "graph_ok w" and "setupGraph apis roots w = Inr (w', AddElements ns es # cmds)"
  shows "synced True (drawing_of ns es) w'"
proof -
  note s = setupGraph_elements[OF assms(2)] and s' = setupGraph_Inr[OF assms(2)]
  have ok: "graph_ok w'" using assms(1) graph_ok_cong[of w' w] s' by simp
  let ?d = "drawing_of ns es"
  have ids: "nd_id ` set ns = action_ids w'" using s(1) by (metis action_ids_def list.set_map)
  have cy: "dn_cy ` set (dr_nodes ?d) = action_ids w'"
    using ids by (simp add: drawing_of_def image_image)
  have inj: "inj_on dn_cy (set (dr_nodes ?d))" by (auto simp: drawing_of_def inj_on_def)
  have ends: "inj_on branch_ends (set (wf_branches w'))"
    using ok by (simp add: graph_ok_def distinct_map)
  have dr: "dr_edges ?d = map (\<lambda>b. \<lparr>de_id = br_id b, de_cy = br_id b, de_source = br_source_id b, de_target = br_destination_id b\<rparr>) (wf_branches w')"
    by (simp add: drawing_of_def s(2) branch_edge_def comp_def)
  have dok: "drawing_ok ?d"
    unfolding drawing_ok_def
  proof (intro conjI)
    show "inj_on dn_cy (set (dr_nodes ?d))" by (rule inj)
    show "\<forall>e \<in> set (dr_edges ?d). de_source e \<in> dn_cy ` set (dr_nodes ?d) \<and> de_target e \<in> dn_cy ` set (dr_nodes ?d)"
      using ok cy by (auto simp: dr graph_ok_def)
    show "inj_on (\<lambda>e. (de_source e, de_target e)) (set (dr_edges ?d))"
      using ends by (auto simp: dr inj_on_def branch_ends_def)
  qed (auto simp: drawing_of_def inj_on_def)
  have nid: "\<And>n. n \<in> set (dr_nodes ?d) \<Longrightarrow> dn_cy n = dn_id n" by (auto simp: drawing_of_def)
  have tid: "the_id ?d c = c" if c: "c \<in> action_ids w'" for c
  proof -
    from c cy have "c \<in> dn_cy ` set (dr_nodes ?d)" by (simp only:)
    then obtain n where "n \<in> set (dr_nodes ?d)" "c = dn_cy n" by (rule imageE)
    then show ?thesis using the_id_node[OF inj] nid by simp
  qed
  have "edge_key ?d ` set (dr_edges ?d) = branch_key ` set (wf_branches w')"
    using ok by (force simp: dr edge_key_def branch_key_def tid graph_ok_def image_iff)
  with ok dok cy nid show ?thesis by (auto simp: synced_def) 
qed

section \<open>Removing\<close>

text \<open>The events of a removal only take actions and branches away: which ones does not depend on
  their order.\<close>

fun takes_action :: "removed \<Rightarrow> string \<Rightarrow> bool" where
  "takes_action (RemovedNode n) i = (dn_id n = i)"
| "takes_action (RemovedEdge e) i = False"

fun takes_branch :: "removed \<Rightarrow> string \<times> string \<Rightarrow> bool" where
  "takes_branch (RemovedNode n) st = (fst st = dn_id n \<or> snd st = dn_id n)"
| "takes_branch (RemovedEdge e) st = (st = (de_source e, de_target e))"

lemma handle_removed_sel:
  "wf_actions (fst (handle_removed roots ev ws)) = filter (\<lambda>a. \<not> takes_action ev (act_id a)) (wf_actions (fst ws))"
  "wf_branches (fst (handle_removed roots ev ws)) = filter (\<lambda>b. \<not> takes_branch ev (branch_ends b)) (wf_branches (fst ws))"
proof -
  obtain w sel where [simp]: "ws = (w, sel)" by (cases ws)
  show "wf_actions (fst (handle_removed roots ev ws)) = filter (\<lambda>a. \<not> takes_action ev (act_id a)) (wf_actions (fst ws))"
  proof (cases ev)
    case (RemovedNode n)
    then show ?thesis
      using onNodeRemoved_sel(1)[of True "dn_id n" roots sel w]
      by (cases "onNodeRemoved True (dn_id n) roots sel w") (auto intro: filter_cong)
  qed (simp add: onEdgeRemove_def)
  show "wf_branches (fst (handle_removed roots ev ws)) = filter (\<lambda>b. \<not> takes_branch ev (branch_ends b)) (wf_branches (fst ws))"
  proof (cases ev)
    case (RemovedNode n)
    then show ?thesis
      using onNodeRemoved_sel(2)[of True "dn_id n" roots sel w]
      by (cases "onNodeRemoved True (dn_id n) roots sel w") (simp add: branch_ends_def)
  qed (simp add: onEdgeRemove_def branch_ends_def)
qed

lemma run_removed_sel:
  "wf_actions (fst (run_removed roots evs ws)) = filter (\<lambda>a. \<forall>ev \<in> set evs. \<not> takes_action ev (act_id a)) (wf_actions (fst ws))"
  "wf_branches (fst (run_removed roots evs ws)) = filter (\<lambda>b. \<forall>ev \<in> set evs. \<not> takes_branch ev (branch_ends b)) (wf_branches (fst ws))"
  unfolding run_removed_def
  by (induction evs arbitrary: ws) (auto simp: handle_removed_sel intro!: filter_cong)

lemma graph_ok_run_removed: "graph_ok (fst ws) \<Longrightarrow> graph_ok (fst (run_removed roots evs ws))"
proof -
  have "graph_ok (fst ws) \<Longrightarrow> graph_ok (fst (handle_removed roots ev ws))" for ev ws
    by (cases ev; cases ws)
      (auto simp: graph_ok_onEdgeRemove split: prod.split, metis fst_conv graph_ok_onNodeRemoved)
  then show "graph_ok (fst ws) \<Longrightarrow> graph_ok (fst (run_removed roots evs ws))"
    unfolding run_removed_def by (induction evs arbitrary: ws) auto
qed

lemma cy_removesD:
  assumes "cy_removes sel d d' evs"
  shows "set (dr_nodes d') = {n \<in> set (dr_nodes d). dn_cy n \<notin> sel}"
    "set (dr_edges d') = {e \<in> set (dr_edges d). \<not> edge_removed sel e}"
    "set evs = RemovedNode ` {n \<in> set (dr_nodes d). dn_cy n \<in> sel} \<union> RemovedEdge ` {e \<in> set (dr_edges d). edge_removed sel e}"
proof -
  have "set evs = set (map RemovedNode (filter (\<lambda>n. dn_cy n \<in> sel) (dr_nodes d)) @
      map RemovedEdge (filter (edge_removed sel) (dr_edges d)))"
    using assms unfolding cy_removes_def by (metis set_mset_mset)
  then show "set evs = RemovedNode ` {n \<in> set (dr_nodes d). dn_cy n \<in> sel} \<union> RemovedEdge ` {e \<in> set (dr_edges d). edge_removed sel e}"
    by simp
qed (use assms in \<open>auto simp: cy_removes_def\<close>)

lemma drawing_ok_removed:
  assumes "drawing_ok d" and "cy_removes sel d d' evs"
  shows "drawing_ok d'"
proof -
  have "n \<in> {n \<in> set (dr_nodes d). dn_cy n \<notin> sel}" if "n \<in> set (dr_nodes d)" "c = dn_cy n" "c \<notin> sel" for n c
    using that by simp
  with assms(1) show ?thesis
    unfolding drawing_ok_def cy_removesD[OF assms(2)]
    by (auto simp: edge_removed_def elim!: inj_on_subset)
qed

lemma edge_key_removed:
  assumes "drawing_ok d" and "cy_removes sel d d' evs" and "e \<in> set (dr_edges d')"
  shows "edge_key d' e = edge_key d e"
proof -
  note ok' = drawing_ok_removed[OF assms(1,2)]
  obtain n m where nm: "n \<in> set (dr_nodes d')" "m \<in> set (dr_nodes d')" "de_source e = dn_cy n" "de_target e = dn_cy m"
    using drawing_ok_edgeE[OF ok' assms(3)] by metis
  show ?thesis
    by (rule edge_key_same[OF drawing_okD(1)[OF assms(1)] drawing_okD(1)[OF ok']])
      (use nm cy_removesD(1)[OF assms(2)] in auto)
qed

text \<open>A branch of an edge that stays is not taken.\<close>

lemma kept_edge_keeps_branch:
  assumes ok: "drawing_ok d" and rem: "cy_removes sel d d' evs" and e: "e \<in> set (dr_edges d')"
    and ev: "ev \<in> set evs"
  shows "\<not> takes_branch ev (snd (edge_key d e))"
proof -
  have e': "e \<in> set (dr_edges d)" "\<not> edge_removed sel e" using e cy_removesD(2)[OF rem] by auto
  obtain n m where nm: "n \<in> set (dr_nodes d)" "m \<in> set (dr_nodes d)" "de_source e = dn_cy n" "de_target e = dn_cy m"
    "edge_key d e = (de_id e, dn_id n, dn_id m)"
    using drawing_ok_edgeE[OF ok e'(1)] by metis
  have stay: "dn_cy n \<notin> sel" "dn_cy m \<notin> sel" using e'(2) nm by (auto simp: edge_removed_def)
  consider (node) k where "ev = RemovedNode k" "k \<in> set (dr_nodes d)" "dn_cy k \<in> sel"
    | (edge) f where "ev = RemovedEdge f" "f \<in> set (dr_edges d)" "edge_removed sel f"
    using ev cy_removesD(3)[OF rem] by auto
  then show ?thesis
  proof cases
    case node
    then have "dn_id k \<noteq> dn_id n" "dn_id k \<noteq> dn_id m"
      using stay nm(1,2) drawing_okD(2)[OF ok] by (auto dest: inj_onD)
    then show ?thesis using node nm by simp
  next
    case edge
    obtain n' m' where nm': "n' \<in> set (dr_nodes d)" "m' \<in> set (dr_nodes d)" "de_source f = dn_cy n'" "de_target f = dn_cy m'"
      using drawing_ok_edgeE[OF ok edge(2)] by metis
    have "f = e" if "(dn_id n, dn_id m) = (de_source f, de_target f)"
    proof -
      have "n' = n" "m' = m" using that nm nm' drawing_okD(3)[OF ok] by auto
      then show ?thesis using nm nm' e'(1) edge(2) by (intro inj_onD[OF drawing_okD(4)[OF ok]]) auto
    qed
    then show ?thesis using edge e'(2) nm by auto
  qed
qed

lemma synced_removed:
  assumes sync: "synced exact d w" and rem: "cy_removes sel d d' evs"
  shows "synced exact d' (fst (run_removed roots evs (w, s)))" (is "synced exact d' ?w")
proof -
  have ok: "drawing_ok d" and g: "graph_ok w" using sync by (simp_all add: synced_def)
  note ok' = drawing_ok_removed[OF ok rem] and r = cy_removesD[OF rem]
  have ids: "dn_id ` set (dr_nodes d) = action_ids w" using sync by (simp add: synced_def)
  have takes: "(\<forall>ev \<in> set evs. \<not> takes_action ev i) \<longleftrightarrow> (\<forall>n \<in> set (dr_nodes d). dn_cy n \<in> sel \<longrightarrow> dn_id n \<noteq> i)" for i
    unfolding r(3) by (auto simp: ball_Un)
  have ids': "action_ids ?w = {i \<in> action_ids w. \<forall>n \<in> set (dr_nodes d). dn_cy n \<in> sel \<longrightarrow> dn_id n \<noteq> i}"
    by (auto simp: action_ids_def run_removed_sel takes)
  have nodes: "dn_id ` set (dr_nodes d') = action_ids ?w"
    unfolding ids' ids[symmetric] r(1) using drawing_okD(2)[OF ok] by (auto dest: inj_onD)
  have br: "set (wf_branches ?w) = {b \<in> set (wf_branches w). \<forall>ev \<in> set evs. \<not> takes_branch ev (branch_ends b)}"
    by (auto simp: run_removed_sel)
  have sub: "edge_key d' ` set (dr_edges d') \<subseteq> branch_key ` set (wf_branches ?w)"
  proof
    fix k assume "k \<in> edge_key d' ` set (dr_edges d')"
    then obtain e where e: "e \<in> set (dr_edges d')" "k = edge_key d e" using edge_key_removed[OF ok rem] by auto
    then have "e \<in> set (dr_edges d)" using r(2) by auto
    then obtain b where b: "b \<in> set (wf_branches w)" "branch_key b = edge_key d e"
      using sync by (auto simp: synced_def)
    have "b \<in> set (wf_branches ?w)"
      unfolding br using b kept_edge_keeps_branch[OF ok rem e(1)] by (simp add: branch_ends_key)
    with b(2) e(2) show "k \<in> branch_key ` set (wf_branches ?w)" by (metis image_eqI)
  qed
  have eq: "branch_key ` set (wf_branches ?w) \<subseteq> edge_key d' ` set (dr_edges d')" if exact
  proof
    fix k assume "k \<in> branch_key ` set (wf_branches ?w)"
    then obtain b where b: "b \<in> set (wf_branches w)" "k = branch_key b"
      "\<forall>ev \<in> set evs. \<not> takes_branch ev (branch_ends b)" using br by auto
    from sync that have "edge_key d ` set (dr_edges d) = branch_key ` set (wf_branches w)" by (simp add: synced_def)
    then have "branch_key b \<in> edge_key d ` set (dr_edges d)" using b(1) by simp
    then obtain e where e: "e \<in> set (dr_edges d)" "edge_key d e = branch_key b" by (metis imageE)
    obtain n m where nm: "n \<in> set (dr_nodes d)" "m \<in> set (dr_nodes d)" "de_source e = dn_cy n" "de_target e = dn_cy m"
      "edge_key d e = (de_id e, dn_id n, dn_id m)"
      using drawing_ok_edgeE[OF ok e(1)] by metis
    have "branch_ends b = (de_source e, de_target e)"
      using sync that nm e(2)[symmetric] by (simp add: synced_def branch_ends_key)
    then have "RemovedEdge e \<notin> set evs" using b(3) by force
    then have "e \<in> set (dr_edges d')" using e(1) r(2,3) by auto
    with e(2) b(2) show "k \<in> edge_key d' ` set (dr_edges d')" using edge_key_removed[OF ok rem] by (metis image_eqI)
  qed
  have nid: "\<forall>n \<in> set (dr_nodes d'). dn_cy n = dn_id n" if exact
    using sync that by (simp add: synced_def r(1))
  show ?thesis
    unfolding synced_def using graph_ok_run_removed[of "(w, s)" roots evs] g ok' nodes sub eq nid
    by (simp only: fst_conv simp_thms) blast
qed

section \<open>Adding\<close>

lemma edge_key_add_nodes:
  assumes "drawing_ok d" and "drawing_ok (add_nodes ns d)" and "e \<in> set (dr_edges d)"
  shows "edge_key (add_nodes ns d) e = edge_key d e"
proof -
  obtain n m where "n \<in> set (dr_nodes d)" "m \<in> set (dr_nodes d)" "de_source e = dn_cy n" "de_target e = dn_cy m"
    using drawing_ok_edgeE[OF assms(1,3)] by metis
  then show ?thesis
    by (intro edge_key_same[OF drawing_okD(1)[OF assms(1)] drawing_okD(1)[OF assms(2)]])
      (simp_all add: add_nodes_def)
qed

text \<open>The identifiers in use; those of new elements are none of them.\<close>

definition used :: "drawing \<Rightarrow> string set" where
  "used d = dn_cy ` set (dr_nodes d) \<union> dn_id ` set (dr_nodes d)"

lemma drawing_ok_add_node:
  assumes "drawing_ok d" and "dn_cy n \<notin> used d" and "dn_id n \<notin> used d"
  shows "drawing_ok (add_nodes [n] d)"
  using assms by (auto simp: drawing_ok_def add_nodes_def used_def) (metis image_eqI)

lemma synced_add_node:
  assumes sync: "synced exact d w" and fresh: "dn_cy n \<notin> used d" "dn_id n \<notin> used d"
    and act: "wf_actions w' = wf_actions w @ [a]" "act_id a = dn_id n" "wf_branches w' = wf_branches w"
    and same: "exact \<Longrightarrow> dn_cy n = dn_id n"
  shows "synced exact (add_nodes [n] d) w'"
proof -
  let ?d = "add_nodes [n] d"
  have ok: "drawing_ok d" and g: "graph_ok w" and ids: "dn_id ` set (dr_nodes d) = action_ids w"
    using sync by (simp_all add: synced_def)
  have new: "dn_id n \<notin> action_ids w" using fresh(2) ids by (auto simp: used_def)
  have ids': "action_ids w' = insert (dn_id n) (action_ids w)" using act by (auto simp: action_ids_def)
  have g': "graph_ok w'" using g new act unfolding graph_ok_def ids' by (auto simp: action_ids_def)
  note ok' = drawing_ok_add_node[OF ok fresh]
  have edges: "edge_key ?d ` set (dr_edges ?d) = edge_key d ` set (dr_edges d)"
    using edge_key_add_nodes[OF ok ok'] by (auto simp: add_nodes_def image_iff)
  have nodes: "dn_id ` set (dr_nodes ?d) = action_ids w'" using ids ids' by (simp add: add_nodes_def)
  show ?thesis
    using sync g' ok' nodes edges same act(3) unfolding synced_def by (auto simp: add_nodes_def)
qed

lemma edge_complete_one:
  assumes "edge_complete apis s [(i, t)] w = (w', EdgesAdded)"
  obtains b where "wf_branches w' = wf_branches w @ [b]" "branch_key b = (i, s, t)"
    "wf_actions w' = wf_actions w" "\<not> has_branch s t (wf_branches w)"
  using assms by (auto simp: branch_key_def split: if_splits sum.splits)

lemma synced_add_edge:
  assumes sync: "synced exact d w" and s: "s \<in> set (dr_nodes d)" and t: "t \<in> set (dr_nodes d)"
    and fin: "edge_complete apis (dn_id s) [(i, dn_id t)] w = (w', EdgesAdded)"
  shows "synced exact (add_edge \<lparr>de_id = i, de_cy = c, de_source = dn_cy s, de_target = dn_cy t\<rparr> d) w'"
    (is "synced exact (add_edge ?e d) w'")
proof -
  let ?d = "add_edge ?e d"
  have ok: "drawing_ok d" and g: "graph_ok w" and ids: "dn_id ` set (dr_nodes d) = action_ids w"
    using sync by (simp_all add: synced_def)
  obtain b where b: "wf_branches w' = wf_branches w @ [b]" "branch_key b = (i, dn_id s, dn_id t)"
    "wf_actions w' = wf_actions w" "\<not> has_branch (dn_id s) (dn_id t) (wf_branches w)"
    using edge_complete_one[OF fin] by metis
  have g': "graph_ok w'"
    using graph_ok_edge_complete[of w "dn_id s" "[(i, dn_id t)]" apis] g ids s t fin by auto
  have key: "edge_key ?d e = edge_key d e" for e by (simp add: edge_key_def the_id_def add_edge_def)
  have ke: "edge_key d ?e = (i, dn_id s, dn_id t)"
    using s t drawing_okD(1)[OF ok] by (simp add: edge_key_def)
  have no: "(de_source f, de_target f) \<noteq> (dn_cy s, dn_cy t)" if f: "f \<in> set (dr_edges d)" for f
  proof
    assume "(de_source f, de_target f) = (dn_cy s, dn_cy t)"
    then have "edge_key d f = (de_id f, dn_id s, dn_id t)"
      using s t drawing_okD(1)[OF ok] by (simp add: edge_key_def)
    moreover have "edge_key d f \<in> branch_key ` set (wf_branches w)" using f sync by (auto simp: synced_def)
    ultimately show False using b(4) by (auto simp: has_branch_iff branch_key_def branch_ends_def image_iff)
  qed
  have ok': "drawing_ok ?d"
    using ok s t no unfolding drawing_ok_def by (auto simp: add_edge_def) 
  have ids': "action_ids w' = action_ids w" using b(3) by (simp add: action_ids_def)
  have edges: "edge_key ?d ` set (dr_edges ?d) = insert (branch_key b) (edge_key d ` set (dr_edges d))"
    using key ke b(2) by (auto simp: add_edge_def image_iff)
  have nodes: "dr_nodes ?d = dr_nodes d" by (simp add: add_edge_def)
  show ?thesis
    using sync g' ok' ids' unfolding synced_def edges nodes by (auto simp: b(1))
qed

section \<open>Editing with the drawing\<close>

text \<open>
  One step of the page with its drawing. What is inserted or pasted gets identifiers that are not in use;
  an edge is drawn between two nodes. A pasted node carries the \<open>_id\<close> it was copied with until
  \<open>paste\<close> gives it a new one. The forms beside the graph change neither the identifiers nor
  the ends of branches. When \<open>pasting\<close> is false nothing is pasted.
\<close>

inductive draw_step :: "app_api list \<Rightarrow> bool \<Rightarrow> drawing \<times> workflow \<Rightarrow> drawing \<times> workflow \<Rightarrow> bool"
  for apis pasting where
  inserted: "uuid \<notin> used d \<Longrightarrow> insertNode apis uuid app act pos r w = Inr (w1, [UrDoAddNode cn]) \<Longrightarrow>
    n = \<lparr>dn_cy = nd_id cn, dn_id = nd_id cn\<rparr> \<Longrightarrow>
    draw_step apis pasting (d, w) (add_nodes [n] d, run_added (add_nodes [n] d) [n] w1)"
| connected: "s \<in> set (dr_nodes d) \<Longrightarrow> t \<in> set (dr_nodes d) \<Longrightarrow>
    edge_complete apis (dn_id s) [(i, dn_id t)] w = (w1, EdgesAdded) \<Longrightarrow>
    draw_step apis pasting (d, w)
      (add_edge \<lparr>de_id = i, de_cy = c, de_source = dn_cy s, de_target = dn_cy t\<rparr> d, w1)"
| duplicate: "s \<in> set (dr_nodes d) \<Longrightarrow> t \<in> set (dr_nodes d) \<Longrightarrow>
    edge_complete apis (dn_id s) [(i, dn_id t)] w = (w1, DuplicateEdge) \<Longrightarrow>
    draw_step apis pasting (d, w) (d, onEdgeRemove (Some (True, dn_cy s, dn_cy t)) w1)"
| removed: "cy_removes sel d d1 evs \<Longrightarrow>
    draw_step apis pasting (d, w) (d1, fst (run_removed (drawing_roots d1) evs (w, shown)))"
| pasted: "pasting \<Longrightarrow> c \<notin> used d \<Longrightarrow> uuid \<notin> used d \<Longrightarrow> c \<noteq> uuid \<Longrightarrow>
    w1 = run_added (add_nodes [\<lparr>dn_cy = c, dn_id = copied\<rparr>] d) [\<lparr>dn_cy = c, dn_id = copied\<rparr>] w \<Longrightarrow>
    paste [(copied, uuid)] w1 = (w2, None) \<Longrightarrow>
    draw_step apis pasting (d, w) (add_nodes [\<lparr>dn_cy = c, dn_id = uuid\<rparr>] d, w2)"
| edited: "map act_id (wf_actions w1) = map act_id (wf_actions w) \<Longrightarrow>
    map branch_key (wf_branches w1) = map branch_key (wf_branches w) \<Longrightarrow>
    draw_step apis pasting (d, w) (d, w1)"

lemma insertNode_one:
  assumes "insertNode apis uuid app act pos r w = Inr (w1, [UrDoAddNode cn])"
  obtains a where "wf_actions w1 = wf_actions w @ [a]" "act_id a = nd_id cn" "wf_branches w1 = wf_branches w"
    "nd_id cn = uuid"
  using assms by (auto simp: insertNode_def Let_def bind_result_Inr_iff split: if_splits)

lemma draw_step_synced:
  assumes "draw_step apis pasting (d, w) (d', w')" and "synced (\<not> pasting) d w"
  shows "synced (\<not> pasting) d' w'"
  using assms
proof (cases rule: draw_step.cases)
  case (inserted uuid app act pos r w1 cn n)
  obtain a where "wf_actions w1 = wf_actions w @ [a]" "act_id a = nd_id cn" "wf_branches w1 = wf_branches w"
    "nd_id cn = uuid"
    using insertNode_one[OF inserted(4)] by metis
  with inserted assms(2) show ?thesis
    unfolding inserted(1,2) by (intro synced_add_node[where a = a]) (auto)
next
  case (connected s t i c)
  with assms(2) show ?thesis using synced_add_edge by simp
next
  case (duplicate s t i w1)
  then have "w' = w" by (auto simp: onEdgeRemove_def split: if_splits sum.splits)
  with duplicate assms(2) show ?thesis by simp
next
  case (removed sel evs shown)
  with assms(2) show ?thesis using synced_removed by simp
next
  case (pasted c uuid w1 copied)
  let ?n = "\<lparr>dn_cy = c, dn_id = copied\<rparr>" and ?m = "\<lparr>dn_cy = c, dn_id = uuid\<rparr>"
  have w1: "wf_actions w1 = wf_actions w" "wf_branches w1 = wf_branches w"
    by (simp_all add: pasted(6))
  obtain a where w': "w' = w1\<lparr>wf_actions := wf_actions w1 @ [paste_action uuid a]\<rparr>"
    using pasted(7) by (auto split: option.splits)
  show ?thesis
    unfolding pasted(1)
    by (rule synced_add_node[OF assms(2), where a = "paste_action uuid a"])
      (use pasted(2-5) in \<open>simp_all add: w' w1 paste_action_def\<close>)
next
  case (edited)
  then show ?thesis using synced_cong[of w' w "\<not> pasting" d] assms(2) by blast
qed

lemma drawing_synced:
  assumes "(draw_step apis pasting)\<^sup>*\<^sup>* (d, w) (d', w')" and "synced (\<not> pasting) d w"
  shows "synced (\<not> pasting) d' w'"
proof -
  have "synced (\<not> pasting) (fst s') (snd s')" if "(draw_step apis pasting)\<^sup>*\<^sup>* s s'" "synced (\<not> pasting) (fst s) (snd s)" for s s'
    using that
  proof (induction rule: rtranclp_induct)
    case (step s' s'')
    then show ?case using draw_step_synced[of apis pasting "fst s'" "snd s'" "fst s''" "snd s''"] by simp
  qed simp
  from this[OF assms(1)] assms(2) show ?thesis by simp
qed


lemma map_result_exists: "(\<And>x. x \<in> set xs \<Longrightarrow> \<exists>y. f x = Inr y) \<Longrightarrow> \<exists>ys. map_result f xs = Inr ys"
proof (induction xs)
  case (Cons x xs)
  then obtain y ys where "f x = Inr y" "map_result f xs = Inr ys" by (metis list.set_intros)
  then show ?case by (simp add: bind_result_Inr_iff)
qed simp

text \<open>Saving finds the node of every action.\<close>

lemma synced_saves:
  assumes "synced exact d w" and "dn_id ` set (dr_nodes d) \<subseteq> fst ` set cyData"
    and "\<forall>a \<in> set (wf_actions w). act_device_id a \<noteq> None"
  shows "\<exists>s. prepare_workflow cyData w = Inr s"
proof -
  have "\<exists>b. prepare_action cyData a = Inr b" if a: "a \<in> set (wf_actions w)" for a
  proof -
    have "act_id a \<in> fst ` set cyData" using a assms(1,2) by (auto simp: synced_def action_ids_def)
    then obtain p where "(act_id a, p) \<in> set cyData" by auto
    then have "List.find (\<lambda>(i, p). i = act_id a) cyData \<noteq> None" by (auto simp: find_None_iff)
    moreover obtain dev where "act_device_id a = Some dev" using assms(3) a by auto
    ultimately show ?thesis by (auto simp: prepare_action_def)
  qed
  then have "\<exists>as. map_result (prepare_action cyData) (wf_actions w) = Inr as" by (rule map_result_exists)
  then show ?thesis by (auto simp: prepare_workflow_def)
qed

section \<open>Edges of pasted nodes\<close>

text \<open>
  An edge is removed from the workflow by the \<open>id\<close>s of its nodes, but its branch carries their
  \<open>_id\<close>s. When one of the nodes was pasted these differ.
\<close>

text \<open>C21. An edge at a pasted node (one whose two identifiers differ) can be removed from the drawing
  but its branch stays in the workflow, and from then on the edge can not be drawn again.\<close>

theorem pasted_edge_stays:
  assumes "synced exact d w" and "s \<in> set (dr_nodes d)" "t \<in> set (dr_nodes d)"
    and "dn_cy s \<noteq> dn_id s \<or> dn_cy t \<noteq> dn_id t"
    and "e \<in> set (dr_edges d)" "de_source e = dn_cy s" "de_target e = dn_cy t"
    and "cy_removes {de_cy e} d d' evs" and "de_cy e \<notin> used d"
    and "\<forall>f \<in> set (dr_edges d). de_cy f = de_cy e \<longrightarrow> f = e"
  shows "e \<notin> set (dr_edges d') \<and>
    wf_branches (fst (run_removed roots evs (w, shown))) = wf_branches w \<and>
    edge_complete apis (dn_id s) [(i, dn_id t)] (fst (run_removed roots evs (w, shown))) =
      (fst (run_removed roots evs (w, shown)), DuplicateEdge)"
proof -
  have ok: "drawing_ok d" and g: "graph_ok w" and ids: "dn_id ` set (dr_nodes d) = action_ids w"
    using assms(1) by (simp_all add: synced_def)
  note r = cy_removesD[OF assms(8)]
  have node: "dn_cy n \<noteq> de_cy e" if "n \<in> set (dr_nodes d)" for n
    using that assms(9) by (metis UnI1 image_eqI used_def)
  have edge: "f = e" if "f \<in> set (dr_edges d)" "edge_removed {de_cy e} f" for f
    using that assms(10) node ok by (auto simp: edge_removed_def drawing_ok_def)
  have evs: "set evs \<subseteq> {RemovedEdge e}"
    unfolding r(3) using node edge by auto
  have name: "dn_cy n = dn_id n" if "n \<in> set (dr_nodes d)" "dn_cy n \<in> action_ids w" for n
    using that ids drawing_okD(3)[OF ok] by (metis imageE)
  have "branch_ends b \<noteq> (de_source e, de_target e)" if "b \<in> set (wf_branches w)" for b
    using that g assms(2-4,6,7) name by (auto simp: graph_ok_def branch_ends_def)
  then have br: "wf_branches (fst (run_removed roots evs (w, shown))) = wf_branches w"
    using evs by (auto simp: run_removed_sel intro!: filter_True)
  have "edge_key d e = (de_id e, dn_id s, dn_id t)"
    using assms(2,3,6,7) drawing_okD(1)[OF ok] by (simp add: edge_key_def)
  moreover have "edge_key d e \<in> branch_key ` set (wf_branches w)"
    using assms(1,5) by (auto simp: synced_def)
  ultimately have "has_branch (dn_id s) (dn_id t) (wf_branches w)"
    by (auto simp: has_branch_iff branch_key_def branch_ends_def image_iff)
  then show ?thesis using r(2) br by (auto simp: edge_removed_def)
qed

section \<open>Undoing a removal\<close>

text \<open>
  The undo button of the toolbar (\<^verbatim>\<open>playbook/playbook.html\<close>) undoes the last action of the
  undo/redo extension: after a removal the elements are back in the drawing, as they were, and an
  \<open>add\<close> event is fired for each node among them.
\<close>

text \<open>C22. Undoing a removal brings the nodes back to the drawing but not their actions to the
  workflow: the nodes that are back have no action, and what is saved then has none for them
  either.\<close>

theorem undo_restores_no_action:
  assumes "synced exact d w" and "n \<in> set (dr_nodes d)" and "dn_cy n \<in> sel"
    and "cy_removes sel d d1 evs"
    and "w2 = run_added d (filter (\<lambda>n. dn_cy n \<in> sel) (dr_nodes d)) (fst (run_removed (drawing_roots d1) evs (w, shown)))"
  shows "dn_id n \<notin> action_ids w2 \<and> \<not> synced exact' d w2 \<and>
    (\<forall>s. prepare_workflow cyData w2 = Inr s \<longrightarrow> dn_id n \<notin> action_ids s)"
proof -
  have "RemovedNode n \<in> set evs" using assms(2,3) cy_removesD(3)[OF assms(4)] by auto
  then have no: "dn_id n \<notin> action_ids w2"
    by (auto simp: assms(5) action_ids_def run_removed_sel)
  have "action_ids s = action_ids w2" if s: "prepare_workflow cyData w2 = Inr s" for s
    using prepare_workflow_spec[OF s] unfolding sent_ok_def action_ids_def by (metis list.set_map)
  with no show ?thesis using assms(2) by (auto simp: synced_def)
qed

section \<open>The start action\<close>

lemma run_removed_start:
  assumes "roots = r # rs" and "\<forall>ev \<in> set evs. \<not> takes_action ev r"
  shows "wf_start (fst (run_removed roots evs (w, s))) =
    (if \<exists>ev \<in> set evs. \<exists>i. takes_action ev i \<and> wf_start w = Val i then Val r else wf_start w)"
  using assms(2) unfolding run_removed_def
proof (induction evs arbitrary: w s)
  case (Cons ev evs)
  obtain w1 s1 where h: "handle_removed roots ev (w, s) = (w1, s1)" by (cases "handle_removed roots ev (w, s)")
  have st: "wf_start w1 = (if \<exists>i. takes_action ev i \<and> wf_start w = Val i then Val r else wf_start w)"
  proof (cases ev)
    case (RemovedNode n)
    then show ?thesis
      using h onNodeRemoved_sel(3)[of True "dn_id n" roots s w] assms(1)
      by (cases "onNodeRemoved True (dn_id n) roots s w") auto
  qed (use h in \<open>auto simp: onEdgeRemove_def\<close>)
  from Cons.IH[of w1 s1] Cons.prems show ?case by (auto simp: h st)
qed simp


text \<open>Pasting after the copied action was deleted throws: the node is in the drawing, without an
  action.\<close>

lemma paste_deleted_action:
  assumes "copied \<notin> action_ids w"
  shows "paste [(copied, uuid)] w = (w, Some TypeError)"
  using assms by (simp add: findActionById_None[symmetric])

text \<open>If it would be the only node, the start is set to the deleted action too.\<close>

lemma paste_deleted_start:
  assumes "dr_nodes d = [n]" and "dn_id n \<notin> action_ids w" and "dn_id n \<noteq> []"
  shows "wf_start (run_added d [n] w) = Val (dn_id n) \<and> \<not> start_ok (run_added d [n] w)"
  using assms by (auto simp: run_added_def onNodeAdded_def setStartNode_def start_ok_def action_ids_def)

section \<open>At a concrete drawing\<close>

text \<open>The sample workflow is shown, its second action copied and pasted, and the copy connected.\<close>

definition placed_workflow :: workflow where
  "placed_workflow = sample_workflow\<lparr>wf_actions := map (\<lambda>a. a\<lparr>act_position := Val \<lparr>pos_x = 0, pos_y = 0\<rparr>\<rparr>) (wf_actions sample_workflow)\<rparr>"

definition shown_workflow :: "workflow \<times> cy_node list \<times> cy_edge list \<times> cy_command list" where
  "shown_workflow = (case setupGraph [sample_app] [''a1''] placed_workflow of
     Inr (w, AddElements ns es # cmds) \<Rightarrow> (w, ns, es, cmds) | _ \<Rightarrow> (new_workflow, [], [], []))"

definition pasted_drawing :: drawing where
  "pasted_drawing = \<lparr>dr_nodes = [\<lparr>dn_cy = ''a1'', dn_id = ''a1''\<rparr>, \<lparr>dn_cy = ''a2'', dn_id = ''a2''\<rparr>, \<lparr>dn_cy = ''c1'', dn_id = ''a3''\<rparr>],
     dr_edges = [\<lparr>de_id = ''b1'', de_cy = ''b1'', de_source = ''a1'', de_target = ''a2''\<rparr>,
                 \<lparr>de_id = ''b2'', de_cy = ''e1'', de_source = ''a2'', de_target = ''c1''\<rparr>]\<rparr>"

definition pasted_workflow :: workflow where
  "pasted_workflow = fst (edge_complete [sample_app] ''a2'' [(''b2'', ''a3'')] (fst (paste [(''a2'', ''a3'')] (fst shown_workflow))))"

lemma shown_sample:
  "setupGraph [sample_app] [''a1''] placed_workflow =
     Inr (fst shown_workflow, AddElements (fst (snd shown_workflow)) (fst (snd (snd shown_workflow))) # snd (snd (snd shown_workflow)))"
  by (simp add: shown_workflow_def setupGraph_def placed_workflow_def sample_defs Let_def action_node_def
      node_type_def getActionApi_def getAction_def find_app_def setStartNode_def action_for_editor_def)

lemma sample_app_log: "getActionApi [sample_app] ''Utils'' ''log'' = Inr sample_log"
  by (simp add: getActionApi_def getAction_def find_app_def sample_defs)

lemma shown_values:
  "drawing_of (fst (snd shown_workflow)) (fst (snd (snd shown_workflow))) =
     \<lparr>dr_nodes = [\<lparr>dn_cy = ''a1'', dn_id = ''a1''\<rparr>, \<lparr>dn_cy = ''a2'', dn_id = ''a2''\<rparr>],
      dr_edges = [\<lparr>de_id = ''b1'', de_cy = ''b1'', de_source = ''a1'', de_target = ''a2''\<rparr>]\<rparr>"
  "map act_id (wf_actions (fst shown_workflow)) = [''a1'', ''a2'']"
  "map act_app_name (wf_actions (fst shown_workflow)) = [''Utils'', ''Utils'']"
  "map act_action_name (wf_actions (fst shown_workflow)) = [''log'', ''log'']"
  "wf_branches (fst shown_workflow) = [sample_branch ''b1'' ''a1'' ''a2'']"
  by (simp_all add: shown_workflow_def setupGraph_def placed_workflow_def sample_defs Let_def action_node_def
      node_type_def getActionApi_def getAction_def find_app_def setStartNode_def action_for_editor_def
      drawing_of_def branch_edge_def)

lemma placed_graph_ok: "graph_ok placed_workflow"
  using sample_graph_ok graph_ok_cong[of placed_workflow sample_workflow]
  by (simp add: placed_workflow_def comp_def)

lemma shown_run_paste:
  "(draw_step [sample_app] True)\<^sup>*\<^sup>*
     (drawing_of (fst (snd shown_workflow)) (fst (snd (snd shown_workflow))), fst shown_workflow)
     (pasted_drawing, pasted_workflow)"
proof -
  let ?w = "fst shown_workflow" and ?d = "drawing_of (fst (snd shown_workflow)) (fst (snd (snd shown_workflow)))"
  let ?n = "\<lparr>dn_cy = ''c1'', dn_id = ''a2''\<rparr>" and ?m = "\<lparr>dn_cy = ''c1'', dn_id = ''a3''\<rparr>"
  obtain x y where as: "wf_actions ?w = [x, y]" using shown_values(2) by (auto simp: map_eq_Cons_conv)
  have y: "act_id x = ''a1''" "act_id y = ''a2''" "act_app_name y = ''Utils''" "act_action_name y = ''log''"
    using shown_values(2-4) by (simp_all add: as)
  let ?w1 = "?w\<lparr>wf_actions := [x, y, paste_action ''a3'' y]\<rparr>"
  have p: "paste [(''a2'', ''a3'')] ?w = (?w1, None)" by (simp add: findActionById_def as y)
  have add: "run_added (add_nodes [?n] ?d) [?n] ?w = ?w"
    by (simp add: run_added_def onNodeAdded_def add_nodes_def shown_values(1))
  have "draw_step [sample_app] True (?d, ?w) (add_nodes [?m] ?d, ?w1)"
    by (rule draw_step.pasted[OF _ _ _ _ _ p]) (simp_all add: used_def shown_values(1) add[unfolded shown_values(1)])
  moreover have e: "edge_complete [sample_app] ''a2'' [(''b2'', ''a3'')] ?w1 = (pasted_workflow, EdgesAdded)"
    unfolding pasted_workflow_def p
    by (simp add: findActionById_def as y paste_action_def sample_app_log has_branch_def shown_values(5) sample_branch_def)
  have "draw_step [sample_app] True (add_nodes [?m] ?d, ?w1)
      (add_edge \<lparr>de_id = ''b2'', de_cy = ''e1'', de_source = dn_cy \<lparr>dn_cy = ''a2'', dn_id = ''a2''\<rparr>, de_target = dn_cy ?m\<rparr> (add_nodes [?m] ?d), pasted_workflow)"
    using draw_step.connected[of "\<lparr>dn_cy = ''a2'', dn_id = ''a2''\<rparr>" "add_nodes [?m] ?d" ?m "[sample_app]" "''b2''" ?w1 pasted_workflow True "''e1''"] e
    by (simp add: add_nodes_def shown_values(1))
  ultimately show ?thesis
    by (simp add: add_edge_def add_nodes_def shown_values(1) pasted_drawing_def)
qed


lemma pasted_synced: "synced False pasted_drawing pasted_workflow"
proof -
  have "synced True (drawing_of (fst (snd shown_workflow)) (fst (snd (snd shown_workflow)))) (fst shown_workflow)"
    by (rule synced_shown[OF placed_graph_ok shown_sample])
  then show ?thesis using drawing_synced[OF shown_run_paste] by (simp add: synced_def)
qed

text \<open>The edge from the second action to its copy is drawn between \<open>a2\<close> and \<open>c1\<close>.\<close>

definition edge_to_copy :: drawn_edge where
  "edge_to_copy = \<lparr>de_id = ''b2'', de_cy = ''e1'', de_source = ''a2'', de_target = ''c1''\<rparr>"

theorem pasted_edge_stays_witness:
  "wf_branches (fst (run_removed [] [RemovedEdge edge_to_copy] (pasted_workflow, None))) = wf_branches pasted_workflow \<and>
   edge_complete [sample_app] ''a2'' [(''b3'', ''a3'')] (fst (run_removed [] [RemovedEdge edge_to_copy] (pasted_workflow, None))) =
     (fst (run_removed [] [RemovedEdge edge_to_copy] (pasted_workflow, None)), DuplicateEdge)"
proof -
  let ?d = "pasted_drawing\<lparr>dr_edges := [\<lparr>de_id = ''b1'', de_cy = ''b1'', de_source = ''a1'', de_target = ''a2''\<rparr>]\<rparr>"
  have "cy_removes {de_cy edge_to_copy} pasted_drawing ?d [RemovedEdge edge_to_copy]"
    by (simp add: cy_removes_def pasted_drawing_def edge_removed_def edge_to_copy_def)
  from pasted_edge_stays[OF pasted_synced _ _ _ _ _ _ this, of "\<lparr>dn_cy = ''a2'', dn_id = ''a2''\<rparr>" "\<lparr>dn_cy = ''c1'', dn_id = ''a3''\<rparr>" "[]" None "[sample_app]" "''b3''"]
  show ?thesis by (simp add: pasted_drawing_def edge_to_copy_def used_def del: edge_complete.simps)
qed

theorem undo_restores_no_action_witness:
  "''a2'' \<notin> action_ids (run_added pasted_drawing [\<lparr>dn_cy = ''a2'', dn_id = ''a2''\<rparr>]
     (fst (run_removed [''a1'', ''a3''] [RemovedNode \<lparr>dn_cy = ''a2'', dn_id = ''a2''\<rparr>,
        RemovedEdge edge_to_copy, RemovedEdge \<lparr>de_id = ''b1'', de_cy = ''b1'', de_source = ''a1'', de_target = ''a2''\<rparr>] (pasted_workflow, None))))"
proof -
  let ?d = "\<lparr>dr_nodes = [\<lparr>dn_cy = ''a1'', dn_id = ''a1''\<rparr>, \<lparr>dn_cy = ''c1'', dn_id = ''a3''\<rparr>], dr_edges = []\<rparr>"
  have rem: "cy_removes {''a2''} pasted_drawing ?d [RemovedNode \<lparr>dn_cy = ''a2'', dn_id = ''a2''\<rparr>,
        RemovedEdge edge_to_copy, RemovedEdge \<lparr>de_id = ''b1'', de_cy = ''b1'', de_source = ''a1'', de_target = ''a2''\<rparr>]"
    by (simp add: cy_removes_def pasted_drawing_def edge_removed_def edge_to_copy_def)
  have f: "filter (\<lambda>n. dn_cy n \<in> {''a2''}) (dr_nodes pasted_drawing) = [\<lparr>dn_cy = ''a2'', dn_id = ''a2''\<rparr>]"
    by (simp add: pasted_drawing_def)
  show ?thesis
    using undo_restores_no_action[OF pasted_synced _ _ rem refl, of "\<lparr>dn_cy = ''a2'', dn_id = ''a2''\<rparr>" None]
    unfolding f by (simp add: pasted_drawing_def drawing_roots_def)
qed


end
