(* ===== verification/SearchPages.thy ===== *)
theory SearchPages
  imports DevicePage SchedulerInvariant Messages AppApi
begin

text \<open>
  The life of the list pages: what a page asks for when it is opened (\<open>ngOnInit\<close>), and the search
  box, whose value is used when it has not changed for 500 ms
  (\<open>valueChanges.debounceTime(500)\<close>). rxjs documents \<open>debounceTime\<close> as a timer that
  every value restarts and that passes the last value on when it runs out; that is the timer kept beside
  the page here. The answers of the server, the search box and the modals then come in any order.
\<close>

section \<open>The search box\<close>

definition debounce_time :: nat where "debounce_time = 500"

text \<open>The milliseconds left, if the timer runs. A change restarts it; when time passes it may run out.\<close>

type_synonym timer = "nat option"

definition value_changed :: "timer \<Rightarrow> timer" where
  "value_changed t = Some debounce_time"

definition time_passes :: "nat \<Rightarrow> timer \<Rightarrow> timer \<times> bool" where
  "time_passes n t = (case t of None \<Rightarrow> (None, False)
     | Some k \<Rightarrow> if k \<le> n then (None, True) else (Some (k - n), False))"

lemma debounce_fires: "snd (time_passes debounce_time (value_changed t))"
  by (simp add: time_passes_def value_changed_def)

text \<open>While keys follow each other in less than 500 ms nothing is passed on.\<close>

lemma debounce_waits: "n < debounce_time \<Longrightarrow> \<not> snd (time_passes n (value_changed t))"
  by (simp add: time_passes_def value_changed_def)

section \<open>Opening the pages\<close>

definition devices_ngOnInit :: "device request list" where
  "devices_ngOnInit = [getDevices_request 1, getDeviceApis_request]"

definition new_device_page :: device_page where
  "new_device_page = \<lparr>dp_list = new_crud, dp_selectedApps = [], dp_appApis = [], dp_appNames = [], dp_availableApps = []\<rparr>"

definition scheduler_getPlaybooks_request :: "scheduler_body request" where
  "scheduler_getPlaybooks_request = http GET ''/api/playbooks'' None"

definition scheduler_ngOnInit :: "scheduler_body request list" where
  "scheduler_ngOnInit = [getSchedulerStatus_request, scheduler_getPlaybooks_request, getScheduledTasks_request 1]"

definition messages_ngOnInit :: "message_body request list" where
  "messages_ngOnInit = [getMessageListings_request 1]"

section \<open>The device page\<close>

datatype device_event =
    SearchTyped "string nullable"
  | TimePasses nat
  | AppsSelected "string list"
  | DevicesListed "device list result"
  | ApisListed "app_api list result"
  | DeviceDeleted device "unit result"
  | DeviceModal "device modal_result"

fun device_event_step :: "device_event \<Rightarrow> timer \<times> device_page \<Rightarrow> timer \<times> device_page" where
  "device_event_step (SearchTyped q) (t, p) = (value_changed t, p\<lparr>dp_list := (dp_list p)\<lparr>cr_query := q\<rparr>\<rparr>)"
| "device_event_step (TimePasses n) (t, p) =
     (case time_passes n t of (t', fires) \<Rightarrow> (t', if fires then fst (filterDevices p) else p))"
| "device_event_step (AppsSelected apps) (t, p) = (t, fst (appSelectChange apps p))"
| "device_event_step (DevicesListed answer) (t, p) = (t, getDevices_done answer p)"
| "device_event_step (ApisListed answer) (t, p) = (t, getDeviceApis_done answer p)"
| "device_event_step (DeviceDeleted d answer) (t, p) = (t, deleteDevice_done d answer p)"
| "device_event_step (DeviceModal r) (t, p) = (t, fst (devices_handleModalClose r p))"

definition run_device_page :: "device_event list \<Rightarrow> timer \<times> device_page \<Rightarrow> timer \<times> device_page" where
  "run_device_page evs s = fold device_event_step evs s"

text \<open>
  What the server and the modals return: devices with names and pairwise different ids; an edited device is
  one of the list and an added one is not. The list of devices, asked for when the page is opened, arrives
  before a search or a selection of apps.
\<close>

definition unsearched :: "device_page \<Rightarrow> bool" where
  "unsearched p \<longleftrightarrow> search_text (cr_query (dp_list p)) = [] \<and> dp_selectedApps p = []"

fun device_event_ok :: "device_page \<Rightarrow> device_event \<Rightarrow> bool" where
  "device_event_ok p (DevicesListed (Inr ds)) = (distinct (map dev_id ds) \<and> (\<forall>d \<in> set ds. has_names d) \<and> unsearched p)"
| "device_event_ok p (DeviceModal (ClosedWith d isEdit)) =
     (has_names d \<and> isEdit = (dev_id d \<in> dev_id ` set (cr_items (dp_list p))))"
| "device_event_ok p _ = True"

fun device_events_ok :: "device_event list \<Rightarrow> timer \<times> device_page \<Rightarrow> bool" where
  "device_events_ok [] s = True"
| "device_events_ok (ev # evs) s = (device_event_ok (snd s) ev \<and> device_events_ok evs (device_event_step ev s))"

text \<open>The page is settled when the timer has run out; then it shows what matches.\<close>

definition settled_ok :: "timer \<times> device_page \<Rightarrow> bool" where
  "settled_ok s \<longleftrightarrow> device_page_ok (snd s) \<and> (fst s = None \<longrightarrow> shown_ok (snd s)) \<and>
     (\<forall>k. fst s = Some k \<longrightarrow> k \<le> debounce_time)"

lemma filterDevices_shows:
  assumes "device_page_ok p"
  shows "device_page_ok (fst (filterDevices p)) \<and> shown_ok (fst (filterDevices p))"
proof -
  let ?m = "device_matches (dp_selectedApps p)"
  have "snd (crud_filter ?m (dp_list p)) = None"
    by (rule device_list.filter_succeeds) (use assms in \<open>simp add: device_page_ok_def\<close>)
  then have "shows_matching ?m (fst (crud_filter ?m (dp_list p)))" by (rule crud_filter_shows)
  then show ?thesis
    using assms by (simp add: filterDevices_def device_page_ok_def shown_ok_def split: prod.split)
      (metis crud_filter_items(1) fst_conv)
qed

lemma unsearched_shows_all:
  assumes "\<forall>d \<in> set ds. has_names d"
  shows "filter (\<lambda>d. device_matches [] [] d = Inr True) ds = ds"
  using assms by (intro filter_True) (auto simp: has_names_def device_matches_def)

lemma device_event_settled:
  assumes "settled_ok s" and "device_event_ok (snd s) ev"
  shows "settled_ok (device_event_step ev s)"
proof -
  obtain t p where s: "s = (t, p)" by (cases s)
  have ok: "device_page_ok p" and sh: "t = None \<Longrightarrow> shown_ok p" and k: "\<And>k. t = Some k \<Longrightarrow> k \<le> debounce_time"
    using assms(1) by (simp_all add: s settled_ok_def)
  have toast: "settled_ok (t, p\<lparr>dp_list := crud_toast x (dp_list p)\<rparr>)" for x
    using ok sh k by (simp add: settled_ok_def device_page_ok_def shown_ok_def)
  show ?thesis
  proof (cases ev)
    case (SearchTyped q)
    then show ?thesis using ok by (simp add: s settled_ok_def device_page_ok_def value_changed_def)
  next
    case (TimePasses n)
    then show ?thesis
      using ok sh k filterDevices_shows[OF ok]
      by (auto simp: s settled_ok_def time_passes_def split: option.split)
  next
    case (AppsSelected apps)
    have "device_page_ok (p\<lparr>dp_selectedApps := apps\<rparr>)" using ok by (simp add: device_page_ok_def)
    from filterDevices_shows[OF this] k show ?thesis
      by (simp add: AppsSelected s settled_ok_def appSelectChange_def)
  next
    case (DevicesListed answer)
    show ?thesis
    proof (cases answer)
      case (Inl e)
      then show ?thesis using toast by (simp add: DevicesListed s getDevices_done_def crud_loaded_def)
    next
      case (Inr ds)
      then have d: "distinct (map dev_id ds)" "\<forall>d \<in> set ds. has_names d" "unsearched p"
        using assms(2) by (simp_all add: s DevicesListed)
      then show ?thesis
        using unsearched_shows_all[OF d(2)] d k
        by (simp add: DevicesListed Inr s settled_ok_def device_page_ok_def shown_ok_def shows_matching_def
            getDevices_done_def crud_loaded_def unsearched_def)
    qed
  next
    case (ApisListed answer)
    then show ?thesis
      using toast ok sh k
      by (auto simp: s getDeviceApis_done_def settled_ok_def device_page_ok_def shown_ok_def split: sum.split)
  next
    case (DeviceDeleted d answer)
    show ?thesis
    proof (cases answer)
      case (Inl e)
      then show ?thesis using toast by (simp add: DeviceDeleted s deleteDevice_done_def crud_deleted_def)
    next
      case (Inr u)
      then show ?thesis
        using deleteDevice_spec[OF ok, of d] k by (simp add: DeviceDeleted s settled_ok_def)
    qed
  next
    case (DeviceModal r)
    show ?thesis
    proof (cases r)
      case (ClosedWith d isEdit)
      have "has_names d" "isEdit = (dev_id d \<in> dev_id ` set (cr_items (dp_list p)))"
        using assms(2) by (simp_all add: s DeviceModal ClosedWith)
      from devices_handleModalClose_spec[OF ok this] k show ?thesis
        by (auto simp: DeviceModal ClosedWith s settled_ok_def)
    next
      case (Dismissed m)
      then show ?thesis
        using toast ok sh k
        by (cases m) (auto simp: DeviceModal s devices_handleModalClose_def crud_modal_closed_def settled_ok_def)
    next
      case ClosedWithout
      then show ?thesis
        using ok sh k by (auto simp: DeviceModal s devices_handleModalClose_def crud_modal_closed_def settled_ok_def)
    qed
  qed
qed

text \<open>C7. The search settles. Whatever is typed, selected, listed, deleted, added and edited on the device
  page, in any order: once the search box has been left alone for 500 ms the table shows exactly the
  devices that match its text and the selected apps, and it does so whenever the timer is not running.\<close>

theorem device_search_settles:
  assumes "device_events_ok evs (None, new_device_page)"
    and "run_device_page evs (None, new_device_page) = (t, p)"
  shows "(t = None \<longrightarrow> shown_ok p) \<and>
    (\<exists>p'. device_event_step (TimePasses debounce_time) (t, p) = (None, p') \<and> shown_ok p' \<and>
       cr_items (dp_list p') = cr_items (dp_list p))"
proof -
  have "settled_ok (run_device_page evs s)" if "settled_ok s" "device_events_ok evs s" for s
    using that unfolding run_device_page_def
  proof (induction evs arbitrary: s)
    case (Cons ev evs)
    from Cons.prems have "settled_ok (device_event_step ev s)" by (auto intro: device_event_settled)
    with Cons show ?case by simp
  qed simp
  moreover have "settled_ok (None, new_device_page)"
    by (simp add: settled_ok_def new_device_page_def new_crud_def device_page_ok_def shown_ok_def shows_matching_def)
  ultimately have ok: "settled_ok (t, p)" using assms by metis
  obtain t' f where f: "time_passes debounce_time t = (t', f)" by (cases "time_passes debounce_time t")
  have t': "t' = None" using ok f by (auto simp: settled_ok_def time_passes_def split: option.splits if_splits)
  have "settled_ok (device_event_step (TimePasses debounce_time) (t, p))"
    by (rule device_event_settled[OF ok]) simp
  moreover have "cr_items (dp_list (fst (filterDevices p))) = cr_items (dp_list p)"
    by (simp add: filterDevices_def split: prod.split) (metis crud_filter_items(1) fst_conv)
  ultimately show ?thesis using ok f t' by (auto simp: settled_ok_def)
qed

definition device_session :: "device_event list" where
  "device_session = [DevicesListed (Inr [sample_device]), SearchTyped (Val ''no such device''), TimePasses 300,
     SearchTyped (Val ''R''), TimePasses 500, DeviceDeleted sample_device (Inr ())]"

theorem device_search_settles_witness:
  "shown_ok (snd (run_device_page device_session (None, new_device_page)))"
proof -
  let ?s = "run_device_page device_session (None, new_device_page)"
  have ok: "device_events_ok device_session (None, new_device_page)"
    using sample_device_page_ok(2)
    by (simp add: device_session_def new_device_page_def new_crud_def unsearched_def search_text_def)
  have "fst ?s = None"
    by (simp add: run_device_page_def device_session_def time_passes_def value_changed_def debounce_time_def)
  with device_search_settles[OF ok, of "fst ?s" "snd ?s"] show ?thesis by (metis surjective_pairing)
qed

text \<open>When the list arrives after the search was made, all devices are shown, whatever the text, until
  it is typed in again. (The message page searches again when its list arrives.)\<close>

lemma late_list_ignores_search:
  "device_event_step (DevicesListed (Inr ds)) (None, p) = (None, p') \<Longrightarrow> cr_display (dp_list p') = ds"
  by (auto simp: getDevices_done_def crud_loaded_def)

lemma late_list_is_searched:
  "mp_display (listMessages_done rel (Inr ms) p) =
     filter (\<lambda>m. str_includes (toLowerCase (ml_subject m)) (search_text (mp_query p))) ms"
  by (simp add: listMessages_done_def filterMessages_def)

section \<open>The search in the actions of the playbook editor\<close>

text \<open>
  The box above the actions waits for 250 ms and passes a text on only when it differs from the last one it
  passed on (\<open>debounceTime(250).distinctUntilChanged()\<close>). The text is trimmed; then the panels of the
  apps are opened, or closed when nothing is searched (\<open>None\<close>: as the user left them).
\<close>

record action_filter =
  af_text :: string
  af_timer :: timer
  af_last :: "string option"
  af_actionFilter :: string
  af_panels :: "bool option"

definition new_action_filter :: action_filter where
  "new_action_filter = \<lparr>af_text = [], af_timer = None, af_last = None, af_actionFilter = [], af_panels = None\<rparr>"

definition actionFilter_passed :: "action_filter \<Rightarrow> action_filter" where
  "actionFilter_passed f =
     (if af_last f = Some (af_text f) then f
      else let query = trim (af_text f)
           in f\<lparr>af_last := Some (af_text f), af_actionFilter := query, af_panels := Some (query \<noteq> [])\<rparr>)"

datatype filter_event = FilterTyped string | FilterWaits nat

fun action_filter_step :: "filter_event \<Rightarrow> action_filter \<Rightarrow> action_filter" where
  "action_filter_step (FilterTyped t) f = f\<lparr>af_text := t, af_timer := Some 250\<rparr>"
| "action_filter_step (FilterWaits n) f =
     (let (t, fires) = time_passes n (af_timer f); f1 = f\<lparr>af_timer := t\<rparr>
      in if fires then actionFilter_passed f1 else f1)"

definition action_filter_ok :: "action_filter \<Rightarrow> bool" where
  "action_filter_ok f \<longleftrightarrow>
     (af_timer f = None \<longrightarrow> af_actionFilter f = trim (af_text f)) \<and>
     af_actionFilter f = trim (case af_last f of None \<Rightarrow> [] | Some t \<Rightarrow> t) \<and>
     (case af_panels f of None \<Rightarrow> af_last f = None | Some b \<Rightarrow> b = (af_actionFilter f \<noteq> []))"

lemma action_filter_step_ok: "action_filter_ok f \<Longrightarrow> action_filter_ok (action_filter_step e f)"
  by (cases e) (auto simp: action_filter_ok_def actionFilter_passed_def time_passes_def Let_def split: option.splits)

text \<open>When the box has rested, the actions are those that match what it shows, and the panels are open
  exactly while something is searched.\<close>

lemma action_filter_settles:
  "af_actionFilter (action_filter_step (FilterWaits 250) (action_filter_step (FilterTyped t) (fold action_filter_step es new_action_filter)))
     = trim t"
proof -
  have start: "action_filter_ok new_action_filter"
    by (simp add: action_filter_ok_def new_action_filter_def trim_def)
  have run: "action_filter_ok f \<Longrightarrow> action_filter_ok (fold action_filter_step es f)" for f
    by (induction es arbitrary: f) (auto intro: action_filter_step_ok)
  let ?g = "action_filter_step (FilterWaits 250) (action_filter_step (FilterTyped t) (fold action_filter_step es new_action_filter))"
  have "action_filter_ok ?g" by (intro action_filter_step_ok run start)
  moreover have "af_timer ?g = None" "af_text ?g = t"
    by (simp_all add: time_passes_def actionFilter_passed_def Let_def)
  ultimately show ?thesis by (simp add: action_filter_ok_def)
qed

end
