(* ===== verification/SchedulerTypes.thy ===== *)
theory SchedulerTypes
  imports SchedulerInvariant
begin

text \<open>
  The arguments of a scheduled task are declared as classes (\<^verbatim>\<open>models/scheduler/\<close>):
  which fields the arguments of each kind of trigger have and the types of their values. The compiler
  checks none of it at run time, and the form works on plain objects; here the declarations are a small type
  system, and the form (\<^verbatim>\<open>scheduler/scheduler.modal.component.ts\<close>) keeps to it.
\<close>

section \<open>The declarations\<close>

datatype ts_type = TsNumber | TsString | TsMoment

type_synonym ts_class = "(string \<times> ts_type list) list"

definition ScheduledTaskCron :: ts_class where
  "ScheduledTaskCron =
     [(''year'', [TsNumber, TsString]), (''month'', [TsNumber, TsString]), (''day'', [TsNumber, TsString]),
      (''week'', [TsNumber, TsString]), (''day_of_week'', [TsNumber, TsString]), (''hour'', [TsNumber, TsString]),
      (''minute'', [TsNumber, TsString]), (''second'', [TsNumber, TsString]),
      (''start_date'', [TsString, TsMoment]), (''end_date'', [TsString, TsMoment]), (''timezone'', [TsString])]"

definition ScheduledTaskInterval :: ts_class where
  "ScheduledTaskInterval =
     [(''weeks'', [TsNumber]), (''days'', [TsNumber]), (''hours'', [TsNumber]), (''minutes'', [TsNumber]),
      (''seconds'', [TsNumber]), (''start_date'', [TsString, TsMoment]), (''end_date'', [TsString, TsMoment]),
      (''timezone'', [TsString])]"

definition ScheduledTaskDate :: ts_class where
  "ScheduledTaskDate = [(''run_date'', [TsString, TsMoment]), (''timezone'', [TsString])]"

text \<open>The kinds of trigger and the class of each one's arguments.\<close>

definition scheduledItemTriggerTypes :: "string list" where
  "scheduledItemTriggerTypes = [''date'', ''interval'', ''cron'']"

definition trigger_class :: "string nullable \<Rightarrow> ts_class option" where
  "trigger_class t =
     (if t = Val ''cron'' then Some ScheduledTaskCron
      else if t = Val ''interval'' then Some ScheduledTaskInterval
      else if t = Val ''date'' then Some ScheduledTaskDate else None)"

lemma trigger_class_simps [simp]:
  "trigger_class (Val ''cron'') = Some ScheduledTaskCron"
  "trigger_class (Val ''interval'') = Some ScheduledTaskInterval"
  "trigger_class (Val ''date'') = Some ScheduledTaskDate"
  by (simp_all add: trigger_class_def)

section \<open>Typing\<close>

fun has_ts_type :: "ts_type \<Rightarrow> jsval \<Rightarrow> bool" where
  "has_ts_type TsNumber (JNum _) = True"
| "has_ts_type TsString (JStr _) = True"
| "has_ts_type TsMoment (JMoment _) = True"
| "has_ts_type _ _ = False"

lemma has_ts_type_iff [simp]:
  "has_ts_type TsNumber v \<longleftrightarrow> (\<exists>n. v = JNum n)" "has_ts_type TsString v \<longleftrightarrow> (\<exists>s. v = JStr s)"
  "has_ts_type TsMoment v \<longleftrightarrow> (\<exists>t. v = JMoment t)"
  by (cases v; simp)+

text \<open>\<open>null\<close> and \<open>undefined\<close> are values of every type.\<close>

definition fits :: "ts_type list \<Rightarrow> jsval \<Rightarrow> bool" where
  "fits ts v \<longleftrightarrow> nullish v \<or> list_ex (\<lambda>t. has_ts_type t v) ts"

text \<open>An object of a class has fields of the class only, with values of their types. The time zone is never
  used, as the classes note.\<close>

definition field_ok :: "ts_class \<Rightarrow> string \<Rightarrow> jsval \<Rightarrow> bool" where
  "field_ok cls k v \<longleftrightarrow> k \<noteq> ''timezone'' \<and> (case map_of cls k of Some ts \<Rightarrow> fits ts v | None \<Rightarrow> False)"

definition typed_args :: "ts_class \<Rightarrow> jsobj \<Rightarrow> bool" where
  "typed_args cls ob \<longleftrightarrow> (\<forall>(k, v) \<in> set ob. field_ok cls k v)"

lemma set_obj_set: "set (obj_set k v ob) \<subseteq> insert (k, v) (set ob)"
  by (induction ob) (auto split: if_splits)

lemma typed_args_set: "typed_args cls ob \<Longrightarrow> field_ok cls k v \<Longrightarrow> typed_args cls (obj_set k v ob)"
  using set_obj_set[of k v ob] by (auto simp: typed_args_def)

lemma typed_args_read:
  assumes "typed_args cls ob" and "obj_read ob k \<noteq> JUndef"
  shows "field_ok cls k (obj_read ob k)"
proof -
  have "(k, obj_read ob k) \<in> set ob"
    using assms(2) by (auto simp: obj_read_def obj_get_def split: option.splits dest: map_of_SomeD)
  with assms(1) show ?thesis by (auto simp: typed_args_def)
qed

text \<open>Trimming keeps the types: a text stays a text.\<close>

lemma field_ok_trim: "field_ok cls k (JStr s) \<Longrightarrow> field_ok cls k (JStr t)"
  by (auto simp: field_ok_def fits_def list_ex_iff split: option.splits)
    (metis has_ts_type.simps(2) has_ts_type_iff(1,3) jsval.distinct ts_type.exhaust)

lemma typed_doesArgs_loop:
  "typed_args cls args \<Longrightarrow> typed_args cls (fst (doesArgsHaveAnything_loop ks args ret))"
proof (induction ks args ret rule: doesArgsHaveAnything_loop.induct)
  case (2 k ks args ret)
  show ?case
  proof (cases "ret \<or> date_key k \<or> \<not> truthy (obj_read args k)")
    case True
    with 2 show ?thesis by simp
  next
    case False
    show ?thesis
    proof (cases "obj_read args k")
      case (JStr s)
      then have "field_ok cls k (JStr s)" using typed_args_read[OF "2.prems", of k] by simp
      then have "typed_args cls (obj_set k (JStr (trim s)) args)"
        using "2.prems" field_ok_trim typed_args_set by metis
      with 2 False JStr show ?thesis by (simp add: Let_def)
    qed (use 2 False in auto)
  qed
qed simp

text \<open>The conversion before a cron rule is sent makes numbers of fields that may be numbers.\<close>

lemma cron_number: "field_ok ScheduledTaskCron k v \<Longrightarrow> \<not> date_key k \<Longrightarrow> field_ok ScheduledTaskCron k (JNum n)"
  by (auto simp: field_ok_def ScheduledTaskCron_def fits_def date_key_def split: if_splits)

lemma typed_convert_loop:
  "typed_args ScheduledTaskCron args \<Longrightarrow> \<forall>(k, v) \<in> set es. \<exists>u. field_ok ScheduledTaskCron k u \<Longrightarrow>
   typed_args ScheduledTaskCron (convert_loop es args)"
proof (induction es args rule: convert_loop.induct)
  case (2 k v es args)
  then show ?case by (auto intro!: typed_args_set cron_number)
qed simp

lemma typed_convertStringsToInt:
  assumes "typed_args ScheduledTaskCron args"
  shows "typed_args ScheduledTaskCron (convertStringsToInt args)"
  unfolding convertStringsToInt_def
proof (rule typed_convert_loop[OF assms])
  have "\<exists>u. field_ok ScheduledTaskCron k u" if k: "k \<in> fst ` set args" for k
    using k assms by (force simp: typed_args_def)
  then show "\<forall>(k, v) \<in> set (map (\<lambda>k. (k, obj_read args k)) (obj_keys args)). \<exists>u. field_ok ScheduledTaskCron k u"
    by auto
qed

section \<open>The form\<close>

text \<open>
  What is done in the form: another kind of trigger is picked (the select box sets the kind, then
  \<open>changeType\<close> runs), or a field is entered. The form shows the fields of the class of the picked kind,
  all but the time zone, and its inputs give values of their types: texts, numbers or moments, or
  \<open>null\<close> when they are empty.
\<close>

datatype form_edit = PickType string | EnterField string jsval

fun form_edit_step :: "form_edit \<Rightarrow> scheduler_modal \<Rightarrow> scheduler_modal" where
  "form_edit_step (PickType t) m = changeType t (m\<lparr>sm_task := (sm_task m)\<lparr>task_trigger_type := Val t\<rparr>\<rparr>)"
| "form_edit_step (EnterField k v) m =
     (case current_args m of None \<Rightarrow> m | Some args \<Rightarrow> set_args (obj_set k v args) m)"

fun edit_offered :: "scheduler_modal \<Rightarrow> form_edit \<Rightarrow> bool" where
  "edit_offered m (PickType t) = (t \<in> set ([] # scheduledItemTriggerTypes))"
| "edit_offered m (EnterField k v) =
     (case trigger_class (task_trigger_type (sm_task m)) of None \<Rightarrow> False | Some cls \<Rightarrow> field_ok cls k v)"

fun edits_offered :: "form_edit list \<Rightarrow> scheduler_modal \<Rightarrow> bool" where
  "edits_offered [] m = True"
| "edits_offered (e # es) m = (edit_offered m e \<and> edits_offered es (form_edit_step e m))"

text \<open>The arguments the task refers to are those of its kind, and all objects the form keeps are of their
  classes.\<close>

definition modal_typed :: "scheduler_modal \<Rightarrow> bool" where
  "modal_typed m \<longleftrightarrow>
     typed_args ScheduledTaskCron (sm_cron m) \<and> typed_args ScheduledTaskInterval (sm_interval m) \<and>
     typed_args ScheduledTaskDate (sm_date m) \<and>
     (case sm_args m of
        OwnArgs \<Rightarrow> (\<forall>args. task_args (sm_task m) = Some args \<longrightarrow>
          (\<exists>cls. trigger_class (task_trigger_type (sm_task m)) = Some cls \<and> typed_args cls args))
      | CronArgs \<Rightarrow> task_trigger_type (sm_task m) = Val ''cron''
      | IntervalArgs \<Rightarrow> task_trigger_type (sm_task m) = Val ''interval''
      | DateArgs \<Rightarrow> task_trigger_type (sm_task m) = Val ''date''
      | NullArgs \<Rightarrow> True)"

lemma typed_args_Nil [simp]: "typed_args cls []" by (simp add: typed_args_def)

lemma modal_typed_current:
  assumes "modal_typed m" and "current_args m = Some args"
  shows "\<exists>cls. trigger_class (task_trigger_type (sm_task m)) = Some cls \<and> typed_args cls args"
  using assms by (auto simp: modal_typed_def current_args_def split: args_ref.splits)

lemma modal_typed_set_args:
  assumes "modal_typed m" and "trigger_class (task_trigger_type (sm_task m)) = Some cls" and "typed_args cls ob"
  shows "modal_typed (set_args ob m)"
  using assms by (auto simp: modal_typed_def set_args_def split: args_ref.splits)

lemma set_args_type [simp]: "task_trigger_type (sm_task (set_args ob m)) = task_trigger_type (sm_task m)"
  by (simp add: set_args_def split: args_ref.split)

lemma current_set_args: "current_args m \<noteq> None \<Longrightarrow> current_args (set_args ob m) = Some ob"
  by (auto simp: set_args_def current_args_def split: args_ref.splits)

lemma form_edit_typed:
  assumes "modal_typed m" and "edit_offered m e"
  shows "modal_typed (form_edit_step e m)"
proof (cases e)
  case (PickType t)
  then show ?thesis using assms(1) by (auto simp: modal_typed_def changeType_def)
next
  case (EnterField k v)
  show ?thesis
  proof (cases "current_args m")
    case None
    with EnterField assms(1) show ?thesis by simp
  next
    case (Some args)
    from modal_typed_current[OF assms(1) Some]
    obtain cls where cls: "trigger_class (task_trigger_type (sm_task m)) = Some cls" "typed_args cls args" by blast
    moreover have "field_ok cls k v" using assms(2) cls(1) by (simp add: EnterField)
    ultimately show ?thesis
      using modal_typed_set_args[OF assms(1)] by (simp add: EnterField Some typed_args_set)
  qed
qed

lemma validate_typed:
  assumes "modal_typed m"
  shows "modal_typed (fst (scheduler_validate m)) \<and>
    task_trigger_type (sm_task (fst (scheduler_validate m))) = task_trigger_type (sm_task m)"
proof (cases "current_args m")
  case None
  then show ?thesis using assms by (simp add: scheduler_validate_def del: truthy_str_iff)
next
  case (Some args)
  from modal_typed_current[OF assms Some]
  obtain cls where cls: "trigger_class (task_trigger_type (sm_task m)) = Some cls" "typed_args cls args" by blast
  obtain args' found where d: "doesArgsHaveAnything args = (args', found)" by (cases "doesArgsHaveAnything args")
  have "typed_args cls (fst (doesArgsHaveAnything args))"
    unfolding doesArgsHaveAnything_def by (rule typed_doesArgs_loop[OF cls(2)])
  then have "modal_typed (set_args args' m)" using d modal_typed_set_args[OF assms cls(1)] by simp
  then show ?thesis
    using assms Some d by (simp add: scheduler_validate_def Let_def del: truthy_str_iff)
qed

lemma validate_current:
  assumes "scheduler_validate m = (m', [])"
  shows "current_args m' \<noteq> None"
proof -
  obtain args where a: "current_args m = Some args"
    using assms by (cases "current_args m") (auto simp: scheduler_validate_def simp del: truthy_str_iff split: if_splits)
  obtain args' found where d: "doesArgsHaveAnything args = (args', found)" by (cases "doesArgsHaveAnything args")
  have "current_args (set_args args' m) = Some args'" using a by (simp add: current_set_args)
  then show ?thesis
    using assms a d by (auto simp: scheduler_validate_def Let_def simp del: truthy_str_iff split: if_splits)
qed

text \<open>C12. The form of a scheduled task keeps to the declared types. From a well-typed task, whatever kinds
  of trigger are picked and fields entered in the form: what is submitted carries arguments of the
  class that belongs to its trigger type, with no other fields and every value of its field's type, also
  after the trimming of texts and the conversion of cron fields to numbers.\<close>

theorem scheduler_form_typed:
  assumes "modal_typed m" and "edits_offered es m"
    and "scheduler_submit (fold form_edit_step es m) = Inl (m', request)"
  shows "\<exists>cls args. trigger_class (task_trigger_type (submitted_task m')) = Some cls \<and>
    task_args (submitted_task m') = Some args \<and> typed_args cls args"
proof -
  have fold: "modal_typed (fold form_edit_step es m)"
    using assms(1,2) by (induction es arbitrary: m) (auto intro: form_edit_typed)
  let ?m = "fold form_edit_step es m"
  obtain m1 where v: "scheduler_validate ?m = (m1, [])"
    and m': "m' = (if task_trigger_type (sm_task m1) = Val ''cron''
        then (case current_args m1 of Some a \<Rightarrow> set_args (convertStringsToInt a) m1 | None \<Rightarrow> m1) else m1)"
    using assms(3) by (cases "scheduler_validate ?m") (auto simp: scheduler_submit_def Let_def split: if_splits)
  have t1: "modal_typed m1" using validate_typed[OF fold] v by simp
  obtain args where a: "current_args m1 = Some args" using validate_current[OF v] by auto
  obtain cls where cls: "trigger_class (task_trigger_type (sm_task m1)) = Some cls" "typed_args cls args"
    using modal_typed_current[OF t1 a] by blast
  have "\<exists>args. current_args m' = Some args \<and> typed_args cls args"
  proof (cases "task_trigger_type (sm_task m1) = Val ''cron''")
    case True
    then have "cls = ScheduledTaskCron" using cls(1) by (simp add: trigger_class_def)
    with True a cls(2) show ?thesis by (simp add: m' current_set_args typed_convertStringsToInt)
  next
    case False
    with a cls(2) show ?thesis by (simp add: m')
  qed
  moreover have "task_trigger_type (sm_task m') = task_trigger_type (sm_task m1)"
    by (simp add: m' split: option.split)
  ultimately show ?thesis using cls(1) by (auto simp: submitted_task_def)
qed

text \<open>A new task: named, with a workflow, run daily at a typed hour.\<close>

definition named_task :: scheduled_task where
  "named_task = new_task\<lparr>task_name := Val ''Nightly'', task_workflows := Val [''w1'']\<rparr>"

definition nightly_edits :: "form_edit list" where
  "nightly_edits = [PickType ''interval'', EnterField ''days'' (JNum (Fin 1)), PickType ''cron'',
     EnterField ''hour'' (JStr '' 5 ''), EnterField ''start_date'' (JMoment 0)]"

definition nightly_submitted :: scheduler_modal where
  "nightly_submitted = (case scheduler_submit (fold form_edit_step nightly_edits (open_scheduler_modal named_task)) of
     Inl (m, r) \<Rightarrow> m | Inr e \<Rightarrow> open_scheduler_modal named_task)"

lemma nightly_validate:
  "snd (scheduler_validate (fold form_edit_step nightly_edits (open_scheduler_modal named_task))) = []"
  by code_simp

theorem scheduler_form_typed_witness:
  "\<exists>cls args. trigger_class (task_trigger_type (submitted_task nightly_submitted)) = Some cls \<and>
    task_args (submitted_task nightly_submitted) = Some args \<and> typed_args cls args"
proof -
  let ?m = "open_scheduler_modal named_task"
  have typed: "modal_typed ?m"
    by (simp add: modal_typed_def open_scheduler_modal_def named_task_def new_task_def)
  have offered: "edits_offered nightly_edits ?m"
    by (simp add: nightly_edits_def open_scheduler_modal_def scheduledItemTriggerTypes_def trigger_class_def
        field_ok_def fits_def ScheduledTaskCron_def ScheduledTaskInterval_def changeType_def current_args_def set_args_def)
  obtain r where "scheduler_submit (fold form_edit_step nightly_edits ?m) = Inl (nightly_submitted, r)"
    using nightly_validate
    by (cases "scheduler_validate (fold form_edit_step nightly_edits ?m)")
      (auto simp: nightly_submitted_def scheduler_submit_def Let_def)
  from scheduler_form_typed[OF typed offered this] show ?thesis .
qed

section \<open>What the form loses\<close>

text \<open>Switching the kind of trigger of an existing task and back replaces its arguments by empty ones;
  the comment of \<open>changeType\<close> promises that nothing is lost.\<close>

theorem trigger_switch_loses_arguments:
  assumes "t \<in> set scheduledItemTriggerTypes"
  shows "current_args (form_edit_step (PickType t) (form_edit_step (PickType u) (open_scheduler_modal task))) = Some []"
  using assms
  by (auto simp: scheduledItemTriggerTypes_def changeType_def open_scheduler_modal_def current_args_def)

text \<open>A cron field that was emptied is no text that is not a number: it is sent as 0.\<close>

lemma empty_cron_field_becomes_zero:
  "obj_read (convertStringsToInt [(''hour'', JStr [])]) ''hour'' = JNum (Fin 0)"
  by code_simp

end
