(* ===== verification/Lifecycle.thy ===== *)
theory Lifecycle
  imports LibraryInvariant SearchPages EventStreams Metrics
begin

text \<open>
  The single page application around the pages: the routes (\<^verbatim>\<open>routing.ts\<close>), what every page asks
  the server for when it is opened and what it leaves behind when it is closed (\<open>ngOnInit\<close> and
  \<open>ngOnDestroy\<close> of the components), and the page of custom interfaces
  (\<^verbatim>\<open>interfaces/interfaces.component.ts\<close>).
  Going to another route destroys the component of the page and creates one for the new page; between two
  interfaces the component stays and its parameter changes.
\<close>

section \<open>Routes\<close>

datatype route =
    PlaybookRoute | SchedulerRoute | DevicesRoute | MessagesRoute | MetricsRoute | SettingsRoute
  | ExecutionRoute | InterfaceRoute string

text \<open>The path of the address in segments.\<close>

definition routes :: "string list \<Rightarrow> route option" where
  "routes path =
     (case path of
        [] \<Rightarrow> Some PlaybookRoute
      | [p] \<Rightarrow>
          if p = ''playbook'' then Some PlaybookRoute else if p = ''scheduler'' then Some SchedulerRoute
          else if p = ''devices'' then Some DevicesRoute else if p = ''messages'' then Some MessagesRoute
          else if p = ''metrics'' then Some MetricsRoute else if p = ''settings'' then Some SettingsRoute
          else if p = ''execution'' then Some ExecutionRoute else None
      | [p, i] \<Rightarrow> if p = ''interfaces'' then Some (InterfaceRoute i) else None
      | _ \<Rightarrow> None)"

section \<open>What pages take hold of\<close>

text \<open>Listeners on the document and timers outlive the component that made them unless it removes
  them.\<close>

datatype page_resource = TabListener | ModalListener | KeydownListener | IntervalTimer nat

definition playbook_ngOnInit_resources :: "page_resource list" where
  "playbook_ngOnInit_resources = [KeydownListener, IntervalTimer 30000, TabListener]"

definition playbook_ngOnDestroy_resources :: "page_resource list" where
  "playbook_ngOnDestroy_resources = [TabListener]"

definition execution_ngOnInit_resources :: "page_resource list" where
  "execution_ngOnInit_resources = [IntervalTimer 30000, ModalListener]"

definition execution_ngOnDestroy_resources :: "page_resource list" where
  "execution_ngOnDestroy_resources = [ModalListener]"

definition metrics_ngOnInit_resources :: "page_resource list" where
  "metrics_ngOnInit_resources = [TabListener]"

definition metrics_ngOnDestroy_resources :: "page_resource list" where
  "metrics_ngOnDestroy_resources = [TabListener]"

definition acquired :: "route \<Rightarrow> page_resource list" where
  "acquired r = (case r of PlaybookRoute \<Rightarrow> playbook_ngOnInit_resources | ExecutionRoute \<Rightarrow> execution_ngOnInit_resources
     | MetricsRoute \<Rightarrow> metrics_ngOnInit_resources | _ \<Rightarrow> [])"

definition released :: "route \<Rightarrow> page_resource list" where
  "released r = (case r of PlaybookRoute \<Rightarrow> playbook_ngOnDestroy_resources | ExecutionRoute \<Rightarrow> execution_ngOnDestroy_resources
     | MetricsRoute \<Rightarrow> metrics_ngOnDestroy_resources | _ \<Rightarrow> [])"

text \<open>The resources held, each with the number of the component that took it.\<close>

record shell =
  sh_page :: "(nat \<times> route) option"
  sh_held :: "(nat \<times> page_resource) list"
  sh_next :: nat

definition empty_shell :: shell where
  "empty_shell = \<lparr>sh_page = None, sh_held = [], sh_next = 0\<rparr>"

definition same_component :: "route \<Rightarrow> route \<Rightarrow> bool" where
  "same_component r q = (case (r, q) of (InterfaceRoute _, InterfaceRoute _) \<Rightarrow> True | _ \<Rightarrow> r = q)"

definition leave :: "shell \<Rightarrow> shell" where
  "leave s = (case sh_page s of None \<Rightarrow> s
     | Some (n, r) \<Rightarrow> s\<lparr>sh_page := None, sh_held := filter (\<lambda>(m, x). \<not> (m = n \<and> x \<in> set (released r))) (sh_held s)\<rparr>)"

definition enter :: "route \<Rightarrow> shell \<Rightarrow> shell" where
  "enter r s = s\<lparr>sh_page := Some (sh_next s, r), sh_held := sh_held s @ map (Pair (sh_next s)) (acquired r),
     sh_next := Suc (sh_next s)\<rparr>"

definition navigate :: "route \<Rightarrow> shell \<Rightarrow> shell" where
  "navigate r s = (case sh_page s of
       Some (n, q) \<Rightarrow> if same_component q r then s\<lparr>sh_page := Some (n, r)\<rparr> else enter r (leave s)
     | None \<Rightarrow> enter r (leave s))"

text \<open>How often pages that take a resource were opened: visits that created a component.\<close>

fun openings :: "page_resource \<Rightarrow> route option \<Rightarrow> route list \<Rightarrow> nat" where
  "openings x cur [] = 0"
| "openings x cur (r # rs) =
     (if x \<in> set (acquired r) \<and> (case cur of Some c \<Rightarrow> \<not> same_component c r | None \<Rightarrow> True) then 1 else 0) + openings x (Some r) rs"

definition count_held :: "page_resource \<Rightarrow> shell \<Rightarrow> nat" where
  "count_held x s = length (filter (\<lambda>h. snd h = x) (sh_held s))"

lemmas resource_defs = acquired_def released_def playbook_ngOnInit_resources_def playbook_ngOnDestroy_resources_def
  execution_ngOnInit_resources_def execution_ngOnDestroy_resources_def metrics_ngOnInit_resources_def
  metrics_ngOnDestroy_resources_def

text \<open>A resource no page gives back is counted once for every opening of a page that takes it.\<close>

lemma count_leave:
  assumes "\<forall>r. x \<notin> set (released r)"
  shows "count_held x (leave s) = count_held x s"
proof -
  have "filter (\<lambda>h. snd h = x) (filter (\<lambda>(m, y). \<not> (m = n \<and> y \<in> set (released r))) hs) = filter (\<lambda>h. snd h = x) hs" for n :: nat and r hs
    using assms by (induction hs) auto
  then show ?thesis by (cases "sh_page s") (auto simp: count_held_def leave_def simp del: filter_filter)
qed

lemma count_enter: "count_held x (enter r s) = count_held x s + length (filter (\<lambda>y. y = x) (acquired r))"
  by (simp add: count_held_def enter_def filter_map comp_def)

lemma page_enter [simp]: "sh_page (enter r s) = Some (sh_next s, r)"
  by (simp add: enter_def)

lemma navigate_page: "\<exists>n. sh_page (navigate r s) = Some (n, r)"
  by (auto simp: navigate_def split: option.split)

lemma acquired_once: "length (filter (\<lambda>y. y = x) (acquired r)) = (if x \<in> set (acquired r) then 1 else 0)"
  by (auto simp: resource_defs split: route.split)

lemma same_component_acquires: "same_component q r \<Longrightarrow> acquired q = acquired r"
  by (auto simp: same_component_def acquired_def split: route.splits)

lemma count_navigate:
  assumes "\<forall>r. x \<notin> set (released r)"
  shows "count_held x (navigate r s) = count_held x s +
    (if x \<in> set (acquired r) \<and> (case map_option snd (sh_page s) of Some c \<Rightarrow> \<not> same_component c r | None \<Rightarrow> True) then 1 else 0)"
proof (cases "sh_page s")
  case None
  then show ?thesis by (simp add: navigate_def count_enter count_leave[OF assms] acquired_once)
next
  case (Some p)
  then show ?thesis
    by (cases p) (auto simp: navigate_def count_enter count_leave[OF assms] acquired_once, simp_all add: count_held_def)
qed

lemma resources_pile_up:
  assumes "\<forall>r. x \<notin> set (released r)"
  shows "count_held x (fold navigate rs s) = count_held x s + openings x (map_option snd (sh_page s)) rs"
proof (induction rs arbitrary: s)
  case (Cons r rs)
  obtain n where n: "sh_page (navigate r s) = Some (n, r)" using navigate_page by blast
  show ?case using Cons.IH[of "navigate r s"] by (simp add: count_navigate[OF assms] n)
qed simp


text \<open>Going back and forth between two pages shows the numbers.\<close>

lemma three_visits:
  "openings KeydownListener None [PlaybookRoute, DevicesRoute, PlaybookRoute, ExecutionRoute, PlaybookRoute] = 3"
  "openings (IntervalTimer 30000) None [PlaybookRoute, DevicesRoute, PlaybookRoute, ExecutionRoute, PlaybookRoute] = 4"
  by (simp_all add: resource_defs same_component_def)

text \<open>The tab listener is given back.\<close>

lemma tab_listener_returned:
  "sh_page s = Some (n, r) \<Longrightarrow> (n, TabListener) \<in> set (sh_held (leave s)) \<Longrightarrow> r \<noteq> PlaybookRoute \<and> r \<noteq> MetricsRoute"
  by (auto simp: leave_def resource_defs)

section \<open>What pages ask for first\<close>

text \<open>Method and address of the requests; where a page asks for a stream it first needs a token.\<close>

definition execution_getPlaybooks_request :: "execution_body request" where
  "execution_getPlaybooks_request = http GET ''/api/playbooks'' None"

definition execution_loadWorkflow_request :: "string nullable \<Rightarrow> execution_body request" where
  "execution_loadWorkflow_request i = http GET (''/api/workflows/'' @ template i) None"

definition playbook_ngOnInit :: "(http_method \<times> string) list" where
  "playbook_ngOnInit = [request_line (getDevices_request 1), request_line getApis_request, request_line getPlaybooks_request]"

definition execution_ngOnInit :: "execution_body request list" where
  "execution_ngOnInit = [execution_getPlaybooks_request, getWorkflowStatuses_request 1]"

definition main_ngOnInit :: "message_body request list" where
  "main_ngOnInit = [getInterfaceNames_request, getInitialNotifications_request]"

definition metrics_ngOnInit :: "unit request list" where
  "metrics_ngOnInit = [getAppMetrics_request, getWorkflowMetrics_request]"

text \<open>Nothing that opening a page asks for changes anything on the server.\<close>

lemma opening_only_reads:
  "\<forall>l \<in> set playbook_ngOnInit. fst l = GET"
  "\<forall>r \<in> set execution_ngOnInit. req_method r = GET" "\<forall>r \<in> set main_ngOnInit. req_method r = GET"
  "\<forall>r \<in> set metrics_ngOnInit. req_method r = GET" "\<forall>r \<in> set devices_ngOnInit. req_method r = GET"
  "\<forall>r \<in> set scheduler_ngOnInit. req_method r = GET" "\<forall>r \<in> set messages_ngOnInit. req_method r = GET"
  by (simp_all add: playbook_ngOnInit_def execution_ngOnInit_def main_ngOnInit_def metrics_ngOnInit_def
      devices_ngOnInit_def scheduler_ngOnInit_def messages_ngOnInit_def request_line_def http_def
      getDevices_request_def getApis_request_def getPlaybooks_request_def execution_getPlaybooks_request_def
      getWorkflowStatuses_request_def getInterfaceNames_request_def getInitialNotifications_request_def
      getAppMetrics_request_def getWorkflowMetrics_request_def getDeviceApis_request_def getSchedulerStatus_request_def
      scheduler_getPlaybooks_request_def getScheduledTasks_request_def getMessageListings_request_def)

section \<open>Custom interfaces\<close>

text \<open>The page holds one frame per answer, after taking away the last child of its element; the template's
  element starts with white space and a comment.\<close>

datatype child = TemplateNode | Frame string

record interface_page =
  ip_name :: string
  ip_children :: "child list"
  ip_toasts :: "toast list"

definition getInterface_request :: "interface_page \<Rightarrow> unit request" where
  "getInterface_request p = http GET (''custominterfaces/'' @ ip_name p @ ''/'') None"

definition getInterface_done :: "string result \<Rightarrow> interface_page \<Rightarrow> interface_page" where
  "getInterface_done answer p =
     (case answer of
        Inl e \<Rightarrow> p\<lparr>ip_toasts := ip_toasts p @ [Failure (''Error retrieving interface: '' @ error_message e)]\<rparr>
      | Inr data \<Rightarrow> p\<lparr>ip_children := butlast (ip_children p) @ [Frame data]\<rparr>)"

text \<open>The parameter of the route: its first value, and every change, asks for the interface.\<close>

definition interface_params :: "string \<Rightarrow> interface_page \<Rightarrow> interface_page \<times> unit request" where
  "interface_params name p = (let p' = p\<lparr>ip_name := name\<rparr> in (p', getInterface_request p'))"

datatype interface_event = InterfaceSelected string | InterfaceAnswered "string result"

fun interface_step :: "interface_event \<Rightarrow> interface_page \<Rightarrow> interface_page" where
  "interface_step (InterfaceSelected name) p = fst (interface_params name p)"
| "interface_step (InterfaceAnswered answer) p = getInterface_done answer p"

definition frames :: "interface_page \<Rightarrow> string list" where
  "frames p = List.map_filter (\<lambda>c. case c of Frame d \<Rightarrow> Some d | TemplateNode \<Rightarrow> None) (ip_children p)"

fun last_answer :: "string option \<Rightarrow> interface_event list \<Rightarrow> string option" where
  "last_answer d [] = d"
| "last_answer d (InterfaceAnswered (Inr x) # evs) = last_answer (Some x) evs"
| "last_answer d (_ # evs) = last_answer d evs"

text \<open>The children: what is left of the template, then the frame there is.\<close>

definition holds_frame :: "string option \<Rightarrow> interface_page \<Rightarrow> bool" where
  "holds_frame d p \<longleftrightarrow> (\<exists>ts. set ts \<subseteq> {TemplateNode} \<and> ip_children p = ts @ (case d of None \<Rightarrow> [] | Some x \<Rightarrow> [Frame x]))"

lemma frames_append: "set ts \<subseteq> {TemplateNode} \<Longrightarrow> List.map_filter (\<lambda>c. case c of Frame d \<Rightarrow> Some d | TemplateNode \<Rightarrow> None) (ts @ xs) =
    List.map_filter (\<lambda>c. case c of Frame d \<Rightarrow> Some d | TemplateNode \<Rightarrow> None) xs"
  by (induction ts) auto

lemma holds_frame_frames: "holds_frame d p \<Longrightarrow> frames p = (case d of None \<Rightarrow> [] | Some x \<Rightarrow> [x])"
  unfolding holds_frame_def frames_def using frames_append[of _ "[]"] by (cases d) (auto simp: frames_append)

lemma holds_frame_answered:
  assumes "holds_frame d p"
  shows "holds_frame (Some x) (getInterface_done (Inr x) p)"
proof -
  obtain ts where ts: "set ts \<subseteq> {TemplateNode}" "ip_children p = ts @ (case d of None \<Rightarrow> [] | Some x \<Rightarrow> [Frame x])"
    using assms by (auto simp: holds_frame_def)
  have "set (butlast (ip_children p)) \<subseteq> {TemplateNode}"
    using ts by (cases d) (auto simp: butlast_append dest: in_set_butlastD)
  then show ?thesis by (auto simp: holds_frame_def getInterface_done_def)
qed

lemma last_answer_frame: "holds_frame d p \<Longrightarrow> holds_frame (last_answer d evs) (fold interface_step evs p)"
proof (induction d evs arbitrary: p rule: last_answer.induct)
  case (2 d x evs)
  then show ?case using holds_frame_answered by simp
qed (auto simp: holds_frame_def interface_params_def getInterface_done_def Let_def)

text \<open>C32. The page of an interface shows one frame at a time: after any selections and answers it holds
  exactly the frame of the last answer that arrived, and none before the first.\<close>

theorem one_interface_frame:
  assumes "set (ip_children p) \<subseteq> {TemplateNode}"
  shows "frames (fold interface_step evs p) = (case last_answer None evs of None \<Rightarrow> [] | Some d \<Rightarrow> [d])"
proof -
  have "holds_frame None p" using assms by (simp add: holds_frame_def)
  then show ?thesis by (intro holds_frame_frames last_answer_frame)
qed

definition opened_interface :: interface_page where
  "opened_interface = \<lparr>ip_name = [], ip_children = [TemplateNode, TemplateNode, TemplateNode], ip_toasts = []\<rparr>"

theorem one_interface_frame_witness:
  "frames (fold interface_step [InterfaceSelected ''A'', InterfaceSelected ''B'', InterfaceAnswered (Inr ''of B''),
     InterfaceAnswered (Inr ''of A'')] opened_interface) = [''of A'']"
  by (subst one_interface_frame) (simp_all add: opened_interface_def)

text \<open>The last answer need not be that of the last selection: an earlier interface that answers late replaces
  the one selected since, whose name the page has.\<close>

lemma late_interface_replaces:
  "ip_name (fold interface_step [InterfaceSelected a, InterfaceSelected b, InterfaceAnswered (Inr x), InterfaceAnswered (Inr y)] p) = b"
  "last_answer None [InterfaceSelected a, InterfaceSelected b, InterfaceAnswered (Inr x), InterfaceAnswered (Inr y)] = Some y"
  by (simp_all add: interface_params_def getInterface_done_def Let_def)

section \<open>Tables and the width of their columns\<close>

text \<open>
  A table measures its columns again when the width of its container has changed since it last did
  (\<open>ngAfterViewChecked\<close> of the two pages with a table of results), and when the tab or dialog that
  hides it is shown. The table that is not rendered is \<open>None\<close>. \<open>tw_measured\<close> is the width its
  columns were laid out for, \<open>tw_seen\<close> the width the page remembers.
\<close>

record table_width =
  tw_seen :: nat
  tw_measured :: "nat option"

definition ngAfterViewChecked :: "nat \<Rightarrow> table_width \<Rightarrow> table_width" where
  "ngAfterViewChecked clientWidth t =
     (case tw_measured t of
        None \<Rightarrow> t
      | Some _ \<Rightarrow> if clientWidth \<noteq> tw_seen t then t\<lparr>tw_seen := clientWidth, tw_measured := Some clientWidth\<rparr> else t)"

datatype console_table =
  ConsoleTable | WorkflowResultsTable | ErrorLogTable | EnvironmentVariableTableA | EnvironmentVariableTableB

definition recalculateConsoleTable :: "string \<Rightarrow> console_table option" where
  "recalculateConsoleTable href =
     (if href = ''#console'' then Some ConsoleTable
      else if href = ''#executionLog'' then Some WorkflowResultsTable
      else if href = ''#errorLog'' then Some ErrorLogTable
      else if href = ''#environmentVariableLogA'' then Some EnvironmentVariableTableA
      else if href = ''#environmentVariableLogB'' then Some EnvironmentVariableTableB
      else None)"

datatype metrics_table = AppMetricsTable | WorkflowMetricsTable

definition recalculateTable :: "string \<Rightarrow> metrics_table option" where
  "recalculateTable href =
     (if href = ''#apps'' then Some AppMetricsTable
      else if href = ''#workflows'' then Some WorkflowMetricsTable
      else None)"

text \<open>After a check the columns fit the container, and a second check does nothing, provided that the page
  remembers the width the columns were laid out for; a table that appears while the container keeps the
  remembered width is not measured.\<close>

definition width_ok :: "table_width \<Rightarrow> bool" where
  "width_ok t \<longleftrightarrow> (\<forall>n. tw_measured t = Some n \<longrightarrow> n = tw_seen t)"

lemma ngAfterViewChecked_fits:
  assumes "width_ok t" "tw_measured t \<noteq> None"
  shows "tw_measured (ngAfterViewChecked w t) = Some w" "width_ok (ngAfterViewChecked w t)"
    "ngAfterViewChecked w (ngAfterViewChecked w t) = ngAfterViewChecked w t"
  using assms by (auto simp: ngAfterViewChecked_def width_ok_def)

lemma ngAfterViewChecked_late_table:
  "tw_seen t = w \<Longrightarrow> tw_measured t = Some n \<Longrightarrow> tw_measured (ngAfterViewChecked w t) = Some n"
  by (simp add: ngAfterViewChecked_def)

text \<open>No two tabs measure the same table, so every table has one tab that shows it.\<close>

lemma recalculateConsoleTable_inj:
  "recalculateConsoleTable a = Some t \<Longrightarrow> recalculateConsoleTable b = Some t \<Longrightarrow> a = b"
  by (auto simp: recalculateConsoleTable_def split: if_splits)

end
