(* ===== verification/NodeStyle.thy ===== *)
theory NodeStyle
  imports Editor
begin

text \<open>
  How the elements of the drawing look (the style sheet in \<open>setupGraph\<close> of
  \<^verbatim>\<open>playbook/playbook.component.ts\<close>): rules of a selector and properties, of which a later
  one wins over an earlier one. An element is what cytoscape makes of the description it is given: its
  \<open>data\<close>, not the other fields; commands of the page change data, classes and selection.
\<close>

section \<open>Elements and selectors\<close>

record element =
  el_node :: bool
  el_data :: jsobj
  el_classes :: "string list"
  el_selected :: bool
  el_hasChildren :: bool

datatype style_selector =
    NodeRule
  | EdgeRule
  | NodeData string string      \<comment> \<open>\<open>node[k="v"]\<close>\<close>
  | NodeTruthy string           \<comment> \<open>\<open>node[?k]\<close>\<close>
  | EdgeTruthy string           \<comment> \<open>\<open>edge[?k]\<close>\<close>
  | NodeSelected
  | ClassRule "string list"     \<comment> \<open>\<open>.a, .b\<close>\<close>
  | ParentRule                  \<comment> \<open>\<open>$node > node\<close>: a node with children\<close>

fun style_matches :: "style_selector \<Rightarrow> element \<Rightarrow> bool" where
  "style_matches NodeRule e = el_node e"
| "style_matches EdgeRule e = (\<not> el_node e)"
| "style_matches (NodeData k v) e = (el_node e \<and> obj_read (el_data e) k = JStr v)"
| "style_matches (NodeTruthy k) e = (el_node e \<and> truthy (obj_read (el_data e) k))"
| "style_matches (EdgeTruthy k) e = (\<not> el_node e \<and> truthy (obj_read (el_data e) k))"
| "style_matches NodeSelected e = (el_node e \<and> el_selected e)"
| "style_matches (ClassRule cs) e = (\<exists>c \<in> set cs. c \<in> set (el_classes e))"
| "style_matches ParentRule e = (el_node e \<and> el_hasChildren e)"

type_synonym style_rule = "style_selector \<times> (string \<times> string) list"

definition playbook_style :: "style_rule list" where
  "playbook_style =
     [(NodeRule, [(''content'', ''data(label)''), (''text-valign'', ''center''), (''text-halign'', ''center''),
         (''shape'', ''roundrectangle''), (''background-color'', ''#bbb''), (''selection-box-color'', ''red''),
         (''font-family'', ''Segoe UI, Tahoma, Geneva, Verdana, sans-serif, sans-serif''),
         (''font-weight'', ''lighter''), (''font-size'', ''15px''), (''width'', ''label''), (''height'', ''label''),
         (''padding'', ''10px'')]),
      (NodeData ''type'' ''action'', [(''background-color'', ''#bbb'')]),
      (NodeData ''type'' ''eventAction'', [(''shape'', ''star''), (''background-color'', ''#edbd21'')]),
      (NodeTruthy ''isStartNode'', [(''border-width'', ''3px''), (''border-color'', ''#991818'')]),
      (NodeTruthy ''hasErrors'', [(''color'', ''#991818''), (''font-style'', ''italic'')]),
      (NodeSelected, [(''background-color'', ''#77b0d0'')]),
      (ClassRule [''success-highlight''], [(''background-color'', ''#399645''),
         (''transition-property'', ''background-color''), (''transition-duration'', ''0.5s'')]),
      (ClassRule [''failure-highlight''], [(''background-color'', ''#8e3530''),
         (''transition-property'', ''background-color''), (''transition-duration'', ''0.5s'')]),
      (ClassRule [''executing-highlight''], [(''background-color'', ''#ffef47''),
         (''transition-property'', ''background-color''), (''transition-duration'', ''0.5s'')]),
      (ClassRule [''awaiting-data-highlight''], [(''background-color'', ''#f4ad42''),
         (''transition-property'', ''background-color''), (''transition-duration'', ''0.5s'')]),
      (ParentRule, [(''padding-top'', ''10px''), (''padding-left'', ''10px''), (''padding-bottom'', ''10px''),
         (''padding-right'', ''10px''), (''text-valign'', ''top''), (''text-halign'', ''center'')]),
      (EdgeRule, [(''target-arrow-shape'', ''triangle''), (''curve-style'', ''bezier'')]),
      (EdgeTruthy ''hasErrors'', [(''target-arrow-color'', ''#991818''), (''line-color'', ''#991818''),
         (''line-style'', ''dashed'')]),
      (ClassRule [''eh-handle''], [(''background-color'', ''#337ab7''), (''width'', ''1''), (''height'', ''1''),
         (''shape'', ''ellipse''), (''overlay-opacity'', ''0'')]),
      (ClassRule [''eh-source''], [(''border-width'', ''3''), (''border-color'', ''#337ab7'')]),
      (ClassRule [''eh-target''], [(''border-width'', ''3''), (''border-color'', ''#337ab7'')]),
      (ClassRule [''eh-preview'', ''eh-ghost-edge''], [(''background-color'', ''#337ab7''), (''line-color'', ''#337ab7''),
         (''target-arrow-color'', ''#337ab7''), (''source-arrow-color'', ''#337ab7'')])]"

text \<open>\<open>None\<close>: the default of the drawing library.\<close>

definition style_of :: "style_rule list \<Rightarrow> element \<Rightarrow> string \<Rightarrow> string option" where
  "style_of rules e prop =
     fold (\<lambda>(sel, props) v. if style_matches sel e then (case map_of props prop of None \<Rightarrow> v | Some x \<Rightarrow> Some x) else v)
       rules None"

section \<open>What the page's commands do to an element\<close>

text \<open>The elements a workflow is drawn with, and a node that is inserted, which has no marks.\<close>

definition node_element :: "cy_node \<Rightarrow> element" where
  "node_element n = \<lparr>el_node = True,
     el_data = [(''id'', JStr (nd_id n)), (''_id'', JStr (nd_id n)), (''label'', JStr (nd_label n)),
        (''isStartNode'', JBool (nd_isStartNode n)), (''hasErrors'', JBool (nd_hasErrors n))],
     el_classes = [], el_selected = False, el_hasChildren = False\<rparr>"

definition edge_element :: "cy_edge \<Rightarrow> element" where
  "edge_element ed = \<lparr>el_node = False,
     el_data = [(''id'', JStr (ed_id ed)), (''_id'', JStr (ed_id ed)), (''source'', JStr (ed_source ed)),
        (''target'', JStr (ed_target ed)), (''hasErrors'', JBool (ed_hasErrors ed))],
     el_classes = [], el_selected = False, el_hasChildren = False\<rparr>"

definition inserted_element :: "cy_node \<Rightarrow> element" where
  "inserted_element n = \<lparr>el_node = True,
     el_data = [(''id'', JStr (nd_id n)), (''_id'', JStr (nd_id n)), (''label'', JStr (nd_label n))],
     el_classes = [], el_selected = False, el_hasChildren = False\<rparr>"

fun picks :: "cy_selector \<Rightarrow> element \<Rightarrow> bool" where
  "picks AllElements e = True"
| "picks StartNodes e = (el_node e \<and> truthy (obj_read (el_data e) ''isStartNode''))"
| "picks (NodeWithId i) e = (el_node e \<and> obj_read (el_data e) ''_id'' = JStr i)"
| "picks (ElementsOtherThan i) e = (obj_read (el_data e) ''_id'' \<noteq> JStr i)"
| "picks SelectedElements e = el_selected e"

definition add_class :: "string \<Rightarrow> string list \<Rightarrow> string list" where
  "add_class c cs = (if c \<in> set cs then cs else cs @ [c])"

text \<open>A command on an element that is there. Class names may be separated by blanks; adding and removing
  of elements is the subject of \<open>Drawing\<close>.\<close>

fun restyle :: "cy_command \<Rightarrow> element \<Rightarrow> element" where
  "restyle (SetData sel k v) e = (if picks sel e then e\<lparr>el_data := obj_set k v (el_data e)\<rparr> else e)"
| "restyle (Unselect sel) e = (if picks sel e then e\<lparr>el_selected := False\<rparr> else e)"
| "restyle (AddClass sel c) e =
     (if picks sel e then e\<lparr>el_classes := fold add_class (split_on CHR '' '' c) (el_classes e)\<rparr> else e)"
| "restyle (RemoveClass sel c) e =
     (if picks sel e then e\<lparr>el_classes := filter (\<lambda>x. x \<notin> set (split_on CHR '' '' c)) (el_classes e)\<rparr> else e)"
| "restyle _ e = e"

definition restyle_all :: "cy_command list \<Rightarrow> element \<Rightarrow> element" where
  "restyle_all cmds e = fold restyle cmds e"

lemma restyle_all_simps [simp]:
  "restyle_all [] e = e" "restyle_all (c # cs) e = restyle_all cs (restyle c e)"
  "restyle_all (cs @ ds) e = restyle_all ds (restyle_all cs e)"
  by (simp_all add: restyle_all_def)

section \<open>The colour of a node is the last status of its action\<close>

definition status_colour :: "string \<Rightarrow> string option" where
  "status_colour status =
     (if status = ''success'' then Some ''#399645''
      else if status = ''failure'' then Some ''#8e3530''
      else if status = ''executing'' then Some ''#ffef47''
      else if status = ''awaiting_data'' then Some ''#f4ad42'' else None)"

definition plain_colour :: "element \<Rightarrow> string" where
  "plain_colour e = (if el_selected e then ''#77b0d0''
     else if obj_read (el_data e) ''type'' = JStr ''eventAction'' then ''#edbd21'' else ''#bbb'')"

lemma background_of_node:
  assumes "el_node e" "set (el_classes e) \<subseteq> set highlights"
  shows "style_of playbook_style e ''background-color'' = Some
     (if ''awaiting-data-highlight'' \<in> set (el_classes e) then ''#f4ad42''
      else if ''executing-highlight'' \<in> set (el_classes e) then ''#ffef47''
      else if ''failure-highlight'' \<in> set (el_classes e) then ''#8e3530''
      else if ''success-highlight'' \<in> set (el_classes e) then ''#399645'' else plain_colour e)"
proof -
  have "''eh-handle'' \<notin> set (el_classes e)" "''eh-source'' \<notin> set (el_classes e)" "''eh-target'' \<notin> set (el_classes e)"
    "''eh-preview'' \<notin> set (el_classes e)" "''eh-ghost-edge'' \<notin> set (el_classes e)"
    using assms(2) by (auto simp: highlights_def)
  then show ?thesis using assms(1) by (simp add: style_of_def playbook_style_def plain_colour_def)
qed

lemma split_highlights [simp]: "c \<in> set highlights \<Longrightarrow> split_on CHR '' '' c = [c]"
  by (rule split_on_no_sep) (auto simp: highlights_def)

lemma restyle_highlight:
  assumes "c \<in> set highlights"
  shows "restyle (AddClass sel c) e = (if picks sel e then e\<lparr>el_classes := add_class c (el_classes e)\<rparr> else e)"
    "restyle (RemoveClass sel c) e = (if picks sel e then e\<lparr>el_classes := filter (\<lambda>x. x \<noteq> c) (el_classes e)\<rparr> else e)"
  using assms by simp_all

text \<open>The four commands of an event leave exactly its highlight, and other nodes alone.\<close>

lemma highlighting:
  assumes "el_node e" "obj_read (el_data e) ''_id'' = JStr i" "set (el_classes e) \<subseteq> set highlights"
    and "highlight_of st = Some h"
  shows "set (el_classes (restyle_all (highlight_commands i st) e)) = {h}"
    "el_data (restyle_all (highlight_commands i st) e) = el_data e" "el_node (restyle_all (highlight_commands i st) e)"
proof -
  let ?set = "\<lambda>c cs. if c = h then add_class c cs else filter (\<lambda>x. x \<noteq> c) cs"
  have h: "h \<in> set highlights" using assms(4) by (auto simp: highlight_of_def highlights_def split: if_splits)
  have run: "set cs \<subseteq> set highlights \<Longrightarrow> el_node x \<Longrightarrow> obj_read (el_data x) ''_id'' = JStr i \<Longrightarrow>
      restyle_all (map (\<lambda>c. if c = h then AddClass (NodeWithId i) c else RemoveClass (NodeWithId i) c) cs) x =
      x\<lparr>el_classes := fold ?set cs (el_classes x)\<rparr>" for cs x
    by (induction cs arbitrary: x) (auto simp: restyle_highlight h simp del: restyle.simps)
  have classes: "set (fold ?set cs ks) = (set ks - (set cs - {h})) \<union> (if h \<in> set cs then {h} else {})" for cs ks
    by (induction cs arbitrary: ks) (auto simp: add_class_def)
  have cmds: "highlight_commands i st = map (\<lambda>c. if c = h then AddClass (NodeWithId i) c else RemoveClass (NodeWithId i) c) highlights"
    using assms(4) by (simp add: highlight_commands_def)
  have all: "restyle_all (highlight_commands i st) e = e\<lparr>el_classes := fold ?set highlights (el_classes e)\<rparr>"
    unfolding cmds by (rule run) (use assms in auto)
  show "set (el_classes (restyle_all (highlight_commands i st) e)) = {h}"
    unfolding all using assms(3) h by (auto simp: classes)
  show "el_data (restyle_all (highlight_commands i st) e) = el_data e" "el_node (restyle_all (highlight_commands i st) e)"
    unfolding all using assms(1) by simp_all
qed

lemma highlighting_other:
  assumes "obj_read (el_data e) ''_id'' \<noteq> JStr i"
  shows "restyle_all (highlight_commands i st) e = e"
proof -
  have "restyle_all (map (\<lambda>c. if c = h then AddClass (NodeWithId i) c else RemoveClass (NodeWithId i) c) cs) e = e" for h cs
    by (induction cs) (use assms in auto)
  then show ?thesis by (simp add: highlight_commands_def split: option.split)
qed

text \<open>The events of an execution, one after the other, on the page and on an element.\<close>

fun shown_events ::
  "(string \<Rightarrow> string) \<Rightarrow> (string \<Rightarrow> string) \<Rightarrow> (string \<times> action_status_event) list \<Rightarrow> editor \<times> element \<Rightarrow> editor \<times> element" where
  "shown_events local rel [] st = st"
| "shown_events local rel ((typ, ev) # evs) (s, e) =
     (case editor_actionStatusEventHandler local rel typ ev s of
        (s', cmds, _) \<Rightarrow> shown_events local rel evs (s', restyle_all cmds e))"

fun last_status :: "string \<Rightarrow> (string \<times> action_status_event) list \<Rightarrow> string option" where
  "last_status i [] = None"
| "last_status i ((typ, ev) # evs) =
     (case last_status i evs of
        Some st \<Rightarrow> Some st
      | None \<Rightarrow> if ae_action_id ev = i \<and> highlight_of (ae_status ev) \<noteq> None then Some (ae_status ev) else None)"

lemma event_commands:
  assumes "ue_graph s"
  obtains s' where "editor_actionStatusEventHandler local rel typ ev s =
      (s', highlight_commands (ae_action_id ev) (ae_status ev), None)" "ue_graph s'"
  using assms that by (auto simp: editor_actionStatusEventHandler_def editor_relative_times_def editor_toast_def Let_def split: option.split)

lemma shown_events_classes:
  assumes "ue_graph s" "el_node e" "obj_read (el_data e) ''_id'' = JStr i" "set (el_classes e) \<subseteq> set highlights"
  shows "case last_status i evs of
       None \<Rightarrow> snd (shown_events local rel evs (s, e)) = e
     | Some st \<Rightarrow> el_node (snd (shown_events local rel evs (s, e))) \<and>
         highlight_of st = Some (the (highlight_of st)) \<and>
         set (el_classes (snd (shown_events local rel evs (s, e)))) = {the (highlight_of st)}"
  using assms
proof (induction i evs arbitrary: s e rule: last_status.induct)
  case (2 i ty ev evs)
  obtain s' where s': "editor_actionStatusEventHandler local rel ty ev s =
      (s', highlight_commands (ae_action_id ev) (ae_status ev), None)" "ue_graph s'"
    using event_commands[OF "2.prems"(1)] by blast
  let ?e = "restyle_all (highlight_commands (ae_action_id ev) (ae_status ev)) e"
  show ?case
  proof (cases "ae_action_id ev = i \<and> highlight_of (ae_status ev) \<noteq> None")
    case True
    then obtain h where h: "highlight_of (ae_status ev) = Some h" by auto
    note hl = highlighting[OF "2.prems"(2-4) h]
    have e: "el_node ?e" "obj_read (el_data ?e) ''_id'' = JStr i" "set (el_classes ?e) = {h}"
      using hl True "2.prems"(3) by auto
    have "h \<in> set highlights" using h by (auto simp: highlight_of_def highlights_def split: if_splits)
    with e(3) have "set (el_classes ?e) \<subseteq> set highlights" by simp
    note ih = "2.IH"[OF s'(2) e(1,2) this]
    have run: "shown_events local rel ((ty, ev) # evs) (s, e) = shown_events local rel evs (s', ?e)" by (simp add: s')
    show ?thesis
    proof (cases "last_status i evs")
      case None
      with ih have "snd (shown_events local rel evs (s', ?e)) = ?e" by simp
      moreover have "last_status i ((ty, ev) # evs) = Some (ae_status ev)" using None True by simp
      ultimately show ?thesis unfolding run using e h by simp
    next
      case (Some st)
      then have "last_status i ((ty, ev) # evs) = Some st" by simp
      with Some ih show ?thesis unfolding run by simp
    qed
  next
    case False
    then have "?e = e" using highlighting_other[of e] "2.prems"(3) by (auto simp: highlight_commands_def)
    then have run: "shown_events local rel ((ty, ev) # evs) (s, e) = shown_events local rel evs (s', e)" by (simp add: s')
    have "last_status i ((ty, ev) # evs) = last_status i evs" using False by (auto split: option.split)
    with "2.IH"[OF s'(2) "2.prems"(2-4)] show ?thesis unfolding run by simp
  qed
qed simp

text \<open>C24. The colour of a node in the drawing is that of the last status its action had: through any
  sequence of events, for whatever actions, a node takes the colour of the last event of its own whose status
  is known, and keeps its colour when there was none.\<close>

theorem node_shows_last_status:
  assumes "ue_graph s" "el_node e" "obj_read (el_data e) ''_id'' = JStr i" "set (el_classes e) \<subseteq> set highlights"
  shows "style_of playbook_style (snd (shown_events local rel evs (s, e))) ''background-color'' =
    (case last_status i evs of
       None \<Rightarrow> style_of playbook_style e ''background-color'' | Some st \<Rightarrow> status_colour st)"
proof (cases "last_status i evs")
  case None
  with shown_events_classes[OF assms, where evs = evs and local = local and rel = rel] show ?thesis by simp
next
  case (Some st)
  let ?e = "snd (shown_events local rel evs (s, e))"
  obtain h where h: "highlight_of st = Some h" "el_node ?e" "set (el_classes ?e) = {h}"
    using shown_events_classes[OF assms, where evs = evs and local = local and rel = rel] Some by auto
  then have "h \<in> set highlights" by (auto simp: highlight_of_def highlights_def split: if_splits)
  with h background_of_node[of ?e] Some show ?thesis
    by (auto simp: highlight_of_def status_colour_def split: if_splits)
qed

text \<open>Clearing the highlights before a run leaves the colour of nodes that wait for data.\<close>

lemma waiting_node_stays_coloured:
  assumes "ue_graph s" "el_node e" "set (el_classes e) = {''awaiting-data-highlight''}"
  shows "style_of playbook_style (restyle_all (fst (snd (clearExecutionHighlighting s))) e) ''background-color'' = Some ''#f4ad42''"
proof -
  have "split_on CHR '' '' ''success-highlight failure-highlight executing-highlight'' =
      [''success-highlight'', ''failure-highlight'', ''executing-highlight'']"
    by code_simp
  with assms have "set (el_classes (restyle_all (fst (snd (clearExecutionHighlighting s))) e)) = {''awaiting-data-highlight''}"
    "el_node (restyle_all (fst (snd (clearExecutionHighlighting s))) e)"
    by (auto simp: clearExecutionHighlighting_def)
  then show ?thesis by (subst background_of_node) (simp_all add: highlights_def)
qed

section \<open>Marks of a node\<close>

text \<open>When a workflow is shown, its start and no other node has the red border. (\<open>setStartNode\<close> compares with the id
  it was given: a workflow without a start gets one, but no border, until it is shown again.)\<close>

lemma setupGraph_commands:
  assumes "setupGraph apis roots w0 = Inr (w, AddElements ns es # cmds)"
  shows "cmds = [SetData StartNodes ''isStartNode'' (JBool False),
      SetData (NodeWithId (template (wf_start w0))) ''isStartNode'' (JBool True)]"
    "truthy_str (wf_start w0) \<Longrightarrow> wf_start w = wf_start w0"
  using assms by (auto simp: setupGraph_def setStartNode_def bind_result_Inr_iff Let_def split: if_splits)

lemma node_element_simps [simp]:
  "el_node (node_element n)" "el_classes (node_element n) = []"
  "obj_read (el_data (node_element n)) ''_id'' = JStr (nd_id n)"
  "obj_read (el_data (node_element n)) ''isStartNode'' = JBool (nd_isStartNode n)"
  by (simp_all add: node_element_def obj_read_def obj_get_def)

lemma border_of_node:
  assumes "el_node e" "el_classes e = []"
  shows "style_of playbook_style e ''border-color'' =
    (if truthy (obj_read (el_data e) ''isStartNode'') then Some ''#991818'' else None)"
  using assms by (simp add: style_of_def playbook_style_def)

theorem start_node_shown:
  assumes "setupGraph apis roots w0 = Inr (w, AddElements ns es # cmds)" and "truthy_str (wf_start w0)"
  shows "style_of playbook_style (restyle_all cmds (node_element n)) ''border-color'' =
    (if Val (nd_id n) = wf_start w then Some ''#991818'' else None)"
proof -
  obtain i where i: "wf_start w0 = Val i" using assms(2) by (cases "wf_start w0") auto
  note cmds = setupGraph_commands(1)[OF assms(1)]
  have "el_node (restyle_all cmds (node_element n))" "el_classes (restyle_all cmds (node_element n)) = []"
    "truthy (obj_read (el_data (restyle_all cmds (node_element n))) ''isStartNode'') = (nd_id n = i)"
    by (auto simp: cmds i)
  then show ?thesis using setupGraph_commands(2)[OF assms] i by (simp add: border_of_node)
qed

text \<open>
  Actions that wait for events are meant to be drawn as stars, and \<open>_setNodeDisplayProperties\<close> gives their
  nodes a type. It is not put into the data of the node, where the selectors of the style sheet look for it, so
  they look like every other action.
\<close>

theorem event_actions_look_alike:
  "style_of playbook_style (node_element n) ''shape'' = Some ''roundrectangle'' \<and>
   style_of playbook_style (inserted_element n) ''shape'' = Some ''roundrectangle'' \<and>
   style_of playbook_style (node_element n) ''background-color'' = Some ''#bbb'' \<and>
   style_of playbook_style (inserted_element n) ''background-color'' = Some ''#bbb''"
  by (simp add: style_of_def playbook_style_def node_element_def inserted_element_def obj_read_def obj_get_def)

section \<open>A concrete execution\<close>

definition sample_element :: element where
  "sample_element = node_element \<lparr>nd_id = ''a1'', nd_label = ''log'', nd_type = ''action'', nd_isStartNode = True,
     nd_hasErrors = False, nd_position = Undefined, nd_renderedPosition = Undefined\<rparr>"

definition sample_run :: "(string \<times> action_status_event) list" where
  "sample_run = map (\<lambda>(t, i, st). (t, sample_action_event\<lparr>ae_action_id := i, ae_status := st\<rparr>))
     [(''started'', ''a1'', ''executing''), (''started'', ''a2'', ''executing''), (''success'', ''a1'', ''success''),
      (''failure'', ''a2'', ''failure'')]"

theorem node_shows_last_status_witness:
  "style_of playbook_style (snd (shown_events id id sample_run (sample_editor, sample_element))) ''background-color'' =
     Some ''#399645''"
proof -
  have "ue_graph sample_editor" "el_node sample_element" "obj_read (el_data sample_element) ''_id'' = JStr ''a1''"
    "set (el_classes sample_element) \<subseteq> set highlights"
    by (simp_all add: sample_editor_def sample_element_def)
  from node_shows_last_status[OF this, of id id sample_run] show ?thesis
    by (simp add: sample_run_def highlight_of_def status_colour_def)
qed

end
