(* ===== verification/Session.thy ===== *)
theory Session
  imports Auth EventStreams
begin

text \<open>
  The client as a whole talking to the server: every request passes the interceptor
  (\<^verbatim>\<open>refresh-token-interceptor.ts\<close>) as it is provided in \<^verbatim>\<open>main.module.ts\<close>; it goes
  out at once, waits for a new access token, or is given up. Time passes, answers to refreshes arrive in any
  order, and the user logs in and out. The library's own interceptor is provided before that of the client, so
  it has already seen a request when the client's asks whether the token has expired, and sees it once more
  after a refresh.
\<close>

section \<open>State and events\<close>

definition blacklistedRoutes :: "string list" where
  "blacklistedRoutes = [''/login'', ''/api/auth'', ''/api/auth/logout'', ''/api/auth/refresh'']"

text \<open>The JWT library is a parameter: when a token has expired, which addresses it is responsible for (it is
  given the routes to leave alone), and the token a request carries after its interceptor, from the token of
  the getter and the one the request carried before. It documents that the interceptor sets the token of the
  getter, and leaves the request as it is when there is none or the address is not its business.\<close>

record jwt_library =
  jl_expired :: "nat \<Rightarrow> string \<Rightarrow> bool"
  jl_isWhitelistedDomain :: "string \<Rightarrow> bool"
  jl_isBlacklistedRoute :: "string list \<Rightarrow> string \<Rightarrow> bool"
  jl_intercept :: "string \<Rightarrow> string option \<Rightarrow> string option \<Rightarrow> string option"

definition in_charge :: "jwt_library \<Rightarrow> string \<Rightarrow> bool" where
  "in_charge J url \<longleftrightarrow> jl_isWhitelistedDomain J url \<and> \<not> jl_isBlacklistedRoute J blacklistedRoutes url"

definition jwt_documented :: "jwt_library \<Rightarrow> bool" where
  "jwt_documented J \<longleftrightarrow>
     (\<forall>url token old. jl_intercept J url token old =
        (if in_charge J url \<and> token \<noteq> None \<and> token \<noteq> Some [] then token else old))"

record client =
  cl_now :: nat
  cl_session :: session
  cl_sent :: "(nat \<times> nat \<times> string option) list"    \<comment> \<open>a request, when it went out, the token it carried\<close>
  cl_waiting :: "(nat \<times> string \<times> string option) list"
    \<comment> \<open>for the answer to a refresh of their own, with address and old token\<close>
  cl_rejected :: "nat list"
  cl_refreshes :: nat                                \<comment> \<open>how many were asked for\<close>

definition new_client :: "session \<Rightarrow> client" where
  "new_client s = \<lparr>cl_now = 0, cl_session = s, cl_sent = [], cl_waiting = [], cl_rejected = [], cl_refreshes = 0\<rparr>"

definition send :: "nat \<Rightarrow> string option \<Rightarrow> client \<Rightarrow> client" where
  "send n t c = c\<lparr>cl_sent := cl_sent c @ [(n, cl_now c, t)]\<rparr>"

text \<open>A request with its address.\<close>

definition request_made :: "jwt_library \<Rightarrow> nat \<Rightarrow> string \<Rightarrow> client \<Rightarrow> client" where
  "request_made J n url c =
     (let old = jl_intercept J url (jwtTokenGetter (cl_session c)) None
      in case intercept (jl_expired J (cl_now c)) (jl_isWhitelistedDomain J url)
             (jl_isBlacklistedRoute J blacklistedRoutes url) (cl_session c) of
           (s, PassOn) \<Rightarrow> send n old (c\<lparr>cl_session := s\<rparr>)
         | (s, RefreshFirst (Token t)) \<Rightarrow> send n (jl_intercept J url (jwtTokenGetter s) old) (c\<lparr>cl_session := s\<rparr>)
         | (s, RefreshFirst (LoginRequired reason)) \<Rightarrow> c\<lparr>cl_session := s, cl_rejected := cl_rejected c @ [n]\<rparr>
         | (s, RefreshFirst (AskServer q)) \<Rightarrow>
             c\<lparr>cl_session := s, cl_waiting := cl_waiting c @ [(n, url, old)], cl_refreshes := Suc (cl_refreshes c)\<rparr>)"

definition refresh_answered :: "jwt_library \<Rightarrow> nat \<Rightarrow> string result \<Rightarrow> client \<Rightarrow> client" where
  "refresh_answered J n answer c =
     (case map_of (cl_waiting c) n of
        None \<Rightarrow> c
      | Some (url, old) \<Rightarrow>
          let c1 = c\<lparr>cl_waiting := filter (\<lambda>q. fst q \<noteq> n) (cl_waiting c)\<rparr>
          in case refresh_done answer (cl_session c) of
               (s, Inl e) \<Rightarrow> c1\<lparr>cl_session := s, cl_rejected := cl_rejected c1 @ [n]\<rparr>
             | (s, Inr t) \<Rightarrow> send n (jl_intercept J url (jwtTokenGetter s) old) (c1\<lparr>cl_session := s\<rparr>))"

datatype client_event =
    Requested nat string
  | RefreshAnswered nat "string result"
  | TimePassed nat
  | LoggedIn string string
  | LoggedOut "unit result"

fun client_step :: "jwt_library \<Rightarrow> client_event \<Rightarrow> client \<Rightarrow> client" where
  "client_step J (Requested n url) c = request_made J n url c"
| "client_step J (RefreshAnswered n answer) c = refresh_answered J n answer c"
| "client_step J (TimePassed d) c = c\<lparr>cl_now := cl_now c + d\<rparr>"
| "client_step J (LoggedIn a r) c = c\<lparr>cl_session := login_done a r (cl_session c)\<rparr>"
| "client_step J (LoggedOut (Inr _)) c = c\<lparr>cl_session := clearTokens (cl_session c)\<rparr>"
| "client_step J (LoggedOut (Inl _)) c = c"

definition run_client :: "jwt_library \<Rightarrow> client_event list \<Rightarrow> client \<Rightarrow> client" where
  "run_client J evs c = fold (client_step J) evs c"

lemma run_client_simps [simp]:
  "run_client J [] c = c"
  "run_client J (ev # evs) c = run_client J evs (client_step J ev c)"
  by (simp_all add: run_client_def)

section \<open>What a request can come to\<close>

definition attached_token :: "jwt_library \<Rightarrow> string \<Rightarrow> session \<Rightarrow> string option" where
  "attached_token J url s = (if in_charge J url \<and> au_access s \<noteq> Some [] then au_access s else None)"

lemma jl_intercept_first:
  "jwt_documented J \<Longrightarrow> jl_intercept J url (jwtTokenGetter s) None = attached_token J url s"
  by (auto simp: jwt_documented_def attached_token_def jwtTokenGetter_def)

text \<open>The cases of the interceptor, over the tokens.\<close>

lemma request_made_cases:
  assumes "jwt_documented J"
  shows "request_made J n url c =
     (if \<not> in_charge J url \<or> \<not> token_expired (jl_expired J (cl_now c)) (au_access (cl_session c))
      then send n (attached_token J url (cl_session c)) c
      else if token_expired (jl_expired J (cl_now c)) (au_refresh (cl_session c))
      then c\<lparr>cl_session := (clearTokens (cl_session c))\<lparr>au_location := Some ''/login''\<rparr>, cl_rejected := cl_rejected c @ [n]\<rparr>
      else c\<lparr>cl_waiting := cl_waiting c @ [(n, url, attached_token J url (cl_session c))],
             cl_refreshes := Suc (cl_refreshes c)\<rparr>)"
  by (simp add: request_made_def intercept_def getAccessTokenRefreshed_def isAccessTokenExpired_def
      isRefreshTokenExpired_def send_def in_charge_def jl_intercept_first[OF assms] Let_def)

lemma refresh_answered_cases:
  assumes "jwt_documented J"
  shows "refresh_answered J n answer c =
     (case map_of (cl_waiting c) n of
        None \<Rightarrow> c
      | Some (url, old) \<Rightarrow>
          let c1 = c\<lparr>cl_waiting := filter (\<lambda>q. fst q \<noteq> n) (cl_waiting c)\<rparr>
          in case answer of
               Inl e \<Rightarrow> c1\<lparr>cl_rejected := cl_rejected c @ [n]\<rparr>
             | Inr t \<Rightarrow> send n (if in_charge J url \<and> t \<noteq> [] then Some t else old)
                 (c1\<lparr>cl_session := (cl_session c)\<lparr>au_access := Some t\<rparr>\<rparr>))"
  using assms
  by (simp add: refresh_answered_def refresh_done_def jwtTokenGetter_def send_def Let_def jwt_documented_def
      split: sum.split option.split)

text \<open>Requests are told apart by their numbers; the server hands out tokens that are valid when they arrive.\<close>

definition known :: "client \<Rightarrow> nat list" where
  "known c = map fst (cl_sent c) @ map fst (cl_waiting c) @ cl_rejected c"

fun client_event_ok :: "jwt_library \<Rightarrow> client \<Rightarrow> client_event \<Rightarrow> bool" where
  "client_event_ok J c (Requested n url) \<longleftrightarrow> n \<notin> set (known c)"
| "client_event_ok J c (RefreshAnswered n (Inr t)) \<longleftrightarrow> t \<noteq> [] \<and> \<not> jl_expired J (cl_now c) t"
| "client_event_ok J c _ \<longleftrightarrow> True"

fun client_events_ok :: "jwt_library \<Rightarrow> client_event list \<Rightarrow> client \<Rightarrow> bool" where
  "client_events_ok J [] c \<longleftrightarrow> True"
| "client_events_ok J (ev # evs) c \<longleftrightarrow>
     client_event_ok J c ev \<and> client_events_ok J evs (client_step J ev c)"

fun requested :: "client_event list \<Rightarrow> nat set" where
  "requested [] = {}"
| "requested (Requested n url # evs) = insert n (requested evs)"
| "requested (ev # evs) = requested evs"

definition client_ok :: "jwt_library \<Rightarrow> client \<Rightarrow> bool" where
  "client_ok J c \<longleftrightarrow> distinct (known c) \<and> (\<forall>(n, url, token) \<in> set (cl_waiting c). in_charge J url) \<and>
     (\<forall>(n, time, token) \<in> set (cl_sent c). \<forall>t. token = Some t \<longrightarrow> \<not> jl_expired J time t)"

lemma client_ok_step:
  assumes J: "jwt_documented J" and "client_ok J c" "client_event_ok J c ev"
  shows "client_ok J (client_step J ev c)"
proof (cases ev)
  case (Requested n url)
  with assms show ?thesis
    by (auto simp: request_made_cases[OF J] client_ok_def known_def send_def attached_token_def token_expired_def
        split: option.splits if_splits)
next
  case (RefreshAnswered n answer)
  then show ?thesis
  proof (cases "map_of (cl_waiting c) n")
    case (Some q)
    then obtain url old where q: "q = (url, old)" "(n, url, old) \<in> set (cl_waiting c)"
      by (cases q) (auto dest: map_of_SomeD)
    then have "n \<in> fst ` set (cl_waiting c)" by force
    with assms RefreshAnswered Some q show ?thesis
      by (cases answer)
        (auto simp: refresh_answered_cases[OF J] client_ok_def known_def send_def Let_def distinct_map_filter)
  next
    case None
    with assms RefreshAnswered show ?thesis by (simp add: refresh_answered_cases[OF J])
  qed
next
  case (LoggedOut r)
  with assms show ?thesis by (cases r) (simp_all add: client_ok_def known_def)
qed (use assms in \<open>simp_all add: client_ok_def known_def\<close>)

lemma known_step:
  assumes J: "jwt_documented J"
  shows "set (known (client_step J ev c)) = set (known c) \<union> requested [ev]"
proof (cases ev)
  case (Requested n url)
  then show ?thesis by (auto simp: request_made_cases[OF J] known_def send_def)
next
  case (RefreshAnswered n answer)
  then show ?thesis
  proof (cases "map_of (cl_waiting c) n")
    case (Some q)
    then have "insert n (fst ` {q \<in> set (cl_waiting c). fst q \<noteq> n}) = fst ` set (cl_waiting c)"
      by (auto dest!: map_of_SomeD) (metis fst_conv image_eqI)
    with RefreshAnswered Some show ?thesis
      by (cases q; cases answer) (auto simp: refresh_answered_cases[OF J] known_def send_def Let_def)
  next
    case None
    with RefreshAnswered show ?thesis by (simp add: refresh_answered_cases[OF J])
  qed
next
  case (LoggedOut r)
  then show ?thesis by (cases r) (simp_all add: known_def)
qed (simp_all add: known_def)

lemma client_ok_run:
  assumes "jwt_documented J" "client_ok J c" "client_events_ok J evs c"
  shows "client_ok J (run_client J evs c)"
  using assms(2,3) by (induction evs arbitrary: c) (simp_all add: client_ok_step[OF assms(1)])

lemma client_ok_new: "client_ok J (new_client s)"
  by (simp add: client_ok_def known_def new_client_def)

lemma requested_Cons: "requested (ev # evs) = requested [ev] \<union> requested evs"
  by (cases ev) simp_all

lemma known_run:
  assumes "jwt_documented J"
  shows "set (known (run_client J evs c)) = set (known c) \<union> requested evs"
proof (induction evs arbitrary: c)
  case (Cons ev evs)
  then show ?case by (simp only: run_client_simps known_step[OF assms] requested_Cons[of ev evs] Un_assoc)
qed simp

section \<open>What is guaranteed\<close>


definition sample_jwt :: jwt_library where
  "sample_jwt = \<lparr>jl_expired = (\<lambda>now t. t = ''old'' \<and> 10 \<le> now), jl_isWhitelistedDomain = (\<lambda>url. True),
     jl_isBlacklistedRoute = (\<lambda>routes url. url \<in> set routes),
     jl_intercept = (\<lambda>url token old.
       if url \<notin> set blacklistedRoutes \<and> token \<noteq> None \<and> token \<noteq> Some [] then token else old)\<rparr>"

definition sample_session :: session where
  "sample_session = \<lparr>au_access = Some ''old'', au_refresh = Some ''r'', au_location = None\<rparr>"

definition sample_events :: "client_event list" where
  "sample_events = [Requested 0 ''/api/devices'', TimePassed 20, Requested 1 ''/api/apps'', Requested 2 ''/api/roles'',
     RefreshAnswered 2 (Inr ''new''), Requested 3 ''/api/users'', RefreshAnswered 1 (Inl TypeError)]"

lemma sample_jwt_documented: "jwt_documented sample_jwt"
  by (auto simp: jwt_documented_def sample_jwt_def in_charge_def)

lemmas sample_client_simps = sample_events_def sample_session_def new_client_def
  request_made_cases[OF sample_jwt_documented] refresh_answered_cases[OF sample_jwt_documented]
  known_def send_def attached_token_def token_expired_def in_charge_def blacklistedRoutes_def Let_def

lemma sample_jwt_simps [simp]:
  "jl_expired sample_jwt now t \<longleftrightarrow> t = ''old'' \<and> 10 \<le> now" "jl_isWhitelistedDomain sample_jwt url"
  "jl_isBlacklistedRoute sample_jwt routes url \<longleftrightarrow> url \<in> set routes"
  by (simp_all add: sample_jwt_def)

lemma sample_events_ok: "client_events_ok sample_jwt sample_events (new_client sample_session)"
  by (simp add: sample_client_simps)

lemma sample_run:
  "run_client sample_jwt sample_events (new_client sample_session) =
     \<lparr>cl_now = 20, cl_session = \<lparr>au_access = Some ''new'', au_refresh = Some ''r'', au_location = None\<rparr>,
      cl_sent = [(0, 0, Some ''old''), (2, 20, Some ''new''), (3, 20, Some ''new'')],
      cl_waiting = [], cl_rejected = [1], cl_refreshes = 2\<rparr>"
  by (simp add: sample_client_simps)




section \<open>What is not\<close>

text \<open>Each of several requests that find the access token expired asks for a refresh of its own, although one
  is under way.\<close>

lemma refresh_storm:
  assumes J: "jwt_documented J"
    and "token_expired (jl_expired J (cl_now c)) (au_access (cl_session c))"
    and "\<not> token_expired (jl_expired J (cl_now c)) (au_refresh (cl_session c))"
    and "\<forall>(n, url) \<in> set qs. in_charge J url"
  shows "cl_refreshes (run_client J (map (\<lambda>(n, url). Requested n url) qs) c) = cl_refreshes c + length qs"
  using assms(2-)
proof (induction qs arbitrary: c)
  case (Cons q qs)
  obtain n url where q: "q = (n, url)" by (cases q)
  let ?c = "client_step J (Requested n url) c"
  have "?c = c\<lparr>cl_waiting := cl_waiting c @ [(n, url, attached_token J url (cl_session c))], cl_refreshes := Suc (cl_refreshes c)\<rparr>"
    using Cons.prems q by (simp add: request_made_cases[OF J])
  with Cons.prems Cons.IH[of ?c] q show ?case by simp
qed simp

text \<open>When the refresh token has expired as well the request is given up and both tokens are forgotten; what is
  requested before the login page has replaced this one goes out without a token.\<close>

lemma after_forced_login:
  assumes J: "jwt_documented J"
    and "token_expired (jl_expired J (cl_now c)) (au_access (cl_session c))"
    and "token_expired (jl_expired J (cl_now c)) (au_refresh (cl_session c))"
    and "in_charge J url"
  shows "cl_rejected (client_step J (Requested n url) c) = cl_rejected c @ [n]"
    and "cl_sent (run_client J [Requested n url, Requested m url'] c) = cl_sent c @ [(m, cl_now c, None)]"
    and "au_location (cl_session (client_step J (Requested n url) c)) = Some ''/login''"
  using assms(2-)
  by (simp_all add: request_made_cases[OF J] send_def attached_token_def clearTokens_def token_expired_def)

section \<open>The start of the program\<close>

text \<open>\<^verbatim>\<open>main.ts\<close>: the program is started only with a refresh token that is not empty.\<close>

datatype boot = Started bool | SentTo string      \<comment> \<open>in production mode, or not\<close>

definition bootstrap :: "bool \<Rightarrow> session \<Rightarrow> boot" where
  "bootstrap production s =
     (if au_refresh s \<noteq> None \<and> au_refresh s \<noteq> Some [] then Started production else SentTo ''/login'')"

text \<open>After a login the program starts, and after a logout it does not.\<close>

lemma bootstrap_after_login: "r \<noteq> [] \<Longrightarrow> bootstrap production (login_done a r s) = Started production"
  by (simp add: bootstrap_def login_done_def)

lemma bootstrap_after_logout: "bootstrap production (clearTokens s) = SentTo ''/login''"
  by (simp add: bootstrap_def clearTokens_def)

end
