(* ===== verification/SampleInterfaces.thy ===== *)
theory SampleInterfaces
  imports JsonText Auth EventStreams
begin

text \<open>
  The scripts of the two interfaces that come with the program:
  \<^verbatim>\<open>interfaces/HelloWorld/interface/static/main.js\<close>, which lists how often each action ran and adds
  a row for every action that ends, and \<^verbatim>\<open>interfaces/Sample/interface/static/main.js\<close>, of
  which the moving window of the first chart and the two streams are modelled. The other charts are constant
  arguments of the charting libraries.
\<close>

section \<open>HelloWorld\<close>

text \<open>The rows that jQuery's \<open>append\<close> is given, without the white space between the tags; what
  is inserted is not escaped.\<close>

definition table_row :: "string list \<Rightarrow> string" where
  "table_row cells = ''<tr>'' @ concat (map (\<lambda>c. ''<td>'' @ c @ ''</td>'') cells) @ ''</tr>''"

record hello_page =
  hp_results :: "string list"           \<comment> \<open>the body of the table of tallies\<close>
  hp_actionResults :: "string list"
  hp_stream :: "string option"          \<comment> \<open>the address of the stream\<close>

definition metrics_authorization :: "session \<Rightarrow> string" where
  "metrics_authorization s = bearer (au_access s)"

definition metrics_request :: "auth_body request" where
  "metrics_request = http GET ''interfaces/HelloWorld/metrics'' None"

definition metrics_success :: "jsobj \<Rightarrow> hello_page \<Rightarrow> hello_page" where
  "metrics_success tallies p =
     p\<lparr>hp_results := hp_results p @ map (\<lambda>action. table_row [action, to_string (obj_read tallies action)]) (obj_keys tallies)\<rparr>"

text \<open>An error is only logged.\<close>

definition metrics_done :: "jsobj result \<Rightarrow> hello_page \<Rightarrow> hello_page" where
  "metrics_done answer p = (case answer of Inl e \<Rightarrow> p | Inr tallies \<Rightarrow> metrics_success tallies p)"

definition actionstream_url :: "session \<Rightarrow> string" where
  "actionstream_url s =
     ''interfaces/HelloWorld/actionstream?access_token='' @ (case au_access s of None \<Rightarrow> ''null'' | Some t \<Rightarrow> t)"

text \<open>The script asks synchronously, so the tallies stand before the stream is opened.\<close>

definition hello_start :: "session \<Rightarrow> jsobj result \<Rightarrow> hello_page" where
  "hello_start s answer =
     (metrics_done answer \<lparr>hp_results = [], hp_actionResults = [], hp_stream = None\<rparr>)\<lparr>hp_stream := Some (actionstream_url s)\<rparr>"

text \<open>Reading a property of \<open>null\<close> or \<open>undefined\<close> throws; no other value that is not an
  object has one of the names that are read here.\<close>

fun read_prop :: "string \<Rightarrow> jsval \<Rightarrow> jsval result" where
  "read_prop k JUndef = Inl TypeError"
| "read_prop k JNull = Inl TypeError"
| "read_prop k (JObj ob) = Inr (obj_read ob k)"
| "read_prop k _ = Inr JUndef"

definition result_row :: "jsval \<Rightarrow> string result" where
  "result_row r =
     bind_result (read_prop ''sender_uid'' r) (\<lambda>uid.
     bind_result (read_prop ''sender_name'' r) (\<lambda>name.
     bind_result (read_prop ''timestamp'' r) (\<lambda>ts.
     bind_result (bind_result (read_prop ''data'' r) (read_prop ''status'')) (\<lambda>status.
     Inr (table_row (map to_string [uid, name, ts, status]))))))"

text \<open>The listener of both kinds of event. When it throws the table stays as it is.\<close>

definition hello_eventHandler :: "string \<Rightarrow> hello_page \<Rightarrow> hello_page \<times> js_error option" where
  "hello_eventHandler message p =
     (case JSON_parse message of
        None \<Rightarrow> (p, Some (ErrorMsg ''SyntaxError''))
      | Some r \<Rightarrow>
          (case result_row r of
             Inl e \<Rightarrow> (p, Some e)
           | Inr row \<Rightarrow> (p\<lparr>hp_actionResults := hp_actionResults p @ [row]\<rparr>, None)))"

datatype hello_event = ActionSuccess string | ActionError string | StreamError

fun hello_step :: "hello_event \<Rightarrow> hello_page \<Rightarrow> hello_page" where
  "hello_step (ActionSuccess m) p = fst (hello_eventHandler m p)"
| "hello_step (ActionError m) p = fst (hello_eventHandler m p)"
| "hello_step StreamError p = p"

definition message_row :: "string \<Rightarrow> string list" where
  "message_row m =
     (case JSON_parse m of
        None \<Rightarrow> []
      | Some r \<Rightarrow> (case result_row r of Inl _ \<Rightarrow> [] | Inr row \<Rightarrow> [row]))"

fun event_row :: "hello_event \<Rightarrow> string list" where
  "event_row (ActionSuccess m) = message_row m"
| "event_row (ActionError m) = message_row m"
| "event_row StreamError = []"

lemma hello_step_rows:
  "hello_step ev p = p\<lparr>hp_actionResults := hp_actionResults p @ event_row ev\<rparr>"
  by (cases ev) (simp_all add: hello_eventHandler_def message_row_def split: option.split sum.split)

text \<open>The table holds one row for each message that could be read, in the order of the events; an error of the
  stream or a message that cannot be read loses no other.\<close>

lemma hello_rows:
  "hp_actionResults (fold hello_step evs p) = hp_actionResults p @ concat (map event_row evs)"
  by (induction evs arbitrary: p) (simp_all add: hello_step_rows)

lemma hello_tallies:
  "hp_results (hello_start s (Inr tallies)) =
     map (\<lambda>action. table_row [action, to_string (obj_read tallies action)]) (obj_keys tallies)"
  by (simp add: hello_start_def metrics_done_def metrics_success_def)

text \<open>The dispatcher of the server names the identifier \<open>sender_id\<close>, so the first column of such a
  message reads \<open>undefined\<close>.\<close>

lemma sender_id_not_shown:
  assumes "\<And>v. (''sender_uid'', v) \<notin> set ob" and "obj_read ob ''data'' = JObj d"
  shows "result_row (JObj ob) = Inr (table_row [''undefined'', to_string (obj_read ob ''sender_name''),
     to_string (obj_read ob ''timestamp''), to_string (obj_read d ''status'')])"
proof -
  have "map_of ob ''sender_uid'' = None" using assms(1) by (auto simp: map_of_eq_None_iff)
  with assms(2) show ?thesis by (simp add: result_row_def obj_read_def[of ob "''sender_uid''"] obj_get_def)
qed

section \<open>Sample: the first chart\<close>

definition chart_N :: nat where
  "chart_N = 100"

definition chart_range :: nat where
  "chart_range = 5"

text \<open>\<open>random k\<close> is the answer to the call number \<open>k\<close> of \<open>Math.random\<close>, as an exact number.\<close>

record chart_columns =
  cc_x :: "nat list"
  cc_data1 :: "rat list"
  cc_data2 :: "rat list"

fun chart_loop :: "(nat \<Rightarrow> rat) \<Rightarrow> nat \<Rightarrow> nat \<Rightarrow> chart_columns \<Rightarrow> chart_columns" where
  "chart_loop random 0 i c = c"
| "chart_loop random (Suc k) i c =
     chart_loop random k (Suc i)
       \<lparr>cc_x = cc_x c @ [i], cc_data1 = cc_data1 c @ [10 * random (2 * i)],
        cc_data2 = cc_data2 c @ [10 * random (2 * i + 1) + 12]\<rparr>"

definition chart1_columns :: "(nat \<Rightarrow> rat) \<Rightarrow> chart_columns" where
  "chart1_columns random = chart_loop random chart_N 0 \<lparr>cc_x = [], cc_data1 = [], cc_data2 = []\<rparr>"

text \<open>The timer shows the window and moves it; the state is where it starts next, and what is shown.\<close>

record chart_window =
  cw_xmin :: nat
  cw_shown :: "nat \<times> nat"

definition chart1_start :: chart_window where
  "chart1_start = \<lparr>cw_xmin = 0, cw_shown = (0, 0 + chart_range)\<rparr>"

definition chart1_tick :: "chart_window \<Rightarrow> chart_window" where
  "chart1_tick w =
     (let xmin = cw_xmin w + 1
      in \<lparr>cw_xmin = (if chart_N - chart_range < xmin then 0 else xmin), cw_shown = (cw_xmin w, cw_xmin w + chart_range)\<rparr>)"

lemma chart_loop_columns:
  "chart_loop random k i c =
     \<lparr>cc_x = cc_x c @ [i..<i + k], cc_data1 = cc_data1 c @ map (\<lambda>j. 10 * random (2 * j)) [i..<i + k],
      cc_data2 = cc_data2 c @ map (\<lambda>j. 10 * random (2 * j + 1) + 12) [i..<i + k]\<rparr>"
  by (induction random k i c rule: chart_loop.induct) (simp_all add: upt_conv_Cons del: upt_Suc)

text \<open>The columns have a value for each place, and the two graphs never meet.\<close>

lemma chart1_graphs_apart:
  assumes "\<And>k. 0 \<le> random k \<and> random k < 1"
  shows "cc_x (chart1_columns random) = [0..<100]"
    and "length (cc_data1 (chart1_columns random)) = 100" and "length (cc_data2 (chart1_columns random)) = 100"
    and "i < 100 \<Longrightarrow> j < 100 \<Longrightarrow> cc_data1 (chart1_columns random) ! i + 2 < cc_data2 (chart1_columns random) ! j"
proof -
  have r: "0 \<le> random k" "random k < 1" for k using assms by auto
  show "cc_x (chart1_columns random) = [0..<100]"
    "length (cc_data1 (chart1_columns random)) = 100" "length (cc_data2 (chart1_columns random)) = 100"
    by (simp_all add: chart1_columns_def chart_loop_columns chart_N_def del: upt_conv_Cons)
  show "i < 100 \<Longrightarrow> j < 100 \<Longrightarrow> cc_data1 (chart1_columns random) ! i + 2 < cc_data2 (chart1_columns random) ! j"
    using r(2)[of "2 * i"] r(1)[of "2 * j + 1"]
    by (simp add: chart1_columns_def chart_loop_columns chart_N_def del: upt_conv_Cons)
qed

text \<open>The window starts anew every 96 seconds and never leaves the range from 0 to 100; the last place that
  has a value is 99.\<close>

lemma chart1_window_cycle:
  "cw_xmin ((chart1_tick ^^ k) chart1_start) = k mod 96"
proof (induction k)
  case (Suc k)
  have "Suc k mod 96 = (if 95 < k mod 96 + 1 then 0 else k mod 96 + 1)"
    using mod_less_divisor[of 96 k] by (simp add: mod_Suc del: mod_less_divisor pos_mod_bound)
  with Suc show ?case by (simp add: chart1_tick_def Let_def chart_N_def chart_range_def)
qed (simp add: chart1_start_def)

lemma chart1_window_shown:
  "cw_shown ((chart1_tick ^^ Suc k) chart1_start) = (k mod 96, k mod 96 + 5)"
  using chart1_window_cycle[of k] by (simp add: chart1_tick_def Let_def chart_range_def)

lemma chart1_window_bounds:
  assumes "cw_shown ((chart1_tick ^^ k) chart1_start) = (a, b)"
  shows "b = a + 5 \<and> b \<le> 100"
proof (cases k)
  case 0
  with assms show ?thesis by (auto simp: chart1_start_def chart_range_def)
next
  case (Suc j)
  have "j mod 96 < 96" by simp
  with assms Suc chart1_window_shown[of j] show ?thesis by (simp del: funpow.simps)
qed

section \<open>Sample: the streams\<close>

text \<open>Each of the two lists shows the last message of its stream; the first error closes the stream for good, and
  a closed stream delivers nothing.\<close>

record sample_stream =
  ss_url :: string
  ss_open :: bool
  ss_innerHTML :: string

definition sample_streams :: "sample_stream list" where
  "sample_streams =
     [\<lparr>ss_url = ''interfaces/Sample/stream/counter'', ss_open = True, ss_innerHTML = []\<rparr>,
      \<lparr>ss_url = ''interfaces/Sample/stream/random-number'', ss_open = True, ss_innerHTML = []\<rparr>]"

definition sample_onmessage :: "string \<Rightarrow> sample_stream \<Rightarrow> sample_stream" where
  "sample_onmessage message s = (if ss_open s then s\<lparr>ss_innerHTML := ''<li>'' @ message @ ''</li>''\<rparr> else s)"

definition sample_onerror :: "sample_stream \<Rightarrow> sample_stream" where
  "sample_onerror s = s\<lparr>ss_open := False\<rparr>"

datatype sample_event = SampleMessage string | SampleError

fun sample_step :: "sample_event \<Rightarrow> sample_stream \<Rightarrow> sample_stream" where
  "sample_step (SampleMessage m) s = sample_onmessage m s"
| "sample_step SampleError s = sample_onerror s"

fun shown_text :: "string \<Rightarrow> sample_event list \<Rightarrow> string" where
  "shown_text t (SampleMessage m # evs) = shown_text (''<li>'' @ m @ ''</li>'') evs"
| "shown_text t _ = t"

lemma closed_stays: "\<not> ss_open s \<Longrightarrow> fold sample_step evs s = s"
proof (induction evs arbitrary: s)
  case (Cons ev evs)
  then show ?case by (cases ev) (simp_all add: sample_onmessage_def sample_onerror_def)
qed simp

text \<open>What is shown is the last message before the first error, whatever comes after it.\<close>

lemma sample_stream_shows:
  assumes "ss_open s"
  shows "ss_innerHTML (fold sample_step evs s) = shown_text (ss_innerHTML s) evs"
  using assms
proof (induction evs arbitrary: s)
  case (Cons ev evs)
  then show ?case
    by (cases ev) (simp_all add: sample_onmessage_def sample_onerror_def closed_stays)
qed simp

lemma sample_stream_open:
  assumes "ss_open s"
  shows "ss_open (fold sample_step evs s) \<longleftrightarrow> SampleError \<notin> set evs"
  using assms
proof (induction evs arbitrary: s)
  case (Cons ev evs)
  then show ?case
    by (cases ev) (simp_all add: sample_onmessage_def sample_onerror_def closed_stays)
qed simp

end
