(* ===== verification/RepositoryTests.thy ===== *)
theory RepositoryTests
  imports SearchPages ArgumentEditor ExecutionInvariant Modals DeviceValidation
begin

text \<open>
  The data of the repository's own tests (\<^verbatim>\<open>*.spec.ts\<close>) and what the tests expect, on the
  definitions of this development. Most of the tests are commented out in the repository, some with the note
  that they do not find the elements they look for; their expectations about the components are stated here
  nevertheless. \<open>ago n\<close> is the text of the time \<open>n\<close> hours before the test runs.
\<close>

section \<open>Devices\<close>

definition test_field :: "string \<Rightarrow> string \<Rightarrow> device_field_api" where
  "test_field n t = \<lparr>df_name = n, df_encrypted = False, df_required = False, df_schema = plain_schema t\<rparr>"

definition testDeviceApis :: "app_api list" where
  "testDeviceApis =
     [\<lparr>app_name = ''app_name'', app_action_apis = [], app_condition_apis = [], app_transform_apis = [],
       app_device_apis = [\<lparr>da_name = ''type'', da_fields = [test_field ''text field'' ''string'',
         test_field ''number field'' ''integer'', test_field ''boolean field'' ''integer'']\<rparr>]\<rparr>]"

definition testDevices :: "device list" where
  "testDevices =
     [\<lparr>dev_id = Val 1, dev_name = Val ''name'', dev_description = Val ''description'', dev_type = Val ''type'',
       dev_app_name = Val ''app_name'', dev_fields = [(''text field'', JStr ''hello''),
         (''number field'', JNum (Fin 5)), (''boolean field'', JBool True)]\<rparr>]"

definition test_device_page :: device_page where
  "test_device_page = getDeviceApis_done (Inr testDeviceApis) (getDevices_done (Inr testDevices) new_device_page)"

text \<open>\<open>should properly display devices\<close>: none before the answer, then all of them.\<close>

lemma test_displays_devices:
  "cr_items (dp_list new_device_page) = []"
  "length (cr_items (dp_list test_device_page)) = length testDevices"
  "length (cr_display (dp_list test_device_page)) = length testDevices"
  by (simp_all add: test_device_page_def new_device_page_def new_crud_def getDeviceApis_done_def getDevices_done_def
      crud_loaded_def)

text \<open>\<open>should properly remove device from the display on delete\<close>.\<close>

lemma test_deletes_device:
  "length (cr_items (dp_list (deleteDevice_done (hd testDevices) (Inr ()) test_device_page))) = length testDevices - 1"
  "length (cr_display (dp_list (deleteDevice_done (hd testDevices) (Inr ()) test_device_page))) = length testDevices - 1"
  by (simp_all add: test_device_page_def new_device_page_def new_crud_def getDeviceApis_done_def getDevices_done_def
      crud_loaded_def deleteDevice_done_def crud_deleted_def crud_filter_def crud_toast_def testDevices_def)

text \<open>The device of the test passes the validation of its own description, whatever the engine of regular
  expressions, and is submitted as it was: the truth value of its third field is a number of that type.\<close>

definition test_device_modal :: device_modal where
  "test_device_modal = fst (ngAfterViewInit (open_modal testDeviceApis (fromDevice (hd testDevices))))"

lemma test_names [simp]:
  "\<not> is_index_key ''text field''" "\<not> is_index_key ''number field''" "\<not> is_index_key ''boolean field''"
  "trim ''hello'' = ''hello''"
  by code_simp+

lemma test_device_is_valid:
  "\<exists>m. submit regex test_device_modal = Inr (m, Some (editDevice_request (hd testDevices)))"
  by (simp add: submit_def validate_def test_device_modal_def ngAfterViewInit_def open_modal_def fromDevice_def
      fields_object_def testDevices_def testDeviceApis_def test_field_def plain_schema_def handleDeviceTypeSelection_def
      use_fields_def getEncryptedConfirmFields_def inputs_of_def trim_confirm_def trim_inputs_def obj_read_def obj_get_def
      validate_field_def validate_string_def validate_number_def enum_ok_def pattern_ok_def too_short_def too_long_def
      below_def above_def not_multiple_def getMin_def getMax_def set_inputs_def to_submit_def toDevice_def is_new_def
      obj_keys_def submit_fields.simps Let_def)

section \<open>Notifications\<close>

definition testInterfaceNames :: "string list" where
  "testInterfaceNames = [''MyInterface'', ''SomeOtherInterface'', ''ThirdInterface'']"

definition testInitialNotifications :: "(nat \<Rightarrow> string) \<Rightarrow> message_listing list" where
  "testInitialNotifications ago =
     [\<lparr>ml_id = 5, ml_subject = ''Need Action'', ml_created_at = ago 0, ml_awaiting_response = True,
       ml_is_read = False, ml_last_read_at = Null\<rparr>,
      \<lparr>ml_id = 4, ml_subject = ''Informative Message'', ml_created_at = ago 0, ml_awaiting_response = False,
       ml_is_read = False, ml_last_read_at = Null\<rparr>,
      \<lparr>ml_id = 3, ml_subject = ''Already Acted On'', ml_created_at = ago 0, ml_awaiting_response = False,
       ml_is_read = True, ml_last_read_at = Val (ago 0)\<rparr>,
      \<lparr>ml_id = 2, ml_subject = ''Already Read'', ml_created_at = ago 0, ml_awaiting_response = True,
       ml_is_read = True, ml_last_read_at = Val (ago 0)\<rparr>,
      \<lparr>ml_id = 1, ml_subject = ''Another One'', ml_created_at = ago 0, ml_awaiting_response = False,
       ml_is_read = True, ml_last_read_at = Val (ago 0)\<rparr>]"

text \<open>\<open>should properly load the username\<close>, \<open>should grab interface names\<close>, \<open>should grab initial notifications\<close>:
  two unread messages, five listed.\<close>

lemma test_username:
  assumes "map_option (uc_username \<circ> at_user_claims) (decode (au_access s)) = Some ''test''"
  shows "currentUser decode s = Inr ''test''"
  using assms by (auto simp: currentUser_def getAndDecodeAccessToken_def getAccessToken_def)

lemma test_interface_names: "fst (getInterfaceNames_done (Inr testInterfaceNames) []) = testInterfaceNames"
  by (simp add: getInterfaceNames_done_def)

lemma test_notifications:
  "mv_newCount (sample_main (testInitialNotifications ago)) = 2"
  "length (mv_rows (sample_main (testInitialNotifications ago))) = 5"
  by (simp_all add: sample_main_def testInitialNotifications_def getInitialNotifications_done_def
      recalculateNewMessagesCount_def upt_rec)

section \<open>Executions\<close>

definition test_status :: "string \<Rightarrow> string \<Rightarrow> string \<Rightarrow> string \<Rightarrow> string nullable \<Rightarrow> string nullable \<Rightarrow> workflow_status" where
  "test_status eid name wid st started completed =
     \<lparr>ws_id = Undefined, ws_execution_id = eid, ws_workflow_id = wid, ws_name = name, ws_started_at = started,
      ws_user = Undefined, ws_completed_at = completed, ws_status = st, ws_current_action = None,
      ws_action_statuses = [], ws_localized_started_at = Undefined, ws_localized_completed_at = Undefined\<rparr>"

definition testWorkflowStatuses :: "(nat \<Rightarrow> string) \<Rightarrow> workflow_status list" where
  "testWorkflowStatuses ago =
     [test_status ''wfs-1'' ''Workflow 1'' ''wf-1'' ''completed'' Undefined Undefined,
      test_status ''wfs-2'' ''Workflow 2'' ''wf-2'' ''aborted'' (Val (ago 48)) (Val (ago 24)),
      test_status ''wfs-3'' ''Workflow 3'' ''wf-3'' ''awaiting_data'' (Val (ago 24)) Undefined,
      test_status ''wfs-4'' ''Workflow 4'' ''wf-4'' ''running'' (Val (ago 0)) Undefined,
      test_status ''wfs-5'' ''Workflow 5'' ''wf-5'' ''paused'' (Val (ago 1)) Undefined,
      test_status ''wfs-6'' ''Workflow 6'' ''wf-6'' ''queued'' Undefined Undefined]"

definition testPlaybooks :: "playbook list" where
  "testPlaybooks =
     [new_playbook\<lparr>pb_id := Val ''pb-1'', pb_name := ''Playbook 1'', pb_workflows :=
        [new_workflow\<lparr>wf_id := Val ''wf-1'', wf_name := ''Workflow 1''\<rparr>,
         new_workflow\<lparr>wf_id := Val ''wf-2'', wf_name := ''Workflow 2''\<rparr>,
         new_workflow\<lparr>wf_id := Val ''wf-3'', wf_name := ''Workflow 3''\<rparr>]\<rparr>,
      new_playbook\<lparr>pb_id := Val ''pb-2'', pb_name := ''Playbook 2'', pb_workflows :=
        [new_workflow\<lparr>wf_id := Val ''wf-4'', wf_name := ''Workflow 4''\<rparr>,
         new_workflow\<lparr>wf_id := Val ''wf-5'', wf_name := ''Workflow 5''\<rparr>,
         new_workflow\<lparr>wf_id := Val ''wf-6'', wf_name := ''Workflow 6''\<rparr>]\<rparr>]"

text \<open>\<open>should properly display workflow statuses\<close>: none before the answer, then all of them; the statuses belong
  to the workflows that can be selected.\<close>

lemma test_displays_statuses:
  "xv_rows new_execution_view = []"
  "length (xv_rows (getWorkflowStatuses_done local rel (Inr (testWorkflowStatuses ago)) new_execution_view)) = 6"
  "length (xv_display (getWorkflowStatuses_done local rel (Inr (testWorkflowStatuses ago)) new_execution_view)) = 6"
  "map (Val \<circ> ws_workflow_id) (testWorkflowStatuses ago) =
     map wf_id (xv_workflows (getWorkflows_done testPlaybooks new_execution_view))"
  by (simp_all add: new_execution_view_def getWorkflowStatuses_done_def recalculateRelativeTimes_def Let_def
      testWorkflowStatuses_def test_status_def getWorkflows_done_def testPlaybooks_def)

section \<open>Arguments\<close>

definition test_array :: "jsval list \<Rightarrow> argument" where
  "test_array vs = new_argument\<lparr>arg_name := Val ''test'', arg_value := JArr vs\<rparr>"

definition test_array_api :: parameter_api where
  "test_array_api = \<lparr>pa_name = ''test'', pa_required = False, pa_schema = plain_schema ''array''\<rparr>"

definition testArgumentWorkflow :: "argument \<Rightarrow> workflow" where
  "testArgumentWorkflow a = new_workflow\<lparr>wf_id := Val ''12345'', wf_name := ''TestWorkflow'',
     wf_actions := [\<lparr>act_id = ''55555'', act_errors = [], act_name = ''test action'',
       act_position = Val \<lparr>pos_x = 0, pos_y = 0\<rparr>, act_app_name = ''TestApp'', act_action_name = ''TestActon'',
       act_device_id = Some new_argument, act_risk = Undefined, act_arguments = [a], act_trigger = None\<rparr>],
     wf_start := Val ''55555''\<rparr>"

definition test_argument_editor :: "jsval list \<Rightarrow> arg_editor" where
  "test_argument_editor vs =
     open_argument (test_array vs) (Some test_array_api) False (testArgumentWorkflow (test_array vs)) [] []"

text \<open>\<open>should properly add an array item\<close> and \<open>should properly move array items\<close>.\<close>

lemma test_adds_items:
  "arg_value (pe_argument (foldl array_step (test_argument_editor []) [AddItem ''string''])) = JArr [JStr []]"
  "arg_value (pe_argument (foldl array_step (test_argument_editor []) [AddItem ''string'', AddItem ''number''])) =
     JArr [JStr [], JNull]"
  "arg_value (pe_argument (foldl array_step (test_argument_editor []) [AddItem ''string'', AddItem ''number'', AddItem ''boolean''])) =
     JArr [JStr [], JNull, JBool False]"
  by code_simp+

lemma test_moves_items:
  "arg_value (pe_argument (fst (argument_moveDown 1
     (test_argument_editor (map JStr [''first'', ''second'', ''third'', ''fourth'', ''fifth'']))))) =
   JArr (map JStr [''first'', ''third'', ''second'', ''fourth'', ''fifth''])"
  by code_simp

end
